theory Spec2Isabelle
  imports Main "HOL-Library.Word"
begin

unbundle bit_operations_syntax

section \<open>Data model\<close>

type_synonym byte = "8 word"
type_synonym u16 = "16 word"
type_synonym u32 = "32 word"

text \<open>
  The global \<^verbatim>\<open>eZ80cpu_t cpu\<close> of \<^verbatim>\<open>core/cpu.c\<close>, together with the globals the core
  reads and writes (\<^verbatim>\<open>cycle_count_delta\<close>, \<^verbatim>\<open>cpu_events\<close>, \<^verbatim>\<open>exiting\<close>), the
  local variable \<^verbatim>\<open>cycle_offset\<close> of \<^verbatim>\<open>cpu_execute\<close> (the EI case of the decoder
  assigns it, the outer loop reads it) and the collaborators it calls.  Fields \<open>r_X\<close> are \<^verbatim>\<open>cpu.registers.X\<close> (\<^verbatim>\<open>r->X\<close> in the
  source), fields \<open>cpu_X\<close> are \<^verbatim>\<open>cpu.X\<close>.

  Modelled from the spec: the register file declaration (\<^verbatim>\<open>registers.h\<close>) and the
  \<^verbatim>\<open>eZ80cpu_t\<close> declaration (\<^verbatim>\<open>cpu.h\<close>) are not part of the sources at hand.  The
  spec gives A, F, R, MBASE as eight-bit, I as a sixteen-bit latch, SPS as a sixteen-bit
  stack pointer, and BC, DE, HL, IX, IY, PC, SPL as twenty-four-bit values; the
  twenty-four-bit registers are held in \<^verbatim>\<open>uint32_t\<close> cells (the source masks them with
  \<^verbatim>\<open>0xFFFFFF\<close> itself), and the eight-bit halves are views of those cells.  The mode
  bits are single bits, \<^verbatim>\<open>PREFIX\<close> is 0, 2 or 3 and indexes \<^verbatim>\<open>registers.index[]\<close>
  (0 is HL, 1 the shadow HL', 2 is IX, 3 is IY), \<^verbatim>\<open>stack[0]\<close> is SPS and \<^verbatim>\<open>stack[1]\<close>
  is SPL.

  Modelled from the spec: the memory collaborator (\<^verbatim>\<open>memory_read_byte\<close>,
  \<^verbatim>\<open>memory_write_byte\<close>) is a byte store over addresses, with a log of the write
  calls in the order they were issued (newest last); the port collaborator
  (\<^verbatim>\<open>port_read_byte\<close>, \<^verbatim>\<open>port_write_byte\<close>) is a function of the port address and
  a log of the writes; the interrupt collaborator is the flag
  \<^verbatim>\<open>intrpt.request->status & intrpt.request->enabled\<close>.
\<close>

record cpu_state =
  r_A :: byte
  r_F :: byte
  r_BC :: u32
  r_DE :: u32
  r_HL :: u32
  r_HL' :: u32
  r_IX :: u32
  r_IY :: u32
  r_AF' :: u16
  r_BC' :: u32
  r_DE' :: u32
  r_SPS :: u16
  r_SPL :: u32
  r_PC :: u32
  r_I :: u16
  r_R :: byte
  r_MBASE :: byte
  cpu_prefetch_byte :: byte
  cpu_PREFIX :: nat
  cpu_SUFFIX :: bool
  cpu_L :: bool
  cpu_IL :: bool
  cpu_ADL :: bool
  cpu_MADL :: bool
  cpu_IEF1 :: bool
  cpu_IEF2 :: bool
  cpu_IEF_wait :: bool
  cpu_IM :: nat
  cpu_halted :: bool
  cpu_cycles :: int
  cycle_count_delta :: int
  cycle_offset :: int
  cpu_events :: u32
  exiting :: bool
  memory :: "u32 \<Rightarrow> byte"
  mem_writes :: "(u32 \<times> byte) list"
  port_in :: "u16 \<Rightarrow> byte"
  port_writes :: "(u16 \<times> byte) list"
  intrpt_pending :: bool

subsection \<open>Flags\<close>

text \<open>
  Modelled from the spec: the flag macros of \<^verbatim>\<open>registers.h\<close>.  The spec fixes the
  layout of F (bit 7 S, 6 Z, 5 undefined, 4 H, 3 undefined, 2 P/V, 1 N, 0 C), that the
  undefined bits 5 and 3 are kept from the prior F, the half-carry
  \<^verbatim>\<open>((a & 0xF) + (b & 0xF) + carry_in) > 0xF\<close> and its analogue with borrow, the carry
  out of bit 7, and P as even parity.  The arguments of the macros are C \<^verbatim>\<open>int\<close>
  expressions, here 32-bit words.
\<close>

definition FLAG_C :: byte where "FLAG_C = 0x01"
definition FLAG_N :: byte where "FLAG_N = 0x02"
definition FLAG_PV :: byte where "FLAG_PV = 0x04"
definition FLAG_3 :: byte where "FLAG_3 = 0x08"
definition FLAG_H :: byte where "FLAG_H = 0x10"
definition FLAG_5 :: byte where "FLAG_5 = 0x20"
definition FLAG_Z :: byte where "FLAG_Z = 0x40"
definition FLAG_S :: byte where "FLAG_S = 0x80"

definition flag_s :: "bool \<Rightarrow> byte" where "flag_s a = (if a then FLAG_S else 0)"
definition flag_z :: "bool \<Rightarrow> byte" where "flag_z a = (if a then FLAG_Z else 0)"
definition flag_h :: "bool \<Rightarrow> byte" where "flag_h a = (if a then FLAG_H else 0)"
definition flag_pv :: "bool \<Rightarrow> byte" where "flag_pv a = (if a then FLAG_PV else 0)"
definition flag_c :: "bool \<Rightarrow> byte" where "flag_c a = (if a then FLAG_C else 0)"

definition flag_subtract :: "bool \<Rightarrow> byte" where
  "flag_subtract a = (if a then FLAG_N else 0)"

definition flag_zero :: "u32 \<Rightarrow> byte" where
  "flag_zero a = (if a \<noteq> 0 then 0 else FLAG_Z)"

definition flag_undef :: "byte \<Rightarrow> byte" where
  "flag_undef a = a AND (FLAG_3 OR FLAG_5)"

definition flag_sign_b :: "u32 \<Rightarrow> byte" where
  "flag_sign_b a = flag_s (a AND 0x80 \<noteq> 0)"

definition flag_sign_w :: "u32 \<Rightarrow> bool \<Rightarrow> byte" where
  "flag_sign_w a mode = flag_s (a AND (if mode then 0x800000 else 0x8000) \<noteq> 0)"

definition flag_carry_b :: "u32 \<Rightarrow> byte" where
  "flag_carry_b a = flag_c (a AND 0x100 \<noteq> 0)"

definition flag_carry_w :: "u32 \<Rightarrow> bool \<Rightarrow> byte" where
  "flag_carry_w a mode = flag_c (a AND (if mode then 0x1000000 else 0x10000) \<noteq> 0)"

definition parity :: "byte \<Rightarrow> bool" where
  "parity a = odd (length (filter (bit a) [0..<8]))"

definition flag_parity :: "byte \<Rightarrow> byte" where
  "flag_parity a = flag_pv (\<not> parity a)"

definition flag_halfcarry_b_add :: "u32 \<Rightarrow> u32 \<Rightarrow> u32 \<Rightarrow> byte" where
  "flag_halfcarry_b_add op1 op2 carry =
     flag_h (((op1 AND 0xF) + (op2 AND 0xF) + carry) AND 0x10 \<noteq> 0)"

definition flag_halfcarry_b_sub :: "u32 \<Rightarrow> u32 \<Rightarrow> u32 \<Rightarrow> byte" where
  "flag_halfcarry_b_sub op1 op2 carry =
     flag_h (((op1 AND 0xF) - (op2 AND 0xF) - carry) AND 0x10 \<noteq> 0)"

definition flag_halfcarry_w_add :: "u32 \<Rightarrow> u32 \<Rightarrow> u32 \<Rightarrow> byte" where
  "flag_halfcarry_w_add op1 op2 carry =
     flag_h (((op1 AND 0xFFF) + (op2 AND 0xFFF) + carry) AND 0x1000 \<noteq> 0)"

definition flag_halfcarry_w_sub :: "u32 \<Rightarrow> u32 \<Rightarrow> u32 \<Rightarrow> byte" where
  "flag_halfcarry_w_sub op1 op2 carry =
     flag_h (((op1 AND 0xFFF) - (op2 AND 0xFFF) - carry) AND 0x1000 \<noteq> 0)"

definition flag_overflow_b_add :: "u32 \<Rightarrow> u32 \<Rightarrow> u32 \<Rightarrow> byte" where
  "flag_overflow_b_add op1 op2 result =
     flag_pv ((op1 AND 0x80) = (op2 AND 0x80) \<and> (op1 AND 0x80) \<noteq> (result AND 0x80))"

definition flag_overflow_b_sub :: "u32 \<Rightarrow> u32 \<Rightarrow> u32 \<Rightarrow> byte" where
  "flag_overflow_b_sub op1 op2 result =
     flag_pv ((op1 AND 0x80) \<noteq> (op2 AND 0x80) \<and> (op1 AND 0x80) \<noteq> (result AND 0x80))"

definition sign_mask_w :: "bool \<Rightarrow> u32" where
  "sign_mask_w mode = (if mode then 0x800000 else 0x8000)"

definition flag_overflow_w_add :: "u32 \<Rightarrow> u32 \<Rightarrow> u32 \<Rightarrow> bool \<Rightarrow> byte" where
  "flag_overflow_w_add op1 op2 result mode =
     flag_pv ((op1 AND sign_mask_w mode) = (op2 AND sign_mask_w mode)
              \<and> (op1 AND sign_mask_w mode) \<noteq> (result AND sign_mask_w mode))"

definition flag_overflow_w_sub :: "u32 \<Rightarrow> u32 \<Rightarrow> u32 \<Rightarrow> bool \<Rightarrow> byte" where
  "flag_overflow_w_sub op1 op2 result mode =
     flag_pv ((op1 AND sign_mask_w mode) \<noteq> (op2 AND sign_mask_w mode)
              \<and> (op1 AND sign_mask_w mode) \<noteq> (result AND sign_mask_w mode))"

text \<open>The bit-field view \<^verbatim>\<open>r->flags\<close> of F.\<close>

definition flags_C :: "cpu_state \<Rightarrow> bool" where "flags_C s = bit (r_F s) 0"
definition flags_N :: "cpu_state \<Rightarrow> bool" where "flags_N s = bit (r_F s) 1"
definition flags_PV :: "cpu_state \<Rightarrow> bool" where "flags_PV s = bit (r_F s) 2"
definition flags_H :: "cpu_state \<Rightarrow> bool" where "flags_H s = bit (r_F s) 4"
definition flags_Z :: "cpu_state \<Rightarrow> bool" where "flags_Z s = bit (r_F s) 6"
definition flags_S :: "cpu_state \<Rightarrow> bool" where "flags_S s = bit (r_F s) 7"

definition set_flag :: "byte \<Rightarrow> bool \<Rightarrow> cpu_state \<Rightarrow> cpu_state" where
  "set_flag m b s = s\<lparr>r_F := (if b then r_F s OR m else r_F s AND NOT m)\<rparr>"


subsection \<open>Register views\<close>

text \<open>
  The eight-bit and sixteen-bit members of the register unions: byte 0 is the low
  register of a pair (C, E, L, IXL, IYL, PCL), byte 1 the high one (B, D, H, IXH, IYH,
  PCH), byte 2 the upper byte (PCU); \<^verbatim>\<open>BCS\<close> is the low sixteen bits of BC.
\<close>

definition byte0 :: "u32 \<Rightarrow> byte" where "byte0 w = ucast w"
definition byte1 :: "u32 \<Rightarrow> byte" where "byte1 w = ucast (drop_bit 8 w)"
definition byte2 :: "u32 \<Rightarrow> byte" where "byte2 w = ucast (drop_bit 16 w)"

definition set_byte0 :: "byte \<Rightarrow> u32 \<Rightarrow> u32" where
  "set_byte0 v w = (w AND NOT 0xFF) OR ucast v"

definition set_byte1 :: "byte \<Rightarrow> u32 \<Rightarrow> u32" where
  "set_byte1 v w = (w AND NOT 0xFF00) OR push_bit 8 (ucast v)"

definition set_low16 :: "u32 \<Rightarrow> u32 \<Rightarrow> u32" where
  "set_low16 v w = (w AND NOT 0xFFFF) OR (v AND 0xFFFF)"

definition r_B :: "cpu_state \<Rightarrow> byte" where "r_B s = byte1 (r_BC s)"
definition r_C :: "cpu_state \<Rightarrow> byte" where "r_C s = byte0 (r_BC s)"
definition r_D :: "cpu_state \<Rightarrow> byte" where "r_D s = byte1 (r_DE s)"
definition r_E :: "cpu_state \<Rightarrow> byte" where "r_E s = byte0 (r_DE s)"
definition r_PCL :: "cpu_state \<Rightarrow> byte" where "r_PCL s = byte0 (r_PC s)"
definition r_PCH :: "cpu_state \<Rightarrow> byte" where "r_PCH s = byte1 (r_PC s)"
definition r_PCU :: "cpu_state \<Rightarrow> byte" where "r_PCU s = byte2 (r_PC s)"

definition set_B :: "byte \<Rightarrow> cpu_state \<Rightarrow> cpu_state" where
  "set_B v s = s\<lparr>r_BC := set_byte1 v (r_BC s)\<rparr>"
definition set_C :: "byte \<Rightarrow> cpu_state \<Rightarrow> cpu_state" where
  "set_C v s = s\<lparr>r_BC := set_byte0 v (r_BC s)\<rparr>"
definition set_D :: "byte \<Rightarrow> cpu_state \<Rightarrow> cpu_state" where
  "set_D v s = s\<lparr>r_DE := set_byte1 v (r_DE s)\<rparr>"
definition set_E :: "byte \<Rightarrow> cpu_state \<Rightarrow> cpu_state" where
  "set_E v s = s\<lparr>r_DE := set_byte0 v (r_DE s)\<rparr>"

text \<open>\<^verbatim>\<open>r->AF\<close>: A is the high byte, F the low byte.\<close>

definition r_AF :: "cpu_state \<Rightarrow> u16" where
  "r_AF s = push_bit 8 (ucast (r_A s)) OR ucast (r_F s)"

definition set_AF :: "u16 \<Rightarrow> cpu_state \<Rightarrow> cpu_state" where
  "set_AF v s = s\<lparr>r_A := ucast (drop_bit 8 v), r_F := ucast v\<rparr>"

text \<open>\<^verbatim>\<open>cpu.registers.index[i]\<close> and \<^verbatim>\<open>cpu.registers.stack[cpu.L]\<close>.\<close>

definition index_hl :: "nat \<Rightarrow> cpu_state \<Rightarrow> u32" where
  "index_hl i s = (if i = 0 then r_HL s else if i = 1 then r_HL' s
                   else if i = 2 then r_IX s else r_IY s)"

definition set_index_hl :: "nat \<Rightarrow> u32 \<Rightarrow> cpu_state \<Rightarrow> cpu_state" where
  "set_index_hl i v s = (if i = 0 then s\<lparr>r_HL := v\<rparr> else if i = 1 then s\<lparr>r_HL' := v\<rparr>
                         else if i = 2 then s\<lparr>r_IX := v\<rparr> else s\<lparr>r_IY := v\<rparr>)"

definition stack_hl :: "cpu_state \<Rightarrow> u32" where
  "stack_hl s = (if cpu_L s then r_SPL s else ucast (r_SPS s))"

definition set_stack_hl :: "u32 \<Rightarrow> cpu_state \<Rightarrow> cpu_state" where
  "set_stack_hl v s = (if cpu_L s then s\<lparr>r_SPL := v\<rparr> else s\<lparr>r_SPS := ucast v\<rparr>)"

text \<open>
  Modelled from the spec: \<^verbatim>\<open>rswap\<close> and \<^verbatim>\<open>exx\<close> of the register file (EX AF,AF' and
  EXX swap the main registers with the shadow bank), and the statement macro
  \<^verbatim>\<open>mask_mode(reg, mode)\<close>, which masks a register in place to the mode's width.
\<close>

definition ex_af :: "cpu_state \<Rightarrow> cpu_state" where
  "ex_af s = (set_AF (r_AF' s) s)\<lparr>r_AF' := r_AF s\<rparr>"

definition exx :: "cpu_state \<Rightarrow> cpu_state" where
  "exx s = s\<lparr>r_BC := r_BC' s, r_BC' := r_BC s, r_DE := r_DE' s, r_DE' := r_DE s,
              r_HL := r_HL' s, r_HL' := r_HL s\<rparr>"

subsection \<open>Mode plumbing, fetch and memory access\<close>

definition cpu_get_cntrl_data_blocks_format :: "cpu_state \<Rightarrow> cpu_state" where
  "cpu_get_cntrl_data_blocks_format s =
     s\<lparr>cpu_PREFIX := 0, cpu_SUFFIX := False, cpu_L := cpu_ADL s, cpu_IL := cpu_ADL s\<rparr>"

definition cpu_mask_mode :: "u32 \<Rightarrow> bool \<Rightarrow> u32" where
  "cpu_mask_mode v mode = v AND (if mode then 0xFFFFFF else 0xFFFF)"

definition cpu_address_mode :: "u32 \<Rightarrow> bool \<Rightarrow> cpu_state \<Rightarrow> u32" where
  "cpu_address_mode address mode s =
     (if mode then address AND 0xFFFFFF
      else push_bit 16 (ucast (r_MBASE s)) OR (address AND 0xFFFF))"

definition memory_read_byte :: "u32 \<Rightarrow> cpu_state \<Rightarrow> byte" where
  "memory_read_byte a s = memory s a"

definition memory_write_byte :: "u32 \<Rightarrow> byte \<Rightarrow> cpu_state \<Rightarrow> cpu_state" where
  "memory_write_byte a v s =
     s\<lparr>memory := (memory s)(a := v), mem_writes := mem_writes s @ [(a, v)]\<rparr>"

definition port_read_byte :: "u16 \<Rightarrow> cpu_state \<Rightarrow> byte" where
  "port_read_byte pio s = port_in s pio"

definition port_write_byte :: "u16 \<Rightarrow> byte \<Rightarrow> cpu_state \<Rightarrow> cpu_state" where
  "port_write_byte pio v s = s\<lparr>port_writes := port_writes s @ [(pio, v)]\<rparr>"

definition cpu_prefetch :: "u32 \<Rightarrow> bool \<Rightarrow> cpu_state \<Rightarrow> cpu_state" where
  "cpu_prefetch address mode s =
     (let pc = cpu_address_mode address mode s
      in s\<lparr>cpu_ADL := mode, r_PC := pc, cpu_prefetch_byte := memory_read_byte pc s\<rparr>)"

text \<open>
  \<^verbatim>\<open>cpu_fetch_byte\<close> first offers the address to the debugger (breakpoint flags of the
  memory collaborator); the debugger is an external collaborator that does not change
  the CPU state, so the call leaves no trace here.
\<close>

definition cpu_fetch_byte :: "cpu_state \<Rightarrow> byte \<times> cpu_state" where
  "cpu_fetch_byte s = (cpu_prefetch_byte s, cpu_prefetch (r_PC s + 1) (cpu_ADL s) s)"

text \<open>The \<^verbatim>\<open>int8_t\<close> result, as it is added to a \<^verbatim>\<open>uint32_t\<close>: sign-extended.\<close>

definition cpu_fetch_offset :: "cpu_state \<Rightarrow> u32 \<times> cpu_state" where
  "cpu_fetch_offset s = (let (v, s1) = cpu_fetch_byte s in (scast v, s1))"

definition cpu_fetch_word :: "cpu_state \<Rightarrow> u32 \<times> cpu_state" where
  "cpu_fetch_word s =
     (let (b0, s1) = cpu_fetch_byte s;
          (b1, s2) = cpu_fetch_byte s1;
          value = ucast b0 OR push_bit 8 (ucast b1)
      in if cpu_IL s2
         then let (b2, s3) = cpu_fetch_byte s2 in (value OR push_bit 16 (ucast b2), s3)
         else (value, s2))"

definition cpu_fetch_word_no_prefetch :: "cpu_state \<Rightarrow> u32 \<times> cpu_state" where
  "cpu_fetch_word_no_prefetch s =
     (let (b0, s1) = cpu_fetch_byte s;
          value = ucast b0 OR push_bit 8 (ucast (cpu_prefetch_byte s1));
          (value', s2) =
            (if cpu_IL s1
             then let (_, s2) = cpu_fetch_byte s1
                  in (value OR push_bit 16 (ucast (cpu_prefetch_byte s2)), s2)
             else (value, s1))
      in (value', s2\<lparr>r_PC := r_PC s2 + 1\<rparr>))"

definition cpu_read_byte :: "u32 \<Rightarrow> cpu_state \<Rightarrow> byte" where
  "cpu_read_byte address s = memory_read_byte (cpu_address_mode address (cpu_L s) s) s"

definition cpu_write_byte :: "u32 \<Rightarrow> byte \<Rightarrow> cpu_state \<Rightarrow> cpu_state" where
  "cpu_write_byte address v s = memory_write_byte (cpu_address_mode address (cpu_L s) s) v s"

definition cpu_read_word :: "u32 \<Rightarrow> cpu_state \<Rightarrow> u32" where
  "cpu_read_word address s =
     (let value = ucast (cpu_read_byte address s)
                  OR push_bit 8 (ucast (cpu_read_byte (address + 1) s))
      in if cpu_L s then value OR push_bit 16 (ucast (cpu_read_byte (address + 2) s))
         else value)"

definition cpu_write_word :: "u32 \<Rightarrow> u32 \<Rightarrow> cpu_state \<Rightarrow> cpu_state" where
  "cpu_write_word address value s =
     (let s1 = cpu_write_byte address (ucast value) s;
          s2 = cpu_write_byte (address + 1) (ucast (drop_bit 8 value)) s1
      in if cpu_L s2 then cpu_write_byte (address + 2) (ucast (drop_bit 16 value)) s2
         else s2)"

definition cpu_pop_byte :: "cpu_state \<Rightarrow> byte \<times> cpu_state" where
  "cpu_pop_byte s =
     (let a = stack_hl s; s1 = set_stack_hl (a + 1) s in (cpu_read_byte a s1, s1))"

definition cpu_push_byte :: "byte \<Rightarrow> cpu_state \<Rightarrow> cpu_state" where
  "cpu_push_byte v s =
     (let s1 = set_stack_hl (stack_hl s - 1) s in cpu_write_byte (stack_hl s1) v s1)"

definition cpu_push_word :: "u32 \<Rightarrow> cpu_state \<Rightarrow> cpu_state" where
  "cpu_push_word value s =
     (let s1 = (if cpu_L s then cpu_push_byte (ucast (drop_bit 16 value)) s else s);
          s2 = cpu_push_byte (ucast (drop_bit 8 value)) s1
      in cpu_push_byte (ucast value) s2)"

definition cpu_pop_word :: "cpu_state \<Rightarrow> u32 \<times> cpu_state" where
  "cpu_pop_word s =
     (let (b0, s1) = cpu_pop_byte s;
          (b1, s2) = cpu_pop_byte s1;
          value = ucast b0 OR push_bit 8 (ucast b1)
      in if cpu_L s2
         then let (b2, s3) = cpu_pop_byte s2 in (value OR push_bit 16 (ucast b2), s3)
         else (value, s2))"

definition cpu_read_in :: "u16 \<Rightarrow> cpu_state \<Rightarrow> byte" where
  "cpu_read_in pio s = port_read_byte pio s"

definition cpu_write_out :: "u16 \<Rightarrow> byte \<Rightarrow> cpu_state \<Rightarrow> cpu_state" where
  "cpu_write_out pio v s = port_write_byte pio v s"

definition cpu_read_sp :: "cpu_state \<Rightarrow> u32" where
  "cpu_read_sp s = stack_hl s"

definition cpu_write_sp :: "u32 \<Rightarrow> cpu_state \<Rightarrow> cpu_state" where
  "cpu_write_sp v s = set_stack_hl v s"

definition cpu_read_index_low :: "cpu_state \<Rightarrow> byte" where
  "cpu_read_index_low s = byte0 (index_hl (cpu_PREFIX s) s)"

definition cpu_write_index_low :: "byte \<Rightarrow> cpu_state \<Rightarrow> cpu_state" where
  "cpu_write_index_low v s =
     set_index_hl (cpu_PREFIX s) (set_byte0 v (index_hl (cpu_PREFIX s) s)) s"

definition cpu_read_index_high :: "cpu_state \<Rightarrow> byte" where
  "cpu_read_index_high s = byte1 (index_hl (cpu_PREFIX s) s)"

definition cpu_write_index_high :: "byte \<Rightarrow> cpu_state \<Rightarrow> cpu_state" where
  "cpu_write_index_high v s =
     set_index_hl (cpu_PREFIX s) (set_byte1 v (index_hl (cpu_PREFIX s) s)) s"

definition cpu_read_index :: "cpu_state \<Rightarrow> u32" where
  "cpu_read_index s = index_hl (cpu_PREFIX s) s"

definition cpu_write_index :: "u32 \<Rightarrow> cpu_state \<Rightarrow> cpu_state" where
  "cpu_write_index v s = set_index_hl (cpu_PREFIX s) v s"

definition cpu_read_other_index :: "cpu_state \<Rightarrow> u32" where
  "cpu_read_other_index s = index_hl (cpu_PREFIX s XOR 1) s"

definition cpu_write_other_index :: "u32 \<Rightarrow> cpu_state \<Rightarrow> cpu_state" where
  "cpu_write_other_index v s = set_index_hl (cpu_PREFIX s XOR 1) v s"

definition cpu_index_address :: "cpu_state \<Rightarrow> u32 \<times> cpu_state" where
  "cpu_index_address s =
     (let value = cpu_read_index s;
          (value', s1) =
            (if cpu_PREFIX s \<noteq> 0
             then let (d, s1) = cpu_fetch_offset s in (value + d, s1)
             else (value, s))
      in (cpu_mask_mode value' (cpu_L s1), s1))"

subsection \<open>Operand tables\<close>

text \<open>
  The register tables end in \<^verbatim>\<open>default: abort()\<close>: the result \<open>None\<close> is the aborted
  process.
\<close>

definition cpu_read_reg :: "nat \<Rightarrow> cpu_state \<Rightarrow> (byte \<times> cpu_state) option" where
  "cpu_read_reg i s =
     (if i = 0 then Some (r_B s, s)
      else if i = 1 then Some (r_C s, s)
      else if i = 2 then Some (r_D s, s)
      else if i = 3 then Some (r_E s, s)
      else if i = 4 then Some (cpu_read_index_high s, s)
      else if i = 5 then Some (cpu_read_index_low s, s)
      else if i = 6 then (let (a, s1) = cpu_index_address s in Some (cpu_read_byte a s1, s1))
      else if i = 7 then Some (r_A s, s)
      else None)"

definition cpu_write_reg :: "nat \<Rightarrow> byte \<Rightarrow> cpu_state \<Rightarrow> cpu_state option" where
  "cpu_write_reg i v s =
     (if i = 0 then Some (set_B v s)
      else if i = 1 then Some (set_C v s)
      else if i = 2 then Some (set_D v s)
      else if i = 3 then Some (set_E v s)
      else if i = 4 then Some (cpu_write_index_high v s)
      else if i = 5 then Some (cpu_write_index_low v s)
      else if i = 6 then (let (a, s1) = cpu_index_address s in Some (cpu_write_byte a v s1))
      else if i = 7 then Some (s\<lparr>r_A := v\<rparr>)
      else None)"

definition cpu_read_write_reg :: "nat \<Rightarrow> nat \<Rightarrow> cpu_state \<Rightarrow> cpu_state option" where
  "cpu_read_write_reg rd wr s =
     (let old_prefix = cpu_PREFIX s;
          s1 = s\<lparr>cpu_PREFIX := (if wr \<noteq> 6 then old_prefix else 0)\<rparr>
      in case cpu_read_reg rd s1 of
           None \<Rightarrow> None
         | Some (v, s2) \<Rightarrow>
             cpu_write_reg wr v (s2\<lparr>cpu_PREFIX := (if rd \<noteq> 6 then old_prefix else 0)\<rparr>))"

definition cpu_read_reg_prefetched :: "nat \<Rightarrow> u32 \<Rightarrow> cpu_state \<Rightarrow> byte option" where
  "cpu_read_reg_prefetched i address s =
     (if i = 0 then Some (r_B s)
      else if i = 1 then Some (r_C s)
      else if i = 2 then Some (r_D s)
      else if i = 3 then Some (r_E s)
      else if i = 4 then Some (cpu_read_index_high s)
      else if i = 5 then Some (cpu_read_index_low s)
      else if i = 6 then Some (cpu_read_byte address s)
      else if i = 7 then Some (r_A s)
      else None)"

definition cpu_write_reg_prefetched ::
    "nat \<Rightarrow> u32 \<Rightarrow> byte \<Rightarrow> cpu_state \<Rightarrow> cpu_state option" where
  "cpu_write_reg_prefetched i address v s =
     (if i = 0 then Some (set_B v s)
      else if i = 1 then Some (set_C v s)
      else if i = 2 then Some (set_D v s)
      else if i = 3 then Some (set_E v s)
      else if i = 4 then Some (cpu_write_index_high v s)
      else if i = 5 then Some (cpu_write_index_low v s)
      else if i = 6 then Some (cpu_write_byte address v s)
      else if i = 7 then Some (s\<lparr>r_A := v\<rparr>)
      else None)"

definition cpu_read_rp :: "nat \<Rightarrow> cpu_state \<Rightarrow> u32 option" where
  "cpu_read_rp i s =
     (if i = 0 then Some (cpu_mask_mode (r_BC s) (cpu_L s))
      else if i = 1 then Some (cpu_mask_mode (r_DE s) (cpu_L s))
      else if i = 2 then Some (cpu_mask_mode (cpu_read_index s) (cpu_L s))
      else if i = 3 then Some (cpu_mask_mode (cpu_read_sp s) (cpu_L s))
      else None)"

definition cpu_write_rp :: "nat \<Rightarrow> u32 \<Rightarrow> cpu_state \<Rightarrow> cpu_state option" where
  "cpu_write_rp i v s =
     (let value = cpu_mask_mode v (cpu_L s)
      in if i = 0 then Some (s\<lparr>r_BC := value\<rparr>)
         else if i = 1 then Some (s\<lparr>r_DE := value\<rparr>)
         else if i = 2 then Some (cpu_write_index value s)
         else if i = 3 then Some (cpu_write_sp value s)
         else None)"

definition cpu_read_rp2 :: "nat \<Rightarrow> cpu_state \<Rightarrow> u32 option" where
  "cpu_read_rp2 i s = (if i = 3 then Some (ucast (r_AF s)) else cpu_read_rp i s)"

definition cpu_write_rp2 :: "nat \<Rightarrow> u32 \<Rightarrow> cpu_state \<Rightarrow> cpu_state option" where
  "cpu_write_rp2 i v s = (if i = 3 then Some (set_AF (ucast v) s) else cpu_write_rp i v s)"

definition cpu_read_rp3 :: "nat \<Rightarrow> cpu_state \<Rightarrow> u32 option" where
  "cpu_read_rp3 i s =
     (if i = 0 then Some (cpu_mask_mode (r_BC s) (cpu_L s))
      else if i = 1 then Some (cpu_mask_mode (r_DE s) (cpu_L s))
      else if i = 2 then Some (cpu_mask_mode (r_HL s) (cpu_L s))
      else if i = 3 then Some (cpu_mask_mode (cpu_read_index s) (cpu_L s))
      else None)"

definition cpu_write_rp3 :: "nat \<Rightarrow> u32 \<Rightarrow> cpu_state \<Rightarrow> cpu_state option" where
  "cpu_write_rp3 i v s =
     (let value = cpu_mask_mode v (cpu_L s)
      in if i = 0 then Some (s\<lparr>r_BC := value\<rparr>)
         else if i = 1 then Some (s\<lparr>r_DE := value\<rparr>)
         else if i = 2 then Some (s\<lparr>r_HL := value\<rparr>)
         else if i = 3 then Some (cpu_write_index value s)
         else None)"

definition cpu_read_cc :: "nat \<Rightarrow> cpu_state \<Rightarrow> bool option" where
  "cpu_read_cc i s =
     (if i = 0 then Some (\<not> flags_Z s)
      else if i = 1 then Some (flags_Z s)
      else if i = 2 then Some (\<not> flags_C s)
      else if i = 3 then Some (flags_C s)
      else if i = 4 then Some (\<not> flags_PV s)
      else if i = 5 then Some (flags_PV s)
      else if i = 6 then Some (\<not> flags_S s)
      else if i = 7 then Some (flags_S s)
      else None)"

subsection \<open>Calls and returns\<close>

definition cpu_dec_bc_partial_mode :: "cpu_state \<Rightarrow> u32 \<times> cpu_state" where
  "cpu_dec_bc_partial_mode s =
     (let value = cpu_mask_mode (r_BC s - 1) (cpu_L s)
      in if cpu_L s then (value, s\<lparr>r_BC := value\<rparr>)
         else (value, s\<lparr>r_BC := set_low16 value (r_BC s)\<rparr>))"

definition cpu_call :: "u32 \<Rightarrow> bool \<Rightarrow> cpu_state \<Rightarrow> cpu_state" where
  "cpu_call address mixed s =
     (let s' =
        (if mixed then
           let s1 = (if cpu_ADL s
                     then let t = s\<lparr>r_SPL := r_SPL s - 1\<rparr>
                          in cpu_write_byte (r_SPL t) (r_PCU t) t
                     else s);
               s2 = (if cpu_IL s1 \<or> (cpu_L s1 \<and> \<not> cpu_ADL s1)
                     then let t = s1\<lparr>r_SPL := r_SPL s1 - 1\<rparr>;
                              t1 = cpu_write_byte (r_SPL t) (r_PCH t) t;
                              t2 = t1\<lparr>r_SPL := r_SPL t1 - 1\<rparr>
                          in cpu_write_byte (r_SPL t2) (r_PCL t2) t2
                     else let t = s1\<lparr>r_SPS := r_SPS s1 - 1\<rparr>;
                              t1 = cpu_write_byte (ucast (r_SPS t)) (r_PCH t) t;
                              t2 = t1\<lparr>r_SPS := r_SPS t1 - 1\<rparr>
                          in cpu_write_byte (ucast (r_SPS t2)) (r_PCL t2) t2);
               s3 = s2\<lparr>r_SPL := r_SPL s2 - 1\<rparr>
           in cpu_write_byte (r_SPL s3)
                (push_bit 1 (of_bool (cpu_MADL s3)) OR of_bool (cpu_ADL s3)) s3
         else cpu_push_word (r_PC s) s)
      in cpu_prefetch address (cpu_IL s') s')"

definition cpu_return :: "cpu_state \<Rightarrow> cpu_state" where
  "cpu_return s =
     (let mode0 = cpu_ADL s;
          s0 = s\<lparr>cpu_cycles := cpu_cycles s + 1\<rparr>;
          (address, mode, s') =
            (if cpu_SUFFIX s0 then
               let mode = (cpu_read_byte (r_SPL s0) s0 AND 1 \<noteq> 0);
                   s1 = s0\<lparr>r_SPL := r_SPL s0 + 1\<rparr>;
                   (address, s2) =
                     (if cpu_ADL s1
                      then let lo = cpu_read_byte (r_SPL s1) s1;
                               t1 = s1\<lparr>r_SPL := r_SPL s1 + 1\<rparr>;
                               hi = cpu_read_byte (r_SPL t1) t1;
                               t2 = t1\<lparr>r_SPL := r_SPL t1 + 1\<rparr>
                           in (ucast lo OR push_bit 8 (ucast hi), t2)
                      else let lo = cpu_read_byte (ucast (r_SPS s1)) s1;
                               t1 = s1\<lparr>r_SPS := r_SPS s1 + 1\<rparr>;
                               hi = cpu_read_byte (ucast (r_SPS t1)) t1;
                               t2 = t1\<lparr>r_SPS := r_SPS t1 + 1\<rparr>
                           in (ucast lo OR push_bit 8 (ucast hi), t2))
               in if mode
                  then let up = cpu_read_byte (r_SPL s2) s2;
                           s3 = s2\<lparr>r_SPL := r_SPL s2 + 1\<rparr>
                       in (address OR cpu_mask_mode (push_bit 16 (ucast up))
                                        (cpu_ADL s3 \<or> cpu_L s3), mode, s3)
                  else (address, mode, s2)
             else let (a, s1) = cpu_pop_word s0 in (a, mode0, s1))
      in cpu_prefetch address mode s')"

subsection \<open>DAA\<close>

definition cpu_execute_daa :: "cpu_state \<Rightarrow> cpu_state" where
  "cpu_execute_daa s =
     (let old = r_A s;
          v0 = (0 :: byte);
          v1 = (if (r_A s AND 0xF) > 9 \<or> flags_H s then v0 + 6 else v0);
          sum = (ucast (r_A s) + ucast v1 :: u32);
          v = (if drop_bit 4 sum > 9 \<or> flag_carry_b sum \<noteq> 0 \<or> flags_C s
               then v1 + 0x60 else v1)
      in if flags_N s
         then let a = r_A s - v
              in s\<lparr>r_A := a,
                   r_F := flag_sign_b (ucast a) OR flag_zero (ucast a)
                          OR flag_undef (r_F s) OR flag_parity a
                          OR flag_subtract (flags_N s) OR flag_c (v \<ge> 0x60)
                          OR flag_halfcarry_b_sub (ucast old) (ucast v) 0\<rparr>
         else let a = r_A s + v
              in s\<lparr>r_A := a,
                   r_F := flag_sign_b (ucast a) OR flag_zero (ucast a)
                          OR flag_undef (r_F s) OR flag_parity a
                          OR flag_subtract (flags_N s) OR flag_c (v \<ge> 0x60)
                          OR flag_halfcarry_b_add (ucast old) (ucast v) 0\<rparr>)"

subsection \<open>ALU, rotates and shifts\<close>

definition cpu_execute_alu :: "nat \<Rightarrow> byte \<Rightarrow> cpu_state \<Rightarrow> cpu_state" where
  "cpu_execute_alu i v s =
     (let fC = (of_bool (flags_C s) :: u32);
          a32 = (ucast (r_A s) :: u32);
          v32 = (ucast v :: u32);
          s1 = s\<lparr>cpu_cycles := cpu_cycles s + 1\<rparr>
      in if i = 0 then \<comment> \<open>ADD A, v\<close>
           let old = r_A s; a = r_A s + v
           in s1\<lparr>r_A := a,
                 r_F := flag_sign_b (ucast a) OR flag_zero (ucast a)
                        OR flag_undef (r_F s) OR flag_overflow_b_add a32 v32 (ucast a)
                        OR flag_subtract False OR flag_carry_b (a32 + v32)
                        OR flag_halfcarry_b_add a32 v32 0\<rparr>
         else if i = 1 then \<comment> \<open>ADC A, v\<close>
           let a = r_A s + (v + of_bool (flags_C s))
           in s1\<lparr>r_A := a,
                 r_F := flag_sign_b (ucast a) OR flag_zero (ucast a)
                        OR flag_undef (r_F s) OR flag_overflow_b_add a32 v32 (ucast a)
                        OR flag_subtract False OR flag_carry_b (a32 + v32 + fC)
                        OR flag_halfcarry_b_add a32 v32 fC\<rparr>
         else if i = 2 then \<comment> \<open>SUB v\<close>
           let a = r_A s - v
           in s1\<lparr>r_A := a,
                 r_F := flag_sign_b (ucast a) OR flag_zero (ucast a)
                        OR flag_undef (r_F s) OR flag_overflow_b_sub a32 v32 (ucast a)
                        OR flag_subtract True OR flag_carry_b (a32 - v32)
                        OR flag_halfcarry_b_sub a32 v32 0\<rparr>
         else if i = 3 then \<comment> \<open>SBC v\<close>
           let a = r_A s - (v + of_bool (flags_C s))
           in s1\<lparr>r_A := a,
                 r_F := flag_sign_b (ucast a) OR flag_zero (ucast a)
                        OR flag_undef (r_F s) OR flag_overflow_b_sub a32 v32 (ucast a)
                        OR flag_subtract True OR flag_carry_b (a32 - v32 - fC)
                        OR flag_halfcarry_b_sub a32 v32 fC\<rparr>
         else if i = 4 then \<comment> \<open>AND v\<close>
           let a = r_A s AND v
           in s1\<lparr>r_A := a,
                 r_F := flag_sign_b (ucast a) OR flag_zero (ucast a)
                        OR flag_undef (r_F s) OR flag_parity a OR FLAG_H\<rparr>
         else if i = 5 then \<comment> \<open>XOR v\<close>
           let a = r_A s XOR v
           in s1\<lparr>r_A := a,
                 r_F := flag_sign_b (ucast a) OR flag_zero (ucast a)
                        OR flag_undef (r_F s) OR flag_parity a\<rparr>
         else if i = 6 then \<comment> \<open>OR v\<close>
           let a = r_A s OR v
           in s1\<lparr>r_A := a,
                 r_F := flag_sign_b (ucast a) OR flag_zero (ucast a)
                        OR flag_undef (r_F s) OR flag_parity a\<rparr>
         else if i = 7 then \<comment> \<open>CP v\<close>
           let old = r_A s - v
           in s1\<lparr>r_F := flag_sign_b (ucast old) OR flag_zero (ucast old)
                        OR flag_undef (r_F s) OR flag_subtract True
                        OR flag_carry_b (a32 - v32)
                        OR flag_overflow_b_sub a32 v32 (ucast old)
                        OR flag_halfcarry_b_sub a32 v32 0\<rparr>
         else s)"

text \<open>
  \<^verbatim>\<open>cpu_execute_rot\<close>: case 6 is the opcode trap, which returns before the write-back;
  the \<^verbatim>\<open>default\<close> case aborts.
\<close>

definition cpu_execute_rot ::
    "nat \<Rightarrow> nat \<Rightarrow> u32 \<Rightarrow> byte \<Rightarrow> cpu_state \<Rightarrow> cpu_state option" where
  "cpu_execute_rot y z address v s =
     (let old_7 = (of_bool (v AND 0x80 \<noteq> 0) :: byte);
          old_0 = (of_bool (v AND 0x01 \<noteq> 0) :: byte);
          old_c = (of_bool (flags_C s) :: byte);
          s1 = s\<lparr>cpu_cycles := cpu_cycles s + 2\<rparr>;
          finish = (\<lambda>value new_c.
             case cpu_write_reg_prefetched z address value s1 of
               None \<Rightarrow> None
             | Some s2 \<Rightarrow>
                 Some (s2\<lparr>r_F := flag_c (new_c \<noteq> 0) OR flag_sign_b (ucast value)
                                  OR flag_parity value OR flag_undef (r_F s2)
                                  OR flag_zero (ucast value)\<rparr>))
      in if y = 0 then finish (push_bit 1 v OR old_7) old_7
         else if y = 1 then finish (drop_bit 1 v OR push_bit 7 old_0) old_0
         else if y = 2 then finish (push_bit 1 v OR old_c) old_7
         else if y = 3 then finish (drop_bit 1 v OR push_bit 7 old_c) old_0
         else if y = 4 then finish (push_bit 1 v) old_7
         else if y = 5 then finish (drop_bit 1 v OR push_bit 7 old_7) old_0
         else if y = 6 then Some (s\<lparr>cpu_IEF_wait := True\<rparr>)
         else if y = 7 then finish (drop_bit 1 v) old_0
         else None)"

definition cpu_execute_rot_acc :: "nat \<Rightarrow> cpu_state \<Rightarrow> cpu_state" where
  "cpu_execute_rot_acc y s =
     (let s1 = s\<lparr>cpu_cycles := cpu_cycles s + 1\<rparr>;
          clear_NH = (\<lambda>t. set_flag FLAG_N False (set_flag FLAG_H False t))
      in if y = 0 then \<comment> \<open>RLCA\<close>
           let old = (r_A s1 AND 0x80) > 0;
               s2 = set_flag FLAG_C old s1
           in clear_NH (s2\<lparr>r_A := push_bit 1 (r_A s2) OR of_bool old\<rparr>)
         else if y = 1 then \<comment> \<open>RRCA\<close>
           let old = (r_A s1 AND 1) > 0;
               s2 = set_flag FLAG_C old s1
           in clear_NH (s2\<lparr>r_A := drop_bit 1 (r_A s2) OR push_bit 7 (of_bool old)\<rparr>)
         else if y = 2 then \<comment> \<open>RLA\<close>
           let old = flags_C s1;
               s2 = set_flag FLAG_C ((r_A s1 AND 0x80) > 0) s1
           in clear_NH (s2\<lparr>r_A := push_bit 1 (r_A s2) OR of_bool old\<rparr>)
         else if y = 3 then \<comment> \<open>RRA\<close>
           let old = flags_C s1;
               s2 = set_flag FLAG_C ((r_A s1 AND 1) > 0) s1
           in clear_NH (s2\<lparr>r_A := drop_bit 1 (r_A s2) OR push_bit 7 (of_bool old)\<rparr>)
         else if y = 4 then \<comment> \<open>DAA\<close>
           cpu_execute_daa s1
         else if y = 5 then \<comment> \<open>CPL\<close>
           set_flag FLAG_N True (set_flag FLAG_H True (s1\<lparr>r_A := NOT (r_A s1)\<rparr>))
         else if y = 6 then \<comment> \<open>SCF\<close>
           clear_NH (set_flag FLAG_C True s1)
         else if y = 7 then \<comment> \<open>CCF\<close>
           set_flag FLAG_N False
             (set_flag FLAG_C (\<not> flags_C s1) (set_flag FLAG_H (flags_C s1) s1))
         else s)"

subsection \<open>Block instructions\<close>

text \<open>
  The statement groups that the cases of \<^verbatim>\<open>cpu_execute_bli\<close> repeat:
  \<^verbatim>\<open>r->HL++; mask_mode(r->HL, cpu.L);\<close> and its siblings, the byte counters, and the
  flag updates (the full F computed from B, the Z and N bit-fields alone, the compare
  flags and the load flags), and the re-prefetch of the repeating forms.
\<close>

definition inc_HL :: "cpu_state \<Rightarrow> cpu_state" where
  "inc_HL s = s\<lparr>r_HL := cpu_mask_mode (r_HL s + 1) (cpu_L s)\<rparr>"
definition dec_HL :: "cpu_state \<Rightarrow> cpu_state" where
  "dec_HL s = s\<lparr>r_HL := cpu_mask_mode (r_HL s - 1) (cpu_L s)\<rparr>"
definition inc_DE :: "cpu_state \<Rightarrow> cpu_state" where
  "inc_DE s = s\<lparr>r_DE := cpu_mask_mode (r_DE s + 1) (cpu_L s)\<rparr>"
definition dec_DE :: "cpu_state \<Rightarrow> cpu_state" where
  "dec_DE s = s\<lparr>r_DE := cpu_mask_mode (r_DE s - 1) (cpu_L s)\<rparr>"
definition dec_BC :: "cpu_state \<Rightarrow> cpu_state" where
  "dec_BC s = s\<lparr>r_BC := cpu_mask_mode (r_BC s - 1) (cpu_L s)\<rparr>"
definition inc_C :: "cpu_state \<Rightarrow> cpu_state" where
  "inc_C s = set_C (r_C s + 1) s"
definition dec_C :: "cpu_state \<Rightarrow> cpu_state" where
  "dec_C s = set_C (r_C s - 1) s"
definition dec_B :: "cpu_state \<Rightarrow> cpu_state" where
  "dec_B s = set_B (r_B s - 1) s"
definition add_cycles :: "int \<Rightarrow> cpu_state \<Rightarrow> cpu_state" where
  "add_cycles n s = s\<lparr>cpu_cycles := cpu_cycles s + n\<rparr>"

text \<open>\<open>old\<close> is B before the decrement, \<open>new\<close> the byte transferred.\<close>

definition bli_flags_B :: "byte \<Rightarrow> byte \<Rightarrow> cpu_state \<Rightarrow> cpu_state" where
  "bli_flags_B old new s =
     s\<lparr>r_F := flag_sign_b (ucast (r_B s)) OR flag_zero (ucast (r_B s))
               OR flag_halfcarry_b_sub (ucast old) 0 1
               OR flag_subtract (flag_sign_b (ucast new) \<noteq> 0) OR flag_undef (r_F s)\<rparr>"

definition bli_flags_ZN :: "u32 \<Rightarrow> byte \<Rightarrow> cpu_state \<Rightarrow> cpu_state" where
  "bli_flags_ZN counter new s =
     set_flag FLAG_N (flag_sign_b (ucast new) \<noteq> 0)
       (set_flag FLAG_Z (flag_zero counter \<noteq> 0) s)"

definition bli_flags_cp :: "byte \<Rightarrow> cpu_state \<Rightarrow> cpu_state" where
  "bli_flags_cp old s =
     (let new = r_A s - old
      in s\<lparr>r_F := flag_sign_b (ucast new) OR flag_zero (ucast new)
                  OR flag_halfcarry_b_sub (ucast (r_A s)) (ucast old) 0
                  OR flag_pv (r_BC s \<noteq> 0)
                  OR flag_subtract True OR flag_c (flags_C s)
                  OR flag_undef (r_F s)\<rparr>)"

definition bli_flags_ld :: "cpu_state \<Rightarrow> cpu_state" where
  "bli_flags_ld s = set_flag FLAG_N False (set_flag FLAG_PV (r_BC s \<noteq> 0) s)"

definition bli_repeat :: "cpu_state \<Rightarrow> cpu_state" where
  "bli_repeat s = cpu_prefetch (r_PC s - 2 - of_bool (cpu_SUFFIX s)) (cpu_ADL s) s"

text \<open>
  The cases of \<^verbatim>\<open>cpu_execute_bli\<close>, one definition each.  The locals \<^verbatim>\<open>old\<close> and
  \<^verbatim>\<open>new\<close> are \<^verbatim>\<open>uint8_t\<close>: the result of \<^verbatim>\<open>cpu_dec_bc_partial_mode\<close> is truncated to
  its low byte when it is stored in \<^verbatim>\<open>old\<close>.
\<close>

definition bli_INIM :: "cpu_state \<Rightarrow> cpu_state" where
  "bli_INIM s =
     (let new = cpu_read_in (ucast (r_C s)) s;
          s1 = cpu_write_byte (r_HL s) new (add_cycles 1 s);
          s2 = inc_C (inc_HL s1);
          old = r_B s2;
          s3 = dec_B s2;
          s4 = bli_flags_B old new s3
      in s4)"

definition bli_OTIM :: "cpu_state \<Rightarrow> cpu_state" where
  "bli_OTIM s =
     (let new = cpu_read_byte (r_HL s) s;
          s1 = cpu_write_out (ucast (r_C s)) new (add_cycles 1 s);
          s2 = inc_C (inc_HL s1);
          old = r_B s2;
          s3 = dec_B s2;
          s4 = bli_flags_B old new s3
      in s4)"

definition bli_INI2 :: "cpu_state \<Rightarrow> cpu_state" where
  "bli_INI2 s =
     (let new = cpu_read_in (ucast (r_BC s)) s;
          s1 = cpu_write_byte (r_HL s) new (add_cycles 1 s);
          s2 = dec_B (inc_C (inc_HL s1))
      in bli_flags_ZN (ucast (r_B s2)) new s2)"

definition bli_INDM :: "cpu_state \<Rightarrow> cpu_state" where
  "bli_INDM s =
     (let new = cpu_read_in (ucast (r_C s)) s;
          s1 = cpu_write_byte (r_HL s) new (add_cycles 1 s);
          s2 = dec_C (dec_HL s1);
          old = r_B s2;
          s3 = dec_B s2;
          s4 = bli_flags_B old new s3
      in s4)"

definition bli_OTDM :: "cpu_state \<Rightarrow> cpu_state" where
  "bli_OTDM s =
     (let new = cpu_read_byte (r_HL s) s;
          s1 = cpu_write_out (ucast (r_C s)) new (add_cycles 1 s);
          s2 = dec_C (dec_HL s1);
          old = r_B s2;
          s3 = dec_B s2;
          s4 = bli_flags_B old new s3
      in s4)"

definition bli_IND2 :: "cpu_state \<Rightarrow> cpu_state" where
  "bli_IND2 s =
     (let new = cpu_read_in (ucast (r_BC s)) s;
          s1 = cpu_write_byte (r_HL s) new (add_cycles 1 s);
          s2 = dec_B (dec_C (dec_HL s1))
      in bli_flags_ZN (ucast (r_B s2)) new s2)"

definition bli_INIMR :: "cpu_state \<Rightarrow> cpu_state" where
  "bli_INIMR s =
     (let new = cpu_read_in (ucast (r_C s)) s;
          s1 = cpu_write_byte (r_HL s) new (add_cycles 1 s);
          s2 = inc_C (inc_HL s1);
          old = r_B s2;
          s3 = dec_B s2;
          s4 = bli_flags_ZN (ucast (r_B s3)) new s3
      in if r_B s4 \<noteq> 0 then bli_repeat s4 else s4)"

definition bli_OTIMR :: "cpu_state \<Rightarrow> cpu_state" where
  "bli_OTIMR s =
     (let new = cpu_read_byte (r_HL s) s;
          s1 = cpu_write_out (ucast (r_C s)) new (add_cycles 1 s);
          s2 = inc_C (inc_HL s1);
          old = r_B s2;
          s3 = dec_B s2;
          s4 = bli_flags_B old new s3
      in if r_B s4 \<noteq> 0 then bli_repeat s4 else s4)"

definition bli_INI2R :: "cpu_state \<Rightarrow> cpu_state" where
  "bli_INI2R s =
     (let new = cpu_read_in (ucast (r_DE s)) s;
          s1 = cpu_write_byte (r_HL s) new (add_cycles 1 s);
          (value, s2) = cpu_dec_bc_partial_mode (inc_DE (inc_HL s1));
          old = (ucast value :: byte);
          s3 = bli_flags_ZN (ucast old) new s2
      in if old \<noteq> 0 then bli_repeat s3 else s3)"

definition bli_INDMR :: "cpu_state \<Rightarrow> cpu_state" where
  "bli_INDMR s =
     (let new = cpu_read_in (ucast (r_C s)) s;
          s1 = cpu_write_byte (r_HL s) new (add_cycles 1 s);
          s2 = dec_C (dec_HL s1);
          old = r_B s2;
          s3 = dec_B s2;
          s4 = bli_flags_ZN (ucast (r_B s3)) new s3
      in if r_B s4 \<noteq> 0 then bli_repeat s4 else s4)"

definition bli_OTDMR :: "cpu_state \<Rightarrow> cpu_state" where
  "bli_OTDMR s =
     (let new = cpu_read_byte (r_HL s) s;
          s1 = cpu_write_out (ucast (r_C s)) new (add_cycles 1 s);
          s2 = dec_C (dec_HL s1);
          old = r_B s2;
          s3 = dec_B s2;
          s4 = bli_flags_B old new s3
      in if r_B s4 \<noteq> 0 then bli_repeat s4 else s4)"

definition bli_IND2R :: "cpu_state \<Rightarrow> cpu_state" where
  "bli_IND2R s =
     (let new = cpu_read_in (ucast (r_DE s)) s;
          s1 = cpu_write_byte (r_HL s) new (add_cycles 1 s);
          (value, s2) = cpu_dec_bc_partial_mode (dec_DE (dec_HL s1));
          old = (ucast value :: byte);
          s3 = bli_flags_ZN (ucast old) new s2
      in if old \<noteq> 0 then bli_repeat s3 else s3)"

definition bli_LDI :: "cpu_state \<Rightarrow> cpu_state" where
  "bli_LDI s =
     (let old = cpu_read_byte (r_HL s) s;
          s1 = inc_HL (add_cycles 1 s);
          s2 = cpu_write_byte (r_DE s1) old s1;
          s3 = dec_BC (inc_DE s2);
          s4 = bli_flags_ld s3
      in s4)"

definition bli_CPI :: "cpu_state \<Rightarrow> cpu_state" where
  "bli_CPI s =
     (let old = cpu_read_byte (r_HL s) s;
          s1 = dec_BC (inc_HL s)
      in bli_flags_cp old s1)"

definition bli_INI :: "cpu_state \<Rightarrow> cpu_state" where
  "bli_INI s =
     (let new = cpu_read_in (ucast (r_BC s)) s;
          s1 = cpu_write_byte (r_HL s) new (add_cycles 1 s);
          s2 = dec_B (inc_HL s1);
          s3 = bli_flags_ZN (ucast (r_B s2)) new s2
      in s3)"

definition bli_OUTI :: "cpu_state \<Rightarrow> cpu_state" where
  "bli_OUTI s =
     (let new = cpu_read_byte (r_HL s) s;
          s1 = cpu_write_out (ucast (r_BC s)) new (add_cycles 1 s);
          s2 = dec_B (inc_HL s1);
          s3 = bli_flags_ZN (ucast (r_B s2)) new s2
      in s3)"

definition bli_OUTI2 :: "cpu_state \<Rightarrow> cpu_state" where
  "bli_OUTI2 s =
     (let new = cpu_read_byte (r_HL s) s;
          s1 = cpu_write_out (ucast (r_BC s)) new (add_cycles 1 s);
          s2 = dec_B (inc_C (inc_HL s1));
          s3 = bli_flags_ZN (ucast (r_B s2)) new s2
      in s3)"

definition bli_LDD :: "cpu_state \<Rightarrow> cpu_state" where
  "bli_LDD s =
     (let old = cpu_read_byte (r_HL s) s;
          s1 = dec_HL (add_cycles 1 s);
          s2 = cpu_write_byte (r_DE s1) old s1;
          s3 = dec_BC (dec_DE s2);
          s4 = bli_flags_ld s3
      in s4)"

definition bli_CPD :: "cpu_state \<Rightarrow> cpu_state" where
  "bli_CPD s =
     (let old = cpu_read_byte (r_HL s) s;
          s1 = dec_BC (dec_HL s)
      in bli_flags_cp old s1)"

definition bli_IND :: "cpu_state \<Rightarrow> cpu_state" where
  "bli_IND s =
     (let new = cpu_read_in (ucast (r_BC s)) s;
          s1 = cpu_write_byte (r_HL s) new (add_cycles 1 s);
          s2 = dec_B (dec_HL s1);
          s3 = bli_flags_ZN (ucast (r_B s2)) new s2
      in s3)"

definition bli_OUTD :: "cpu_state \<Rightarrow> cpu_state" where
  "bli_OUTD s =
     (let new = cpu_read_byte (r_HL s) s;
          s1 = cpu_write_out (ucast (r_BC s)) new (add_cycles 1 s);
          s2 = dec_B (dec_HL s1);
          s3 = bli_flags_ZN (ucast (r_B s2)) new s2
      in s3)"

definition bli_OUTD2 :: "cpu_state \<Rightarrow> cpu_state" where
  "bli_OUTD2 s =
     (let new = cpu_read_byte (r_HL s) s;
          s1 = cpu_write_out (ucast (r_BC s)) new (add_cycles 1 s);
          s2 = dec_B (dec_C (dec_HL s1));
          s3 = bli_flags_ZN (ucast (r_B s2)) new s2
      in s3)"

definition bli_LDIR :: "cpu_state \<Rightarrow> cpu_state" where
  "bli_LDIR s =
     (let old = cpu_read_byte (r_HL s) s;
          s1 = cpu_write_byte (r_DE s) old (add_cycles 1 s);
          s2 = dec_BC (inc_DE (inc_HL s1));
          s3 = bli_flags_ld s2
      in if r_BC s3 \<noteq> 0 then bli_repeat s3 else s3)"

definition bli_CPIR :: "cpu_state \<Rightarrow> cpu_state" where
  "bli_CPIR s =
     (let old = cpu_read_byte (r_HL s) s;
          s1 = dec_BC (inc_HL (add_cycles 1 s));
          s2 = bli_flags_cp old s1
      in if r_BC s2 \<noteq> 0 \<and> \<not> flags_Z s2 then bli_repeat (add_cycles 1 s2) else s2)"

definition bli_INIR :: "cpu_state \<Rightarrow> cpu_state" where
  "bli_INIR s =
     (let new = cpu_read_in (ucast (r_BC s)) s;
          s1 = cpu_write_byte (r_HL s) new (add_cycles 1 s);
          s2 = dec_B (inc_HL s1);
          s3 = bli_flags_ZN (ucast (r_B s2)) new s2
      in if r_B s3 \<noteq> 0 then bli_repeat s3 else s3)"

definition bli_OTIR :: "cpu_state \<Rightarrow> cpu_state" where
  "bli_OTIR s =
     (let new = cpu_read_byte (r_HL s) s;
          s1 = cpu_write_out (ucast (r_BC s)) new (add_cycles 1 s);
          s2 = dec_B (inc_HL s1);
          s3 = bli_flags_ZN (ucast (r_B s2)) new s2
      in if r_B s3 \<noteq> 0 then bli_repeat s3 else s3)"

definition bli_OTI2R :: "cpu_state \<Rightarrow> cpu_state" where
  "bli_OTI2R s =
     (let new = cpu_read_byte (r_HL s) s;
          s1 = cpu_write_out (ucast (r_DE s)) new (add_cycles 1 s);
          (value, s2) = cpu_dec_bc_partial_mode (inc_DE (inc_HL s1));
          old = (ucast value :: byte);
          s3 = bli_flags_ZN (ucast old) new s2
      in if old \<noteq> 0 then bli_repeat s3 else s3)"

definition bli_LDDR :: "cpu_state \<Rightarrow> cpu_state" where
  "bli_LDDR s =
     (let old = cpu_read_byte (r_HL s) s;
          s1 = dec_HL (add_cycles 1 s);
          s2 = cpu_write_byte (r_DE s1) old s1;
          s3 = dec_BC (dec_DE s2);
          s4 = bli_flags_ld s3
      in if r_BC s4 \<noteq> 0 then bli_repeat s4 else s4)"

definition bli_CPDR :: "cpu_state \<Rightarrow> cpu_state" where
  "bli_CPDR s =
     (let old = cpu_read_byte (r_HL s) s;
          s1 = dec_BC (dec_HL (add_cycles 1 s));
          s2 = bli_flags_cp old s1
      in if r_BC s2 \<noteq> 0 \<and> \<not> flags_Z s2 then bli_repeat (add_cycles 1 s2) else s2)"

definition bli_INDR :: "cpu_state \<Rightarrow> cpu_state" where
  "bli_INDR s =
     (let new = cpu_read_in (ucast (r_BC s)) s;
          s1 = cpu_write_byte (r_HL s) new (add_cycles 1 s);
          s2 = dec_B (dec_HL s1);
          s3 = bli_flags_ZN (ucast (r_B s2)) new s2
      in if r_B s3 \<noteq> 0 then bli_repeat s3 else s3)"

definition bli_OTDR :: "cpu_state \<Rightarrow> cpu_state" where
  "bli_OTDR s =
     (let new = cpu_read_byte (r_HL s) s;
          s1 = cpu_write_out (ucast (r_BC s)) new (add_cycles 1 s);
          s2 = dec_B (dec_HL s1);
          s3 = bli_flags_ZN (ucast (r_B s2)) new s2
      in if r_B s3 \<noteq> 0 then bli_repeat s3 else s3)"

definition bli_OTD2R :: "cpu_state \<Rightarrow> cpu_state" where
  "bli_OTD2R s =
     (let new = cpu_read_byte (r_HL s) s;
          s1 = cpu_write_out (ucast (r_DE s)) new (add_cycles 1 s);
          (value, s2) = cpu_dec_bc_partial_mode (dec_DE (dec_HL s1));
          old = (ucast value :: byte);
          s3 = bli_flags_ZN (ucast old) new s2
      in if old \<noteq> 0 then bli_repeat s3 else s3)"

text \<open>A pair \<open>(y, z)\<close> without a case leaves the state as it is.\<close>

definition cpu_execute_bli :: "nat \<Rightarrow> nat \<Rightarrow> cpu_state \<Rightarrow> cpu_state" where
  "cpu_execute_bli y z s =
     (if y = 0 then
        (if z = 2 then bli_INIM s
         else if z = 3 then bli_OTIM s
         else if z = 4 then bli_INI2 s
         else s)
      else if y = 1 then
        (if z = 2 then bli_INDM s
         else if z = 3 then bli_OTDM s
         else if z = 4 then bli_IND2 s
         else s)
      else if y = 2 then
        (if z = 2 then bli_INIMR s
         else if z = 3 then bli_OTIMR s
         else if z = 4 then bli_INI2R s
         else s)
      else if y = 3 then
        (if z = 2 then bli_INDMR s
         else if z = 3 then bli_OTDMR s
         else if z = 4 then bli_IND2R s
         else s)
      else if y = 4 then
        (if z = 0 then bli_LDI s
         else if z = 1 then bli_CPI s
         else if z = 2 then bli_INI s
         else if z = 3 then bli_OUTI s
         else if z = 4 then bli_OUTI2 s
         else s)
      else if y = 5 then
        (if z = 0 then bli_LDD s
         else if z = 1 then bli_CPD s
         else if z = 2 then bli_IND s
         else if z = 3 then bli_OUTD s
         else if z = 4 then bli_OUTD2 s
         else s)
      else if y = 6 then
        (if z = 0 then bli_LDIR s
         else if z = 1 then bli_CPIR s
         else if z = 2 then bli_INIR s
         else if z = 3 then bli_OTIR s
         else if z = 4 then bli_OTI2R s
         else s)
      else if y = 7 then
        (if z = 0 then bli_LDDR s
         else if z = 1 then bli_CPDR s
         else if z = 2 then bli_INDR s
         else if z = 3 then bli_OTDR s
         else if z = 4 then bli_OTD2R s
         else s)
      else s)"

subsection \<open>Opcode decomposition and control flow of the decoder\<close>

text \<open>
  The bit-fields of the \<^verbatim>\<open>context\<close> union: \<open>x\<close> is bits 7..6 of the opcode, \<open>y\<close> bits
  5..3, \<open>z\<close> bits 2..0, \<open>p\<close> bits 5..4 and \<open>q\<close> bit 3.
\<close>

definition ctx_x :: "byte \<Rightarrow> nat" where "ctx_x opc = unat (drop_bit 6 opc)"
definition ctx_y :: "byte \<Rightarrow> nat" where "ctx_y opc = unat (drop_bit 3 opc AND 7)"
definition ctx_z :: "byte \<Rightarrow> nat" where "ctx_z opc = unat (opc AND 7)"
definition ctx_p :: "byte \<Rightarrow> nat" where "ctx_p opc = unat (drop_bit 4 opc AND 3)"
definition ctx_q :: "byte \<Rightarrow> nat" where "ctx_q opc = unat (drop_bit 3 opc AND 1)"

text \<open>
  How a pass through the big \<^verbatim>\<open>switch\<close> of \<^verbatim>\<open>cpu_execute\<close> ends: it falls out of the
  switch (\<open>Done\<close>), jumps to \<^verbatim>\<open>exit_loop\<close> (the prefix bytes), executes \<^verbatim>\<open>continue\<close>
  (EI), or the process is aborted by an \<^verbatim>\<open>abort()\<close>.
\<close>

datatype flow = Done cpu_state | ExitLoop cpu_state | Continue cpu_state | Abort

definition done_opt :: "cpu_state option \<Rightarrow> flow" where
  "done_opt r = (case r of None \<Rightarrow> Abort | Some t \<Rightarrow> Done t)"

subsection \<open>Unprefixed opcodes, x = 0\<close>

definition exec_x0_z0 :: "nat \<Rightarrow> cpu_state \<Rightarrow> cpu_state option" where
  "exec_x0_z0 y s =
     (if y = 0 then \<comment> \<open>NOP\<close>
        Some (add_cycles 1 s)
      else if y = 1 then \<comment> \<open>EX af,af'\<close>
        Some (ex_af (add_cycles 1 s))
      else if y = 2 then \<comment> \<open>DJNZ d\<close>
        (let (d, s1) = cpu_fetch_offset (add_cycles 1 s);
             s2 = dec_B s1
         in if r_B s2 \<noteq> 0
            then let s3 = add_cycles 1 s2
                 in Some (cpu_prefetch (cpu_mask_mode (r_PC s3 + d) (cpu_L s3)) (cpu_ADL s3) s3)
            else Some s2)
      else if y = 3 then \<comment> \<open>JR d\<close>
        (let (d, s1) = cpu_fetch_offset (add_cycles 2 s)
         in Some (cpu_prefetch (cpu_mask_mode (r_PC s1 + d) (cpu_L s1)) (cpu_ADL s1) s1))
      else \<comment> \<open>JR cc[y-4], d\<close>
        (let (d, s1) = cpu_fetch_offset (add_cycles 1 s)
         in case cpu_read_cc (y - 4) s1 of
              None \<Rightarrow> None
            | Some cc \<Rightarrow>
                if cc
                then let s2 = add_cycles 1 s1
                     in Some (cpu_prefetch (cpu_mask_mode (r_PC s2 + d) (cpu_L s2))
                                (cpu_ADL s2) s2)
                else Some s1))"

definition exec_x0_z1 :: "nat \<Rightarrow> nat \<Rightarrow> cpu_state \<Rightarrow> cpu_state option" where
  "exec_x0_z1 p q s =
     (if q = 0 then \<comment> \<open>LD rr, Mmn\<close>
        (if p = 3 \<and> cpu_PREFIX s \<noteq> 0 then \<comment> \<open>LD IY/IX, (IX/IY + d)\<close>
           let (a, s1) = cpu_index_address (add_cycles 6 s)
           in Some (cpu_write_other_index (cpu_read_word a s1) s1)
         else
           let (w, s1) = cpu_fetch_word (add_cycles 4 s)
           in cpu_write_rp p w s1)
      else \<comment> \<open>ADD HL,rr\<close>
        (let s1 = add_cycles 1 s;
             old_word = cpu_mask_mode (cpu_read_index s1) (cpu_L s1)
         in case cpu_read_rp p s1 of
              None \<Rightarrow> None
            | Some rp \<Rightarrow>
                let op_word = cpu_mask_mode rp (cpu_L s1);
                    new_word = old_word + op_word;
                    s2 = cpu_write_index (cpu_mask_mode new_word (cpu_L s1)) s1
                in Some (s2\<lparr>r_F := flag_s (flags_S s2) OR flag_zero (of_bool (\<not> flags_Z s2))
                                   OR flag_undef (r_F s2) OR flag_pv (flags_PV s2)
                                   OR flag_subtract False OR flag_carry_w new_word (cpu_L s2)
                                   OR flag_halfcarry_w_add old_word op_word 0\<rparr>)))"

definition exec_x0_z2 :: "nat \<Rightarrow> nat \<Rightarrow> cpu_state \<Rightarrow> cpu_state option" where
  "exec_x0_z2 p q s =
     (if q = 0 then
        (if p = 0 then \<comment> \<open>LD (BC), A\<close>
           Some (let s1 = add_cycles 2 s in cpu_write_byte (r_BC s1) (r_A s1) s1)
         else if p = 1 then \<comment> \<open>LD (DE), A\<close>
           Some (let s1 = add_cycles 2 s in cpu_write_byte (r_DE s1) (r_A s1) s1)
         else if p = 2 then \<comment> \<open>LD (Mmn), HL\<close>
           Some (let (a, s1) = cpu_fetch_word (add_cycles 7 s)
                 in cpu_write_word a (cpu_read_index s1) s1)
         else \<comment> \<open>LD (Mmn), A\<close>
           Some (let (a, s1) = cpu_fetch_word (add_cycles 5 s)
                 in cpu_write_byte a (r_A s1) s1))
      else
        (if p = 0 then \<comment> \<open>LD A, (BC)\<close>
           Some (let s1 = add_cycles 2 s in s1\<lparr>r_A := cpu_read_byte (r_BC s1) s1\<rparr>)
         else if p = 1 then \<comment> \<open>LD A, (DE)\<close>
           Some (let s1 = add_cycles 2 s in s1\<lparr>r_A := cpu_read_byte (r_DE s1) s1\<rparr>)
         else if p = 2 then \<comment> \<open>LD HL, (Mmn)\<close>
           Some (let (a, s1) = cpu_fetch_word (add_cycles 7 s)
                 in cpu_write_index (cpu_read_word a s1) s1)
         else \<comment> \<open>LD A, (Mmn)\<close>
           Some (let (a, s1) = cpu_fetch_word (add_cycles 5 s)
                 in s1\<lparr>r_A := cpu_read_byte a s1\<rparr>)))"

definition exec_x0_z3 :: "nat \<Rightarrow> nat \<Rightarrow> cpu_state \<Rightarrow> cpu_state option" where
  "exec_x0_z3 p q s =
     (let s1 = add_cycles 1 s
      in case cpu_read_rp p s1 of
           None \<Rightarrow> None
         | Some rp \<Rightarrow>
             if q = 0 then cpu_write_rp p (rp + 1) s1 \<comment> \<open>INC rp[p]\<close>
             else cpu_write_rp p (rp - 1) s1 \<comment> \<open>DEC rp[p]\<close>)"

definition exec_x0_z4 :: "nat \<Rightarrow> cpu_state \<Rightarrow> cpu_state option" where
  "exec_x0_z4 y s = \<comment> \<open>INC r[y]\<close>
     (let (w, s1) = (if y = 6 then cpu_index_address (add_cycles 1 s)
                     else (0, add_cycles 1 s))
      in case cpu_read_reg_prefetched y w s1 of
           None \<Rightarrow> None
         | Some old \<Rightarrow>
             let new = old + 1
             in case cpu_write_reg_prefetched y w new s1 of
                  None \<Rightarrow> None
                | Some s2 \<Rightarrow>
                    Some (s2\<lparr>r_F := flag_c (flags_C s2) OR flag_sign_b (ucast new)
                                     OR flag_zero (ucast new)
                                     OR flag_halfcarry_b_add (ucast old) 0 1
                                     OR flag_pv (new = 0x80)
                                     OR flag_subtract False OR flag_undef (r_F s2)\<rparr>))"

definition exec_x0_z5 :: "nat \<Rightarrow> cpu_state \<Rightarrow> cpu_state option" where
  "exec_x0_z5 y s = \<comment> \<open>DEC r[y]\<close>
     (let (w, s1) = (if y = 6 then cpu_index_address (add_cycles 1 s)
                     else (0, add_cycles 1 s))
      in case cpu_read_reg_prefetched y w s1 of
           None \<Rightarrow> None
         | Some old \<Rightarrow>
             let new = old - 1
             in case cpu_write_reg_prefetched y w new s1 of
                  None \<Rightarrow> None
                | Some s2 \<Rightarrow>
                    Some (s2\<lparr>r_F := flag_c (flags_C s2) OR flag_sign_b (ucast new)
                                     OR flag_zero (ucast new)
                                     OR flag_halfcarry_b_sub (ucast old) 0 1
                                     OR flag_pv (old = 0x80)
                                     OR flag_subtract True OR flag_undef (r_F s2)\<rparr>))"

definition exec_x0_z6 :: "nat \<Rightarrow> cpu_state \<Rightarrow> cpu_state option" where
  "exec_x0_z6 y s = \<comment> \<open>LD r[y], n\<close>
     (let s1 = add_cycles 2 s
      in if y = 7 \<and> cpu_PREFIX s1 \<noteq> 0 then \<comment> \<open>LD (IX/IY + d), IY/IX\<close>
           let (a, s2) = cpu_index_address s1
           in Some (cpu_write_word a (cpu_read_other_index s2) s2)
         else
           let (w, s2) = (if y = 6 then cpu_index_address s1 else (0, s1));
               (n, s3) = cpu_fetch_byte s2
           in cpu_write_reg_prefetched y w n s3)"

definition exec_x0_z7 :: "nat \<Rightarrow> nat \<Rightarrow> nat \<Rightarrow> cpu_state \<Rightarrow> cpu_state option" where
  "exec_x0_z7 y p q s =
     (if cpu_PREFIX s \<noteq> 0 then
        let (a, s1) = cpu_index_address (add_cycles 6 s)
        in if q \<noteq> 0 then \<comment> \<open>LD (IX/IY + d), rp3[p]\<close>
             (case cpu_read_rp3 p s1 of
                None \<Rightarrow> None
              | Some v \<Rightarrow> Some (cpu_write_word a v s1))
           else \<comment> \<open>LD rp3[p], (IX/IY + d)\<close>
             cpu_write_rp3 p (cpu_read_word a s1) s1
      else Some (cpu_execute_rot_acc y s))"

definition exec_x0 :: "byte \<Rightarrow> cpu_state \<Rightarrow> cpu_state option" where
  "exec_x0 opc s =
     (let y = ctx_y opc; z = ctx_z opc; p = ctx_p opc; q = ctx_q opc
      in if z = 0 then exec_x0_z0 y s
         else if z = 1 then exec_x0_z1 p q s
         else if z = 2 then exec_x0_z2 p q s
         else if z = 3 then exec_x0_z3 p q s
         else if z = 4 then exec_x0_z4 y s
         else if z = 5 then exec_x0_z5 y s
         else if z = 6 then exec_x0_z6 y s
         else exec_x0_z7 y p q s)"

subsection \<open>Unprefixed opcodes, x = 1 and x = 2\<close>

definition suffix_byte :: "bool \<Rightarrow> bool \<Rightarrow> cpu_state \<Rightarrow> cpu_state" where
  "suffix_byte l il s = (add_cycles 1 s)\<lparr>cpu_SUFFIX := True, cpu_L := l, cpu_IL := il\<rparr>"

definition exec_x1 :: "byte \<Rightarrow> cpu_state \<Rightarrow> flow" where
  "exec_x1 opc s =
     (let y = ctx_y opc; z = ctx_z opc
      in if z = y then
           (if z = 0 then ExitLoop (suffix_byte False False s) \<comment> \<open>.SIS\<close>
            else if z = 1 then ExitLoop (suffix_byte True False s) \<comment> \<open>.LIS\<close>
            else if z = 2 then ExitLoop (suffix_byte False True s) \<comment> \<open>.SIL\<close>
            else if z = 3 then ExitLoop (suffix_byte True True s) \<comment> \<open>.LIL\<close>
            else if z = 6 then \<comment> \<open>HALT\<close>
              (let s1 = s\<lparr>cpu_halted := True\<rparr>
               in if cycle_count_delta s1 + cpu_cycles s1 < 0
                  then Done (s1\<lparr>cpu_cycles := - cycle_count_delta s1\<rparr>)
                  else Done s1)
            else if z = 4 \<or> z = 5 \<or> z = 7 then Done s \<comment> \<open>LD H,H; LD L,L; LD A,A\<close>
            else Abort)
         else done_opt (cpu_read_write_reg z y s))"

definition exec_x2 :: "byte \<Rightarrow> cpu_state \<Rightarrow> flow" where
  "exec_x2 opc s = \<comment> \<open>ALU[y] r[z]\<close>
     (case cpu_read_reg (ctx_z opc) s of
        None \<Rightarrow> Abort
      | Some (v, s1) \<Rightarrow> Done (cpu_execute_alu (ctx_y opc) v s1))"

subsection \<open>The CB-prefixed opcodes\<close>

definition exec_cb :: "cpu_state \<Rightarrow> cpu_state option" where
  "exec_cb s =
     (let (w, s1) = cpu_index_address s;
          (opc, s2) = cpu_fetch_byte s1;
          x = ctx_x opc; y = ctx_y opc; z = ctx_z opc
      in case cpu_read_reg_prefetched z w s2 of
           None \<Rightarrow> None
         | Some old \<Rightarrow>
             if x = 0 then \<comment> \<open>rot[y] r[z]\<close>
               cpu_execute_rot y z w old s2
             else if x = 1 then \<comment> \<open>BIT y, r[z]\<close>
               (let s3 = add_cycles 2 s2;
                    old' = old AND push_bit y 1
                in Some (s3\<lparr>r_F := flag_sign_b (ucast old') OR flag_zero (ucast old')
                                   OR flag_undef (r_F s3) OR flag_parity old'
                                   OR flag_c (flags_C s3) OR FLAG_H\<rparr>))
             else if x = 2 then \<comment> \<open>RES y, r[z]\<close>
               cpu_write_reg_prefetched z w (old AND NOT (push_bit y 1)) (add_cycles 2 s2)
             else \<comment> \<open>SET y, r[z]\<close>
               cpu_write_reg_prefetched z w (old OR push_bit y 1) (add_cycles 2 s2))"

subsection \<open>The ED-prefixed opcodes\<close>

definition opcode_trap :: "cpu_state \<Rightarrow> cpu_state" where
  "opcode_trap s = s\<lparr>cpu_IEF_wait := True\<rparr>"

definition io_flags :: "byte \<Rightarrow> cpu_state \<Rightarrow> cpu_state" where
  "io_flags new s =
     s\<lparr>r_F := flag_sign_b (ucast new) OR flag_zero (ucast new)
               OR flag_undef (r_F s) OR flag_parity new OR flag_c (flags_C s)\<rparr>"

definition tst_flags :: "byte \<Rightarrow> cpu_state \<Rightarrow> cpu_state" where
  "tst_flags new s =
     s\<lparr>r_F := flag_sign_b (ucast new) OR flag_zero (ucast new)
               OR flag_undef (r_F s) OR flag_parity new OR FLAG_H\<rparr>"

definition exec_ed_x0 :: "byte \<Rightarrow> cpu_state \<Rightarrow> cpu_state option" where
  "exec_ed_x0 opc s =
     (let y = ctx_y opc; z = ctx_z opc; p = ctx_p opc; q = ctx_q opc
      in if z = 0 then
           (if y = 6 then Some (opcode_trap s) \<comment> \<open>OPCODETRAP\<close>
            else \<comment> \<open>IN0 r[y], (n)\<close>
              let (n, s1) = cpu_fetch_byte (add_cycles 2 s);
                  new = cpu_read_in (ucast n) s1
              in case cpu_write_reg y new s1 of
                   None \<Rightarrow> None
                 | Some s2 \<Rightarrow> Some (io_flags new s2))
         else if z = 1 then
           (if y = 6 then \<comment> \<open>LD IY, (HL)\<close>
              Some (let s1 = add_cycles 5 s in s1\<lparr>r_IY := cpu_read_word (r_HL s1) s1\<rparr>)
            else \<comment> \<open>OUT0 (n), r[y]\<close>
              let (n, s1) = cpu_fetch_byte (add_cycles 2 s)
              in case cpu_read_reg y s1 of
                   None \<Rightarrow> None
                 | Some (v, s2) \<Rightarrow> Some (cpu_write_out (ucast n) v s2))
         else if z = 2 \<or> z = 3 then \<comment> \<open>LEA rp3[p], IX / IY\<close>
           (if q \<noteq> 0 then Some (opcode_trap s) \<comment> \<open>OPCODETRAP\<close>
            else
              let s1 = (add_cycles 3 s)\<lparr>cpu_PREFIX := z\<rparr>;
                  (a, s2) = cpu_index_address s1
              in cpu_write_rp3 p a s2)
         else if z = 4 then \<comment> \<open>TST A, r[y]\<close>
           (case cpu_read_reg y (add_cycles 2 s) of
              None \<Rightarrow> None
            | Some (v, s1) \<Rightarrow> Some (tst_flags (r_A s1 AND v) s1))
         else if z = 6 \<and> y = 7 then \<comment> \<open>LD (HL), IY\<close>
           Some (let s1 = add_cycles 5 s in cpu_write_word (r_HL s1) (r_IY s1) s1)
         else if z = 5 \<or> z = 6 then \<comment> \<open>OPCODETRAP\<close>
           Some (opcode_trap s)
         else if z = 7 then
           (let s1 = s\<lparr>cpu_PREFIX := 2\<rparr>
            in if q \<noteq> 0 then \<comment> \<open>LD (HL), rp3[p]\<close>
                 (let s2 = add_cycles 5 s1
                  in case cpu_read_rp3 p s2 of
                       None \<Rightarrow> None
                     | Some v \<Rightarrow> Some (cpu_write_word (r_HL s2) v s2))
               else \<comment> \<open>LD rp3[p], (HL)\<close>
                 (let s2 = add_cycles 5 s1
                  in cpu_write_rp3 p (cpu_read_word (r_HL s2) s2) s2))
         else Some s)"

definition exec_ed_x1_z2 :: "nat \<Rightarrow> nat \<Rightarrow> cpu_state \<Rightarrow> cpu_state option" where
  "exec_ed_x1_z2 p q s =
     (let old_word = cpu_mask_mode (r_HL s) (cpu_L s)
      in case cpu_read_rp p s of
           None \<Rightarrow> None
         | Some rp \<Rightarrow>
             let op_word = cpu_mask_mode rp (cpu_L s);
                 fC = (of_bool (flags_C s) :: u32)
             in if q = 0 then \<comment> \<open>SBC HL, rp[p]\<close>
                  let s1 = add_cycles 2 s;
                      hl = cpu_mask_mode (old_word - op_word - fC) (cpu_L s1)
                  in Some (s1\<lparr>r_HL := hl,
                               r_F := flag_sign_w hl (cpu_L s1) OR flag_zero hl
                                      OR flag_undef (r_F s1)
                                      OR flag_overflow_w_sub old_word op_word hl (cpu_L s1)
                                      OR flag_subtract True
                                      OR flag_carry_w (old_word - op_word - fC) (cpu_L s1)
                                      OR flag_halfcarry_w_sub old_word op_word fC\<rparr>)
                else \<comment> \<open>ADC HL, rp[p]\<close>
                  let s1 = add_cycles 2 s;
                      hl = cpu_mask_mode (old_word + op_word + fC) (cpu_L s1)
                  in Some (s1\<lparr>r_HL := hl,
                               r_F := flag_sign_w hl (cpu_L s1) OR flag_zero hl
                                      OR flag_undef (r_F s1)
                                      OR flag_overflow_w_add old_word op_word hl (cpu_L s1)
                                      OR flag_subtract False
                                      OR flag_carry_w (old_word + op_word + fC) (cpu_L s1)
                                      OR flag_halfcarry_w_add old_word op_word fC\<rparr>))"

definition exec_ed_x1_z4 :: "nat \<Rightarrow> nat \<Rightarrow> cpu_state \<Rightarrow> cpu_state option" where
  "exec_ed_x1_z4 p q s =
     (if q = 0 then
        (if p = 0 then \<comment> \<open>NEG\<close>
           (let s1 = add_cycles 2 s;
                old = r_A s1;
                a = - r_A s1
            in Some (s1\<lparr>r_A := a,
                         r_F := flag_sign_b (ucast a) OR flag_zero (ucast a)
                                OR flag_undef (r_F s1) OR flag_pv (old = 0x80)
                                OR flag_subtract True OR flag_c (old \<noteq> 0)
                                OR flag_halfcarry_b_sub 0 (ucast old) 0\<rparr>))
         else if p = 1 then \<comment> \<open>LEA IX, IY + d\<close>
           (let s1 = (add_cycles 3 s)\<lparr>cpu_PREFIX := 3\<rparr>;
                (a, s2) = cpu_index_address s1
            in Some (s2\<lparr>r_IX := a\<rparr>))
         else if p = 2 then \<comment> \<open>TST A, n\<close>
           (let (n, s1) = cpu_fetch_byte (add_cycles 2 s)
            in Some (tst_flags (r_A s1 AND n) s1))
         else if p = 3 then \<comment> \<open>TSTIO n\<close>
           (let (n, s1) = cpu_fetch_byte (add_cycles 2 s)
            in Some (tst_flags (cpu_read_in (ucast (r_C s1)) s1 AND n) s1))
         else Some s)
      else \<comment> \<open>MLT rp[p]\<close>
        (let s1 = add_cycles 4 s
         in case cpu_read_rp p s1 of
              None \<Rightarrow> None
            | Some old_word \<Rightarrow>
                cpu_write_rp p ((old_word AND 0xFF) * (drop_bit 8 old_word AND 0xFF)) s1))"

definition exec_ed_x1_z5 :: "nat \<Rightarrow> cpu_state \<Rightarrow> cpu_state" where
  "exec_ed_x1_z5 y s =
     (if y = 0 \<or> y = 1 then \<comment> \<open>RETN, RETI\<close>
        (let s1 = add_cycles 7 s in cpu_return (s1\<lparr>cpu_IEF1 := cpu_IEF2 s1\<rparr>))
      else if y = 2 then \<comment> \<open>LEA IY, IX + d\<close>
        (let s1 = (add_cycles 3 s)\<lparr>cpu_PREFIX := 2\<rparr>;
             (a, s2) = cpu_index_address s1
         in s2\<lparr>r_IY := a\<rparr>)
      else if y = 3 \<or> y = 6 then \<comment> \<open>OPCODETRAP\<close>
        opcode_trap s
      else if y = 4 then \<comment> \<open>PEA IX + d\<close>
        (let (d, s1) = cpu_fetch_offset (add_cycles 6 s) in cpu_push_word (r_IX s1 + d) s1)
      else if y = 5 then \<comment> \<open>LD MB, A\<close>
        (let s1 = add_cycles 2 s
         in if cpu_ADL s1 then s1\<lparr>r_MBASE := r_A s1\<rparr> else s1)
      else if y = 7 then \<comment> \<open>STMIX\<close>
        (add_cycles 2 s)\<lparr>cpu_MADL := True\<rparr>
      else s)"

definition exec_ed_x1_z6 :: "nat \<Rightarrow> cpu_state \<Rightarrow> cpu_state" where
  "exec_ed_x1_z6 y s =
     (if y = 0 \<or> y = 2 \<or> y = 3 then \<comment> \<open>IM im[y]\<close>
        (add_cycles 2 s)\<lparr>cpu_IM := y\<rparr>
      else if y = 1 then \<comment> \<open>OPCODETRAP\<close>
        opcode_trap s
      else if y = 4 then \<comment> \<open>PEA IY + d\<close>
        (let (d, s1) = cpu_fetch_offset (add_cycles 6 s) in cpu_push_word (r_IY s1 + d) s1)
      else if y = 5 then \<comment> \<open>LD A, MB\<close>
        (let s1 = add_cycles 2 s in s1\<lparr>r_A := r_MBASE s1\<rparr>)
      else if y = 6 then \<comment> \<open>SLP\<close>
        add_cycles 1 s
      else if y = 7 then \<comment> \<open>RSMIX\<close>
        (add_cycles 2 s)\<lparr>cpu_MADL := False\<rparr>
      else s)"

definition ld_a_flags :: "cpu_state \<Rightarrow> cpu_state" where
  "ld_a_flags s =
     s\<lparr>r_F := flag_sign_b (ucast (r_A s)) OR flag_zero (ucast (r_A s))
               OR flag_undef (r_F s) OR flag_pv (cpu_IEF1 s)
               OR flag_subtract False OR flag_c (flags_C s)\<rparr>"

definition rxd_flags :: "cpu_state \<Rightarrow> cpu_state" where
  "rxd_flags s =
     s\<lparr>r_F := flag_c (flags_C s) OR flag_sign_b (ucast (r_A s)) OR flag_zero (ucast (r_A s))
               OR flag_parity (r_A s) OR flag_undef (r_F s)\<rparr>"

definition exec_ed_x1_z7 :: "nat \<Rightarrow> cpu_state \<Rightarrow> cpu_state" where
  "exec_ed_x1_z7 y s =
     (if y = 0 then \<comment> \<open>LD I, A\<close>
        (let s1 = add_cycles 2 s in s1\<lparr>r_I := ucast (r_A s1) OR (r_I s1 AND 0xF0)\<rparr>)
      else if y = 1 then \<comment> \<open>LD R, A\<close>
        (let s1 = add_cycles 2 s in s1\<lparr>r_R := r_A s1\<rparr>)
      else if y = 2 then \<comment> \<open>LD A, I\<close>
        (let s1 = add_cycles 2 s in ld_a_flags (s1\<lparr>r_A := ucast (r_I s1 AND 0x0F)\<rparr>))
      else if y = 3 then \<comment> \<open>LD A, R\<close>
        (let s1 = add_cycles 2 s in ld_a_flags (s1\<lparr>r_A := r_R s1\<rparr>))
      else if y = 4 then \<comment> \<open>RRD\<close>
        (let s1 = add_cycles 5 s;
             old = r_A s1;
             new = cpu_read_byte (r_HL s1) s1;
             s2 = s1\<lparr>r_A := (r_A s1 AND 0xF0) OR (new AND 0x0F)\<rparr>;
             new' = drop_bit 4 new OR push_bit 4 old
         in rxd_flags (cpu_write_byte (r_HL s2) new' s2))
      else if y = 5 then \<comment> \<open>RLD\<close>
        (let s1 = add_cycles 5 s;
             old = r_A s1;
             new = cpu_read_byte (r_HL s1) s1;
             s2 = s1\<lparr>r_A := (r_A s1 AND 0xF0) OR drop_bit 4 new\<rparr>;
             new' = push_bit 4 new OR (old AND 0x0F)
         in rxd_flags (cpu_write_byte (r_HL s2) new' s2))
      else \<comment> \<open>OPCODETRAP\<close>
        opcode_trap s)"

definition exec_ed_x1 :: "byte \<Rightarrow> cpu_state \<Rightarrow> cpu_state option" where
  "exec_ed_x1 opc s =
     (let y = ctx_y opc; z = ctx_z opc; p = ctx_p opc; q = ctx_q opc
      in if z = 0 then
           (if y = 6 then Some (opcode_trap s) \<comment> \<open>OPCODETRAP (ADL)\<close>
            else \<comment> \<open>IN r[y], (BC)\<close>
              let s1 = add_cycles 3 s;
                  new = cpu_read_in (ucast (r_BC s1)) s1
              in case cpu_write_reg y new s1 of
                   None \<Rightarrow> None
                 | Some s2 \<Rightarrow> Some (io_flags new s2))
         else if z = 1 then
           (if y = 6 then Some (opcode_trap s) \<comment> \<open>OPCODETRAP (ADL)\<close>
            else \<comment> \<open>OUT (BC), r[y]\<close>
              case cpu_read_reg y (add_cycles 3 s) of
                None \<Rightarrow> None
              | Some (v, s1) \<Rightarrow> Some (cpu_write_out (ucast (r_BC s1)) v s1))
         else if z = 2 then exec_ed_x1_z2 p q s
         else if z = 3 then
           (if q = 0 then \<comment> \<open>LD (nn), rp[p]\<close>
              (let (a, s1) = cpu_fetch_word (add_cycles 8 s)
               in case cpu_read_rp p s1 of
                    None \<Rightarrow> None
                  | Some v \<Rightarrow> Some (cpu_write_word a v s1))
            else \<comment> \<open>LD rp[p], (nn)\<close>
              (let (a, s1) = cpu_fetch_word (add_cycles 8 s)
               in cpu_write_rp p (cpu_read_word a s1) s1))
         else if z = 4 then exec_ed_x1_z4 p q s
         else if z = 5 then Some (exec_ed_x1_z5 y s)
         else if z = 6 then Some (exec_ed_x1_z6 y s)
         else if z = 7 then Some (exec_ed_x1_z7 y s)
         else Some s)"

text \<open>
  The four \<^verbatim>\<open>RX\<close> block instructions of the \<open>x = 3\<close> table; \<^verbatim>\<open>old\<close> is the
  \<^verbatim>\<open>uint8_t\<close> local of \<^verbatim>\<open>cpu_execute\<close>.
\<close>

definition exec_inrx :: "(cpu_state \<Rightarrow> cpu_state) \<Rightarrow> cpu_state \<Rightarrow> cpu_state" where
  "exec_inrx hl_step s =
     (let new = cpu_read_in (ucast (r_DE s)) s;
          s1 = cpu_write_byte (r_HL s) new (add_cycles 1 s);
          (value, s2) = cpu_dec_bc_partial_mode (hl_step s1);
          old = (ucast value :: byte);
          s3 = bli_flags_ZN (ucast old) new s2
      in if old \<noteq> 0 then bli_repeat s3 else s3)"

definition exec_otrx :: "(cpu_state \<Rightarrow> cpu_state) \<Rightarrow> cpu_state \<Rightarrow> cpu_state" where
  "exec_otrx hl_step s =
     (let new = cpu_read_byte (r_HL s) s;
          s1 = cpu_write_out (ucast (r_DE s)) new (add_cycles 1 s);
          (value, s2) = cpu_dec_bc_partial_mode (hl_step s1);
          old = (ucast value :: byte);
          s3 = bli_flags_ZN (ucast old) new s2
      in if old \<noteq> 0 then bli_repeat s3 else s3)"

text \<open>
  Modelled from the spec: the flash erase of \<^verbatim>\<open>ED EE\<close> writes \<^verbatim>\<open>0xFF\<close> across the
  16 KiB sector \<^verbatim>\<open>[HL & ~0x3FFF, +0x4000)\<close> of the memory collaborator's flash, without
  going through \<^verbatim>\<open>memory_write_byte\<close>.
\<close>

definition flash_erase :: "cpu_state \<Rightarrow> cpu_state" where
  "flash_erase s =
     s\<lparr>memory := (\<lambda>a. if a - (r_HL s AND NOT 0x3FFF) < 0x4000 then 0xFF else memory s a)\<rparr>"

definition exec_ed_x3 :: "byte \<Rightarrow> cpu_state \<Rightarrow> cpu_state" where
  "exec_ed_x3 opc s =
     (if opc = 0xC2 then exec_inrx inc_HL s \<comment> \<open>INIRX\<close>
      else if opc = 0xC3 then exec_otrx inc_HL s \<comment> \<open>OTIRX\<close>
      else if opc = 0xC7 then \<comment> \<open>LD I, HL\<close>
        (let s1 = add_cycles 2 s in s1\<lparr>r_I := ucast (r_HL s1 AND 0xFFFF)\<rparr>)
      else if opc = 0xD7 then \<comment> \<open>LD HL, I\<close>
        (let s1 = add_cycles 2 s
         in s1\<lparr>r_HL := ucast (r_I s1) OR push_bit 16 (ucast (r_MBASE s1))\<rparr>)
      else if opc = 0xCA then exec_inrx dec_HL s \<comment> \<open>INDRX\<close>
      else if opc = 0xCB then exec_otrx dec_HL s \<comment> \<open>OTDRX\<close>
      else if opc = 0xEE then flash_erase s \<comment> \<open>flash erase\<close>
      else opcode_trap s)"

definition exec_ed :: "cpu_state \<Rightarrow> cpu_state option" where
  "exec_ed s =
     (let s1 = (add_cycles 1 s)\<lparr>cpu_PREFIX := 0\<rparr>;
          (opc, s2) = cpu_fetch_byte s1;
          x = ctx_x opc
      in if x = 0 then exec_ed_x0 opc s2
         else if x = 1 then exec_ed_x1 opc s2
         else if x = 2 then
           (if ctx_z opc \<le> 4 then Some (cpu_execute_bli (ctx_y opc) (ctx_z opc) s2)
            else Some (opcode_trap s2))
         else if x = 3 then Some (exec_ed_x3 opc s2)
         else Some (opcode_trap s2))"

subsection \<open>Unprefixed opcodes, x = 3\<close>

definition exec_x3_z0 :: "nat \<Rightarrow> cpu_state \<Rightarrow> cpu_state option" where
  "exec_x3_z0 y s = \<comment> \<open>RET cc[y]\<close>
     (let s1 = add_cycles 2 s
      in case cpu_read_cc y s1 of
           None \<Rightarrow> None
         | Some cc \<Rightarrow> if cc then Some (cpu_return (add_cycles 5 s1)) else Some s1)"

definition exec_x3_z1 :: "nat \<Rightarrow> nat \<Rightarrow> cpu_state \<Rightarrow> cpu_state option" where
  "exec_x3_z1 p q s =
     (if q = 0 then \<comment> \<open>POP rp2[p]\<close>
        (let (w, s1) = cpu_pop_word (add_cycles 4 s) in cpu_write_rp2 p w s1)
      else if p = 0 then \<comment> \<open>RET\<close>
        Some (cpu_return (add_cycles 7 s))
      else if p = 1 then \<comment> \<open>EXX\<close>
        Some (exx (add_cycles 1 s))
      else if p = 2 then \<comment> \<open>JP (rr)\<close>
        Some (let s1 = add_cycles 3 s in cpu_prefetch (cpu_read_index s1) (cpu_L s1) s1)
      else \<comment> \<open>LD SP, HL\<close>
        Some (let s1 = add_cycles 1 s in cpu_write_sp (cpu_read_index s1) s1))"

definition exec_x3_z2 :: "nat \<Rightarrow> cpu_state \<Rightarrow> cpu_state option" where
  "exec_x3_z2 y s = \<comment> \<open>JP cc[y], nn\<close>
     (case cpu_read_cc y s of
        None \<Rightarrow> None
      | Some cc \<Rightarrow>
          if cc
          then let (a, s1) = cpu_fetch_word_no_prefetch (add_cycles 5 s)
               in Some (cpu_prefetch a (cpu_L s1) s1)
          else let (a, s1) = cpu_fetch_word (add_cycles 4 s) in Some s1)"

definition exec_EI :: "cpu_state \<Rightarrow> cpu_state" where
  "exec_EI s =
     (let s1 = s\<lparr>cpu_IEF_wait := True\<rparr>;
          s2 = s1\<lparr>cycle_count_delta := cycle_count_delta s1 + cpu_cycles s1\<rparr>;
          s3 = s2\<lparr>cycle_offset := cycle_count_delta s2 + 1\<rparr>
      in s3\<lparr>cycle_count_delta := - 1\<rparr>)"

definition exec_x3_z3 :: "nat \<Rightarrow> cpu_state \<Rightarrow> flow" where
  "exec_x3_z3 y s =
     (if y = 0 then \<comment> \<open>JP nn\<close>
        (let (a, s1) = cpu_fetch_word_no_prefetch (add_cycles 5 s)
         in Done (cpu_prefetch a (cpu_L s1) s1))
      else if y = 1 then \<comment> \<open>0xCB prefixed opcodes\<close>
        done_opt (exec_cb s)
      else if y = 2 then \<comment> \<open>OUT (n), A\<close>
        (let (n, s1) = cpu_fetch_byte (add_cycles 3 s)
         in Done (cpu_write_out (push_bit 8 (ucast (r_A s1)) OR ucast n) (r_A s1) s1))
      else if y = 3 then \<comment> \<open>IN A, (n)\<close>
        (let (n, s1) = cpu_fetch_byte (add_cycles 3 s)
         in Done (s1\<lparr>r_A := cpu_read_in (push_bit 8 (ucast (r_A s1)) OR ucast n) s1\<rparr>))
      else if y = 4 then \<comment> \<open>EX (SP), HL/I\<close>
        (let s1 = add_cycles 7 s;
             w = cpu_read_sp s1;
             old_word = cpu_read_word w s1;
             new_word = cpu_read_index s1;
             s2 = cpu_write_index old_word s1
         in Done (cpu_write_word w new_word s2))
      else if y = 5 then \<comment> \<open>EX DE, HL\<close>
        (let s1 = add_cycles 1 s in Done (s1\<lparr>r_HL := r_DE s1, r_DE := r_HL s1\<rparr>))
      else if y = 6 then \<comment> \<open>DI\<close>
        Done ((add_cycles 1 s)\<lparr>cpu_IEF1 := False, cpu_IEF2 := False\<rparr>)
      else \<comment> \<open>EI\<close>
        Continue (exec_EI s))"

definition exec_x3_z4 :: "nat \<Rightarrow> cpu_state \<Rightarrow> cpu_state option" where
  "exec_x3_z4 y s = \<comment> \<open>CALL cc[y], nn\<close>
     (case cpu_read_cc y s of
        None \<Rightarrow> None
      | Some cc \<Rightarrow>
          if cc
          then let (a, s1) = cpu_fetch_word_no_prefetch (add_cycles 7 s)
               in Some (cpu_call a (cpu_SUFFIX s1) s1)
          else let (a, s1) = cpu_fetch_word (add_cycles 4 s) in Some s1)"

definition exec_x3_z5 :: "nat \<Rightarrow> nat \<Rightarrow> cpu_state \<Rightarrow> flow" where
  "exec_x3_z5 p q s =
     (if q = 0 then \<comment> \<open>PUSH r2p[p]\<close>
        (let s1 = add_cycles 4 s
         in case cpu_read_rp2 p s1 of
              None \<Rightarrow> Abort
            | Some v \<Rightarrow> Done (cpu_push_word v s1))
      else if p = 0 then \<comment> \<open>CALL nn\<close>
        (let (a, s1) = cpu_fetch_word_no_prefetch (add_cycles 7 s)
         in Done (cpu_call a (cpu_SUFFIX s1) s1))
      else if p = 1 then \<comment> \<open>0xDD prefixed opcodes\<close>
        ExitLoop ((add_cycles 1 s)\<lparr>cpu_PREFIX := 2\<rparr>)
      else if p = 2 then \<comment> \<open>0xED prefixed opcodes\<close>
        done_opt (exec_ed s)
      else \<comment> \<open>0xFD prefixed opcodes\<close>
        ExitLoop ((add_cycles 1 s)\<lparr>cpu_PREFIX := 3\<rparr>))"

definition exec_x3 :: "byte \<Rightarrow> cpu_state \<Rightarrow> flow" where
  "exec_x3 opc s =
     (let y = ctx_y opc; z = ctx_z opc; p = ctx_p opc; q = ctx_q opc
      in if z = 0 then done_opt (exec_x3_z0 y s)
         else if z = 1 then done_opt (exec_x3_z1 p q s)
         else if z = 2 then done_opt (exec_x3_z2 y s)
         else if z = 3 then exec_x3_z3 y s
         else if z = 4 then done_opt (exec_x3_z4 y s)
         else if z = 5 then exec_x3_z5 p q s
         else if z = 6 then \<comment> \<open>alu[y] n\<close>
           (let (n, s1) = cpu_fetch_byte s in Done (cpu_execute_alu y n s1))
         else \<comment> \<open>RST y*8\<close>
           (let s1 = add_cycles 1 s
            in Done (cpu_call (push_bit 3 (of_nat y)) (cpu_SUFFIX s1) s1)))"

text \<open>The \<^verbatim>\<open>switch (context.x)\<close> of \<^verbatim>\<open>cpu_execute\<close>.\<close>

definition exec_opcode :: "byte \<Rightarrow> cpu_state \<Rightarrow> flow" where
  "exec_opcode opc s =
     (let x = ctx_x opc
      in if x = 0 then done_opt (exec_x0 opc s)
         else if x = 1 then exec_x1 opc s
         else if x = 2 then exec_x2 opc s
         else exec_x3 opc s)"

subsection \<open>The event loop\<close>

definition EVENT_DEBUG_STEP :: u32 where "EVENT_DEBUG_STEP = 2"

text \<open>The cycle accounting at the label \<^verbatim>\<open>exit_loop\<close>.\<close>

definition exit_loop :: "cpu_state \<Rightarrow> cpu_state" where
  "exit_loop s =
     (let s1 = s\<lparr>cycle_count_delta := cycle_count_delta s + cpu_cycles s\<rparr>
      in if cpu_cycles s1 = 0 then s1\<lparr>cycle_count_delta := cycle_count_delta s1 + 1\<rparr>
         else s1)"

text \<open>
  One pass through the body of the inner \<^verbatim>\<open>while\<close> loop: the loop goes on to test its
  condition again (\<open>Iterate\<close>), is left by the \<^verbatim>\<open>break\<close> of a pending debug step
  (\<open>LoopBreak\<close>), or the process was aborted.
\<close>

datatype step = Iterate cpu_state | LoopBreak cpu_state | Aborted

definition fetch_opcode :: "cpu_state \<Rightarrow> byte \<times> cpu_state" where
  "fetch_opcode s =
     (let (opc, s1) = cpu_fetch_byte (s\<lparr>cpu_cycles := 0\<rparr>)
      in (opc, s1\<lparr>r_R := ((r_R s1 + 1) AND 0x7F) OR (r_R s1 AND 0x80)\<rparr>))"

definition cpu_execute_body :: "cpu_state \<Rightarrow> step" where
  "cpu_execute_body s =
     (let (opc, s1) = fetch_opcode s
      in case exec_opcode opc s1 of
           Abort \<Rightarrow> Aborted
         | Continue t \<Rightarrow> Iterate t
         | ExitLoop t \<Rightarrow> Iterate (exit_loop t)
         | Done t \<Rightarrow>
             let t1 = cpu_get_cntrl_data_blocks_format t
             in if cpu_events t1 AND EVENT_DEBUG_STEP \<noteq> 0
                then LoopBreak (t1\<lparr>cycle_count_delta := 0\<rparr>)
                else Iterate (exit_loop t1))"

text \<open>
  The result of a loop that returns: the state it returns with, or the aborted process.
  A loop that runs forever has no result (\<open>None\<close>).
\<close>

datatype result = Returned cpu_state | Died

definition inner_cond :: "cpu_state \<Rightarrow> bool" where
  "inner_cond s =
     (\<not> exiting s \<and> (cpu_PREFIX s \<noteq> 0 \<or> cpu_SUFFIX s \<or> cycle_count_delta s < 0))"

partial_function (option) inner_loop :: "cpu_state \<Rightarrow> result option" where
  "inner_loop s =
     (if inner_cond s
      then (case cpu_execute_body s of
              Iterate t \<Rightarrow> inner_loop t
            | LoopBreak t \<Rightarrow> Some (Returned t)
            | Aborted \<Rightarrow> Some Died)
      else Some (Returned s))"

text \<open>
  The head of the outer loop: the delayed enable of EI, and the recognition of a
  pending interrupt.  \<^verbatim>\<open>r->I << 8 | ~r->R\<close> is evaluated in \<^verbatim>\<open>int\<close>: both operands are
  promoted before \<^verbatim>\<open>~\<close> and \<^verbatim>\<open>|\<close> apply, and the result is converted to the
  \<^verbatim>\<open>uint32_t\<close> parameter of \<^verbatim>\<open>cpu_read_word\<close>.
\<close>

definition im3_vector_address :: "cpu_state \<Rightarrow> u32" where
  "im3_vector_address s = push_bit 8 (ucast (r_I s)) OR NOT (ucast (r_R s))"

definition interrupt_check :: "cpu_state \<Rightarrow> cpu_state" where
  "interrupt_check s =
     (let s1 = (if cpu_IEF_wait s
                then s\<lparr>cpu_IEF_wait := False, cpu_IEF1 := True, cpu_IEF2 := True\<rparr>
                else s)
      in if cpu_IEF1 s1 \<and> intrpt_pending s1 then
           let s2 = s1\<lparr>cpu_IEF1 := False, cpu_IEF2 := False, cpu_halted := False\<rparr>;
               s3 = s2\<lparr>cycle_count_delta := cycle_count_delta s2 + 1\<rparr>
           in if cpu_IM s3 \<noteq> 3 then cpu_call 0x38 (cpu_MADL s3) s3
              else
                let s4 = s3\<lparr>cycle_count_delta := cycle_count_delta s3 + 1\<rparr>;
                    s5 = cpu_call (cpu_read_word (im3_vector_address s4) s4) (cpu_MADL s4) s4
                in s5\<lparr>cycle_count_delta := cycle_count_delta s5 + cpu_cycles s5\<rparr>
         else if cpu_halted s1 then s1\<lparr>cycle_count_delta := 0\<rparr>
         else s1)"

partial_function (option) cpu_execute :: "cpu_state \<Rightarrow> result option" where
  "cpu_execute s =
     (if \<not> exiting s \<and> cycle_count_delta s < 0
      then Option.bind (inner_loop (interrupt_check (s\<lparr>cycle_offset := 0\<rparr>)))
             (\<lambda>r. case r of
                     Returned t \<Rightarrow>
                       cpu_execute (t\<lparr>cycle_count_delta := cycle_count_delta t + cycle_offset t\<rparr>)
                   | Died \<Rightarrow> Some Died)
      else Some (Returned s))"

subsection \<open>Initialisation\<close>

definition cpu_flush :: "u32 \<Rightarrow> bool \<Rightarrow> cpu_state \<Rightarrow> cpu_state" where
  "cpu_flush address mode s = cpu_get_cntrl_data_blocks_format (cpu_prefetch address mode s)"

definition zero_registers :: "cpu_state \<Rightarrow> cpu_state" where
  "zero_registers s =
     s\<lparr>r_A := 0, r_F := 0, r_BC := 0, r_DE := 0, r_HL := 0, r_HL' := 0, r_IX := 0,
       r_IY := 0, r_AF' := 0, r_BC' := 0, r_DE' := 0, r_SPS := 0, r_SPL := 0, r_PC := 0,
       r_I := 0, r_R := 0, r_MBASE := 0\<rparr>"

definition cpu_init :: "cpu_state \<Rightarrow> cpu_state" where
  "cpu_init s =
     (zero_registers s)\<lparr>cpu_prefetch_byte := 0, cpu_PREFIX := 0, cpu_SUFFIX := False,
       cpu_L := False, cpu_IL := False, cpu_ADL := False, cpu_MADL := False,
       cpu_IEF1 := False, cpu_IEF2 := False, cpu_IEF_wait := False, cpu_IM := 0,
       cpu_halted := False, cpu_cycles := 0\<rparr>"

definition cpu_reset :: "cpu_state \<Rightarrow> cpu_state" where
  "cpu_reset s =
     cpu_flush 0 False
       ((zero_registers s)\<lparr>cpu_IEF1 := False, cpu_IEF2 := False, cpu_ADL := False,
          cpu_MADL := False, cpu_IM := 0, cpu_IEF_wait := False, cpu_halted := False\<rparr>)"

section \<open>Concrete machine states for the closed examples\<close>

text \<open>
  A machine whose CPU was zeroed by \<^verbatim>\<open>cpu_init\<close> (\<^verbatim>\<open>memset(&cpu, 0, sizeof cpu)\<close>),
  over an all-zero memory, with no debug event and no interrupt pending.
\<close>

definition blank_state :: cpu_state where
  "blank_state =
     \<lparr>r_A = 0, r_F = 0, r_BC = 0, r_DE = 0, r_HL = 0, r_HL' = 0, r_IX = 0, r_IY = 0,
      r_AF' = 0, r_BC' = 0, r_DE' = 0, r_SPS = 0, r_SPL = 0, r_PC = 0, r_I = 0, r_R = 0,
      r_MBASE = 0, cpu_prefetch_byte = 0, cpu_PREFIX = 0, cpu_SUFFIX = False, cpu_L = False,
      cpu_IL = False, cpu_ADL = False, cpu_MADL = False, cpu_IEF1 = False, cpu_IEF2 = False,
      cpu_IEF_wait = False, cpu_IM = 0, cpu_halted = False, cpu_cycles = 0,
      cycle_count_delta = 0, cycle_offset = 0, cpu_events = 0, exiting = False,
      memory = (\<lambda>_. 0), mem_writes = [], port_in = (\<lambda>_. 0), port_writes = [],
      intrpt_pending = False\<rparr>"

text \<open>
  A mixed-mode return: SPL = \<^verbatim>\<open>0x100\<close> holds the mode byte 1 and then \<^verbatim>\<open>34 12 00\<close>,
  SPS = \<^verbatim>\<open>0x200\<close> holds \<^verbatim>\<open>78 56\<close>; the current ADL is the parameter.
\<close>

definition ret_state :: "bool \<Rightarrow> cpu_state" where
  "ret_state adl =
     blank_state\<lparr>r_SPL := 0x100, r_SPS := 0x200, cpu_SUFFIX := True, cpu_L := True,
                  cpu_ADL := adl,
                  memory := (\<lambda>_. 0)(0x100 := 0x01, 0x101 := 0x34, 0x102 := 0x12,
                                       0x200 := 0x78, 0x201 := 0x56)\<rparr>"


text \<open>
  Two-byte programs at address 0, with the first byte already in the prefetch latch and
  a budget of ten cycles: \<^verbatim>\<open>ED 44\<close> (NEG), \<^verbatim>\<open>ED 30\<close> (an opcode trap), \<^verbatim>\<open>ED 6D\<close>
  (LD MB,A, with A = \<^verbatim>\<open>0x55\<close> and MBASE = \<^verbatim>\<open>0x11\<close>, in Z80 mode), and \<^verbatim>\<open>DD 00\<close>.
\<close>

definition program2 :: "byte \<Rightarrow> byte \<Rightarrow> cpu_state" where
  "program2 b0 b1 =
     blank_state\<lparr>cpu_prefetch_byte := b0, memory := (\<lambda>_. 0)(0 := b0, 1 := b1),
                  cycle_count_delta := - 10\<rparr>"

definition trap_state :: cpu_state where "trap_state = program2 0xED 0x30"
definition ld_mb_state :: cpu_state where
  "ld_mb_state = (program2 0xED 0x6D)\<lparr>r_A := 0x55, r_MBASE := 0x11,
      memory := (\<lambda>_. 0)(0x110000 := 0xED, 0x110001 := 0x6D), r_PC := 0x110000\<rparr>"
definition dd_state :: cpu_state where "dd_state = program2 0xDD 0x00"

text \<open>
  The trap \<^verbatim>\<open>ED 30\<close> with a debug step pending; the indexed rotate \<^verbatim>\<open>DD CB 00 36\<close>,
  whose CB opcode \<^verbatim>\<open>36\<close> is the rot entry \<open>y = 6\<close>; and \<^verbatim>\<open>ED 80\<close>, a second byte of the
  block-instruction range for which \<^verbatim>\<open>cpu_execute_bli\<close> has no case.
\<close>

definition step_trap_state :: cpu_state where
  "step_trap_state = trap_state\<lparr>cpu_events := EVENT_DEBUG_STEP\<rparr>"

definition index_trap_state :: cpu_state where
  "index_trap_state =
     blank_state\<lparr>cpu_prefetch_byte := 0xDD,
                  memory := (\<lambda>_. 0)(0 := 0xDD, 1 := 0xCB, 2 := 0x00, 3 := 0x36),
                  cycle_count_delta := - 10\<rparr>"

definition ed_80_state :: cpu_state where "ed_80_state = program2 0xED 0x80"

text \<open>
  EI at address 0, followed by NOP or by a second EI, with an interrupt pending; the
  states that the EI pass leaves behind when NOP, or the prefix byte DD, follows.
\<close>

definition ei_state :: cpu_state where
  "ei_state = (program2 0xFB 0x00)\<lparr>intrpt_pending := True\<rparr>"

definition ei_ei_state :: cpu_state where
  "ei_ei_state = (program2 0xFB 0xFB)\<lparr>intrpt_pending := True\<rparr>"

definition after_ei_state :: cpu_state where
  "after_ei_state = exec_EI (snd (fetch_opcode ei_state))"

definition after_ei_dd_state :: cpu_state where
  "after_ei_dd_state = exec_EI (snd (fetch_opcode (program2 0xFB 0xDD)))"

text \<open>The state that EI and the NOP after it leave behind: PC = 2, budget 0.\<close>

definition after_ei_nop_state :: cpu_state where
  "after_ei_nop_state =
     ei_state\<lparr>r_PC := 2, cpu_prefetch_byte := 0, r_R := 2, cpu_cycles := 1,
               cpu_IEF_wait := True, cycle_offset := - 9, cycle_count_delta := 0\<rparr>"

text \<open>
  A Z80-mode machine in interrupt mode 3 with I = \<^verbatim>\<open>0x12\<close>, R = 0, interrupts enabled and
  a request pending; the word \<^verbatim>\<open>0x1234\<close> is stored at \<^verbatim>\<open>0x12FF\<close>, the bytes \<^verbatim>\<open>78\<close> and
  \<^verbatim>\<open>56\<close> at \<^verbatim>\<open>0xFFFF\<close> and \<^verbatim>\<open>0x0000\<close>.
\<close>

definition im3_state :: cpu_state where
  "im3_state =
     blank_state\<lparr>r_I := 0x12, r_R := 0, cpu_IM := 3, cpu_IEF1 := True,
                  intrpt_pending := True, cycle_count_delta := - 10,
                  memory := (\<lambda>_. 0)(0x12FF := 0x34, 0x1300 := 0x12,
                                       0xFFFF := 0x78, 0x0000 := 0x56)\<rparr>"

text \<open>EI behind the suffix \<^verbatim>\<open>.LIL\<close> (\<^verbatim>\<open>5B FB\<close>) and behind the prefix DD (\<^verbatim>\<open>DD FB\<close>).\<close>

definition lil_ei_state :: cpu_state where "lil_ei_state = program2 0x5B 0xFB"
definition dd_ei_state :: cpu_state where "dd_ei_state = program2 0xDD 0xFB"

section \<open>The statements of the specification\<close>

subsection \<open>DAA\<close>

text \<open>
  The correction of DAA in the specification's words, on natural numbers: 6 when the low
  nibble of A is above 9 or H is set, plus \<^verbatim>\<open>0x60\<close> when \<^verbatim>\<open>(A + v) >> 4 > 9\<close> or the
  eight-bit sum carries out.  \<open>daa_claimed\<close> has no other condition; \<open>daa_adjust\<close> adds
  the incoming carry flag to the second condition.
\<close>

definition daa_claimed :: "byte \<Rightarrow> bool \<Rightarrow> nat" where
  "daa_claimed a h =
     (let v = (if unat a mod 16 > 9 \<or> h then 6 else 0)
      in v + (if (unat a + v) div 16 > 9 \<or> unat a + v > 255 then 96 else 0))"

definition daa_adjust :: "byte \<Rightarrow> bool \<Rightarrow> bool \<Rightarrow> nat" where
  "daa_adjust a h c =
     (let v = (if unat a mod 16 > 9 \<or> h then 6 else 0)
      in v + (if (unat a + v) div 16 > 9 \<or> unat a + v > 255 \<or> c then 96 else 0))"

subsection \<open>Mixed-mode calls\<close>

text \<open>The byte \<^verbatim>\<open>(MADL << 1) | ADL\<close> that a mixed-mode call pushes last.\<close>

definition mode_byte :: "bool \<Rightarrow> bool \<Rightarrow> byte" where
  "mode_byte madl adl = (if madl then 2 else 0) + (if adl then 1 else 0)"

subsection \<open>Repeating block instructions\<close>

text \<open>
  What a pass of a repeating block instruction, from \<open>s\<close> to \<open>t\<close>, does to the fetch
  engine: it has issued \<^verbatim>\<open>prefetch(PC - 2 - SUFFIX, ADL)\<close>, or it has left PC and the
  prefetch byte alone.
\<close>

definition reprefetched :: "cpu_state \<Rightarrow> cpu_state \<Rightarrow> bool" where
  "reprefetched s t =
     (r_PC t = cpu_address_mode (r_PC s - 2 - of_bool (cpu_SUFFIX s)) (cpu_ADL s) s
      \<and> cpu_prefetch_byte t = memory t (r_PC t) \<and> cpu_ADL t = cpu_ADL s)"

definition falls_through :: "cpu_state \<Rightarrow> cpu_state \<Rightarrow> bool" where
  "falls_through s t =
     (r_PC t = r_PC s \<and> cpu_prefetch_byte t = cpu_prefetch_byte s \<and> cpu_ADL t = cpu_ADL s)"

definition repeats_iff :: "bool \<Rightarrow> cpu_state \<Rightarrow> cpu_state \<Rightarrow> bool" where
  "repeats_iff c s t = (if c then reprefetched s t else falls_through s t)"

subsection \<open>Opcode traps\<close>

text \<open>The address of the byte after \<open>pc\<close>, as \<^verbatim>\<open>cpu_fetch_byte\<close> advances to it.\<close>

definition next_pc :: "cpu_state \<Rightarrow> u32 \<Rightarrow> u32" where
  "next_pc s pc = cpu_address_mode (pc + 1) (cpu_ADL s) s"

text \<open>
  The encodings that reach an \<^verbatim>\<open>OPCODETRAP\<close> case of the decoder: second bytes of the
  ED table, and the rot entry \<open>y = 6\<close> of the CB table.
\<close>

definition ed_trap :: "byte \<Rightarrow> bool" where
  "ed_trap b =
     (let x = ctx_x b; y = ctx_y b; z = ctx_z b; q = ctx_q b
      in if x = 0 then (z = 0 \<and> y = 6) \<or> ((z = 2 \<or> z = 3) \<and> q \<noteq> 0) \<or> z = 5 \<or> (z = 6 \<and> y \<noteq> 7)
         else if x = 1 then (z = 0 \<and> y = 6) \<or> (z = 1 \<and> y = 6) \<or> (z = 5 \<and> (y = 3 \<or> y = 6))
                            \<or> (z = 6 \<and> y = 1) \<or> (z = 7 \<and> y \<ge> 6)
         else if x = 2 then z > 4
         else b \<noteq> 0xC2 \<and> b \<noteq> 0xC3 \<and> b \<noteq> 0xC7 \<and> b \<noteq> 0xD7 \<and> b \<noteq> 0xCA \<and> b \<noteq> 0xCB
              \<and> b \<noteq> 0xEE)"

definition cb_trap :: "byte \<Rightarrow> bool" where
  "cb_trap b = (ctx_x b = 0 \<and> ctx_y b = 6)"

text \<open>
  \<open>trap_shape s\<close> is defined when the bytes at PC are a trapping encoding: it gives the
  address after the encoding and the cycles that the decoder adds to \<^verbatim>\<open>cpu.cycles\<close> (one
  for the ED byte, none for CB).  After a DD or FD prefix byte the CB opcode follows the
  displacement.  \<open>after_trap\<close> is the state the trap leaves at the instruction boundary.
\<close>

definition trap_shape :: "cpu_state \<Rightarrow> (u32 \<times> int) option" where
  "trap_shape s =
     (let pc1 = next_pc s (r_PC s); pc2 = next_pc s pc1; pc3 = next_pc s pc2
      in if cpu_prefetch_byte s = 0xED
         then (if ed_trap (memory s pc1) then Some (pc2, 1) else None)
         else if cpu_prefetch_byte s = 0xCB
         then (if cpu_PREFIX s = 0
               then (if cb_trap (memory s pc1) then Some (pc2, 0) else None)
               else (if cb_trap (memory s pc2) then Some (pc3, 0) else None))
         else None)"

definition after_trap :: "u32 \<Rightarrow> int \<Rightarrow> cpu_state \<Rightarrow> cpu_state" where
  "after_trap pc c s =
     s\<lparr>r_R := ((r_R s + 1) AND 0x7F) OR (r_R s AND 0x80), r_PC := pc,
       cpu_prefetch_byte := memory s pc, cpu_IEF_wait := True, cpu_cycles := c,
       cpu_PREFIX := 0, cpu_SUFFIX := False, cpu_L := cpu_ADL s, cpu_IL := cpu_ADL s\<rparr>"


subsection \<open>LD MB,A\<close>

definition after_ld_mb_a :: "cpu_state \<Rightarrow> cpu_state" where
  "after_ld_mb_a s =
     s\<lparr>r_MBASE := (if cpu_ADL s then r_A s else r_MBASE s),
       r_R := ((r_R s + 1) AND 0x7F) OR (r_R s AND 0x80),
       r_PC := next_pc s (next_pc s (r_PC s)),
       cpu_prefetch_byte := memory s (next_pc s (next_pc s (r_PC s))),
       cpu_cycles := 1 + 2,
       cpu_PREFIX := 0, cpu_SUFFIX := False, cpu_L := cpu_ADL s, cpu_IL := cpu_ADL s\<rparr>"

subsection \<open>The refresh register\<close>

text \<open>The bytes that only set PREFIX or SUFFIX: the four suffixes, DD and FD.\<close>

definition is_prefix_byte :: "byte \<Rightarrow> bool" where
  "is_prefix_byte b = (b = 0x40 \<or> b = 0x49 \<or> b = 0x52 \<or> b = 0x5B \<or> b = 0xDD \<or> b = 0xFD)"

subsection \<open>What a pass through the decoder keeps\<close>

text \<open>
  \<open>pass_kept s t\<close>: from \<open>s\<close> to \<open>t\<close> the cycle budget, the saved offset, the exit
  flag, the interrupt request and the event flags are unchanged, \<^verbatim>\<open>cpu.cycles\<close> has not
  decreased and \<^verbatim>\<open>IEF_wait\<close> has not been cleared.
\<close>

definition pass_kept :: "cpu_state \<Rightarrow> cpu_state \<Rightarrow> bool" where
  "pass_kept s t \<longleftrightarrow>
     cycle_count_delta t = cycle_count_delta s \<and> cycle_offset t = cycle_offset s
     \<and> exiting t = exiting s \<and> intrpt_pending t = intrpt_pending s
     \<and> cpu_events t = cpu_events s \<and> cpu_cycles s \<le> cpu_cycles t
     \<and> (cpu_IEF_wait s \<longrightarrow> cpu_IEF_wait t)"

subsection \<open>The delay of EI\<close>

text \<open>
  \<open>ei_window u\<close>: the decode loop is running in \<open>u\<close> between an EI and the end of the
  instruction after it.  \<^verbatim>\<open>IEF_wait\<close> is set and the loop condition holds although the
  budget is not below \<open>-1\<close>: either the budget is the \<open>-1\<close> that EI left, or prefix
  bytes of the following instruction have been decoded.
\<close>

definition ei_window :: "cpu_state \<Rightarrow> bool" where
  "ei_window u \<longleftrightarrow>
     \<not> exiting u \<and> cpu_IEF_wait u \<and> - 1 \<le> cycle_count_delta u \<and> inner_cond u"

subsection \<open>The vector of interrupt mode 3\<close>

text \<open>
  The address that the specification gives for the mode 3 vector,
  \<^verbatim>\<open>(I << 8) | (~R & 0xFF)\<close>; the code's address is \<open>im3_vector_address\<close>.
\<close>

definition im3_vector_claimed :: "cpu_state \<Rightarrow> u32" where
  "im3_vector_claimed s = push_bit 8 (ucast (r_I s)) OR ucast (NOT (r_R s))"

section \<open>Word arithmetic\<close>

lemma ucast_down_diff: "(ucast ((a::u32) - b) :: u16) = ucast a - ucast b"
proof -
  have "uint (ucast (a - b) :: u16) = take_bit 16 (uint a - uint b)"
    by (simp add: unsigned_ucast_eq uint_word_ariths take_bit_eq_mod mod_mod_cancel)
  moreover have "uint (ucast a - ucast b :: u16) = take_bit 16 (uint a - uint b)"
    by (simp add: unsigned_ucast_eq uint_word_ariths take_bit_eq_mod mod_diff_eq)
  ultimately show ?thesis by (simp add: word_eq_iff_unsigned[where ?'a = int])
qed

lemma ucast_down_add: "(ucast ((a::u32) + b) :: u16) = ucast a + ucast b"
proof -
  have "uint (ucast (a + b) :: u16) = take_bit 16 (uint a + uint b)"
    by (simp add: unsigned_ucast_eq uint_word_ariths take_bit_eq_mod mod_mod_cancel)
  moreover have "uint (ucast a + ucast b :: u16) = take_bit 16 (uint a + uint b)"
    by (simp add: unsigned_ucast_eq uint_word_ariths take_bit_eq_mod mod_add_eq)
  ultimately show ?thesis by (simp add: word_eq_iff_unsigned[where ?'a = int])
qed

lemma ucast_up_down: "(ucast (ucast (x::u16) :: u32) :: u16) = x"
  by (simp add: ucast_up_ucast_id is_up)

section \<open>Frame lemmas: the fields an operation leaves alone\<close>

text \<open>The derived views of the state depend on few fields.\<close>

lemma cpu_address_mode_upd [simp]:
  "cpu_address_mode a' m' (s\<lparr>r_A := x0\<rparr>) = cpu_address_mode a' m' s"
  "cpu_address_mode a' m' (s\<lparr>r_F := x1\<rparr>) = cpu_address_mode a' m' s"
  "cpu_address_mode a' m' (s\<lparr>r_BC := x2\<rparr>) = cpu_address_mode a' m' s"
  "cpu_address_mode a' m' (s\<lparr>r_DE := x3\<rparr>) = cpu_address_mode a' m' s"
  "cpu_address_mode a' m' (s\<lparr>r_HL := x4\<rparr>) = cpu_address_mode a' m' s"
  "cpu_address_mode a' m' (s\<lparr>r_HL' := x5\<rparr>) = cpu_address_mode a' m' s"
  "cpu_address_mode a' m' (s\<lparr>r_IX := x6\<rparr>) = cpu_address_mode a' m' s"
  "cpu_address_mode a' m' (s\<lparr>r_IY := x7\<rparr>) = cpu_address_mode a' m' s"
  "cpu_address_mode a' m' (s\<lparr>r_AF' := x8\<rparr>) = cpu_address_mode a' m' s"
  "cpu_address_mode a' m' (s\<lparr>r_BC' := x9\<rparr>) = cpu_address_mode a' m' s"
  "cpu_address_mode a' m' (s\<lparr>r_DE' := x10\<rparr>) = cpu_address_mode a' m' s"
  "cpu_address_mode a' m' (s\<lparr>r_SPS := x11\<rparr>) = cpu_address_mode a' m' s"
  "cpu_address_mode a' m' (s\<lparr>r_SPL := x12\<rparr>) = cpu_address_mode a' m' s"
  "cpu_address_mode a' m' (s\<lparr>r_PC := x13\<rparr>) = cpu_address_mode a' m' s"
  "cpu_address_mode a' m' (s\<lparr>r_I := x14\<rparr>) = cpu_address_mode a' m' s"
  "cpu_address_mode a' m' (s\<lparr>r_R := x15\<rparr>) = cpu_address_mode a' m' s"
  "cpu_address_mode a' m' (s\<lparr>cpu_prefetch_byte := x17\<rparr>) = cpu_address_mode a' m' s"
  "cpu_address_mode a' m' (s\<lparr>cpu_PREFIX := x18\<rparr>) = cpu_address_mode a' m' s"
  "cpu_address_mode a' m' (s\<lparr>cpu_SUFFIX := x19\<rparr>) = cpu_address_mode a' m' s"
  "cpu_address_mode a' m' (s\<lparr>cpu_L := x20\<rparr>) = cpu_address_mode a' m' s"
  "cpu_address_mode a' m' (s\<lparr>cpu_IL := x21\<rparr>) = cpu_address_mode a' m' s"
  "cpu_address_mode a' m' (s\<lparr>cpu_ADL := x22\<rparr>) = cpu_address_mode a' m' s"
  "cpu_address_mode a' m' (s\<lparr>cpu_MADL := x23\<rparr>) = cpu_address_mode a' m' s"
  "cpu_address_mode a' m' (s\<lparr>cpu_IEF1 := x24\<rparr>) = cpu_address_mode a' m' s"
  "cpu_address_mode a' m' (s\<lparr>cpu_IEF2 := x25\<rparr>) = cpu_address_mode a' m' s"
  "cpu_address_mode a' m' (s\<lparr>cpu_IEF_wait := x26\<rparr>) = cpu_address_mode a' m' s"
  "cpu_address_mode a' m' (s\<lparr>cpu_IM := x27\<rparr>) = cpu_address_mode a' m' s"
  "cpu_address_mode a' m' (s\<lparr>cpu_halted := x28\<rparr>) = cpu_address_mode a' m' s"
  "cpu_address_mode a' m' (s\<lparr>cpu_cycles := x29\<rparr>) = cpu_address_mode a' m' s"
  "cpu_address_mode a' m' (s\<lparr>cycle_count_delta := x30\<rparr>) = cpu_address_mode a' m' s"
  "cpu_address_mode a' m' (s\<lparr>cycle_offset := x31\<rparr>) = cpu_address_mode a' m' s"
  "cpu_address_mode a' m' (s\<lparr>cpu_events := x32\<rparr>) = cpu_address_mode a' m' s"
  "cpu_address_mode a' m' (s\<lparr>exiting := x33\<rparr>) = cpu_address_mode a' m' s"
  "cpu_address_mode a' m' (s\<lparr>memory := x34\<rparr>) = cpu_address_mode a' m' s"
  "cpu_address_mode a' m' (s\<lparr>mem_writes := x35\<rparr>) = cpu_address_mode a' m' s"
  "cpu_address_mode a' m' (s\<lparr>port_in := x36\<rparr>) = cpu_address_mode a' m' s"
  "cpu_address_mode a' m' (s\<lparr>port_writes := x37\<rparr>) = cpu_address_mode a' m' s"
  "cpu_address_mode a' m' (s\<lparr>intrpt_pending := x38\<rparr>) = cpu_address_mode a' m' s"
  by (simp_all add: cpu_address_mode_def flags_C_def flags_N_def flags_PV_def flags_H_def flags_Z_def flags_S_def r_B_def r_C_def r_D_def r_E_def r_PCL_def r_PCH_def r_PCU_def r_AF_def stack_hl_def cpu_read_sp_def index_hl_def cpu_read_index_def cpu_read_index_low_def cpu_read_index_high_def cpu_read_other_index_def memory_read_byte_def cpu_read_byte_def cpu_read_word_def cpu_read_in_def port_read_byte_def)

lemma flags_C_upd [simp]:
  "flags_C (s\<lparr>r_A := x0\<rparr>) = flags_C s"
  "flags_C (s\<lparr>r_BC := x2\<rparr>) = flags_C s"
  "flags_C (s\<lparr>r_DE := x3\<rparr>) = flags_C s"
  "flags_C (s\<lparr>r_HL := x4\<rparr>) = flags_C s"
  "flags_C (s\<lparr>r_HL' := x5\<rparr>) = flags_C s"
  "flags_C (s\<lparr>r_IX := x6\<rparr>) = flags_C s"
  "flags_C (s\<lparr>r_IY := x7\<rparr>) = flags_C s"
  "flags_C (s\<lparr>r_AF' := x8\<rparr>) = flags_C s"
  "flags_C (s\<lparr>r_BC' := x9\<rparr>) = flags_C s"
  "flags_C (s\<lparr>r_DE' := x10\<rparr>) = flags_C s"
  "flags_C (s\<lparr>r_SPS := x11\<rparr>) = flags_C s"
  "flags_C (s\<lparr>r_SPL := x12\<rparr>) = flags_C s"
  "flags_C (s\<lparr>r_PC := x13\<rparr>) = flags_C s"
  "flags_C (s\<lparr>r_I := x14\<rparr>) = flags_C s"
  "flags_C (s\<lparr>r_R := x15\<rparr>) = flags_C s"
  "flags_C (s\<lparr>r_MBASE := x16\<rparr>) = flags_C s"
  "flags_C (s\<lparr>cpu_prefetch_byte := x17\<rparr>) = flags_C s"
  "flags_C (s\<lparr>cpu_PREFIX := x18\<rparr>) = flags_C s"
  "flags_C (s\<lparr>cpu_SUFFIX := x19\<rparr>) = flags_C s"
  "flags_C (s\<lparr>cpu_L := x20\<rparr>) = flags_C s"
  "flags_C (s\<lparr>cpu_IL := x21\<rparr>) = flags_C s"
  "flags_C (s\<lparr>cpu_ADL := x22\<rparr>) = flags_C s"
  "flags_C (s\<lparr>cpu_MADL := x23\<rparr>) = flags_C s"
  "flags_C (s\<lparr>cpu_IEF1 := x24\<rparr>) = flags_C s"
  "flags_C (s\<lparr>cpu_IEF2 := x25\<rparr>) = flags_C s"
  "flags_C (s\<lparr>cpu_IEF_wait := x26\<rparr>) = flags_C s"
  "flags_C (s\<lparr>cpu_IM := x27\<rparr>) = flags_C s"
  "flags_C (s\<lparr>cpu_halted := x28\<rparr>) = flags_C s"
  "flags_C (s\<lparr>cpu_cycles := x29\<rparr>) = flags_C s"
  "flags_C (s\<lparr>cycle_count_delta := x30\<rparr>) = flags_C s"
  "flags_C (s\<lparr>cycle_offset := x31\<rparr>) = flags_C s"
  "flags_C (s\<lparr>cpu_events := x32\<rparr>) = flags_C s"
  "flags_C (s\<lparr>exiting := x33\<rparr>) = flags_C s"
  "flags_C (s\<lparr>memory := x34\<rparr>) = flags_C s"
  "flags_C (s\<lparr>mem_writes := x35\<rparr>) = flags_C s"
  "flags_C (s\<lparr>port_in := x36\<rparr>) = flags_C s"
  "flags_C (s\<lparr>port_writes := x37\<rparr>) = flags_C s"
  "flags_C (s\<lparr>intrpt_pending := x38\<rparr>) = flags_C s"
  by (simp_all add: cpu_address_mode_def flags_C_def flags_N_def flags_PV_def flags_H_def flags_Z_def flags_S_def r_B_def r_C_def r_D_def r_E_def r_PCL_def r_PCH_def r_PCU_def r_AF_def stack_hl_def cpu_read_sp_def index_hl_def cpu_read_index_def cpu_read_index_low_def cpu_read_index_high_def cpu_read_other_index_def memory_read_byte_def cpu_read_byte_def cpu_read_word_def cpu_read_in_def port_read_byte_def)

lemma flags_N_upd [simp]:
  "flags_N (s\<lparr>r_A := x0\<rparr>) = flags_N s"
  "flags_N (s\<lparr>r_BC := x2\<rparr>) = flags_N s"
  "flags_N (s\<lparr>r_DE := x3\<rparr>) = flags_N s"
  "flags_N (s\<lparr>r_HL := x4\<rparr>) = flags_N s"
  "flags_N (s\<lparr>r_HL' := x5\<rparr>) = flags_N s"
  "flags_N (s\<lparr>r_IX := x6\<rparr>) = flags_N s"
  "flags_N (s\<lparr>r_IY := x7\<rparr>) = flags_N s"
  "flags_N (s\<lparr>r_AF' := x8\<rparr>) = flags_N s"
  "flags_N (s\<lparr>r_BC' := x9\<rparr>) = flags_N s"
  "flags_N (s\<lparr>r_DE' := x10\<rparr>) = flags_N s"
  "flags_N (s\<lparr>r_SPS := x11\<rparr>) = flags_N s"
  "flags_N (s\<lparr>r_SPL := x12\<rparr>) = flags_N s"
  "flags_N (s\<lparr>r_PC := x13\<rparr>) = flags_N s"
  "flags_N (s\<lparr>r_I := x14\<rparr>) = flags_N s"
  "flags_N (s\<lparr>r_R := x15\<rparr>) = flags_N s"
  "flags_N (s\<lparr>r_MBASE := x16\<rparr>) = flags_N s"
  "flags_N (s\<lparr>cpu_prefetch_byte := x17\<rparr>) = flags_N s"
  "flags_N (s\<lparr>cpu_PREFIX := x18\<rparr>) = flags_N s"
  "flags_N (s\<lparr>cpu_SUFFIX := x19\<rparr>) = flags_N s"
  "flags_N (s\<lparr>cpu_L := x20\<rparr>) = flags_N s"
  "flags_N (s\<lparr>cpu_IL := x21\<rparr>) = flags_N s"
  "flags_N (s\<lparr>cpu_ADL := x22\<rparr>) = flags_N s"
  "flags_N (s\<lparr>cpu_MADL := x23\<rparr>) = flags_N s"
  "flags_N (s\<lparr>cpu_IEF1 := x24\<rparr>) = flags_N s"
  "flags_N (s\<lparr>cpu_IEF2 := x25\<rparr>) = flags_N s"
  "flags_N (s\<lparr>cpu_IEF_wait := x26\<rparr>) = flags_N s"
  "flags_N (s\<lparr>cpu_IM := x27\<rparr>) = flags_N s"
  "flags_N (s\<lparr>cpu_halted := x28\<rparr>) = flags_N s"
  "flags_N (s\<lparr>cpu_cycles := x29\<rparr>) = flags_N s"
  "flags_N (s\<lparr>cycle_count_delta := x30\<rparr>) = flags_N s"
  "flags_N (s\<lparr>cycle_offset := x31\<rparr>) = flags_N s"
  "flags_N (s\<lparr>cpu_events := x32\<rparr>) = flags_N s"
  "flags_N (s\<lparr>exiting := x33\<rparr>) = flags_N s"
  "flags_N (s\<lparr>memory := x34\<rparr>) = flags_N s"
  "flags_N (s\<lparr>mem_writes := x35\<rparr>) = flags_N s"
  "flags_N (s\<lparr>port_in := x36\<rparr>) = flags_N s"
  "flags_N (s\<lparr>port_writes := x37\<rparr>) = flags_N s"
  "flags_N (s\<lparr>intrpt_pending := x38\<rparr>) = flags_N s"
  by (simp_all add: cpu_address_mode_def flags_C_def flags_N_def flags_PV_def flags_H_def flags_Z_def flags_S_def r_B_def r_C_def r_D_def r_E_def r_PCL_def r_PCH_def r_PCU_def r_AF_def stack_hl_def cpu_read_sp_def index_hl_def cpu_read_index_def cpu_read_index_low_def cpu_read_index_high_def cpu_read_other_index_def memory_read_byte_def cpu_read_byte_def cpu_read_word_def cpu_read_in_def port_read_byte_def)

lemma flags_PV_upd [simp]:
  "flags_PV (s\<lparr>r_A := x0\<rparr>) = flags_PV s"
  "flags_PV (s\<lparr>r_BC := x2\<rparr>) = flags_PV s"
  "flags_PV (s\<lparr>r_DE := x3\<rparr>) = flags_PV s"
  "flags_PV (s\<lparr>r_HL := x4\<rparr>) = flags_PV s"
  "flags_PV (s\<lparr>r_HL' := x5\<rparr>) = flags_PV s"
  "flags_PV (s\<lparr>r_IX := x6\<rparr>) = flags_PV s"
  "flags_PV (s\<lparr>r_IY := x7\<rparr>) = flags_PV s"
  "flags_PV (s\<lparr>r_AF' := x8\<rparr>) = flags_PV s"
  "flags_PV (s\<lparr>r_BC' := x9\<rparr>) = flags_PV s"
  "flags_PV (s\<lparr>r_DE' := x10\<rparr>) = flags_PV s"
  "flags_PV (s\<lparr>r_SPS := x11\<rparr>) = flags_PV s"
  "flags_PV (s\<lparr>r_SPL := x12\<rparr>) = flags_PV s"
  "flags_PV (s\<lparr>r_PC := x13\<rparr>) = flags_PV s"
  "flags_PV (s\<lparr>r_I := x14\<rparr>) = flags_PV s"
  "flags_PV (s\<lparr>r_R := x15\<rparr>) = flags_PV s"
  "flags_PV (s\<lparr>r_MBASE := x16\<rparr>) = flags_PV s"
  "flags_PV (s\<lparr>cpu_prefetch_byte := x17\<rparr>) = flags_PV s"
  "flags_PV (s\<lparr>cpu_PREFIX := x18\<rparr>) = flags_PV s"
  "flags_PV (s\<lparr>cpu_SUFFIX := x19\<rparr>) = flags_PV s"
  "flags_PV (s\<lparr>cpu_L := x20\<rparr>) = flags_PV s"
  "flags_PV (s\<lparr>cpu_IL := x21\<rparr>) = flags_PV s"
  "flags_PV (s\<lparr>cpu_ADL := x22\<rparr>) = flags_PV s"
  "flags_PV (s\<lparr>cpu_MADL := x23\<rparr>) = flags_PV s"
  "flags_PV (s\<lparr>cpu_IEF1 := x24\<rparr>) = flags_PV s"
  "flags_PV (s\<lparr>cpu_IEF2 := x25\<rparr>) = flags_PV s"
  "flags_PV (s\<lparr>cpu_IEF_wait := x26\<rparr>) = flags_PV s"
  "flags_PV (s\<lparr>cpu_IM := x27\<rparr>) = flags_PV s"
  "flags_PV (s\<lparr>cpu_halted := x28\<rparr>) = flags_PV s"
  "flags_PV (s\<lparr>cpu_cycles := x29\<rparr>) = flags_PV s"
  "flags_PV (s\<lparr>cycle_count_delta := x30\<rparr>) = flags_PV s"
  "flags_PV (s\<lparr>cycle_offset := x31\<rparr>) = flags_PV s"
  "flags_PV (s\<lparr>cpu_events := x32\<rparr>) = flags_PV s"
  "flags_PV (s\<lparr>exiting := x33\<rparr>) = flags_PV s"
  "flags_PV (s\<lparr>memory := x34\<rparr>) = flags_PV s"
  "flags_PV (s\<lparr>mem_writes := x35\<rparr>) = flags_PV s"
  "flags_PV (s\<lparr>port_in := x36\<rparr>) = flags_PV s"
  "flags_PV (s\<lparr>port_writes := x37\<rparr>) = flags_PV s"
  "flags_PV (s\<lparr>intrpt_pending := x38\<rparr>) = flags_PV s"
  by (simp_all add: cpu_address_mode_def flags_C_def flags_N_def flags_PV_def flags_H_def flags_Z_def flags_S_def r_B_def r_C_def r_D_def r_E_def r_PCL_def r_PCH_def r_PCU_def r_AF_def stack_hl_def cpu_read_sp_def index_hl_def cpu_read_index_def cpu_read_index_low_def cpu_read_index_high_def cpu_read_other_index_def memory_read_byte_def cpu_read_byte_def cpu_read_word_def cpu_read_in_def port_read_byte_def)

lemma flags_H_upd [simp]:
  "flags_H (s\<lparr>r_A := x0\<rparr>) = flags_H s"
  "flags_H (s\<lparr>r_BC := x2\<rparr>) = flags_H s"
  "flags_H (s\<lparr>r_DE := x3\<rparr>) = flags_H s"
  "flags_H (s\<lparr>r_HL := x4\<rparr>) = flags_H s"
  "flags_H (s\<lparr>r_HL' := x5\<rparr>) = flags_H s"
  "flags_H (s\<lparr>r_IX := x6\<rparr>) = flags_H s"
  "flags_H (s\<lparr>r_IY := x7\<rparr>) = flags_H s"
  "flags_H (s\<lparr>r_AF' := x8\<rparr>) = flags_H s"
  "flags_H (s\<lparr>r_BC' := x9\<rparr>) = flags_H s"
  "flags_H (s\<lparr>r_DE' := x10\<rparr>) = flags_H s"
  "flags_H (s\<lparr>r_SPS := x11\<rparr>) = flags_H s"
  "flags_H (s\<lparr>r_SPL := x12\<rparr>) = flags_H s"
  "flags_H (s\<lparr>r_PC := x13\<rparr>) = flags_H s"
  "flags_H (s\<lparr>r_I := x14\<rparr>) = flags_H s"
  "flags_H (s\<lparr>r_R := x15\<rparr>) = flags_H s"
  "flags_H (s\<lparr>r_MBASE := x16\<rparr>) = flags_H s"
  "flags_H (s\<lparr>cpu_prefetch_byte := x17\<rparr>) = flags_H s"
  "flags_H (s\<lparr>cpu_PREFIX := x18\<rparr>) = flags_H s"
  "flags_H (s\<lparr>cpu_SUFFIX := x19\<rparr>) = flags_H s"
  "flags_H (s\<lparr>cpu_L := x20\<rparr>) = flags_H s"
  "flags_H (s\<lparr>cpu_IL := x21\<rparr>) = flags_H s"
  "flags_H (s\<lparr>cpu_ADL := x22\<rparr>) = flags_H s"
  "flags_H (s\<lparr>cpu_MADL := x23\<rparr>) = flags_H s"
  "flags_H (s\<lparr>cpu_IEF1 := x24\<rparr>) = flags_H s"
  "flags_H (s\<lparr>cpu_IEF2 := x25\<rparr>) = flags_H s"
  "flags_H (s\<lparr>cpu_IEF_wait := x26\<rparr>) = flags_H s"
  "flags_H (s\<lparr>cpu_IM := x27\<rparr>) = flags_H s"
  "flags_H (s\<lparr>cpu_halted := x28\<rparr>) = flags_H s"
  "flags_H (s\<lparr>cpu_cycles := x29\<rparr>) = flags_H s"
  "flags_H (s\<lparr>cycle_count_delta := x30\<rparr>) = flags_H s"
  "flags_H (s\<lparr>cycle_offset := x31\<rparr>) = flags_H s"
  "flags_H (s\<lparr>cpu_events := x32\<rparr>) = flags_H s"
  "flags_H (s\<lparr>exiting := x33\<rparr>) = flags_H s"
  "flags_H (s\<lparr>memory := x34\<rparr>) = flags_H s"
  "flags_H (s\<lparr>mem_writes := x35\<rparr>) = flags_H s"
  "flags_H (s\<lparr>port_in := x36\<rparr>) = flags_H s"
  "flags_H (s\<lparr>port_writes := x37\<rparr>) = flags_H s"
  "flags_H (s\<lparr>intrpt_pending := x38\<rparr>) = flags_H s"
  by (simp_all add: cpu_address_mode_def flags_C_def flags_N_def flags_PV_def flags_H_def flags_Z_def flags_S_def r_B_def r_C_def r_D_def r_E_def r_PCL_def r_PCH_def r_PCU_def r_AF_def stack_hl_def cpu_read_sp_def index_hl_def cpu_read_index_def cpu_read_index_low_def cpu_read_index_high_def cpu_read_other_index_def memory_read_byte_def cpu_read_byte_def cpu_read_word_def cpu_read_in_def port_read_byte_def)

lemma flags_Z_upd [simp]:
  "flags_Z (s\<lparr>r_A := x0\<rparr>) = flags_Z s"
  "flags_Z (s\<lparr>r_BC := x2\<rparr>) = flags_Z s"
  "flags_Z (s\<lparr>r_DE := x3\<rparr>) = flags_Z s"
  "flags_Z (s\<lparr>r_HL := x4\<rparr>) = flags_Z s"
  "flags_Z (s\<lparr>r_HL' := x5\<rparr>) = flags_Z s"
  "flags_Z (s\<lparr>r_IX := x6\<rparr>) = flags_Z s"
  "flags_Z (s\<lparr>r_IY := x7\<rparr>) = flags_Z s"
  "flags_Z (s\<lparr>r_AF' := x8\<rparr>) = flags_Z s"
  "flags_Z (s\<lparr>r_BC' := x9\<rparr>) = flags_Z s"
  "flags_Z (s\<lparr>r_DE' := x10\<rparr>) = flags_Z s"
  "flags_Z (s\<lparr>r_SPS := x11\<rparr>) = flags_Z s"
  "flags_Z (s\<lparr>r_SPL := x12\<rparr>) = flags_Z s"
  "flags_Z (s\<lparr>r_PC := x13\<rparr>) = flags_Z s"
  "flags_Z (s\<lparr>r_I := x14\<rparr>) = flags_Z s"
  "flags_Z (s\<lparr>r_R := x15\<rparr>) = flags_Z s"
  "flags_Z (s\<lparr>r_MBASE := x16\<rparr>) = flags_Z s"
  "flags_Z (s\<lparr>cpu_prefetch_byte := x17\<rparr>) = flags_Z s"
  "flags_Z (s\<lparr>cpu_PREFIX := x18\<rparr>) = flags_Z s"
  "flags_Z (s\<lparr>cpu_SUFFIX := x19\<rparr>) = flags_Z s"
  "flags_Z (s\<lparr>cpu_L := x20\<rparr>) = flags_Z s"
  "flags_Z (s\<lparr>cpu_IL := x21\<rparr>) = flags_Z s"
  "flags_Z (s\<lparr>cpu_ADL := x22\<rparr>) = flags_Z s"
  "flags_Z (s\<lparr>cpu_MADL := x23\<rparr>) = flags_Z s"
  "flags_Z (s\<lparr>cpu_IEF1 := x24\<rparr>) = flags_Z s"
  "flags_Z (s\<lparr>cpu_IEF2 := x25\<rparr>) = flags_Z s"
  "flags_Z (s\<lparr>cpu_IEF_wait := x26\<rparr>) = flags_Z s"
  "flags_Z (s\<lparr>cpu_IM := x27\<rparr>) = flags_Z s"
  "flags_Z (s\<lparr>cpu_halted := x28\<rparr>) = flags_Z s"
  "flags_Z (s\<lparr>cpu_cycles := x29\<rparr>) = flags_Z s"
  "flags_Z (s\<lparr>cycle_count_delta := x30\<rparr>) = flags_Z s"
  "flags_Z (s\<lparr>cycle_offset := x31\<rparr>) = flags_Z s"
  "flags_Z (s\<lparr>cpu_events := x32\<rparr>) = flags_Z s"
  "flags_Z (s\<lparr>exiting := x33\<rparr>) = flags_Z s"
  "flags_Z (s\<lparr>memory := x34\<rparr>) = flags_Z s"
  "flags_Z (s\<lparr>mem_writes := x35\<rparr>) = flags_Z s"
  "flags_Z (s\<lparr>port_in := x36\<rparr>) = flags_Z s"
  "flags_Z (s\<lparr>port_writes := x37\<rparr>) = flags_Z s"
  "flags_Z (s\<lparr>intrpt_pending := x38\<rparr>) = flags_Z s"
  by (simp_all add: cpu_address_mode_def flags_C_def flags_N_def flags_PV_def flags_H_def flags_Z_def flags_S_def r_B_def r_C_def r_D_def r_E_def r_PCL_def r_PCH_def r_PCU_def r_AF_def stack_hl_def cpu_read_sp_def index_hl_def cpu_read_index_def cpu_read_index_low_def cpu_read_index_high_def cpu_read_other_index_def memory_read_byte_def cpu_read_byte_def cpu_read_word_def cpu_read_in_def port_read_byte_def)

lemma flags_S_upd [simp]:
  "flags_S (s\<lparr>r_A := x0\<rparr>) = flags_S s"
  "flags_S (s\<lparr>r_BC := x2\<rparr>) = flags_S s"
  "flags_S (s\<lparr>r_DE := x3\<rparr>) = flags_S s"
  "flags_S (s\<lparr>r_HL := x4\<rparr>) = flags_S s"
  "flags_S (s\<lparr>r_HL' := x5\<rparr>) = flags_S s"
  "flags_S (s\<lparr>r_IX := x6\<rparr>) = flags_S s"
  "flags_S (s\<lparr>r_IY := x7\<rparr>) = flags_S s"
  "flags_S (s\<lparr>r_AF' := x8\<rparr>) = flags_S s"
  "flags_S (s\<lparr>r_BC' := x9\<rparr>) = flags_S s"
  "flags_S (s\<lparr>r_DE' := x10\<rparr>) = flags_S s"
  "flags_S (s\<lparr>r_SPS := x11\<rparr>) = flags_S s"
  "flags_S (s\<lparr>r_SPL := x12\<rparr>) = flags_S s"
  "flags_S (s\<lparr>r_PC := x13\<rparr>) = flags_S s"
  "flags_S (s\<lparr>r_I := x14\<rparr>) = flags_S s"
  "flags_S (s\<lparr>r_R := x15\<rparr>) = flags_S s"
  "flags_S (s\<lparr>r_MBASE := x16\<rparr>) = flags_S s"
  "flags_S (s\<lparr>cpu_prefetch_byte := x17\<rparr>) = flags_S s"
  "flags_S (s\<lparr>cpu_PREFIX := x18\<rparr>) = flags_S s"
  "flags_S (s\<lparr>cpu_SUFFIX := x19\<rparr>) = flags_S s"
  "flags_S (s\<lparr>cpu_L := x20\<rparr>) = flags_S s"
  "flags_S (s\<lparr>cpu_IL := x21\<rparr>) = flags_S s"
  "flags_S (s\<lparr>cpu_ADL := x22\<rparr>) = flags_S s"
  "flags_S (s\<lparr>cpu_MADL := x23\<rparr>) = flags_S s"
  "flags_S (s\<lparr>cpu_IEF1 := x24\<rparr>) = flags_S s"
  "flags_S (s\<lparr>cpu_IEF2 := x25\<rparr>) = flags_S s"
  "flags_S (s\<lparr>cpu_IEF_wait := x26\<rparr>) = flags_S s"
  "flags_S (s\<lparr>cpu_IM := x27\<rparr>) = flags_S s"
  "flags_S (s\<lparr>cpu_halted := x28\<rparr>) = flags_S s"
  "flags_S (s\<lparr>cpu_cycles := x29\<rparr>) = flags_S s"
  "flags_S (s\<lparr>cycle_count_delta := x30\<rparr>) = flags_S s"
  "flags_S (s\<lparr>cycle_offset := x31\<rparr>) = flags_S s"
  "flags_S (s\<lparr>cpu_events := x32\<rparr>) = flags_S s"
  "flags_S (s\<lparr>exiting := x33\<rparr>) = flags_S s"
  "flags_S (s\<lparr>memory := x34\<rparr>) = flags_S s"
  "flags_S (s\<lparr>mem_writes := x35\<rparr>) = flags_S s"
  "flags_S (s\<lparr>port_in := x36\<rparr>) = flags_S s"
  "flags_S (s\<lparr>port_writes := x37\<rparr>) = flags_S s"
  "flags_S (s\<lparr>intrpt_pending := x38\<rparr>) = flags_S s"
  by (simp_all add: cpu_address_mode_def flags_C_def flags_N_def flags_PV_def flags_H_def flags_Z_def flags_S_def r_B_def r_C_def r_D_def r_E_def r_PCL_def r_PCH_def r_PCU_def r_AF_def stack_hl_def cpu_read_sp_def index_hl_def cpu_read_index_def cpu_read_index_low_def cpu_read_index_high_def cpu_read_other_index_def memory_read_byte_def cpu_read_byte_def cpu_read_word_def cpu_read_in_def port_read_byte_def)

lemma r_B_upd [simp]:
  "r_B (s\<lparr>r_A := x0\<rparr>) = r_B s"
  "r_B (s\<lparr>r_F := x1\<rparr>) = r_B s"
  "r_B (s\<lparr>r_DE := x3\<rparr>) = r_B s"
  "r_B (s\<lparr>r_HL := x4\<rparr>) = r_B s"
  "r_B (s\<lparr>r_HL' := x5\<rparr>) = r_B s"
  "r_B (s\<lparr>r_IX := x6\<rparr>) = r_B s"
  "r_B (s\<lparr>r_IY := x7\<rparr>) = r_B s"
  "r_B (s\<lparr>r_AF' := x8\<rparr>) = r_B s"
  "r_B (s\<lparr>r_BC' := x9\<rparr>) = r_B s"
  "r_B (s\<lparr>r_DE' := x10\<rparr>) = r_B s"
  "r_B (s\<lparr>r_SPS := x11\<rparr>) = r_B s"
  "r_B (s\<lparr>r_SPL := x12\<rparr>) = r_B s"
  "r_B (s\<lparr>r_PC := x13\<rparr>) = r_B s"
  "r_B (s\<lparr>r_I := x14\<rparr>) = r_B s"
  "r_B (s\<lparr>r_R := x15\<rparr>) = r_B s"
  "r_B (s\<lparr>r_MBASE := x16\<rparr>) = r_B s"
  "r_B (s\<lparr>cpu_prefetch_byte := x17\<rparr>) = r_B s"
  "r_B (s\<lparr>cpu_PREFIX := x18\<rparr>) = r_B s"
  "r_B (s\<lparr>cpu_SUFFIX := x19\<rparr>) = r_B s"
  "r_B (s\<lparr>cpu_L := x20\<rparr>) = r_B s"
  "r_B (s\<lparr>cpu_IL := x21\<rparr>) = r_B s"
  "r_B (s\<lparr>cpu_ADL := x22\<rparr>) = r_B s"
  "r_B (s\<lparr>cpu_MADL := x23\<rparr>) = r_B s"
  "r_B (s\<lparr>cpu_IEF1 := x24\<rparr>) = r_B s"
  "r_B (s\<lparr>cpu_IEF2 := x25\<rparr>) = r_B s"
  "r_B (s\<lparr>cpu_IEF_wait := x26\<rparr>) = r_B s"
  "r_B (s\<lparr>cpu_IM := x27\<rparr>) = r_B s"
  "r_B (s\<lparr>cpu_halted := x28\<rparr>) = r_B s"
  "r_B (s\<lparr>cpu_cycles := x29\<rparr>) = r_B s"
  "r_B (s\<lparr>cycle_count_delta := x30\<rparr>) = r_B s"
  "r_B (s\<lparr>cycle_offset := x31\<rparr>) = r_B s"
  "r_B (s\<lparr>cpu_events := x32\<rparr>) = r_B s"
  "r_B (s\<lparr>exiting := x33\<rparr>) = r_B s"
  "r_B (s\<lparr>memory := x34\<rparr>) = r_B s"
  "r_B (s\<lparr>mem_writes := x35\<rparr>) = r_B s"
  "r_B (s\<lparr>port_in := x36\<rparr>) = r_B s"
  "r_B (s\<lparr>port_writes := x37\<rparr>) = r_B s"
  "r_B (s\<lparr>intrpt_pending := x38\<rparr>) = r_B s"
  by (simp_all add: cpu_address_mode_def flags_C_def flags_N_def flags_PV_def flags_H_def flags_Z_def flags_S_def r_B_def r_C_def r_D_def r_E_def r_PCL_def r_PCH_def r_PCU_def r_AF_def stack_hl_def cpu_read_sp_def index_hl_def cpu_read_index_def cpu_read_index_low_def cpu_read_index_high_def cpu_read_other_index_def memory_read_byte_def cpu_read_byte_def cpu_read_word_def cpu_read_in_def port_read_byte_def)

lemma r_C_upd [simp]:
  "r_C (s\<lparr>r_A := x0\<rparr>) = r_C s"
  "r_C (s\<lparr>r_F := x1\<rparr>) = r_C s"
  "r_C (s\<lparr>r_DE := x3\<rparr>) = r_C s"
  "r_C (s\<lparr>r_HL := x4\<rparr>) = r_C s"
  "r_C (s\<lparr>r_HL' := x5\<rparr>) = r_C s"
  "r_C (s\<lparr>r_IX := x6\<rparr>) = r_C s"
  "r_C (s\<lparr>r_IY := x7\<rparr>) = r_C s"
  "r_C (s\<lparr>r_AF' := x8\<rparr>) = r_C s"
  "r_C (s\<lparr>r_BC' := x9\<rparr>) = r_C s"
  "r_C (s\<lparr>r_DE' := x10\<rparr>) = r_C s"
  "r_C (s\<lparr>r_SPS := x11\<rparr>) = r_C s"
  "r_C (s\<lparr>r_SPL := x12\<rparr>) = r_C s"
  "r_C (s\<lparr>r_PC := x13\<rparr>) = r_C s"
  "r_C (s\<lparr>r_I := x14\<rparr>) = r_C s"
  "r_C (s\<lparr>r_R := x15\<rparr>) = r_C s"
  "r_C (s\<lparr>r_MBASE := x16\<rparr>) = r_C s"
  "r_C (s\<lparr>cpu_prefetch_byte := x17\<rparr>) = r_C s"
  "r_C (s\<lparr>cpu_PREFIX := x18\<rparr>) = r_C s"
  "r_C (s\<lparr>cpu_SUFFIX := x19\<rparr>) = r_C s"
  "r_C (s\<lparr>cpu_L := x20\<rparr>) = r_C s"
  "r_C (s\<lparr>cpu_IL := x21\<rparr>) = r_C s"
  "r_C (s\<lparr>cpu_ADL := x22\<rparr>) = r_C s"
  "r_C (s\<lparr>cpu_MADL := x23\<rparr>) = r_C s"
  "r_C (s\<lparr>cpu_IEF1 := x24\<rparr>) = r_C s"
  "r_C (s\<lparr>cpu_IEF2 := x25\<rparr>) = r_C s"
  "r_C (s\<lparr>cpu_IEF_wait := x26\<rparr>) = r_C s"
  "r_C (s\<lparr>cpu_IM := x27\<rparr>) = r_C s"
  "r_C (s\<lparr>cpu_halted := x28\<rparr>) = r_C s"
  "r_C (s\<lparr>cpu_cycles := x29\<rparr>) = r_C s"
  "r_C (s\<lparr>cycle_count_delta := x30\<rparr>) = r_C s"
  "r_C (s\<lparr>cycle_offset := x31\<rparr>) = r_C s"
  "r_C (s\<lparr>cpu_events := x32\<rparr>) = r_C s"
  "r_C (s\<lparr>exiting := x33\<rparr>) = r_C s"
  "r_C (s\<lparr>memory := x34\<rparr>) = r_C s"
  "r_C (s\<lparr>mem_writes := x35\<rparr>) = r_C s"
  "r_C (s\<lparr>port_in := x36\<rparr>) = r_C s"
  "r_C (s\<lparr>port_writes := x37\<rparr>) = r_C s"
  "r_C (s\<lparr>intrpt_pending := x38\<rparr>) = r_C s"
  by (simp_all add: cpu_address_mode_def flags_C_def flags_N_def flags_PV_def flags_H_def flags_Z_def flags_S_def r_B_def r_C_def r_D_def r_E_def r_PCL_def r_PCH_def r_PCU_def r_AF_def stack_hl_def cpu_read_sp_def index_hl_def cpu_read_index_def cpu_read_index_low_def cpu_read_index_high_def cpu_read_other_index_def memory_read_byte_def cpu_read_byte_def cpu_read_word_def cpu_read_in_def port_read_byte_def)

lemma r_D_upd [simp]:
  "r_D (s\<lparr>r_A := x0\<rparr>) = r_D s"
  "r_D (s\<lparr>r_F := x1\<rparr>) = r_D s"
  "r_D (s\<lparr>r_BC := x2\<rparr>) = r_D s"
  "r_D (s\<lparr>r_HL := x4\<rparr>) = r_D s"
  "r_D (s\<lparr>r_HL' := x5\<rparr>) = r_D s"
  "r_D (s\<lparr>r_IX := x6\<rparr>) = r_D s"
  "r_D (s\<lparr>r_IY := x7\<rparr>) = r_D s"
  "r_D (s\<lparr>r_AF' := x8\<rparr>) = r_D s"
  "r_D (s\<lparr>r_BC' := x9\<rparr>) = r_D s"
  "r_D (s\<lparr>r_DE' := x10\<rparr>) = r_D s"
  "r_D (s\<lparr>r_SPS := x11\<rparr>) = r_D s"
  "r_D (s\<lparr>r_SPL := x12\<rparr>) = r_D s"
  "r_D (s\<lparr>r_PC := x13\<rparr>) = r_D s"
  "r_D (s\<lparr>r_I := x14\<rparr>) = r_D s"
  "r_D (s\<lparr>r_R := x15\<rparr>) = r_D s"
  "r_D (s\<lparr>r_MBASE := x16\<rparr>) = r_D s"
  "r_D (s\<lparr>cpu_prefetch_byte := x17\<rparr>) = r_D s"
  "r_D (s\<lparr>cpu_PREFIX := x18\<rparr>) = r_D s"
  "r_D (s\<lparr>cpu_SUFFIX := x19\<rparr>) = r_D s"
  "r_D (s\<lparr>cpu_L := x20\<rparr>) = r_D s"
  "r_D (s\<lparr>cpu_IL := x21\<rparr>) = r_D s"
  "r_D (s\<lparr>cpu_ADL := x22\<rparr>) = r_D s"
  "r_D (s\<lparr>cpu_MADL := x23\<rparr>) = r_D s"
  "r_D (s\<lparr>cpu_IEF1 := x24\<rparr>) = r_D s"
  "r_D (s\<lparr>cpu_IEF2 := x25\<rparr>) = r_D s"
  "r_D (s\<lparr>cpu_IEF_wait := x26\<rparr>) = r_D s"
  "r_D (s\<lparr>cpu_IM := x27\<rparr>) = r_D s"
  "r_D (s\<lparr>cpu_halted := x28\<rparr>) = r_D s"
  "r_D (s\<lparr>cpu_cycles := x29\<rparr>) = r_D s"
  "r_D (s\<lparr>cycle_count_delta := x30\<rparr>) = r_D s"
  "r_D (s\<lparr>cycle_offset := x31\<rparr>) = r_D s"
  "r_D (s\<lparr>cpu_events := x32\<rparr>) = r_D s"
  "r_D (s\<lparr>exiting := x33\<rparr>) = r_D s"
  "r_D (s\<lparr>memory := x34\<rparr>) = r_D s"
  "r_D (s\<lparr>mem_writes := x35\<rparr>) = r_D s"
  "r_D (s\<lparr>port_in := x36\<rparr>) = r_D s"
  "r_D (s\<lparr>port_writes := x37\<rparr>) = r_D s"
  "r_D (s\<lparr>intrpt_pending := x38\<rparr>) = r_D s"
  by (simp_all add: cpu_address_mode_def flags_C_def flags_N_def flags_PV_def flags_H_def flags_Z_def flags_S_def r_B_def r_C_def r_D_def r_E_def r_PCL_def r_PCH_def r_PCU_def r_AF_def stack_hl_def cpu_read_sp_def index_hl_def cpu_read_index_def cpu_read_index_low_def cpu_read_index_high_def cpu_read_other_index_def memory_read_byte_def cpu_read_byte_def cpu_read_word_def cpu_read_in_def port_read_byte_def)

lemma r_E_upd [simp]:
  "r_E (s\<lparr>r_A := x0\<rparr>) = r_E s"
  "r_E (s\<lparr>r_F := x1\<rparr>) = r_E s"
  "r_E (s\<lparr>r_BC := x2\<rparr>) = r_E s"
  "r_E (s\<lparr>r_HL := x4\<rparr>) = r_E s"
  "r_E (s\<lparr>r_HL' := x5\<rparr>) = r_E s"
  "r_E (s\<lparr>r_IX := x6\<rparr>) = r_E s"
  "r_E (s\<lparr>r_IY := x7\<rparr>) = r_E s"
  "r_E (s\<lparr>r_AF' := x8\<rparr>) = r_E s"
  "r_E (s\<lparr>r_BC' := x9\<rparr>) = r_E s"
  "r_E (s\<lparr>r_DE' := x10\<rparr>) = r_E s"
  "r_E (s\<lparr>r_SPS := x11\<rparr>) = r_E s"
  "r_E (s\<lparr>r_SPL := x12\<rparr>) = r_E s"
  "r_E (s\<lparr>r_PC := x13\<rparr>) = r_E s"
  "r_E (s\<lparr>r_I := x14\<rparr>) = r_E s"
  "r_E (s\<lparr>r_R := x15\<rparr>) = r_E s"
  "r_E (s\<lparr>r_MBASE := x16\<rparr>) = r_E s"
  "r_E (s\<lparr>cpu_prefetch_byte := x17\<rparr>) = r_E s"
  "r_E (s\<lparr>cpu_PREFIX := x18\<rparr>) = r_E s"
  "r_E (s\<lparr>cpu_SUFFIX := x19\<rparr>) = r_E s"
  "r_E (s\<lparr>cpu_L := x20\<rparr>) = r_E s"
  "r_E (s\<lparr>cpu_IL := x21\<rparr>) = r_E s"
  "r_E (s\<lparr>cpu_ADL := x22\<rparr>) = r_E s"
  "r_E (s\<lparr>cpu_MADL := x23\<rparr>) = r_E s"
  "r_E (s\<lparr>cpu_IEF1 := x24\<rparr>) = r_E s"
  "r_E (s\<lparr>cpu_IEF2 := x25\<rparr>) = r_E s"
  "r_E (s\<lparr>cpu_IEF_wait := x26\<rparr>) = r_E s"
  "r_E (s\<lparr>cpu_IM := x27\<rparr>) = r_E s"
  "r_E (s\<lparr>cpu_halted := x28\<rparr>) = r_E s"
  "r_E (s\<lparr>cpu_cycles := x29\<rparr>) = r_E s"
  "r_E (s\<lparr>cycle_count_delta := x30\<rparr>) = r_E s"
  "r_E (s\<lparr>cycle_offset := x31\<rparr>) = r_E s"
  "r_E (s\<lparr>cpu_events := x32\<rparr>) = r_E s"
  "r_E (s\<lparr>exiting := x33\<rparr>) = r_E s"
  "r_E (s\<lparr>memory := x34\<rparr>) = r_E s"
  "r_E (s\<lparr>mem_writes := x35\<rparr>) = r_E s"
  "r_E (s\<lparr>port_in := x36\<rparr>) = r_E s"
  "r_E (s\<lparr>port_writes := x37\<rparr>) = r_E s"
  "r_E (s\<lparr>intrpt_pending := x38\<rparr>) = r_E s"
  by (simp_all add: cpu_address_mode_def flags_C_def flags_N_def flags_PV_def flags_H_def flags_Z_def flags_S_def r_B_def r_C_def r_D_def r_E_def r_PCL_def r_PCH_def r_PCU_def r_AF_def stack_hl_def cpu_read_sp_def index_hl_def cpu_read_index_def cpu_read_index_low_def cpu_read_index_high_def cpu_read_other_index_def memory_read_byte_def cpu_read_byte_def cpu_read_word_def cpu_read_in_def port_read_byte_def)

lemma r_PCL_upd [simp]:
  "r_PCL (s\<lparr>r_A := x0\<rparr>) = r_PCL s"
  "r_PCL (s\<lparr>r_F := x1\<rparr>) = r_PCL s"
  "r_PCL (s\<lparr>r_BC := x2\<rparr>) = r_PCL s"
  "r_PCL (s\<lparr>r_DE := x3\<rparr>) = r_PCL s"
  "r_PCL (s\<lparr>r_HL := x4\<rparr>) = r_PCL s"
  "r_PCL (s\<lparr>r_HL' := x5\<rparr>) = r_PCL s"
  "r_PCL (s\<lparr>r_IX := x6\<rparr>) = r_PCL s"
  "r_PCL (s\<lparr>r_IY := x7\<rparr>) = r_PCL s"
  "r_PCL (s\<lparr>r_AF' := x8\<rparr>) = r_PCL s"
  "r_PCL (s\<lparr>r_BC' := x9\<rparr>) = r_PCL s"
  "r_PCL (s\<lparr>r_DE' := x10\<rparr>) = r_PCL s"
  "r_PCL (s\<lparr>r_SPS := x11\<rparr>) = r_PCL s"
  "r_PCL (s\<lparr>r_SPL := x12\<rparr>) = r_PCL s"
  "r_PCL (s\<lparr>r_I := x14\<rparr>) = r_PCL s"
  "r_PCL (s\<lparr>r_R := x15\<rparr>) = r_PCL s"
  "r_PCL (s\<lparr>r_MBASE := x16\<rparr>) = r_PCL s"
  "r_PCL (s\<lparr>cpu_prefetch_byte := x17\<rparr>) = r_PCL s"
  "r_PCL (s\<lparr>cpu_PREFIX := x18\<rparr>) = r_PCL s"
  "r_PCL (s\<lparr>cpu_SUFFIX := x19\<rparr>) = r_PCL s"
  "r_PCL (s\<lparr>cpu_L := x20\<rparr>) = r_PCL s"
  "r_PCL (s\<lparr>cpu_IL := x21\<rparr>) = r_PCL s"
  "r_PCL (s\<lparr>cpu_ADL := x22\<rparr>) = r_PCL s"
  "r_PCL (s\<lparr>cpu_MADL := x23\<rparr>) = r_PCL s"
  "r_PCL (s\<lparr>cpu_IEF1 := x24\<rparr>) = r_PCL s"
  "r_PCL (s\<lparr>cpu_IEF2 := x25\<rparr>) = r_PCL s"
  "r_PCL (s\<lparr>cpu_IEF_wait := x26\<rparr>) = r_PCL s"
  "r_PCL (s\<lparr>cpu_IM := x27\<rparr>) = r_PCL s"
  "r_PCL (s\<lparr>cpu_halted := x28\<rparr>) = r_PCL s"
  "r_PCL (s\<lparr>cpu_cycles := x29\<rparr>) = r_PCL s"
  "r_PCL (s\<lparr>cycle_count_delta := x30\<rparr>) = r_PCL s"
  "r_PCL (s\<lparr>cycle_offset := x31\<rparr>) = r_PCL s"
  "r_PCL (s\<lparr>cpu_events := x32\<rparr>) = r_PCL s"
  "r_PCL (s\<lparr>exiting := x33\<rparr>) = r_PCL s"
  "r_PCL (s\<lparr>memory := x34\<rparr>) = r_PCL s"
  "r_PCL (s\<lparr>mem_writes := x35\<rparr>) = r_PCL s"
  "r_PCL (s\<lparr>port_in := x36\<rparr>) = r_PCL s"
  "r_PCL (s\<lparr>port_writes := x37\<rparr>) = r_PCL s"
  "r_PCL (s\<lparr>intrpt_pending := x38\<rparr>) = r_PCL s"
  by (simp_all add: cpu_address_mode_def flags_C_def flags_N_def flags_PV_def flags_H_def flags_Z_def flags_S_def r_B_def r_C_def r_D_def r_E_def r_PCL_def r_PCH_def r_PCU_def r_AF_def stack_hl_def cpu_read_sp_def index_hl_def cpu_read_index_def cpu_read_index_low_def cpu_read_index_high_def cpu_read_other_index_def memory_read_byte_def cpu_read_byte_def cpu_read_word_def cpu_read_in_def port_read_byte_def)

lemma r_PCH_upd [simp]:
  "r_PCH (s\<lparr>r_A := x0\<rparr>) = r_PCH s"
  "r_PCH (s\<lparr>r_F := x1\<rparr>) = r_PCH s"
  "r_PCH (s\<lparr>r_BC := x2\<rparr>) = r_PCH s"
  "r_PCH (s\<lparr>r_DE := x3\<rparr>) = r_PCH s"
  "r_PCH (s\<lparr>r_HL := x4\<rparr>) = r_PCH s"
  "r_PCH (s\<lparr>r_HL' := x5\<rparr>) = r_PCH s"
  "r_PCH (s\<lparr>r_IX := x6\<rparr>) = r_PCH s"
  "r_PCH (s\<lparr>r_IY := x7\<rparr>) = r_PCH s"
  "r_PCH (s\<lparr>r_AF' := x8\<rparr>) = r_PCH s"
  "r_PCH (s\<lparr>r_BC' := x9\<rparr>) = r_PCH s"
  "r_PCH (s\<lparr>r_DE' := x10\<rparr>) = r_PCH s"
  "r_PCH (s\<lparr>r_SPS := x11\<rparr>) = r_PCH s"
  "r_PCH (s\<lparr>r_SPL := x12\<rparr>) = r_PCH s"
  "r_PCH (s\<lparr>r_I := x14\<rparr>) = r_PCH s"
  "r_PCH (s\<lparr>r_R := x15\<rparr>) = r_PCH s"
  "r_PCH (s\<lparr>r_MBASE := x16\<rparr>) = r_PCH s"
  "r_PCH (s\<lparr>cpu_prefetch_byte := x17\<rparr>) = r_PCH s"
  "r_PCH (s\<lparr>cpu_PREFIX := x18\<rparr>) = r_PCH s"
  "r_PCH (s\<lparr>cpu_SUFFIX := x19\<rparr>) = r_PCH s"
  "r_PCH (s\<lparr>cpu_L := x20\<rparr>) = r_PCH s"
  "r_PCH (s\<lparr>cpu_IL := x21\<rparr>) = r_PCH s"
  "r_PCH (s\<lparr>cpu_ADL := x22\<rparr>) = r_PCH s"
  "r_PCH (s\<lparr>cpu_MADL := x23\<rparr>) = r_PCH s"
  "r_PCH (s\<lparr>cpu_IEF1 := x24\<rparr>) = r_PCH s"
  "r_PCH (s\<lparr>cpu_IEF2 := x25\<rparr>) = r_PCH s"
  "r_PCH (s\<lparr>cpu_IEF_wait := x26\<rparr>) = r_PCH s"
  "r_PCH (s\<lparr>cpu_IM := x27\<rparr>) = r_PCH s"
  "r_PCH (s\<lparr>cpu_halted := x28\<rparr>) = r_PCH s"
  "r_PCH (s\<lparr>cpu_cycles := x29\<rparr>) = r_PCH s"
  "r_PCH (s\<lparr>cycle_count_delta := x30\<rparr>) = r_PCH s"
  "r_PCH (s\<lparr>cycle_offset := x31\<rparr>) = r_PCH s"
  "r_PCH (s\<lparr>cpu_events := x32\<rparr>) = r_PCH s"
  "r_PCH (s\<lparr>exiting := x33\<rparr>) = r_PCH s"
  "r_PCH (s\<lparr>memory := x34\<rparr>) = r_PCH s"
  "r_PCH (s\<lparr>mem_writes := x35\<rparr>) = r_PCH s"
  "r_PCH (s\<lparr>port_in := x36\<rparr>) = r_PCH s"
  "r_PCH (s\<lparr>port_writes := x37\<rparr>) = r_PCH s"
  "r_PCH (s\<lparr>intrpt_pending := x38\<rparr>) = r_PCH s"
  by (simp_all add: cpu_address_mode_def flags_C_def flags_N_def flags_PV_def flags_H_def flags_Z_def flags_S_def r_B_def r_C_def r_D_def r_E_def r_PCL_def r_PCH_def r_PCU_def r_AF_def stack_hl_def cpu_read_sp_def index_hl_def cpu_read_index_def cpu_read_index_low_def cpu_read_index_high_def cpu_read_other_index_def memory_read_byte_def cpu_read_byte_def cpu_read_word_def cpu_read_in_def port_read_byte_def)

lemma r_PCU_upd [simp]:
  "r_PCU (s\<lparr>r_A := x0\<rparr>) = r_PCU s"
  "r_PCU (s\<lparr>r_F := x1\<rparr>) = r_PCU s"
  "r_PCU (s\<lparr>r_BC := x2\<rparr>) = r_PCU s"
  "r_PCU (s\<lparr>r_DE := x3\<rparr>) = r_PCU s"
  "r_PCU (s\<lparr>r_HL := x4\<rparr>) = r_PCU s"
  "r_PCU (s\<lparr>r_HL' := x5\<rparr>) = r_PCU s"
  "r_PCU (s\<lparr>r_IX := x6\<rparr>) = r_PCU s"
  "r_PCU (s\<lparr>r_IY := x7\<rparr>) = r_PCU s"
  "r_PCU (s\<lparr>r_AF' := x8\<rparr>) = r_PCU s"
  "r_PCU (s\<lparr>r_BC' := x9\<rparr>) = r_PCU s"
  "r_PCU (s\<lparr>r_DE' := x10\<rparr>) = r_PCU s"
  "r_PCU (s\<lparr>r_SPS := x11\<rparr>) = r_PCU s"
  "r_PCU (s\<lparr>r_SPL := x12\<rparr>) = r_PCU s"
  "r_PCU (s\<lparr>r_I := x14\<rparr>) = r_PCU s"
  "r_PCU (s\<lparr>r_R := x15\<rparr>) = r_PCU s"
  "r_PCU (s\<lparr>r_MBASE := x16\<rparr>) = r_PCU s"
  "r_PCU (s\<lparr>cpu_prefetch_byte := x17\<rparr>) = r_PCU s"
  "r_PCU (s\<lparr>cpu_PREFIX := x18\<rparr>) = r_PCU s"
  "r_PCU (s\<lparr>cpu_SUFFIX := x19\<rparr>) = r_PCU s"
  "r_PCU (s\<lparr>cpu_L := x20\<rparr>) = r_PCU s"
  "r_PCU (s\<lparr>cpu_IL := x21\<rparr>) = r_PCU s"
  "r_PCU (s\<lparr>cpu_ADL := x22\<rparr>) = r_PCU s"
  "r_PCU (s\<lparr>cpu_MADL := x23\<rparr>) = r_PCU s"
  "r_PCU (s\<lparr>cpu_IEF1 := x24\<rparr>) = r_PCU s"
  "r_PCU (s\<lparr>cpu_IEF2 := x25\<rparr>) = r_PCU s"
  "r_PCU (s\<lparr>cpu_IEF_wait := x26\<rparr>) = r_PCU s"
  "r_PCU (s\<lparr>cpu_IM := x27\<rparr>) = r_PCU s"
  "r_PCU (s\<lparr>cpu_halted := x28\<rparr>) = r_PCU s"
  "r_PCU (s\<lparr>cpu_cycles := x29\<rparr>) = r_PCU s"
  "r_PCU (s\<lparr>cycle_count_delta := x30\<rparr>) = r_PCU s"
  "r_PCU (s\<lparr>cycle_offset := x31\<rparr>) = r_PCU s"
  "r_PCU (s\<lparr>cpu_events := x32\<rparr>) = r_PCU s"
  "r_PCU (s\<lparr>exiting := x33\<rparr>) = r_PCU s"
  "r_PCU (s\<lparr>memory := x34\<rparr>) = r_PCU s"
  "r_PCU (s\<lparr>mem_writes := x35\<rparr>) = r_PCU s"
  "r_PCU (s\<lparr>port_in := x36\<rparr>) = r_PCU s"
  "r_PCU (s\<lparr>port_writes := x37\<rparr>) = r_PCU s"
  "r_PCU (s\<lparr>intrpt_pending := x38\<rparr>) = r_PCU s"
  by (simp_all add: cpu_address_mode_def flags_C_def flags_N_def flags_PV_def flags_H_def flags_Z_def flags_S_def r_B_def r_C_def r_D_def r_E_def r_PCL_def r_PCH_def r_PCU_def r_AF_def stack_hl_def cpu_read_sp_def index_hl_def cpu_read_index_def cpu_read_index_low_def cpu_read_index_high_def cpu_read_other_index_def memory_read_byte_def cpu_read_byte_def cpu_read_word_def cpu_read_in_def port_read_byte_def)

lemma r_AF_upd [simp]:
  "r_AF (s\<lparr>r_BC := x2\<rparr>) = r_AF s"
  "r_AF (s\<lparr>r_DE := x3\<rparr>) = r_AF s"
  "r_AF (s\<lparr>r_HL := x4\<rparr>) = r_AF s"
  "r_AF (s\<lparr>r_HL' := x5\<rparr>) = r_AF s"
  "r_AF (s\<lparr>r_IX := x6\<rparr>) = r_AF s"
  "r_AF (s\<lparr>r_IY := x7\<rparr>) = r_AF s"
  "r_AF (s\<lparr>r_AF' := x8\<rparr>) = r_AF s"
  "r_AF (s\<lparr>r_BC' := x9\<rparr>) = r_AF s"
  "r_AF (s\<lparr>r_DE' := x10\<rparr>) = r_AF s"
  "r_AF (s\<lparr>r_SPS := x11\<rparr>) = r_AF s"
  "r_AF (s\<lparr>r_SPL := x12\<rparr>) = r_AF s"
  "r_AF (s\<lparr>r_PC := x13\<rparr>) = r_AF s"
  "r_AF (s\<lparr>r_I := x14\<rparr>) = r_AF s"
  "r_AF (s\<lparr>r_R := x15\<rparr>) = r_AF s"
  "r_AF (s\<lparr>r_MBASE := x16\<rparr>) = r_AF s"
  "r_AF (s\<lparr>cpu_prefetch_byte := x17\<rparr>) = r_AF s"
  "r_AF (s\<lparr>cpu_PREFIX := x18\<rparr>) = r_AF s"
  "r_AF (s\<lparr>cpu_SUFFIX := x19\<rparr>) = r_AF s"
  "r_AF (s\<lparr>cpu_L := x20\<rparr>) = r_AF s"
  "r_AF (s\<lparr>cpu_IL := x21\<rparr>) = r_AF s"
  "r_AF (s\<lparr>cpu_ADL := x22\<rparr>) = r_AF s"
  "r_AF (s\<lparr>cpu_MADL := x23\<rparr>) = r_AF s"
  "r_AF (s\<lparr>cpu_IEF1 := x24\<rparr>) = r_AF s"
  "r_AF (s\<lparr>cpu_IEF2 := x25\<rparr>) = r_AF s"
  "r_AF (s\<lparr>cpu_IEF_wait := x26\<rparr>) = r_AF s"
  "r_AF (s\<lparr>cpu_IM := x27\<rparr>) = r_AF s"
  "r_AF (s\<lparr>cpu_halted := x28\<rparr>) = r_AF s"
  "r_AF (s\<lparr>cpu_cycles := x29\<rparr>) = r_AF s"
  "r_AF (s\<lparr>cycle_count_delta := x30\<rparr>) = r_AF s"
  "r_AF (s\<lparr>cycle_offset := x31\<rparr>) = r_AF s"
  "r_AF (s\<lparr>cpu_events := x32\<rparr>) = r_AF s"
  "r_AF (s\<lparr>exiting := x33\<rparr>) = r_AF s"
  "r_AF (s\<lparr>memory := x34\<rparr>) = r_AF s"
  "r_AF (s\<lparr>mem_writes := x35\<rparr>) = r_AF s"
  "r_AF (s\<lparr>port_in := x36\<rparr>) = r_AF s"
  "r_AF (s\<lparr>port_writes := x37\<rparr>) = r_AF s"
  "r_AF (s\<lparr>intrpt_pending := x38\<rparr>) = r_AF s"
  by (simp_all add: cpu_address_mode_def flags_C_def flags_N_def flags_PV_def flags_H_def flags_Z_def flags_S_def r_B_def r_C_def r_D_def r_E_def r_PCL_def r_PCH_def r_PCU_def r_AF_def stack_hl_def cpu_read_sp_def index_hl_def cpu_read_index_def cpu_read_index_low_def cpu_read_index_high_def cpu_read_other_index_def memory_read_byte_def cpu_read_byte_def cpu_read_word_def cpu_read_in_def port_read_byte_def)

lemma stack_hl_upd [simp]:
  "stack_hl (s\<lparr>r_A := x0\<rparr>) = stack_hl s"
  "stack_hl (s\<lparr>r_F := x1\<rparr>) = stack_hl s"
  "stack_hl (s\<lparr>r_BC := x2\<rparr>) = stack_hl s"
  "stack_hl (s\<lparr>r_DE := x3\<rparr>) = stack_hl s"
  "stack_hl (s\<lparr>r_HL := x4\<rparr>) = stack_hl s"
  "stack_hl (s\<lparr>r_HL' := x5\<rparr>) = stack_hl s"
  "stack_hl (s\<lparr>r_IX := x6\<rparr>) = stack_hl s"
  "stack_hl (s\<lparr>r_IY := x7\<rparr>) = stack_hl s"
  "stack_hl (s\<lparr>r_AF' := x8\<rparr>) = stack_hl s"
  "stack_hl (s\<lparr>r_BC' := x9\<rparr>) = stack_hl s"
  "stack_hl (s\<lparr>r_DE' := x10\<rparr>) = stack_hl s"
  "stack_hl (s\<lparr>r_PC := x13\<rparr>) = stack_hl s"
  "stack_hl (s\<lparr>r_I := x14\<rparr>) = stack_hl s"
  "stack_hl (s\<lparr>r_R := x15\<rparr>) = stack_hl s"
  "stack_hl (s\<lparr>r_MBASE := x16\<rparr>) = stack_hl s"
  "stack_hl (s\<lparr>cpu_prefetch_byte := x17\<rparr>) = stack_hl s"
  "stack_hl (s\<lparr>cpu_PREFIX := x18\<rparr>) = stack_hl s"
  "stack_hl (s\<lparr>cpu_SUFFIX := x19\<rparr>) = stack_hl s"
  "stack_hl (s\<lparr>cpu_IL := x21\<rparr>) = stack_hl s"
  "stack_hl (s\<lparr>cpu_ADL := x22\<rparr>) = stack_hl s"
  "stack_hl (s\<lparr>cpu_MADL := x23\<rparr>) = stack_hl s"
  "stack_hl (s\<lparr>cpu_IEF1 := x24\<rparr>) = stack_hl s"
  "stack_hl (s\<lparr>cpu_IEF2 := x25\<rparr>) = stack_hl s"
  "stack_hl (s\<lparr>cpu_IEF_wait := x26\<rparr>) = stack_hl s"
  "stack_hl (s\<lparr>cpu_IM := x27\<rparr>) = stack_hl s"
  "stack_hl (s\<lparr>cpu_halted := x28\<rparr>) = stack_hl s"
  "stack_hl (s\<lparr>cpu_cycles := x29\<rparr>) = stack_hl s"
  "stack_hl (s\<lparr>cycle_count_delta := x30\<rparr>) = stack_hl s"
  "stack_hl (s\<lparr>cycle_offset := x31\<rparr>) = stack_hl s"
  "stack_hl (s\<lparr>cpu_events := x32\<rparr>) = stack_hl s"
  "stack_hl (s\<lparr>exiting := x33\<rparr>) = stack_hl s"
  "stack_hl (s\<lparr>memory := x34\<rparr>) = stack_hl s"
  "stack_hl (s\<lparr>mem_writes := x35\<rparr>) = stack_hl s"
  "stack_hl (s\<lparr>port_in := x36\<rparr>) = stack_hl s"
  "stack_hl (s\<lparr>port_writes := x37\<rparr>) = stack_hl s"
  "stack_hl (s\<lparr>intrpt_pending := x38\<rparr>) = stack_hl s"
  by (simp_all add: cpu_address_mode_def flags_C_def flags_N_def flags_PV_def flags_H_def flags_Z_def flags_S_def r_B_def r_C_def r_D_def r_E_def r_PCL_def r_PCH_def r_PCU_def r_AF_def stack_hl_def cpu_read_sp_def index_hl_def cpu_read_index_def cpu_read_index_low_def cpu_read_index_high_def cpu_read_other_index_def memory_read_byte_def cpu_read_byte_def cpu_read_word_def cpu_read_in_def port_read_byte_def)

lemma cpu_read_sp_upd [simp]:
  "cpu_read_sp (s\<lparr>r_A := x0\<rparr>) = cpu_read_sp s"
  "cpu_read_sp (s\<lparr>r_F := x1\<rparr>) = cpu_read_sp s"
  "cpu_read_sp (s\<lparr>r_BC := x2\<rparr>) = cpu_read_sp s"
  "cpu_read_sp (s\<lparr>r_DE := x3\<rparr>) = cpu_read_sp s"
  "cpu_read_sp (s\<lparr>r_HL := x4\<rparr>) = cpu_read_sp s"
  "cpu_read_sp (s\<lparr>r_HL' := x5\<rparr>) = cpu_read_sp s"
  "cpu_read_sp (s\<lparr>r_IX := x6\<rparr>) = cpu_read_sp s"
  "cpu_read_sp (s\<lparr>r_IY := x7\<rparr>) = cpu_read_sp s"
  "cpu_read_sp (s\<lparr>r_AF' := x8\<rparr>) = cpu_read_sp s"
  "cpu_read_sp (s\<lparr>r_BC' := x9\<rparr>) = cpu_read_sp s"
  "cpu_read_sp (s\<lparr>r_DE' := x10\<rparr>) = cpu_read_sp s"
  "cpu_read_sp (s\<lparr>r_PC := x13\<rparr>) = cpu_read_sp s"
  "cpu_read_sp (s\<lparr>r_I := x14\<rparr>) = cpu_read_sp s"
  "cpu_read_sp (s\<lparr>r_R := x15\<rparr>) = cpu_read_sp s"
  "cpu_read_sp (s\<lparr>r_MBASE := x16\<rparr>) = cpu_read_sp s"
  "cpu_read_sp (s\<lparr>cpu_prefetch_byte := x17\<rparr>) = cpu_read_sp s"
  "cpu_read_sp (s\<lparr>cpu_PREFIX := x18\<rparr>) = cpu_read_sp s"
  "cpu_read_sp (s\<lparr>cpu_SUFFIX := x19\<rparr>) = cpu_read_sp s"
  "cpu_read_sp (s\<lparr>cpu_IL := x21\<rparr>) = cpu_read_sp s"
  "cpu_read_sp (s\<lparr>cpu_ADL := x22\<rparr>) = cpu_read_sp s"
  "cpu_read_sp (s\<lparr>cpu_MADL := x23\<rparr>) = cpu_read_sp s"
  "cpu_read_sp (s\<lparr>cpu_IEF1 := x24\<rparr>) = cpu_read_sp s"
  "cpu_read_sp (s\<lparr>cpu_IEF2 := x25\<rparr>) = cpu_read_sp s"
  "cpu_read_sp (s\<lparr>cpu_IEF_wait := x26\<rparr>) = cpu_read_sp s"
  "cpu_read_sp (s\<lparr>cpu_IM := x27\<rparr>) = cpu_read_sp s"
  "cpu_read_sp (s\<lparr>cpu_halted := x28\<rparr>) = cpu_read_sp s"
  "cpu_read_sp (s\<lparr>cpu_cycles := x29\<rparr>) = cpu_read_sp s"
  "cpu_read_sp (s\<lparr>cycle_count_delta := x30\<rparr>) = cpu_read_sp s"
  "cpu_read_sp (s\<lparr>cycle_offset := x31\<rparr>) = cpu_read_sp s"
  "cpu_read_sp (s\<lparr>cpu_events := x32\<rparr>) = cpu_read_sp s"
  "cpu_read_sp (s\<lparr>exiting := x33\<rparr>) = cpu_read_sp s"
  "cpu_read_sp (s\<lparr>memory := x34\<rparr>) = cpu_read_sp s"
  "cpu_read_sp (s\<lparr>mem_writes := x35\<rparr>) = cpu_read_sp s"
  "cpu_read_sp (s\<lparr>port_in := x36\<rparr>) = cpu_read_sp s"
  "cpu_read_sp (s\<lparr>port_writes := x37\<rparr>) = cpu_read_sp s"
  "cpu_read_sp (s\<lparr>intrpt_pending := x38\<rparr>) = cpu_read_sp s"
  by (simp_all add: cpu_address_mode_def flags_C_def flags_N_def flags_PV_def flags_H_def flags_Z_def flags_S_def r_B_def r_C_def r_D_def r_E_def r_PCL_def r_PCH_def r_PCU_def r_AF_def stack_hl_def cpu_read_sp_def index_hl_def cpu_read_index_def cpu_read_index_low_def cpu_read_index_high_def cpu_read_other_index_def memory_read_byte_def cpu_read_byte_def cpu_read_word_def cpu_read_in_def port_read_byte_def)

lemma index_hl_upd [simp]:
  "index_hl i' (s\<lparr>r_A := x0\<rparr>) = index_hl i' s"
  "index_hl i' (s\<lparr>r_F := x1\<rparr>) = index_hl i' s"
  "index_hl i' (s\<lparr>r_BC := x2\<rparr>) = index_hl i' s"
  "index_hl i' (s\<lparr>r_DE := x3\<rparr>) = index_hl i' s"
  "index_hl i' (s\<lparr>r_AF' := x8\<rparr>) = index_hl i' s"
  "index_hl i' (s\<lparr>r_BC' := x9\<rparr>) = index_hl i' s"
  "index_hl i' (s\<lparr>r_DE' := x10\<rparr>) = index_hl i' s"
  "index_hl i' (s\<lparr>r_SPS := x11\<rparr>) = index_hl i' s"
  "index_hl i' (s\<lparr>r_SPL := x12\<rparr>) = index_hl i' s"
  "index_hl i' (s\<lparr>r_PC := x13\<rparr>) = index_hl i' s"
  "index_hl i' (s\<lparr>r_I := x14\<rparr>) = index_hl i' s"
  "index_hl i' (s\<lparr>r_R := x15\<rparr>) = index_hl i' s"
  "index_hl i' (s\<lparr>r_MBASE := x16\<rparr>) = index_hl i' s"
  "index_hl i' (s\<lparr>cpu_prefetch_byte := x17\<rparr>) = index_hl i' s"
  "index_hl i' (s\<lparr>cpu_PREFIX := x18\<rparr>) = index_hl i' s"
  "index_hl i' (s\<lparr>cpu_SUFFIX := x19\<rparr>) = index_hl i' s"
  "index_hl i' (s\<lparr>cpu_L := x20\<rparr>) = index_hl i' s"
  "index_hl i' (s\<lparr>cpu_IL := x21\<rparr>) = index_hl i' s"
  "index_hl i' (s\<lparr>cpu_ADL := x22\<rparr>) = index_hl i' s"
  "index_hl i' (s\<lparr>cpu_MADL := x23\<rparr>) = index_hl i' s"
  "index_hl i' (s\<lparr>cpu_IEF1 := x24\<rparr>) = index_hl i' s"
  "index_hl i' (s\<lparr>cpu_IEF2 := x25\<rparr>) = index_hl i' s"
  "index_hl i' (s\<lparr>cpu_IEF_wait := x26\<rparr>) = index_hl i' s"
  "index_hl i' (s\<lparr>cpu_IM := x27\<rparr>) = index_hl i' s"
  "index_hl i' (s\<lparr>cpu_halted := x28\<rparr>) = index_hl i' s"
  "index_hl i' (s\<lparr>cpu_cycles := x29\<rparr>) = index_hl i' s"
  "index_hl i' (s\<lparr>cycle_count_delta := x30\<rparr>) = index_hl i' s"
  "index_hl i' (s\<lparr>cycle_offset := x31\<rparr>) = index_hl i' s"
  "index_hl i' (s\<lparr>cpu_events := x32\<rparr>) = index_hl i' s"
  "index_hl i' (s\<lparr>exiting := x33\<rparr>) = index_hl i' s"
  "index_hl i' (s\<lparr>memory := x34\<rparr>) = index_hl i' s"
  "index_hl i' (s\<lparr>mem_writes := x35\<rparr>) = index_hl i' s"
  "index_hl i' (s\<lparr>port_in := x36\<rparr>) = index_hl i' s"
  "index_hl i' (s\<lparr>port_writes := x37\<rparr>) = index_hl i' s"
  "index_hl i' (s\<lparr>intrpt_pending := x38\<rparr>) = index_hl i' s"
  by (simp_all add: cpu_address_mode_def flags_C_def flags_N_def flags_PV_def flags_H_def flags_Z_def flags_S_def r_B_def r_C_def r_D_def r_E_def r_PCL_def r_PCH_def r_PCU_def r_AF_def stack_hl_def cpu_read_sp_def index_hl_def cpu_read_index_def cpu_read_index_low_def cpu_read_index_high_def cpu_read_other_index_def memory_read_byte_def cpu_read_byte_def cpu_read_word_def cpu_read_in_def port_read_byte_def)

lemma cpu_read_index_upd [simp]:
  "cpu_read_index (s\<lparr>r_A := x0\<rparr>) = cpu_read_index s"
  "cpu_read_index (s\<lparr>r_F := x1\<rparr>) = cpu_read_index s"
  "cpu_read_index (s\<lparr>r_BC := x2\<rparr>) = cpu_read_index s"
  "cpu_read_index (s\<lparr>r_DE := x3\<rparr>) = cpu_read_index s"
  "cpu_read_index (s\<lparr>r_AF' := x8\<rparr>) = cpu_read_index s"
  "cpu_read_index (s\<lparr>r_BC' := x9\<rparr>) = cpu_read_index s"
  "cpu_read_index (s\<lparr>r_DE' := x10\<rparr>) = cpu_read_index s"
  "cpu_read_index (s\<lparr>r_SPS := x11\<rparr>) = cpu_read_index s"
  "cpu_read_index (s\<lparr>r_SPL := x12\<rparr>) = cpu_read_index s"
  "cpu_read_index (s\<lparr>r_PC := x13\<rparr>) = cpu_read_index s"
  "cpu_read_index (s\<lparr>r_I := x14\<rparr>) = cpu_read_index s"
  "cpu_read_index (s\<lparr>r_R := x15\<rparr>) = cpu_read_index s"
  "cpu_read_index (s\<lparr>r_MBASE := x16\<rparr>) = cpu_read_index s"
  "cpu_read_index (s\<lparr>cpu_prefetch_byte := x17\<rparr>) = cpu_read_index s"
  "cpu_read_index (s\<lparr>cpu_SUFFIX := x19\<rparr>) = cpu_read_index s"
  "cpu_read_index (s\<lparr>cpu_L := x20\<rparr>) = cpu_read_index s"
  "cpu_read_index (s\<lparr>cpu_IL := x21\<rparr>) = cpu_read_index s"
  "cpu_read_index (s\<lparr>cpu_ADL := x22\<rparr>) = cpu_read_index s"
  "cpu_read_index (s\<lparr>cpu_MADL := x23\<rparr>) = cpu_read_index s"
  "cpu_read_index (s\<lparr>cpu_IEF1 := x24\<rparr>) = cpu_read_index s"
  "cpu_read_index (s\<lparr>cpu_IEF2 := x25\<rparr>) = cpu_read_index s"
  "cpu_read_index (s\<lparr>cpu_IEF_wait := x26\<rparr>) = cpu_read_index s"
  "cpu_read_index (s\<lparr>cpu_IM := x27\<rparr>) = cpu_read_index s"
  "cpu_read_index (s\<lparr>cpu_halted := x28\<rparr>) = cpu_read_index s"
  "cpu_read_index (s\<lparr>cpu_cycles := x29\<rparr>) = cpu_read_index s"
  "cpu_read_index (s\<lparr>cycle_count_delta := x30\<rparr>) = cpu_read_index s"
  "cpu_read_index (s\<lparr>cycle_offset := x31\<rparr>) = cpu_read_index s"
  "cpu_read_index (s\<lparr>cpu_events := x32\<rparr>) = cpu_read_index s"
  "cpu_read_index (s\<lparr>exiting := x33\<rparr>) = cpu_read_index s"
  "cpu_read_index (s\<lparr>memory := x34\<rparr>) = cpu_read_index s"
  "cpu_read_index (s\<lparr>mem_writes := x35\<rparr>) = cpu_read_index s"
  "cpu_read_index (s\<lparr>port_in := x36\<rparr>) = cpu_read_index s"
  "cpu_read_index (s\<lparr>port_writes := x37\<rparr>) = cpu_read_index s"
  "cpu_read_index (s\<lparr>intrpt_pending := x38\<rparr>) = cpu_read_index s"
  by (simp_all add: cpu_address_mode_def flags_C_def flags_N_def flags_PV_def flags_H_def flags_Z_def flags_S_def r_B_def r_C_def r_D_def r_E_def r_PCL_def r_PCH_def r_PCU_def r_AF_def stack_hl_def cpu_read_sp_def index_hl_def cpu_read_index_def cpu_read_index_low_def cpu_read_index_high_def cpu_read_other_index_def memory_read_byte_def cpu_read_byte_def cpu_read_word_def cpu_read_in_def port_read_byte_def)

lemma cpu_read_index_low_upd [simp]:
  "cpu_read_index_low (s\<lparr>r_A := x0\<rparr>) = cpu_read_index_low s"
  "cpu_read_index_low (s\<lparr>r_F := x1\<rparr>) = cpu_read_index_low s"
  "cpu_read_index_low (s\<lparr>r_BC := x2\<rparr>) = cpu_read_index_low s"
  "cpu_read_index_low (s\<lparr>r_DE := x3\<rparr>) = cpu_read_index_low s"
  "cpu_read_index_low (s\<lparr>r_AF' := x8\<rparr>) = cpu_read_index_low s"
  "cpu_read_index_low (s\<lparr>r_BC' := x9\<rparr>) = cpu_read_index_low s"
  "cpu_read_index_low (s\<lparr>r_DE' := x10\<rparr>) = cpu_read_index_low s"
  "cpu_read_index_low (s\<lparr>r_SPS := x11\<rparr>) = cpu_read_index_low s"
  "cpu_read_index_low (s\<lparr>r_SPL := x12\<rparr>) = cpu_read_index_low s"
  "cpu_read_index_low (s\<lparr>r_PC := x13\<rparr>) = cpu_read_index_low s"
  "cpu_read_index_low (s\<lparr>r_I := x14\<rparr>) = cpu_read_index_low s"
  "cpu_read_index_low (s\<lparr>r_R := x15\<rparr>) = cpu_read_index_low s"
  "cpu_read_index_low (s\<lparr>r_MBASE := x16\<rparr>) = cpu_read_index_low s"
  "cpu_read_index_low (s\<lparr>cpu_prefetch_byte := x17\<rparr>) = cpu_read_index_low s"
  "cpu_read_index_low (s\<lparr>cpu_SUFFIX := x19\<rparr>) = cpu_read_index_low s"
  "cpu_read_index_low (s\<lparr>cpu_L := x20\<rparr>) = cpu_read_index_low s"
  "cpu_read_index_low (s\<lparr>cpu_IL := x21\<rparr>) = cpu_read_index_low s"
  "cpu_read_index_low (s\<lparr>cpu_ADL := x22\<rparr>) = cpu_read_index_low s"
  "cpu_read_index_low (s\<lparr>cpu_MADL := x23\<rparr>) = cpu_read_index_low s"
  "cpu_read_index_low (s\<lparr>cpu_IEF1 := x24\<rparr>) = cpu_read_index_low s"
  "cpu_read_index_low (s\<lparr>cpu_IEF2 := x25\<rparr>) = cpu_read_index_low s"
  "cpu_read_index_low (s\<lparr>cpu_IEF_wait := x26\<rparr>) = cpu_read_index_low s"
  "cpu_read_index_low (s\<lparr>cpu_IM := x27\<rparr>) = cpu_read_index_low s"
  "cpu_read_index_low (s\<lparr>cpu_halted := x28\<rparr>) = cpu_read_index_low s"
  "cpu_read_index_low (s\<lparr>cpu_cycles := x29\<rparr>) = cpu_read_index_low s"
  "cpu_read_index_low (s\<lparr>cycle_count_delta := x30\<rparr>) = cpu_read_index_low s"
  "cpu_read_index_low (s\<lparr>cycle_offset := x31\<rparr>) = cpu_read_index_low s"
  "cpu_read_index_low (s\<lparr>cpu_events := x32\<rparr>) = cpu_read_index_low s"
  "cpu_read_index_low (s\<lparr>exiting := x33\<rparr>) = cpu_read_index_low s"
  "cpu_read_index_low (s\<lparr>memory := x34\<rparr>) = cpu_read_index_low s"
  "cpu_read_index_low (s\<lparr>mem_writes := x35\<rparr>) = cpu_read_index_low s"
  "cpu_read_index_low (s\<lparr>port_in := x36\<rparr>) = cpu_read_index_low s"
  "cpu_read_index_low (s\<lparr>port_writes := x37\<rparr>) = cpu_read_index_low s"
  "cpu_read_index_low (s\<lparr>intrpt_pending := x38\<rparr>) = cpu_read_index_low s"
  by (simp_all add: cpu_address_mode_def flags_C_def flags_N_def flags_PV_def flags_H_def flags_Z_def flags_S_def r_B_def r_C_def r_D_def r_E_def r_PCL_def r_PCH_def r_PCU_def r_AF_def stack_hl_def cpu_read_sp_def index_hl_def cpu_read_index_def cpu_read_index_low_def cpu_read_index_high_def cpu_read_other_index_def memory_read_byte_def cpu_read_byte_def cpu_read_word_def cpu_read_in_def port_read_byte_def)

lemma cpu_read_index_high_upd [simp]:
  "cpu_read_index_high (s\<lparr>r_A := x0\<rparr>) = cpu_read_index_high s"
  "cpu_read_index_high (s\<lparr>r_F := x1\<rparr>) = cpu_read_index_high s"
  "cpu_read_index_high (s\<lparr>r_BC := x2\<rparr>) = cpu_read_index_high s"
  "cpu_read_index_high (s\<lparr>r_DE := x3\<rparr>) = cpu_read_index_high s"
  "cpu_read_index_high (s\<lparr>r_AF' := x8\<rparr>) = cpu_read_index_high s"
  "cpu_read_index_high (s\<lparr>r_BC' := x9\<rparr>) = cpu_read_index_high s"
  "cpu_read_index_high (s\<lparr>r_DE' := x10\<rparr>) = cpu_read_index_high s"
  "cpu_read_index_high (s\<lparr>r_SPS := x11\<rparr>) = cpu_read_index_high s"
  "cpu_read_index_high (s\<lparr>r_SPL := x12\<rparr>) = cpu_read_index_high s"
  "cpu_read_index_high (s\<lparr>r_PC := x13\<rparr>) = cpu_read_index_high s"
  "cpu_read_index_high (s\<lparr>r_I := x14\<rparr>) = cpu_read_index_high s"
  "cpu_read_index_high (s\<lparr>r_R := x15\<rparr>) = cpu_read_index_high s"
  "cpu_read_index_high (s\<lparr>r_MBASE := x16\<rparr>) = cpu_read_index_high s"
  "cpu_read_index_high (s\<lparr>cpu_prefetch_byte := x17\<rparr>) = cpu_read_index_high s"
  "cpu_read_index_high (s\<lparr>cpu_SUFFIX := x19\<rparr>) = cpu_read_index_high s"
  "cpu_read_index_high (s\<lparr>cpu_L := x20\<rparr>) = cpu_read_index_high s"
  "cpu_read_index_high (s\<lparr>cpu_IL := x21\<rparr>) = cpu_read_index_high s"
  "cpu_read_index_high (s\<lparr>cpu_ADL := x22\<rparr>) = cpu_read_index_high s"
  "cpu_read_index_high (s\<lparr>cpu_MADL := x23\<rparr>) = cpu_read_index_high s"
  "cpu_read_index_high (s\<lparr>cpu_IEF1 := x24\<rparr>) = cpu_read_index_high s"
  "cpu_read_index_high (s\<lparr>cpu_IEF2 := x25\<rparr>) = cpu_read_index_high s"
  "cpu_read_index_high (s\<lparr>cpu_IEF_wait := x26\<rparr>) = cpu_read_index_high s"
  "cpu_read_index_high (s\<lparr>cpu_IM := x27\<rparr>) = cpu_read_index_high s"
  "cpu_read_index_high (s\<lparr>cpu_halted := x28\<rparr>) = cpu_read_index_high s"
  "cpu_read_index_high (s\<lparr>cpu_cycles := x29\<rparr>) = cpu_read_index_high s"
  "cpu_read_index_high (s\<lparr>cycle_count_delta := x30\<rparr>) = cpu_read_index_high s"
  "cpu_read_index_high (s\<lparr>cycle_offset := x31\<rparr>) = cpu_read_index_high s"
  "cpu_read_index_high (s\<lparr>cpu_events := x32\<rparr>) = cpu_read_index_high s"
  "cpu_read_index_high (s\<lparr>exiting := x33\<rparr>) = cpu_read_index_high s"
  "cpu_read_index_high (s\<lparr>memory := x34\<rparr>) = cpu_read_index_high s"
  "cpu_read_index_high (s\<lparr>mem_writes := x35\<rparr>) = cpu_read_index_high s"
  "cpu_read_index_high (s\<lparr>port_in := x36\<rparr>) = cpu_read_index_high s"
  "cpu_read_index_high (s\<lparr>port_writes := x37\<rparr>) = cpu_read_index_high s"
  "cpu_read_index_high (s\<lparr>intrpt_pending := x38\<rparr>) = cpu_read_index_high s"
  by (simp_all add: cpu_address_mode_def flags_C_def flags_N_def flags_PV_def flags_H_def flags_Z_def flags_S_def r_B_def r_C_def r_D_def r_E_def r_PCL_def r_PCH_def r_PCU_def r_AF_def stack_hl_def cpu_read_sp_def index_hl_def cpu_read_index_def cpu_read_index_low_def cpu_read_index_high_def cpu_read_other_index_def memory_read_byte_def cpu_read_byte_def cpu_read_word_def cpu_read_in_def port_read_byte_def)

lemma cpu_read_other_index_upd [simp]:
  "cpu_read_other_index (s\<lparr>r_A := x0\<rparr>) = cpu_read_other_index s"
  "cpu_read_other_index (s\<lparr>r_F := x1\<rparr>) = cpu_read_other_index s"
  "cpu_read_other_index (s\<lparr>r_BC := x2\<rparr>) = cpu_read_other_index s"
  "cpu_read_other_index (s\<lparr>r_DE := x3\<rparr>) = cpu_read_other_index s"
  "cpu_read_other_index (s\<lparr>r_AF' := x8\<rparr>) = cpu_read_other_index s"
  "cpu_read_other_index (s\<lparr>r_BC' := x9\<rparr>) = cpu_read_other_index s"
  "cpu_read_other_index (s\<lparr>r_DE' := x10\<rparr>) = cpu_read_other_index s"
  "cpu_read_other_index (s\<lparr>r_SPS := x11\<rparr>) = cpu_read_other_index s"
  "cpu_read_other_index (s\<lparr>r_SPL := x12\<rparr>) = cpu_read_other_index s"
  "cpu_read_other_index (s\<lparr>r_PC := x13\<rparr>) = cpu_read_other_index s"
  "cpu_read_other_index (s\<lparr>r_I := x14\<rparr>) = cpu_read_other_index s"
  "cpu_read_other_index (s\<lparr>r_R := x15\<rparr>) = cpu_read_other_index s"
  "cpu_read_other_index (s\<lparr>r_MBASE := x16\<rparr>) = cpu_read_other_index s"
  "cpu_read_other_index (s\<lparr>cpu_prefetch_byte := x17\<rparr>) = cpu_read_other_index s"
  "cpu_read_other_index (s\<lparr>cpu_SUFFIX := x19\<rparr>) = cpu_read_other_index s"
  "cpu_read_other_index (s\<lparr>cpu_L := x20\<rparr>) = cpu_read_other_index s"
  "cpu_read_other_index (s\<lparr>cpu_IL := x21\<rparr>) = cpu_read_other_index s"
  "cpu_read_other_index (s\<lparr>cpu_ADL := x22\<rparr>) = cpu_read_other_index s"
  "cpu_read_other_index (s\<lparr>cpu_MADL := x23\<rparr>) = cpu_read_other_index s"
  "cpu_read_other_index (s\<lparr>cpu_IEF1 := x24\<rparr>) = cpu_read_other_index s"
  "cpu_read_other_index (s\<lparr>cpu_IEF2 := x25\<rparr>) = cpu_read_other_index s"
  "cpu_read_other_index (s\<lparr>cpu_IEF_wait := x26\<rparr>) = cpu_read_other_index s"
  "cpu_read_other_index (s\<lparr>cpu_IM := x27\<rparr>) = cpu_read_other_index s"
  "cpu_read_other_index (s\<lparr>cpu_halted := x28\<rparr>) = cpu_read_other_index s"
  "cpu_read_other_index (s\<lparr>cpu_cycles := x29\<rparr>) = cpu_read_other_index s"
  "cpu_read_other_index (s\<lparr>cycle_count_delta := x30\<rparr>) = cpu_read_other_index s"
  "cpu_read_other_index (s\<lparr>cycle_offset := x31\<rparr>) = cpu_read_other_index s"
  "cpu_read_other_index (s\<lparr>cpu_events := x32\<rparr>) = cpu_read_other_index s"
  "cpu_read_other_index (s\<lparr>exiting := x33\<rparr>) = cpu_read_other_index s"
  "cpu_read_other_index (s\<lparr>memory := x34\<rparr>) = cpu_read_other_index s"
  "cpu_read_other_index (s\<lparr>mem_writes := x35\<rparr>) = cpu_read_other_index s"
  "cpu_read_other_index (s\<lparr>port_in := x36\<rparr>) = cpu_read_other_index s"
  "cpu_read_other_index (s\<lparr>port_writes := x37\<rparr>) = cpu_read_other_index s"
  "cpu_read_other_index (s\<lparr>intrpt_pending := x38\<rparr>) = cpu_read_other_index s"
  by (simp_all add: cpu_address_mode_def flags_C_def flags_N_def flags_PV_def flags_H_def flags_Z_def flags_S_def r_B_def r_C_def r_D_def r_E_def r_PCL_def r_PCH_def r_PCU_def r_AF_def stack_hl_def cpu_read_sp_def index_hl_def cpu_read_index_def cpu_read_index_low_def cpu_read_index_high_def cpu_read_other_index_def memory_read_byte_def cpu_read_byte_def cpu_read_word_def cpu_read_in_def port_read_byte_def)

lemma memory_read_byte_upd [simp]:
  "memory_read_byte a' (s\<lparr>r_A := x0\<rparr>) = memory_read_byte a' s"
  "memory_read_byte a' (s\<lparr>r_F := x1\<rparr>) = memory_read_byte a' s"
  "memory_read_byte a' (s\<lparr>r_BC := x2\<rparr>) = memory_read_byte a' s"
  "memory_read_byte a' (s\<lparr>r_DE := x3\<rparr>) = memory_read_byte a' s"
  "memory_read_byte a' (s\<lparr>r_HL := x4\<rparr>) = memory_read_byte a' s"
  "memory_read_byte a' (s\<lparr>r_HL' := x5\<rparr>) = memory_read_byte a' s"
  "memory_read_byte a' (s\<lparr>r_IX := x6\<rparr>) = memory_read_byte a' s"
  "memory_read_byte a' (s\<lparr>r_IY := x7\<rparr>) = memory_read_byte a' s"
  "memory_read_byte a' (s\<lparr>r_AF' := x8\<rparr>) = memory_read_byte a' s"
  "memory_read_byte a' (s\<lparr>r_BC' := x9\<rparr>) = memory_read_byte a' s"
  "memory_read_byte a' (s\<lparr>r_DE' := x10\<rparr>) = memory_read_byte a' s"
  "memory_read_byte a' (s\<lparr>r_SPS := x11\<rparr>) = memory_read_byte a' s"
  "memory_read_byte a' (s\<lparr>r_SPL := x12\<rparr>) = memory_read_byte a' s"
  "memory_read_byte a' (s\<lparr>r_PC := x13\<rparr>) = memory_read_byte a' s"
  "memory_read_byte a' (s\<lparr>r_I := x14\<rparr>) = memory_read_byte a' s"
  "memory_read_byte a' (s\<lparr>r_R := x15\<rparr>) = memory_read_byte a' s"
  "memory_read_byte a' (s\<lparr>r_MBASE := x16\<rparr>) = memory_read_byte a' s"
  "memory_read_byte a' (s\<lparr>cpu_prefetch_byte := x17\<rparr>) = memory_read_byte a' s"
  "memory_read_byte a' (s\<lparr>cpu_PREFIX := x18\<rparr>) = memory_read_byte a' s"
  "memory_read_byte a' (s\<lparr>cpu_SUFFIX := x19\<rparr>) = memory_read_byte a' s"
  "memory_read_byte a' (s\<lparr>cpu_L := x20\<rparr>) = memory_read_byte a' s"
  "memory_read_byte a' (s\<lparr>cpu_IL := x21\<rparr>) = memory_read_byte a' s"
  "memory_read_byte a' (s\<lparr>cpu_ADL := x22\<rparr>) = memory_read_byte a' s"
  "memory_read_byte a' (s\<lparr>cpu_MADL := x23\<rparr>) = memory_read_byte a' s"
  "memory_read_byte a' (s\<lparr>cpu_IEF1 := x24\<rparr>) = memory_read_byte a' s"
  "memory_read_byte a' (s\<lparr>cpu_IEF2 := x25\<rparr>) = memory_read_byte a' s"
  "memory_read_byte a' (s\<lparr>cpu_IEF_wait := x26\<rparr>) = memory_read_byte a' s"
  "memory_read_byte a' (s\<lparr>cpu_IM := x27\<rparr>) = memory_read_byte a' s"
  "memory_read_byte a' (s\<lparr>cpu_halted := x28\<rparr>) = memory_read_byte a' s"
  "memory_read_byte a' (s\<lparr>cpu_cycles := x29\<rparr>) = memory_read_byte a' s"
  "memory_read_byte a' (s\<lparr>cycle_count_delta := x30\<rparr>) = memory_read_byte a' s"
  "memory_read_byte a' (s\<lparr>cycle_offset := x31\<rparr>) = memory_read_byte a' s"
  "memory_read_byte a' (s\<lparr>cpu_events := x32\<rparr>) = memory_read_byte a' s"
  "memory_read_byte a' (s\<lparr>exiting := x33\<rparr>) = memory_read_byte a' s"
  "memory_read_byte a' (s\<lparr>mem_writes := x35\<rparr>) = memory_read_byte a' s"
  "memory_read_byte a' (s\<lparr>port_in := x36\<rparr>) = memory_read_byte a' s"
  "memory_read_byte a' (s\<lparr>port_writes := x37\<rparr>) = memory_read_byte a' s"
  "memory_read_byte a' (s\<lparr>intrpt_pending := x38\<rparr>) = memory_read_byte a' s"
  by (simp_all add: cpu_address_mode_def flags_C_def flags_N_def flags_PV_def flags_H_def flags_Z_def flags_S_def r_B_def r_C_def r_D_def r_E_def r_PCL_def r_PCH_def r_PCU_def r_AF_def stack_hl_def cpu_read_sp_def index_hl_def cpu_read_index_def cpu_read_index_low_def cpu_read_index_high_def cpu_read_other_index_def memory_read_byte_def cpu_read_byte_def cpu_read_word_def cpu_read_in_def port_read_byte_def)

lemma cpu_read_byte_upd [simp]:
  "cpu_read_byte a' (s\<lparr>r_A := x0\<rparr>) = cpu_read_byte a' s"
  "cpu_read_byte a' (s\<lparr>r_F := x1\<rparr>) = cpu_read_byte a' s"
  "cpu_read_byte a' (s\<lparr>r_BC := x2\<rparr>) = cpu_read_byte a' s"
  "cpu_read_byte a' (s\<lparr>r_DE := x3\<rparr>) = cpu_read_byte a' s"
  "cpu_read_byte a' (s\<lparr>r_HL := x4\<rparr>) = cpu_read_byte a' s"
  "cpu_read_byte a' (s\<lparr>r_HL' := x5\<rparr>) = cpu_read_byte a' s"
  "cpu_read_byte a' (s\<lparr>r_IX := x6\<rparr>) = cpu_read_byte a' s"
  "cpu_read_byte a' (s\<lparr>r_IY := x7\<rparr>) = cpu_read_byte a' s"
  "cpu_read_byte a' (s\<lparr>r_AF' := x8\<rparr>) = cpu_read_byte a' s"
  "cpu_read_byte a' (s\<lparr>r_BC' := x9\<rparr>) = cpu_read_byte a' s"
  "cpu_read_byte a' (s\<lparr>r_DE' := x10\<rparr>) = cpu_read_byte a' s"
  "cpu_read_byte a' (s\<lparr>r_SPS := x11\<rparr>) = cpu_read_byte a' s"
  "cpu_read_byte a' (s\<lparr>r_SPL := x12\<rparr>) = cpu_read_byte a' s"
  "cpu_read_byte a' (s\<lparr>r_PC := x13\<rparr>) = cpu_read_byte a' s"
  "cpu_read_byte a' (s\<lparr>r_I := x14\<rparr>) = cpu_read_byte a' s"
  "cpu_read_byte a' (s\<lparr>r_R := x15\<rparr>) = cpu_read_byte a' s"
  "cpu_read_byte a' (s\<lparr>cpu_prefetch_byte := x17\<rparr>) = cpu_read_byte a' s"
  "cpu_read_byte a' (s\<lparr>cpu_PREFIX := x18\<rparr>) = cpu_read_byte a' s"
  "cpu_read_byte a' (s\<lparr>cpu_SUFFIX := x19\<rparr>) = cpu_read_byte a' s"
  "cpu_read_byte a' (s\<lparr>cpu_IL := x21\<rparr>) = cpu_read_byte a' s"
  "cpu_read_byte a' (s\<lparr>cpu_ADL := x22\<rparr>) = cpu_read_byte a' s"
  "cpu_read_byte a' (s\<lparr>cpu_MADL := x23\<rparr>) = cpu_read_byte a' s"
  "cpu_read_byte a' (s\<lparr>cpu_IEF1 := x24\<rparr>) = cpu_read_byte a' s"
  "cpu_read_byte a' (s\<lparr>cpu_IEF2 := x25\<rparr>) = cpu_read_byte a' s"
  "cpu_read_byte a' (s\<lparr>cpu_IEF_wait := x26\<rparr>) = cpu_read_byte a' s"
  "cpu_read_byte a' (s\<lparr>cpu_IM := x27\<rparr>) = cpu_read_byte a' s"
  "cpu_read_byte a' (s\<lparr>cpu_halted := x28\<rparr>) = cpu_read_byte a' s"
  "cpu_read_byte a' (s\<lparr>cpu_cycles := x29\<rparr>) = cpu_read_byte a' s"
  "cpu_read_byte a' (s\<lparr>cycle_count_delta := x30\<rparr>) = cpu_read_byte a' s"
  "cpu_read_byte a' (s\<lparr>cycle_offset := x31\<rparr>) = cpu_read_byte a' s"
  "cpu_read_byte a' (s\<lparr>cpu_events := x32\<rparr>) = cpu_read_byte a' s"
  "cpu_read_byte a' (s\<lparr>exiting := x33\<rparr>) = cpu_read_byte a' s"
  "cpu_read_byte a' (s\<lparr>mem_writes := x35\<rparr>) = cpu_read_byte a' s"
  "cpu_read_byte a' (s\<lparr>port_in := x36\<rparr>) = cpu_read_byte a' s"
  "cpu_read_byte a' (s\<lparr>port_writes := x37\<rparr>) = cpu_read_byte a' s"
  "cpu_read_byte a' (s\<lparr>intrpt_pending := x38\<rparr>) = cpu_read_byte a' s"
  by (simp_all add: cpu_address_mode_def flags_C_def flags_N_def flags_PV_def flags_H_def flags_Z_def flags_S_def r_B_def r_C_def r_D_def r_E_def r_PCL_def r_PCH_def r_PCU_def r_AF_def stack_hl_def cpu_read_sp_def index_hl_def cpu_read_index_def cpu_read_index_low_def cpu_read_index_high_def cpu_read_other_index_def memory_read_byte_def cpu_read_byte_def cpu_read_word_def cpu_read_in_def port_read_byte_def)

lemma cpu_read_word_upd [simp]:
  "cpu_read_word a' (s\<lparr>r_A := x0\<rparr>) = cpu_read_word a' s"
  "cpu_read_word a' (s\<lparr>r_F := x1\<rparr>) = cpu_read_word a' s"
  "cpu_read_word a' (s\<lparr>r_BC := x2\<rparr>) = cpu_read_word a' s"
  "cpu_read_word a' (s\<lparr>r_DE := x3\<rparr>) = cpu_read_word a' s"
  "cpu_read_word a' (s\<lparr>r_HL := x4\<rparr>) = cpu_read_word a' s"
  "cpu_read_word a' (s\<lparr>r_HL' := x5\<rparr>) = cpu_read_word a' s"
  "cpu_read_word a' (s\<lparr>r_IX := x6\<rparr>) = cpu_read_word a' s"
  "cpu_read_word a' (s\<lparr>r_IY := x7\<rparr>) = cpu_read_word a' s"
  "cpu_read_word a' (s\<lparr>r_AF' := x8\<rparr>) = cpu_read_word a' s"
  "cpu_read_word a' (s\<lparr>r_BC' := x9\<rparr>) = cpu_read_word a' s"
  "cpu_read_word a' (s\<lparr>r_DE' := x10\<rparr>) = cpu_read_word a' s"
  "cpu_read_word a' (s\<lparr>r_SPS := x11\<rparr>) = cpu_read_word a' s"
  "cpu_read_word a' (s\<lparr>r_SPL := x12\<rparr>) = cpu_read_word a' s"
  "cpu_read_word a' (s\<lparr>r_PC := x13\<rparr>) = cpu_read_word a' s"
  "cpu_read_word a' (s\<lparr>r_I := x14\<rparr>) = cpu_read_word a' s"
  "cpu_read_word a' (s\<lparr>r_R := x15\<rparr>) = cpu_read_word a' s"
  "cpu_read_word a' (s\<lparr>cpu_prefetch_byte := x17\<rparr>) = cpu_read_word a' s"
  "cpu_read_word a' (s\<lparr>cpu_PREFIX := x18\<rparr>) = cpu_read_word a' s"
  "cpu_read_word a' (s\<lparr>cpu_SUFFIX := x19\<rparr>) = cpu_read_word a' s"
  "cpu_read_word a' (s\<lparr>cpu_IL := x21\<rparr>) = cpu_read_word a' s"
  "cpu_read_word a' (s\<lparr>cpu_ADL := x22\<rparr>) = cpu_read_word a' s"
  "cpu_read_word a' (s\<lparr>cpu_MADL := x23\<rparr>) = cpu_read_word a' s"
  "cpu_read_word a' (s\<lparr>cpu_IEF1 := x24\<rparr>) = cpu_read_word a' s"
  "cpu_read_word a' (s\<lparr>cpu_IEF2 := x25\<rparr>) = cpu_read_word a' s"
  "cpu_read_word a' (s\<lparr>cpu_IEF_wait := x26\<rparr>) = cpu_read_word a' s"
  "cpu_read_word a' (s\<lparr>cpu_IM := x27\<rparr>) = cpu_read_word a' s"
  "cpu_read_word a' (s\<lparr>cpu_halted := x28\<rparr>) = cpu_read_word a' s"
  "cpu_read_word a' (s\<lparr>cpu_cycles := x29\<rparr>) = cpu_read_word a' s"
  "cpu_read_word a' (s\<lparr>cycle_count_delta := x30\<rparr>) = cpu_read_word a' s"
  "cpu_read_word a' (s\<lparr>cycle_offset := x31\<rparr>) = cpu_read_word a' s"
  "cpu_read_word a' (s\<lparr>cpu_events := x32\<rparr>) = cpu_read_word a' s"
  "cpu_read_word a' (s\<lparr>exiting := x33\<rparr>) = cpu_read_word a' s"
  "cpu_read_word a' (s\<lparr>mem_writes := x35\<rparr>) = cpu_read_word a' s"
  "cpu_read_word a' (s\<lparr>port_in := x36\<rparr>) = cpu_read_word a' s"
  "cpu_read_word a' (s\<lparr>port_writes := x37\<rparr>) = cpu_read_word a' s"
  "cpu_read_word a' (s\<lparr>intrpt_pending := x38\<rparr>) = cpu_read_word a' s"
  by (simp_all add: cpu_address_mode_def flags_C_def flags_N_def flags_PV_def flags_H_def flags_Z_def flags_S_def r_B_def r_C_def r_D_def r_E_def r_PCL_def r_PCH_def r_PCU_def r_AF_def stack_hl_def cpu_read_sp_def index_hl_def cpu_read_index_def cpu_read_index_low_def cpu_read_index_high_def cpu_read_other_index_def memory_read_byte_def cpu_read_byte_def cpu_read_word_def cpu_read_in_def port_read_byte_def)

lemma cpu_read_in_upd [simp]:
  "cpu_read_in p' (s\<lparr>r_A := x0\<rparr>) = cpu_read_in p' s"
  "cpu_read_in p' (s\<lparr>r_F := x1\<rparr>) = cpu_read_in p' s"
  "cpu_read_in p' (s\<lparr>r_BC := x2\<rparr>) = cpu_read_in p' s"
  "cpu_read_in p' (s\<lparr>r_DE := x3\<rparr>) = cpu_read_in p' s"
  "cpu_read_in p' (s\<lparr>r_HL := x4\<rparr>) = cpu_read_in p' s"
  "cpu_read_in p' (s\<lparr>r_HL' := x5\<rparr>) = cpu_read_in p' s"
  "cpu_read_in p' (s\<lparr>r_IX := x6\<rparr>) = cpu_read_in p' s"
  "cpu_read_in p' (s\<lparr>r_IY := x7\<rparr>) = cpu_read_in p' s"
  "cpu_read_in p' (s\<lparr>r_AF' := x8\<rparr>) = cpu_read_in p' s"
  "cpu_read_in p' (s\<lparr>r_BC' := x9\<rparr>) = cpu_read_in p' s"
  "cpu_read_in p' (s\<lparr>r_DE' := x10\<rparr>) = cpu_read_in p' s"
  "cpu_read_in p' (s\<lparr>r_SPS := x11\<rparr>) = cpu_read_in p' s"
  "cpu_read_in p' (s\<lparr>r_SPL := x12\<rparr>) = cpu_read_in p' s"
  "cpu_read_in p' (s\<lparr>r_PC := x13\<rparr>) = cpu_read_in p' s"
  "cpu_read_in p' (s\<lparr>r_I := x14\<rparr>) = cpu_read_in p' s"
  "cpu_read_in p' (s\<lparr>r_R := x15\<rparr>) = cpu_read_in p' s"
  "cpu_read_in p' (s\<lparr>r_MBASE := x16\<rparr>) = cpu_read_in p' s"
  "cpu_read_in p' (s\<lparr>cpu_prefetch_byte := x17\<rparr>) = cpu_read_in p' s"
  "cpu_read_in p' (s\<lparr>cpu_PREFIX := x18\<rparr>) = cpu_read_in p' s"
  "cpu_read_in p' (s\<lparr>cpu_SUFFIX := x19\<rparr>) = cpu_read_in p' s"
  "cpu_read_in p' (s\<lparr>cpu_L := x20\<rparr>) = cpu_read_in p' s"
  "cpu_read_in p' (s\<lparr>cpu_IL := x21\<rparr>) = cpu_read_in p' s"
  "cpu_read_in p' (s\<lparr>cpu_ADL := x22\<rparr>) = cpu_read_in p' s"
  "cpu_read_in p' (s\<lparr>cpu_MADL := x23\<rparr>) = cpu_read_in p' s"
  "cpu_read_in p' (s\<lparr>cpu_IEF1 := x24\<rparr>) = cpu_read_in p' s"
  "cpu_read_in p' (s\<lparr>cpu_IEF2 := x25\<rparr>) = cpu_read_in p' s"
  "cpu_read_in p' (s\<lparr>cpu_IEF_wait := x26\<rparr>) = cpu_read_in p' s"
  "cpu_read_in p' (s\<lparr>cpu_IM := x27\<rparr>) = cpu_read_in p' s"
  "cpu_read_in p' (s\<lparr>cpu_halted := x28\<rparr>) = cpu_read_in p' s"
  "cpu_read_in p' (s\<lparr>cpu_cycles := x29\<rparr>) = cpu_read_in p' s"
  "cpu_read_in p' (s\<lparr>cycle_count_delta := x30\<rparr>) = cpu_read_in p' s"
  "cpu_read_in p' (s\<lparr>cycle_offset := x31\<rparr>) = cpu_read_in p' s"
  "cpu_read_in p' (s\<lparr>cpu_events := x32\<rparr>) = cpu_read_in p' s"
  "cpu_read_in p' (s\<lparr>exiting := x33\<rparr>) = cpu_read_in p' s"
  "cpu_read_in p' (s\<lparr>memory := x34\<rparr>) = cpu_read_in p' s"
  "cpu_read_in p' (s\<lparr>mem_writes := x35\<rparr>) = cpu_read_in p' s"
  "cpu_read_in p' (s\<lparr>port_writes := x37\<rparr>) = cpu_read_in p' s"
  "cpu_read_in p' (s\<lparr>intrpt_pending := x38\<rparr>) = cpu_read_in p' s"
  by (simp_all add: cpu_address_mode_def flags_C_def flags_N_def flags_PV_def flags_H_def flags_Z_def flags_S_def r_B_def r_C_def r_D_def r_E_def r_PCL_def r_PCH_def r_PCU_def r_AF_def stack_hl_def cpu_read_sp_def index_hl_def cpu_read_index_def cpu_read_index_low_def cpu_read_index_high_def cpu_read_other_index_def memory_read_byte_def cpu_read_byte_def cpu_read_word_def cpu_read_in_def port_read_byte_def)

lemma memory_write_byte_frame [simp]:
  "r_A (memory_write_byte a v s) = r_A s"
  "r_F (memory_write_byte a v s) = r_F s"
  "r_BC (memory_write_byte a v s) = r_BC s"
  "r_DE (memory_write_byte a v s) = r_DE s"
  "r_HL (memory_write_byte a v s) = r_HL s"
  "r_HL' (memory_write_byte a v s) = r_HL' s"
  "r_IX (memory_write_byte a v s) = r_IX s"
  "r_IY (memory_write_byte a v s) = r_IY s"
  "r_AF' (memory_write_byte a v s) = r_AF' s"
  "r_BC' (memory_write_byte a v s) = r_BC' s"
  "r_DE' (memory_write_byte a v s) = r_DE' s"
  "r_SPS (memory_write_byte a v s) = r_SPS s"
  "r_SPL (memory_write_byte a v s) = r_SPL s"
  "r_PC (memory_write_byte a v s) = r_PC s"
  "r_I (memory_write_byte a v s) = r_I s"
  "r_R (memory_write_byte a v s) = r_R s"
  "r_MBASE (memory_write_byte a v s) = r_MBASE s"
  "cpu_prefetch_byte (memory_write_byte a v s) = cpu_prefetch_byte s"
  "cpu_PREFIX (memory_write_byte a v s) = cpu_PREFIX s"
  "cpu_SUFFIX (memory_write_byte a v s) = cpu_SUFFIX s"
  "cpu_L (memory_write_byte a v s) = cpu_L s"
  "cpu_IL (memory_write_byte a v s) = cpu_IL s"
  "cpu_ADL (memory_write_byte a v s) = cpu_ADL s"
  "cpu_MADL (memory_write_byte a v s) = cpu_MADL s"
  "cpu_IEF1 (memory_write_byte a v s) = cpu_IEF1 s"
  "cpu_IEF2 (memory_write_byte a v s) = cpu_IEF2 s"
  "cpu_IEF_wait (memory_write_byte a v s) = cpu_IEF_wait s"
  "cpu_IM (memory_write_byte a v s) = cpu_IM s"
  "cpu_halted (memory_write_byte a v s) = cpu_halted s"
  "cpu_cycles (memory_write_byte a v s) = cpu_cycles s"
  "cycle_count_delta (memory_write_byte a v s) = cycle_count_delta s"
  "cycle_offset (memory_write_byte a v s) = cycle_offset s"
  "cpu_events (memory_write_byte a v s) = cpu_events s"
  "exiting (memory_write_byte a v s) = exiting s"
  "port_in (memory_write_byte a v s) = port_in s"
  "port_writes (memory_write_byte a v s) = port_writes s"
  "intrpt_pending (memory_write_byte a v s) = intrpt_pending s"
  by (simp_all add: memory_write_byte_def Let_def split_beta)

lemma memory_write_byte_obs [simp]:
  "cpu_address_mode a' m' (memory_write_byte a v s) = cpu_address_mode a' m' s"
  "flags_C (memory_write_byte a v s) = flags_C s"
  "flags_N (memory_write_byte a v s) = flags_N s"
  "flags_PV (memory_write_byte a v s) = flags_PV s"
  "flags_H (memory_write_byte a v s) = flags_H s"
  "flags_Z (memory_write_byte a v s) = flags_Z s"
  "flags_S (memory_write_byte a v s) = flags_S s"
  "r_B (memory_write_byte a v s) = r_B s"
  "r_C (memory_write_byte a v s) = r_C s"
  "r_D (memory_write_byte a v s) = r_D s"
  "r_E (memory_write_byte a v s) = r_E s"
  "r_PCL (memory_write_byte a v s) = r_PCL s"
  "r_PCH (memory_write_byte a v s) = r_PCH s"
  "r_PCU (memory_write_byte a v s) = r_PCU s"
  "r_AF (memory_write_byte a v s) = r_AF s"
  "stack_hl (memory_write_byte a v s) = stack_hl s"
  "cpu_read_sp (memory_write_byte a v s) = cpu_read_sp s"
  "index_hl i' (memory_write_byte a v s) = index_hl i' s"
  "cpu_read_index (memory_write_byte a v s) = cpu_read_index s"
  "cpu_read_index_low (memory_write_byte a v s) = cpu_read_index_low s"
  "cpu_read_index_high (memory_write_byte a v s) = cpu_read_index_high s"
  "cpu_read_other_index (memory_write_byte a v s) = cpu_read_other_index s"
  "cpu_read_in p' (memory_write_byte a v s) = cpu_read_in p' s"
  by (simp_all add: cpu_address_mode_def flags_C_def flags_N_def flags_PV_def flags_H_def flags_Z_def flags_S_def r_B_def r_C_def r_D_def r_E_def r_PCL_def r_PCH_def r_PCU_def r_AF_def stack_hl_def cpu_read_sp_def index_hl_def cpu_read_index_def cpu_read_index_low_def cpu_read_index_high_def cpu_read_other_index_def memory_read_byte_def cpu_read_byte_def cpu_read_word_def cpu_read_in_def port_read_byte_def)

lemma cpu_address_mode_cong:
  "r_MBASE t = r_MBASE s \<Longrightarrow> cpu_address_mode a m t = cpu_address_mode a m s"
  by (simp add: cpu_address_mode_def)

lemma port_write_byte_frame [simp]:
  "r_A (port_write_byte p v s) = r_A s"
  "r_F (port_write_byte p v s) = r_F s"
  "r_BC (port_write_byte p v s) = r_BC s"
  "r_DE (port_write_byte p v s) = r_DE s"
  "r_HL (port_write_byte p v s) = r_HL s"
  "r_HL' (port_write_byte p v s) = r_HL' s"
  "r_IX (port_write_byte p v s) = r_IX s"
  "r_IY (port_write_byte p v s) = r_IY s"
  "r_AF' (port_write_byte p v s) = r_AF' s"
  "r_BC' (port_write_byte p v s) = r_BC' s"
  "r_DE' (port_write_byte p v s) = r_DE' s"
  "r_SPS (port_write_byte p v s) = r_SPS s"
  "r_SPL (port_write_byte p v s) = r_SPL s"
  "r_PC (port_write_byte p v s) = r_PC s"
  "r_I (port_write_byte p v s) = r_I s"
  "r_R (port_write_byte p v s) = r_R s"
  "r_MBASE (port_write_byte p v s) = r_MBASE s"
  "cpu_prefetch_byte (port_write_byte p v s) = cpu_prefetch_byte s"
  "cpu_PREFIX (port_write_byte p v s) = cpu_PREFIX s"
  "cpu_SUFFIX (port_write_byte p v s) = cpu_SUFFIX s"
  "cpu_L (port_write_byte p v s) = cpu_L s"
  "cpu_IL (port_write_byte p v s) = cpu_IL s"
  "cpu_ADL (port_write_byte p v s) = cpu_ADL s"
  "cpu_MADL (port_write_byte p v s) = cpu_MADL s"
  "cpu_IEF1 (port_write_byte p v s) = cpu_IEF1 s"
  "cpu_IEF2 (port_write_byte p v s) = cpu_IEF2 s"
  "cpu_IEF_wait (port_write_byte p v s) = cpu_IEF_wait s"
  "cpu_IM (port_write_byte p v s) = cpu_IM s"
  "cpu_halted (port_write_byte p v s) = cpu_halted s"
  "cpu_cycles (port_write_byte p v s) = cpu_cycles s"
  "cycle_count_delta (port_write_byte p v s) = cycle_count_delta s"
  "cycle_offset (port_write_byte p v s) = cycle_offset s"
  "cpu_events (port_write_byte p v s) = cpu_events s"
  "exiting (port_write_byte p v s) = exiting s"
  "memory (port_write_byte p v s) = memory s"
  "mem_writes (port_write_byte p v s) = mem_writes s"
  "port_in (port_write_byte p v s) = port_in s"
  "intrpt_pending (port_write_byte p v s) = intrpt_pending s"
  by (simp_all add: port_write_byte_def Let_def split_beta)

lemma port_write_byte_obs [simp]:
  "cpu_address_mode a' m' (port_write_byte p v s) = cpu_address_mode a' m' s"
  "flags_C (port_write_byte p v s) = flags_C s"
  "flags_N (port_write_byte p v s) = flags_N s"
  "flags_PV (port_write_byte p v s) = flags_PV s"
  "flags_H (port_write_byte p v s) = flags_H s"
  "flags_Z (port_write_byte p v s) = flags_Z s"
  "flags_S (port_write_byte p v s) = flags_S s"
  "r_B (port_write_byte p v s) = r_B s"
  "r_C (port_write_byte p v s) = r_C s"
  "r_D (port_write_byte p v s) = r_D s"
  "r_E (port_write_byte p v s) = r_E s"
  "r_PCL (port_write_byte p v s) = r_PCL s"
  "r_PCH (port_write_byte p v s) = r_PCH s"
  "r_PCU (port_write_byte p v s) = r_PCU s"
  "r_AF (port_write_byte p v s) = r_AF s"
  "stack_hl (port_write_byte p v s) = stack_hl s"
  "cpu_read_sp (port_write_byte p v s) = cpu_read_sp s"
  "index_hl i' (port_write_byte p v s) = index_hl i' s"
  "cpu_read_index (port_write_byte p v s) = cpu_read_index s"
  "cpu_read_index_low (port_write_byte p v s) = cpu_read_index_low s"
  "cpu_read_index_high (port_write_byte p v s) = cpu_read_index_high s"
  "cpu_read_other_index (port_write_byte p v s) = cpu_read_other_index s"
  "memory_read_byte a' (port_write_byte p v s) = memory_read_byte a' s"
  "cpu_read_byte a' (port_write_byte p v s) = cpu_read_byte a' s"
  "cpu_read_word a' (port_write_byte p v s) = cpu_read_word a' s"
  "cpu_read_in p' (port_write_byte p v s) = cpu_read_in p' s"
  by (simp_all add: cpu_address_mode_def flags_C_def flags_N_def flags_PV_def flags_H_def flags_Z_def flags_S_def r_B_def r_C_def r_D_def r_E_def r_PCL_def r_PCH_def r_PCU_def r_AF_def stack_hl_def cpu_read_sp_def index_hl_def cpu_read_index_def cpu_read_index_low_def cpu_read_index_high_def cpu_read_other_index_def memory_read_byte_def cpu_read_byte_def cpu_read_word_def cpu_read_in_def port_read_byte_def)

lemma cpu_prefetch_frame [simp]:
  "r_A (cpu_prefetch a m s) = r_A s"
  "r_F (cpu_prefetch a m s) = r_F s"
  "r_BC (cpu_prefetch a m s) = r_BC s"
  "r_DE (cpu_prefetch a m s) = r_DE s"
  "r_HL (cpu_prefetch a m s) = r_HL s"
  "r_HL' (cpu_prefetch a m s) = r_HL' s"
  "r_IX (cpu_prefetch a m s) = r_IX s"
  "r_IY (cpu_prefetch a m s) = r_IY s"
  "r_AF' (cpu_prefetch a m s) = r_AF' s"
  "r_BC' (cpu_prefetch a m s) = r_BC' s"
  "r_DE' (cpu_prefetch a m s) = r_DE' s"
  "r_SPS (cpu_prefetch a m s) = r_SPS s"
  "r_SPL (cpu_prefetch a m s) = r_SPL s"
  "r_I (cpu_prefetch a m s) = r_I s"
  "r_R (cpu_prefetch a m s) = r_R s"
  "r_MBASE (cpu_prefetch a m s) = r_MBASE s"
  "cpu_PREFIX (cpu_prefetch a m s) = cpu_PREFIX s"
  "cpu_SUFFIX (cpu_prefetch a m s) = cpu_SUFFIX s"
  "cpu_L (cpu_prefetch a m s) = cpu_L s"
  "cpu_IL (cpu_prefetch a m s) = cpu_IL s"
  "cpu_MADL (cpu_prefetch a m s) = cpu_MADL s"
  "cpu_IEF1 (cpu_prefetch a m s) = cpu_IEF1 s"
  "cpu_IEF2 (cpu_prefetch a m s) = cpu_IEF2 s"
  "cpu_IEF_wait (cpu_prefetch a m s) = cpu_IEF_wait s"
  "cpu_IM (cpu_prefetch a m s) = cpu_IM s"
  "cpu_halted (cpu_prefetch a m s) = cpu_halted s"
  "cpu_cycles (cpu_prefetch a m s) = cpu_cycles s"
  "cycle_count_delta (cpu_prefetch a m s) = cycle_count_delta s"
  "cycle_offset (cpu_prefetch a m s) = cycle_offset s"
  "cpu_events (cpu_prefetch a m s) = cpu_events s"
  "exiting (cpu_prefetch a m s) = exiting s"
  "memory (cpu_prefetch a m s) = memory s"
  "mem_writes (cpu_prefetch a m s) = mem_writes s"
  "port_in (cpu_prefetch a m s) = port_in s"
  "port_writes (cpu_prefetch a m s) = port_writes s"
  "intrpt_pending (cpu_prefetch a m s) = intrpt_pending s"
  by (simp_all add: cpu_prefetch_def Let_def split_beta)

lemma cpu_prefetch_obs [simp]:
  "cpu_address_mode a' m' (cpu_prefetch a m s) = cpu_address_mode a' m' s"
  "flags_C (cpu_prefetch a m s) = flags_C s"
  "flags_N (cpu_prefetch a m s) = flags_N s"
  "flags_PV (cpu_prefetch a m s) = flags_PV s"
  "flags_H (cpu_prefetch a m s) = flags_H s"
  "flags_Z (cpu_prefetch a m s) = flags_Z s"
  "flags_S (cpu_prefetch a m s) = flags_S s"
  "r_B (cpu_prefetch a m s) = r_B s"
  "r_C (cpu_prefetch a m s) = r_C s"
  "r_D (cpu_prefetch a m s) = r_D s"
  "r_E (cpu_prefetch a m s) = r_E s"
  "r_AF (cpu_prefetch a m s) = r_AF s"
  "stack_hl (cpu_prefetch a m s) = stack_hl s"
  "cpu_read_sp (cpu_prefetch a m s) = cpu_read_sp s"
  "index_hl i' (cpu_prefetch a m s) = index_hl i' s"
  "cpu_read_index (cpu_prefetch a m s) = cpu_read_index s"
  "cpu_read_index_low (cpu_prefetch a m s) = cpu_read_index_low s"
  "cpu_read_index_high (cpu_prefetch a m s) = cpu_read_index_high s"
  "cpu_read_other_index (cpu_prefetch a m s) = cpu_read_other_index s"
  "memory_read_byte a' (cpu_prefetch a m s) = memory_read_byte a' s"
  "cpu_read_byte a' (cpu_prefetch a m s) = cpu_read_byte a' s"
  "cpu_read_word a' (cpu_prefetch a m s) = cpu_read_word a' s"
  "cpu_read_in p' (cpu_prefetch a m s) = cpu_read_in p' s"
  by (simp_all add: cpu_address_mode_def flags_C_def flags_N_def flags_PV_def flags_H_def flags_Z_def flags_S_def r_B_def r_C_def r_D_def r_E_def r_PCL_def r_PCH_def r_PCU_def r_AF_def stack_hl_def cpu_read_sp_def index_hl_def cpu_read_index_def cpu_read_index_low_def cpu_read_index_high_def cpu_read_other_index_def memory_read_byte_def cpu_read_byte_def cpu_read_word_def cpu_read_in_def port_read_byte_def)

lemma cpu_prefetch_sets [simp]:
  "cpu_ADL (cpu_prefetch a m s) = m"
  "r_PC (cpu_prefetch a m s) = cpu_address_mode a m s"
  "cpu_prefetch_byte (cpu_prefetch a m s) = memory s (cpu_address_mode a m s)"
  by (simp_all add: cpu_prefetch_def Let_def memory_read_byte_def)

lemma cpu_fetch_byte_frame [simp]:
  "r_A (snd (cpu_fetch_byte s)) = r_A s"
  "r_F (snd (cpu_fetch_byte s)) = r_F s"
  "r_BC (snd (cpu_fetch_byte s)) = r_BC s"
  "r_DE (snd (cpu_fetch_byte s)) = r_DE s"
  "r_HL (snd (cpu_fetch_byte s)) = r_HL s"
  "r_HL' (snd (cpu_fetch_byte s)) = r_HL' s"
  "r_IX (snd (cpu_fetch_byte s)) = r_IX s"
  "r_IY (snd (cpu_fetch_byte s)) = r_IY s"
  "r_AF' (snd (cpu_fetch_byte s)) = r_AF' s"
  "r_BC' (snd (cpu_fetch_byte s)) = r_BC' s"
  "r_DE' (snd (cpu_fetch_byte s)) = r_DE' s"
  "r_SPS (snd (cpu_fetch_byte s)) = r_SPS s"
  "r_SPL (snd (cpu_fetch_byte s)) = r_SPL s"
  "r_I (snd (cpu_fetch_byte s)) = r_I s"
  "r_R (snd (cpu_fetch_byte s)) = r_R s"
  "r_MBASE (snd (cpu_fetch_byte s)) = r_MBASE s"
  "cpu_PREFIX (snd (cpu_fetch_byte s)) = cpu_PREFIX s"
  "cpu_SUFFIX (snd (cpu_fetch_byte s)) = cpu_SUFFIX s"
  "cpu_L (snd (cpu_fetch_byte s)) = cpu_L s"
  "cpu_IL (snd (cpu_fetch_byte s)) = cpu_IL s"
  "cpu_ADL (snd (cpu_fetch_byte s)) = cpu_ADL s"
  "cpu_MADL (snd (cpu_fetch_byte s)) = cpu_MADL s"
  "cpu_IEF1 (snd (cpu_fetch_byte s)) = cpu_IEF1 s"
  "cpu_IEF2 (snd (cpu_fetch_byte s)) = cpu_IEF2 s"
  "cpu_IEF_wait (snd (cpu_fetch_byte s)) = cpu_IEF_wait s"
  "cpu_IM (snd (cpu_fetch_byte s)) = cpu_IM s"
  "cpu_halted (snd (cpu_fetch_byte s)) = cpu_halted s"
  "cpu_cycles (snd (cpu_fetch_byte s)) = cpu_cycles s"
  "cycle_count_delta (snd (cpu_fetch_byte s)) = cycle_count_delta s"
  "cycle_offset (snd (cpu_fetch_byte s)) = cycle_offset s"
  "cpu_events (snd (cpu_fetch_byte s)) = cpu_events s"
  "exiting (snd (cpu_fetch_byte s)) = exiting s"
  "memory (snd (cpu_fetch_byte s)) = memory s"
  "mem_writes (snd (cpu_fetch_byte s)) = mem_writes s"
  "port_in (snd (cpu_fetch_byte s)) = port_in s"
  "port_writes (snd (cpu_fetch_byte s)) = port_writes s"
  "intrpt_pending (snd (cpu_fetch_byte s)) = intrpt_pending s"
  by (simp_all add: cpu_fetch_byte_def Let_def split_beta)

lemma cpu_fetch_byte_obs [simp]:
  "cpu_address_mode a' m' (snd (cpu_fetch_byte s)) = cpu_address_mode a' m' s"
  "flags_C (snd (cpu_fetch_byte s)) = flags_C s"
  "flags_N (snd (cpu_fetch_byte s)) = flags_N s"
  "flags_PV (snd (cpu_fetch_byte s)) = flags_PV s"
  "flags_H (snd (cpu_fetch_byte s)) = flags_H s"
  "flags_Z (snd (cpu_fetch_byte s)) = flags_Z s"
  "flags_S (snd (cpu_fetch_byte s)) = flags_S s"
  "r_B (snd (cpu_fetch_byte s)) = r_B s"
  "r_C (snd (cpu_fetch_byte s)) = r_C s"
  "r_D (snd (cpu_fetch_byte s)) = r_D s"
  "r_E (snd (cpu_fetch_byte s)) = r_E s"
  "r_AF (snd (cpu_fetch_byte s)) = r_AF s"
  "stack_hl (snd (cpu_fetch_byte s)) = stack_hl s"
  "cpu_read_sp (snd (cpu_fetch_byte s)) = cpu_read_sp s"
  "index_hl i' (snd (cpu_fetch_byte s)) = index_hl i' s"
  "cpu_read_index (snd (cpu_fetch_byte s)) = cpu_read_index s"
  "cpu_read_index_low (snd (cpu_fetch_byte s)) = cpu_read_index_low s"
  "cpu_read_index_high (snd (cpu_fetch_byte s)) = cpu_read_index_high s"
  "cpu_read_other_index (snd (cpu_fetch_byte s)) = cpu_read_other_index s"
  "memory_read_byte a' (snd (cpu_fetch_byte s)) = memory_read_byte a' s"
  "cpu_read_byte a' (snd (cpu_fetch_byte s)) = cpu_read_byte a' s"
  "cpu_read_word a' (snd (cpu_fetch_byte s)) = cpu_read_word a' s"
  "cpu_read_in p' (snd (cpu_fetch_byte s)) = cpu_read_in p' s"
  by (simp_all add: cpu_address_mode_def flags_C_def flags_N_def flags_PV_def flags_H_def flags_Z_def flags_S_def r_B_def r_C_def r_D_def r_E_def r_PCL_def r_PCH_def r_PCU_def r_AF_def stack_hl_def cpu_read_sp_def index_hl_def cpu_read_index_def cpu_read_index_low_def cpu_read_index_high_def cpu_read_other_index_def memory_read_byte_def cpu_read_byte_def cpu_read_word_def cpu_read_in_def port_read_byte_def)

lemma cpu_fetch_offset_frame [simp]:
  "r_A (snd (cpu_fetch_offset s)) = r_A s"
  "r_F (snd (cpu_fetch_offset s)) = r_F s"
  "r_BC (snd (cpu_fetch_offset s)) = r_BC s"
  "r_DE (snd (cpu_fetch_offset s)) = r_DE s"
  "r_HL (snd (cpu_fetch_offset s)) = r_HL s"
  "r_HL' (snd (cpu_fetch_offset s)) = r_HL' s"
  "r_IX (snd (cpu_fetch_offset s)) = r_IX s"
  "r_IY (snd (cpu_fetch_offset s)) = r_IY s"
  "r_AF' (snd (cpu_fetch_offset s)) = r_AF' s"
  "r_BC' (snd (cpu_fetch_offset s)) = r_BC' s"
  "r_DE' (snd (cpu_fetch_offset s)) = r_DE' s"
  "r_SPS (snd (cpu_fetch_offset s)) = r_SPS s"
  "r_SPL (snd (cpu_fetch_offset s)) = r_SPL s"
  "r_I (snd (cpu_fetch_offset s)) = r_I s"
  "r_R (snd (cpu_fetch_offset s)) = r_R s"
  "r_MBASE (snd (cpu_fetch_offset s)) = r_MBASE s"
  "cpu_PREFIX (snd (cpu_fetch_offset s)) = cpu_PREFIX s"
  "cpu_SUFFIX (snd (cpu_fetch_offset s)) = cpu_SUFFIX s"
  "cpu_L (snd (cpu_fetch_offset s)) = cpu_L s"
  "cpu_IL (snd (cpu_fetch_offset s)) = cpu_IL s"
  "cpu_ADL (snd (cpu_fetch_offset s)) = cpu_ADL s"
  "cpu_MADL (snd (cpu_fetch_offset s)) = cpu_MADL s"
  "cpu_IEF1 (snd (cpu_fetch_offset s)) = cpu_IEF1 s"
  "cpu_IEF2 (snd (cpu_fetch_offset s)) = cpu_IEF2 s"
  "cpu_IEF_wait (snd (cpu_fetch_offset s)) = cpu_IEF_wait s"
  "cpu_IM (snd (cpu_fetch_offset s)) = cpu_IM s"
  "cpu_halted (snd (cpu_fetch_offset s)) = cpu_halted s"
  "cpu_cycles (snd (cpu_fetch_offset s)) = cpu_cycles s"
  "cycle_count_delta (snd (cpu_fetch_offset s)) = cycle_count_delta s"
  "cycle_offset (snd (cpu_fetch_offset s)) = cycle_offset s"
  "cpu_events (snd (cpu_fetch_offset s)) = cpu_events s"
  "exiting (snd (cpu_fetch_offset s)) = exiting s"
  "memory (snd (cpu_fetch_offset s)) = memory s"
  "mem_writes (snd (cpu_fetch_offset s)) = mem_writes s"
  "port_in (snd (cpu_fetch_offset s)) = port_in s"
  "port_writes (snd (cpu_fetch_offset s)) = port_writes s"
  "intrpt_pending (snd (cpu_fetch_offset s)) = intrpt_pending s"
  by (simp_all add: cpu_fetch_offset_def Let_def split_beta)

lemma cpu_fetch_offset_obs [simp]:
  "cpu_address_mode a' m' (snd (cpu_fetch_offset s)) = cpu_address_mode a' m' s"
  "flags_C (snd (cpu_fetch_offset s)) = flags_C s"
  "flags_N (snd (cpu_fetch_offset s)) = flags_N s"
  "flags_PV (snd (cpu_fetch_offset s)) = flags_PV s"
  "flags_H (snd (cpu_fetch_offset s)) = flags_H s"
  "flags_Z (snd (cpu_fetch_offset s)) = flags_Z s"
  "flags_S (snd (cpu_fetch_offset s)) = flags_S s"
  "r_B (snd (cpu_fetch_offset s)) = r_B s"
  "r_C (snd (cpu_fetch_offset s)) = r_C s"
  "r_D (snd (cpu_fetch_offset s)) = r_D s"
  "r_E (snd (cpu_fetch_offset s)) = r_E s"
  "r_AF (snd (cpu_fetch_offset s)) = r_AF s"
  "stack_hl (snd (cpu_fetch_offset s)) = stack_hl s"
  "cpu_read_sp (snd (cpu_fetch_offset s)) = cpu_read_sp s"
  "index_hl i' (snd (cpu_fetch_offset s)) = index_hl i' s"
  "cpu_read_index (snd (cpu_fetch_offset s)) = cpu_read_index s"
  "cpu_read_index_low (snd (cpu_fetch_offset s)) = cpu_read_index_low s"
  "cpu_read_index_high (snd (cpu_fetch_offset s)) = cpu_read_index_high s"
  "cpu_read_other_index (snd (cpu_fetch_offset s)) = cpu_read_other_index s"
  "memory_read_byte a' (snd (cpu_fetch_offset s)) = memory_read_byte a' s"
  "cpu_read_byte a' (snd (cpu_fetch_offset s)) = cpu_read_byte a' s"
  "cpu_read_word a' (snd (cpu_fetch_offset s)) = cpu_read_word a' s"
  "cpu_read_in p' (snd (cpu_fetch_offset s)) = cpu_read_in p' s"
  by (simp_all add: cpu_address_mode_def flags_C_def flags_N_def flags_PV_def flags_H_def flags_Z_def flags_S_def r_B_def r_C_def r_D_def r_E_def r_PCL_def r_PCH_def r_PCU_def r_AF_def stack_hl_def cpu_read_sp_def index_hl_def cpu_read_index_def cpu_read_index_low_def cpu_read_index_high_def cpu_read_other_index_def memory_read_byte_def cpu_read_byte_def cpu_read_word_def cpu_read_in_def port_read_byte_def)

lemma cpu_fetch_word_frame [simp]:
  "r_A (snd (cpu_fetch_word s)) = r_A s"
  "r_F (snd (cpu_fetch_word s)) = r_F s"
  "r_BC (snd (cpu_fetch_word s)) = r_BC s"
  "r_DE (snd (cpu_fetch_word s)) = r_DE s"
  "r_HL (snd (cpu_fetch_word s)) = r_HL s"
  "r_HL' (snd (cpu_fetch_word s)) = r_HL' s"
  "r_IX (snd (cpu_fetch_word s)) = r_IX s"
  "r_IY (snd (cpu_fetch_word s)) = r_IY s"
  "r_AF' (snd (cpu_fetch_word s)) = r_AF' s"
  "r_BC' (snd (cpu_fetch_word s)) = r_BC' s"
  "r_DE' (snd (cpu_fetch_word s)) = r_DE' s"
  "r_SPS (snd (cpu_fetch_word s)) = r_SPS s"
  "r_SPL (snd (cpu_fetch_word s)) = r_SPL s"
  "r_I (snd (cpu_fetch_word s)) = r_I s"
  "r_R (snd (cpu_fetch_word s)) = r_R s"
  "r_MBASE (snd (cpu_fetch_word s)) = r_MBASE s"
  "cpu_PREFIX (snd (cpu_fetch_word s)) = cpu_PREFIX s"
  "cpu_SUFFIX (snd (cpu_fetch_word s)) = cpu_SUFFIX s"
  "cpu_L (snd (cpu_fetch_word s)) = cpu_L s"
  "cpu_IL (snd (cpu_fetch_word s)) = cpu_IL s"
  "cpu_ADL (snd (cpu_fetch_word s)) = cpu_ADL s"
  "cpu_MADL (snd (cpu_fetch_word s)) = cpu_MADL s"
  "cpu_IEF1 (snd (cpu_fetch_word s)) = cpu_IEF1 s"
  "cpu_IEF2 (snd (cpu_fetch_word s)) = cpu_IEF2 s"
  "cpu_IEF_wait (snd (cpu_fetch_word s)) = cpu_IEF_wait s"
  "cpu_IM (snd (cpu_fetch_word s)) = cpu_IM s"
  "cpu_halted (snd (cpu_fetch_word s)) = cpu_halted s"
  "cpu_cycles (snd (cpu_fetch_word s)) = cpu_cycles s"
  "cycle_count_delta (snd (cpu_fetch_word s)) = cycle_count_delta s"
  "cycle_offset (snd (cpu_fetch_word s)) = cycle_offset s"
  "cpu_events (snd (cpu_fetch_word s)) = cpu_events s"
  "exiting (snd (cpu_fetch_word s)) = exiting s"
  "memory (snd (cpu_fetch_word s)) = memory s"
  "mem_writes (snd (cpu_fetch_word s)) = mem_writes s"
  "port_in (snd (cpu_fetch_word s)) = port_in s"
  "port_writes (snd (cpu_fetch_word s)) = port_writes s"
  "intrpt_pending (snd (cpu_fetch_word s)) = intrpt_pending s"
  by (simp_all add: cpu_fetch_word_def Let_def split_beta)

lemma cpu_fetch_word_obs [simp]:
  "cpu_address_mode a' m' (snd (cpu_fetch_word s)) = cpu_address_mode a' m' s"
  "flags_C (snd (cpu_fetch_word s)) = flags_C s"
  "flags_N (snd (cpu_fetch_word s)) = flags_N s"
  "flags_PV (snd (cpu_fetch_word s)) = flags_PV s"
  "flags_H (snd (cpu_fetch_word s)) = flags_H s"
  "flags_Z (snd (cpu_fetch_word s)) = flags_Z s"
  "flags_S (snd (cpu_fetch_word s)) = flags_S s"
  "r_B (snd (cpu_fetch_word s)) = r_B s"
  "r_C (snd (cpu_fetch_word s)) = r_C s"
  "r_D (snd (cpu_fetch_word s)) = r_D s"
  "r_E (snd (cpu_fetch_word s)) = r_E s"
  "r_AF (snd (cpu_fetch_word s)) = r_AF s"
  "stack_hl (snd (cpu_fetch_word s)) = stack_hl s"
  "cpu_read_sp (snd (cpu_fetch_word s)) = cpu_read_sp s"
  "index_hl i' (snd (cpu_fetch_word s)) = index_hl i' s"
  "cpu_read_index (snd (cpu_fetch_word s)) = cpu_read_index s"
  "cpu_read_index_low (snd (cpu_fetch_word s)) = cpu_read_index_low s"
  "cpu_read_index_high (snd (cpu_fetch_word s)) = cpu_read_index_high s"
  "cpu_read_other_index (snd (cpu_fetch_word s)) = cpu_read_other_index s"
  "memory_read_byte a' (snd (cpu_fetch_word s)) = memory_read_byte a' s"
  "cpu_read_byte a' (snd (cpu_fetch_word s)) = cpu_read_byte a' s"
  "cpu_read_word a' (snd (cpu_fetch_word s)) = cpu_read_word a' s"
  "cpu_read_in p' (snd (cpu_fetch_word s)) = cpu_read_in p' s"
  by (simp_all add: cpu_address_mode_def flags_C_def flags_N_def flags_PV_def flags_H_def flags_Z_def flags_S_def r_B_def r_C_def r_D_def r_E_def r_PCL_def r_PCH_def r_PCU_def r_AF_def stack_hl_def cpu_read_sp_def index_hl_def cpu_read_index_def cpu_read_index_low_def cpu_read_index_high_def cpu_read_other_index_def memory_read_byte_def cpu_read_byte_def cpu_read_word_def cpu_read_in_def port_read_byte_def)

lemma cpu_fetch_word_no_prefetch_frame [simp]:
  "r_A (snd (cpu_fetch_word_no_prefetch s)) = r_A s"
  "r_F (snd (cpu_fetch_word_no_prefetch s)) = r_F s"
  "r_BC (snd (cpu_fetch_word_no_prefetch s)) = r_BC s"
  "r_DE (snd (cpu_fetch_word_no_prefetch s)) = r_DE s"
  "r_HL (snd (cpu_fetch_word_no_prefetch s)) = r_HL s"
  "r_HL' (snd (cpu_fetch_word_no_prefetch s)) = r_HL' s"
  "r_IX (snd (cpu_fetch_word_no_prefetch s)) = r_IX s"
  "r_IY (snd (cpu_fetch_word_no_prefetch s)) = r_IY s"
  "r_AF' (snd (cpu_fetch_word_no_prefetch s)) = r_AF' s"
  "r_BC' (snd (cpu_fetch_word_no_prefetch s)) = r_BC' s"
  "r_DE' (snd (cpu_fetch_word_no_prefetch s)) = r_DE' s"
  "r_SPS (snd (cpu_fetch_word_no_prefetch s)) = r_SPS s"
  "r_SPL (snd (cpu_fetch_word_no_prefetch s)) = r_SPL s"
  "r_I (snd (cpu_fetch_word_no_prefetch s)) = r_I s"
  "r_R (snd (cpu_fetch_word_no_prefetch s)) = r_R s"
  "r_MBASE (snd (cpu_fetch_word_no_prefetch s)) = r_MBASE s"
  "cpu_PREFIX (snd (cpu_fetch_word_no_prefetch s)) = cpu_PREFIX s"
  "cpu_SUFFIX (snd (cpu_fetch_word_no_prefetch s)) = cpu_SUFFIX s"
  "cpu_L (snd (cpu_fetch_word_no_prefetch s)) = cpu_L s"
  "cpu_IL (snd (cpu_fetch_word_no_prefetch s)) = cpu_IL s"
  "cpu_ADL (snd (cpu_fetch_word_no_prefetch s)) = cpu_ADL s"
  "cpu_MADL (snd (cpu_fetch_word_no_prefetch s)) = cpu_MADL s"
  "cpu_IEF1 (snd (cpu_fetch_word_no_prefetch s)) = cpu_IEF1 s"
  "cpu_IEF2 (snd (cpu_fetch_word_no_prefetch s)) = cpu_IEF2 s"
  "cpu_IEF_wait (snd (cpu_fetch_word_no_prefetch s)) = cpu_IEF_wait s"
  "cpu_IM (snd (cpu_fetch_word_no_prefetch s)) = cpu_IM s"
  "cpu_halted (snd (cpu_fetch_word_no_prefetch s)) = cpu_halted s"
  "cpu_cycles (snd (cpu_fetch_word_no_prefetch s)) = cpu_cycles s"
  "cycle_count_delta (snd (cpu_fetch_word_no_prefetch s)) = cycle_count_delta s"
  "cycle_offset (snd (cpu_fetch_word_no_prefetch s)) = cycle_offset s"
  "cpu_events (snd (cpu_fetch_word_no_prefetch s)) = cpu_events s"
  "exiting (snd (cpu_fetch_word_no_prefetch s)) = exiting s"
  "memory (snd (cpu_fetch_word_no_prefetch s)) = memory s"
  "mem_writes (snd (cpu_fetch_word_no_prefetch s)) = mem_writes s"
  "port_in (snd (cpu_fetch_word_no_prefetch s)) = port_in s"
  "port_writes (snd (cpu_fetch_word_no_prefetch s)) = port_writes s"
  "intrpt_pending (snd (cpu_fetch_word_no_prefetch s)) = intrpt_pending s"
  by (simp_all add: cpu_fetch_word_no_prefetch_def Let_def split_beta)

lemma cpu_fetch_word_no_prefetch_obs [simp]:
  "cpu_address_mode a' m' (snd (cpu_fetch_word_no_prefetch s)) = cpu_address_mode a' m' s"
  "flags_C (snd (cpu_fetch_word_no_prefetch s)) = flags_C s"
  "flags_N (snd (cpu_fetch_word_no_prefetch s)) = flags_N s"
  "flags_PV (snd (cpu_fetch_word_no_prefetch s)) = flags_PV s"
  "flags_H (snd (cpu_fetch_word_no_prefetch s)) = flags_H s"
  "flags_Z (snd (cpu_fetch_word_no_prefetch s)) = flags_Z s"
  "flags_S (snd (cpu_fetch_word_no_prefetch s)) = flags_S s"
  "r_B (snd (cpu_fetch_word_no_prefetch s)) = r_B s"
  "r_C (snd (cpu_fetch_word_no_prefetch s)) = r_C s"
  "r_D (snd (cpu_fetch_word_no_prefetch s)) = r_D s"
  "r_E (snd (cpu_fetch_word_no_prefetch s)) = r_E s"
  "r_AF (snd (cpu_fetch_word_no_prefetch s)) = r_AF s"
  "stack_hl (snd (cpu_fetch_word_no_prefetch s)) = stack_hl s"
  "cpu_read_sp (snd (cpu_fetch_word_no_prefetch s)) = cpu_read_sp s"
  "index_hl i' (snd (cpu_fetch_word_no_prefetch s)) = index_hl i' s"
  "cpu_read_index (snd (cpu_fetch_word_no_prefetch s)) = cpu_read_index s"
  "cpu_read_index_low (snd (cpu_fetch_word_no_prefetch s)) = cpu_read_index_low s"
  "cpu_read_index_high (snd (cpu_fetch_word_no_prefetch s)) = cpu_read_index_high s"
  "cpu_read_other_index (snd (cpu_fetch_word_no_prefetch s)) = cpu_read_other_index s"
  "memory_read_byte a' (snd (cpu_fetch_word_no_prefetch s)) = memory_read_byte a' s"
  "cpu_read_byte a' (snd (cpu_fetch_word_no_prefetch s)) = cpu_read_byte a' s"
  "cpu_read_word a' (snd (cpu_fetch_word_no_prefetch s)) = cpu_read_word a' s"
  "cpu_read_in p' (snd (cpu_fetch_word_no_prefetch s)) = cpu_read_in p' s"
  by (simp_all add: cpu_address_mode_def flags_C_def flags_N_def flags_PV_def flags_H_def flags_Z_def flags_S_def r_B_def r_C_def r_D_def r_E_def r_PCL_def r_PCH_def r_PCU_def r_AF_def stack_hl_def cpu_read_sp_def index_hl_def cpu_read_index_def cpu_read_index_low_def cpu_read_index_high_def cpu_read_other_index_def memory_read_byte_def cpu_read_byte_def cpu_read_word_def cpu_read_in_def port_read_byte_def)

lemma cpu_write_byte_frame [simp]:
  "r_A (cpu_write_byte a v s) = r_A s"
  "r_F (cpu_write_byte a v s) = r_F s"
  "r_BC (cpu_write_byte a v s) = r_BC s"
  "r_DE (cpu_write_byte a v s) = r_DE s"
  "r_HL (cpu_write_byte a v s) = r_HL s"
  "r_HL' (cpu_write_byte a v s) = r_HL' s"
  "r_IX (cpu_write_byte a v s) = r_IX s"
  "r_IY (cpu_write_byte a v s) = r_IY s"
  "r_AF' (cpu_write_byte a v s) = r_AF' s"
  "r_BC' (cpu_write_byte a v s) = r_BC' s"
  "r_DE' (cpu_write_byte a v s) = r_DE' s"
  "r_SPS (cpu_write_byte a v s) = r_SPS s"
  "r_SPL (cpu_write_byte a v s) = r_SPL s"
  "r_PC (cpu_write_byte a v s) = r_PC s"
  "r_I (cpu_write_byte a v s) = r_I s"
  "r_R (cpu_write_byte a v s) = r_R s"
  "r_MBASE (cpu_write_byte a v s) = r_MBASE s"
  "cpu_prefetch_byte (cpu_write_byte a v s) = cpu_prefetch_byte s"
  "cpu_PREFIX (cpu_write_byte a v s) = cpu_PREFIX s"
  "cpu_SUFFIX (cpu_write_byte a v s) = cpu_SUFFIX s"
  "cpu_L (cpu_write_byte a v s) = cpu_L s"
  "cpu_IL (cpu_write_byte a v s) = cpu_IL s"
  "cpu_ADL (cpu_write_byte a v s) = cpu_ADL s"
  "cpu_MADL (cpu_write_byte a v s) = cpu_MADL s"
  "cpu_IEF1 (cpu_write_byte a v s) = cpu_IEF1 s"
  "cpu_IEF2 (cpu_write_byte a v s) = cpu_IEF2 s"
  "cpu_IEF_wait (cpu_write_byte a v s) = cpu_IEF_wait s"
  "cpu_IM (cpu_write_byte a v s) = cpu_IM s"
  "cpu_halted (cpu_write_byte a v s) = cpu_halted s"
  "cpu_cycles (cpu_write_byte a v s) = cpu_cycles s"
  "cycle_count_delta (cpu_write_byte a v s) = cycle_count_delta s"
  "cycle_offset (cpu_write_byte a v s) = cycle_offset s"
  "cpu_events (cpu_write_byte a v s) = cpu_events s"
  "exiting (cpu_write_byte a v s) = exiting s"
  "port_in (cpu_write_byte a v s) = port_in s"
  "port_writes (cpu_write_byte a v s) = port_writes s"
  "intrpt_pending (cpu_write_byte a v s) = intrpt_pending s"
  by (simp_all add: cpu_write_byte_def Let_def split_beta)

lemma cpu_write_byte_obs [simp]:
  "cpu_address_mode a' m' (cpu_write_byte a v s) = cpu_address_mode a' m' s"
  "flags_C (cpu_write_byte a v s) = flags_C s"
  "flags_N (cpu_write_byte a v s) = flags_N s"
  "flags_PV (cpu_write_byte a v s) = flags_PV s"
  "flags_H (cpu_write_byte a v s) = flags_H s"
  "flags_Z (cpu_write_byte a v s) = flags_Z s"
  "flags_S (cpu_write_byte a v s) = flags_S s"
  "r_B (cpu_write_byte a v s) = r_B s"
  "r_C (cpu_write_byte a v s) = r_C s"
  "r_D (cpu_write_byte a v s) = r_D s"
  "r_E (cpu_write_byte a v s) = r_E s"
  "r_PCL (cpu_write_byte a v s) = r_PCL s"
  "r_PCH (cpu_write_byte a v s) = r_PCH s"
  "r_PCU (cpu_write_byte a v s) = r_PCU s"
  "r_AF (cpu_write_byte a v s) = r_AF s"
  "stack_hl (cpu_write_byte a v s) = stack_hl s"
  "cpu_read_sp (cpu_write_byte a v s) = cpu_read_sp s"
  "index_hl i' (cpu_write_byte a v s) = index_hl i' s"
  "cpu_read_index (cpu_write_byte a v s) = cpu_read_index s"
  "cpu_read_index_low (cpu_write_byte a v s) = cpu_read_index_low s"
  "cpu_read_index_high (cpu_write_byte a v s) = cpu_read_index_high s"
  "cpu_read_other_index (cpu_write_byte a v s) = cpu_read_other_index s"
  "cpu_read_in p' (cpu_write_byte a v s) = cpu_read_in p' s"
  by (simp_all add: cpu_address_mode_def flags_C_def flags_N_def flags_PV_def flags_H_def flags_Z_def flags_S_def r_B_def r_C_def r_D_def r_E_def r_PCL_def r_PCH_def r_PCU_def r_AF_def stack_hl_def cpu_read_sp_def index_hl_def cpu_read_index_def cpu_read_index_low_def cpu_read_index_high_def cpu_read_other_index_def memory_read_byte_def cpu_read_byte_def cpu_read_word_def cpu_read_in_def port_read_byte_def)

lemma cpu_write_byte_sets [simp]:
  "mem_writes (cpu_write_byte a v s) = mem_writes s @ [(cpu_address_mode a (cpu_L s) s, v)]"
  "memory (cpu_write_byte a v s) = (memory s)(cpu_address_mode a (cpu_L s) s := v)"
  by (simp_all add: cpu_write_byte_def memory_write_byte_def)

lemma cpu_write_word_frame [simp]:
  "r_A (cpu_write_word a v s) = r_A s"
  "r_F (cpu_write_word a v s) = r_F s"
  "r_BC (cpu_write_word a v s) = r_BC s"
  "r_DE (cpu_write_word a v s) = r_DE s"
  "r_HL (cpu_write_word a v s) = r_HL s"
  "r_HL' (cpu_write_word a v s) = r_HL' s"
  "r_IX (cpu_write_word a v s) = r_IX s"
  "r_IY (cpu_write_word a v s) = r_IY s"
  "r_AF' (cpu_write_word a v s) = r_AF' s"
  "r_BC' (cpu_write_word a v s) = r_BC' s"
  "r_DE' (cpu_write_word a v s) = r_DE' s"
  "r_SPS (cpu_write_word a v s) = r_SPS s"
  "r_SPL (cpu_write_word a v s) = r_SPL s"
  "r_PC (cpu_write_word a v s) = r_PC s"
  "r_I (cpu_write_word a v s) = r_I s"
  "r_R (cpu_write_word a v s) = r_R s"
  "r_MBASE (cpu_write_word a v s) = r_MBASE s"
  "cpu_prefetch_byte (cpu_write_word a v s) = cpu_prefetch_byte s"
  "cpu_PREFIX (cpu_write_word a v s) = cpu_PREFIX s"
  "cpu_SUFFIX (cpu_write_word a v s) = cpu_SUFFIX s"
  "cpu_L (cpu_write_word a v s) = cpu_L s"
  "cpu_IL (cpu_write_word a v s) = cpu_IL s"
  "cpu_ADL (cpu_write_word a v s) = cpu_ADL s"
  "cpu_MADL (cpu_write_word a v s) = cpu_MADL s"
  "cpu_IEF1 (cpu_write_word a v s) = cpu_IEF1 s"
  "cpu_IEF2 (cpu_write_word a v s) = cpu_IEF2 s"
  "cpu_IEF_wait (cpu_write_word a v s) = cpu_IEF_wait s"
  "cpu_IM (cpu_write_word a v s) = cpu_IM s"
  "cpu_halted (cpu_write_word a v s) = cpu_halted s"
  "cpu_cycles (cpu_write_word a v s) = cpu_cycles s"
  "cycle_count_delta (cpu_write_word a v s) = cycle_count_delta s"
  "cycle_offset (cpu_write_word a v s) = cycle_offset s"
  "cpu_events (cpu_write_word a v s) = cpu_events s"
  "exiting (cpu_write_word a v s) = exiting s"
  "port_in (cpu_write_word a v s) = port_in s"
  "port_writes (cpu_write_word a v s) = port_writes s"
  "intrpt_pending (cpu_write_word a v s) = intrpt_pending s"
  by (simp_all add: cpu_write_word_def Let_def split_beta)

lemma cpu_write_word_obs [simp]:
  "cpu_address_mode a' m' (cpu_write_word a v s) = cpu_address_mode a' m' s"
  "flags_C (cpu_write_word a v s) = flags_C s"
  "flags_N (cpu_write_word a v s) = flags_N s"
  "flags_PV (cpu_write_word a v s) = flags_PV s"
  "flags_H (cpu_write_word a v s) = flags_H s"
  "flags_Z (cpu_write_word a v s) = flags_Z s"
  "flags_S (cpu_write_word a v s) = flags_S s"
  "r_B (cpu_write_word a v s) = r_B s"
  "r_C (cpu_write_word a v s) = r_C s"
  "r_D (cpu_write_word a v s) = r_D s"
  "r_E (cpu_write_word a v s) = r_E s"
  "r_PCL (cpu_write_word a v s) = r_PCL s"
  "r_PCH (cpu_write_word a v s) = r_PCH s"
  "r_PCU (cpu_write_word a v s) = r_PCU s"
  "r_AF (cpu_write_word a v s) = r_AF s"
  "stack_hl (cpu_write_word a v s) = stack_hl s"
  "cpu_read_sp (cpu_write_word a v s) = cpu_read_sp s"
  "index_hl i' (cpu_write_word a v s) = index_hl i' s"
  "cpu_read_index (cpu_write_word a v s) = cpu_read_index s"
  "cpu_read_index_low (cpu_write_word a v s) = cpu_read_index_low s"
  "cpu_read_index_high (cpu_write_word a v s) = cpu_read_index_high s"
  "cpu_read_other_index (cpu_write_word a v s) = cpu_read_other_index s"
  "cpu_read_in p' (cpu_write_word a v s) = cpu_read_in p' s"
  by (simp_all add: cpu_address_mode_def flags_C_def flags_N_def flags_PV_def flags_H_def flags_Z_def flags_S_def r_B_def r_C_def r_D_def r_E_def r_PCL_def r_PCH_def r_PCU_def r_AF_def stack_hl_def cpu_read_sp_def index_hl_def cpu_read_index_def cpu_read_index_low_def cpu_read_index_high_def cpu_read_other_index_def memory_read_byte_def cpu_read_byte_def cpu_read_word_def cpu_read_in_def port_read_byte_def)

lemma set_stack_hl_frame [simp]:
  "r_A (set_stack_hl v s) = r_A s"
  "r_F (set_stack_hl v s) = r_F s"
  "r_BC (set_stack_hl v s) = r_BC s"
  "r_DE (set_stack_hl v s) = r_DE s"
  "r_HL (set_stack_hl v s) = r_HL s"
  "r_HL' (set_stack_hl v s) = r_HL' s"
  "r_IX (set_stack_hl v s) = r_IX s"
  "r_IY (set_stack_hl v s) = r_IY s"
  "r_AF' (set_stack_hl v s) = r_AF' s"
  "r_BC' (set_stack_hl v s) = r_BC' s"
  "r_DE' (set_stack_hl v s) = r_DE' s"
  "r_PC (set_stack_hl v s) = r_PC s"
  "r_I (set_stack_hl v s) = r_I s"
  "r_R (set_stack_hl v s) = r_R s"
  "r_MBASE (set_stack_hl v s) = r_MBASE s"
  "cpu_prefetch_byte (set_stack_hl v s) = cpu_prefetch_byte s"
  "cpu_PREFIX (set_stack_hl v s) = cpu_PREFIX s"
  "cpu_SUFFIX (set_stack_hl v s) = cpu_SUFFIX s"
  "cpu_L (set_stack_hl v s) = cpu_L s"
  "cpu_IL (set_stack_hl v s) = cpu_IL s"
  "cpu_ADL (set_stack_hl v s) = cpu_ADL s"
  "cpu_MADL (set_stack_hl v s) = cpu_MADL s"
  "cpu_IEF1 (set_stack_hl v s) = cpu_IEF1 s"
  "cpu_IEF2 (set_stack_hl v s) = cpu_IEF2 s"
  "cpu_IEF_wait (set_stack_hl v s) = cpu_IEF_wait s"
  "cpu_IM (set_stack_hl v s) = cpu_IM s"
  "cpu_halted (set_stack_hl v s) = cpu_halted s"
  "cpu_cycles (set_stack_hl v s) = cpu_cycles s"
  "cycle_count_delta (set_stack_hl v s) = cycle_count_delta s"
  "cycle_offset (set_stack_hl v s) = cycle_offset s"
  "cpu_events (set_stack_hl v s) = cpu_events s"
  "exiting (set_stack_hl v s) = exiting s"
  "memory (set_stack_hl v s) = memory s"
  "mem_writes (set_stack_hl v s) = mem_writes s"
  "port_in (set_stack_hl v s) = port_in s"
  "port_writes (set_stack_hl v s) = port_writes s"
  "intrpt_pending (set_stack_hl v s) = intrpt_pending s"
  by (simp_all add: set_stack_hl_def Let_def split_beta)

lemma set_stack_hl_obs [simp]:
  "cpu_address_mode a' m' (set_stack_hl v s) = cpu_address_mode a' m' s"
  "flags_C (set_stack_hl v s) = flags_C s"
  "flags_N (set_stack_hl v s) = flags_N s"
  "flags_PV (set_stack_hl v s) = flags_PV s"
  "flags_H (set_stack_hl v s) = flags_H s"
  "flags_Z (set_stack_hl v s) = flags_Z s"
  "flags_S (set_stack_hl v s) = flags_S s"
  "r_B (set_stack_hl v s) = r_B s"
  "r_C (set_stack_hl v s) = r_C s"
  "r_D (set_stack_hl v s) = r_D s"
  "r_E (set_stack_hl v s) = r_E s"
  "r_PCL (set_stack_hl v s) = r_PCL s"
  "r_PCH (set_stack_hl v s) = r_PCH s"
  "r_PCU (set_stack_hl v s) = r_PCU s"
  "r_AF (set_stack_hl v s) = r_AF s"
  "index_hl i' (set_stack_hl v s) = index_hl i' s"
  "cpu_read_index (set_stack_hl v s) = cpu_read_index s"
  "cpu_read_index_low (set_stack_hl v s) = cpu_read_index_low s"
  "cpu_read_index_high (set_stack_hl v s) = cpu_read_index_high s"
  "cpu_read_other_index (set_stack_hl v s) = cpu_read_other_index s"
  "memory_read_byte a' (set_stack_hl v s) = memory_read_byte a' s"
  "cpu_read_byte a' (set_stack_hl v s) = cpu_read_byte a' s"
  "cpu_read_word a' (set_stack_hl v s) = cpu_read_word a' s"
  "cpu_read_in p' (set_stack_hl v s) = cpu_read_in p' s"
  by (simp_all add: cpu_address_mode_def flags_C_def flags_N_def flags_PV_def flags_H_def flags_Z_def flags_S_def r_B_def r_C_def r_D_def r_E_def r_PCL_def r_PCH_def r_PCU_def r_AF_def stack_hl_def cpu_read_sp_def index_hl_def cpu_read_index_def cpu_read_index_low_def cpu_read_index_high_def cpu_read_other_index_def memory_read_byte_def cpu_read_byte_def cpu_read_word_def cpu_read_in_def port_read_byte_def)

lemma cpu_pop_byte_frame [simp]:
  "r_A (snd (cpu_pop_byte s)) = r_A s"
  "r_F (snd (cpu_pop_byte s)) = r_F s"
  "r_BC (snd (cpu_pop_byte s)) = r_BC s"
  "r_DE (snd (cpu_pop_byte s)) = r_DE s"
  "r_HL (snd (cpu_pop_byte s)) = r_HL s"
  "r_HL' (snd (cpu_pop_byte s)) = r_HL' s"
  "r_IX (snd (cpu_pop_byte s)) = r_IX s"
  "r_IY (snd (cpu_pop_byte s)) = r_IY s"
  "r_AF' (snd (cpu_pop_byte s)) = r_AF' s"
  "r_BC' (snd (cpu_pop_byte s)) = r_BC' s"
  "r_DE' (snd (cpu_pop_byte s)) = r_DE' s"
  "r_PC (snd (cpu_pop_byte s)) = r_PC s"
  "r_I (snd (cpu_pop_byte s)) = r_I s"
  "r_R (snd (cpu_pop_byte s)) = r_R s"
  "r_MBASE (snd (cpu_pop_byte s)) = r_MBASE s"
  "cpu_prefetch_byte (snd (cpu_pop_byte s)) = cpu_prefetch_byte s"
  "cpu_PREFIX (snd (cpu_pop_byte s)) = cpu_PREFIX s"
  "cpu_SUFFIX (snd (cpu_pop_byte s)) = cpu_SUFFIX s"
  "cpu_L (snd (cpu_pop_byte s)) = cpu_L s"
  "cpu_IL (snd (cpu_pop_byte s)) = cpu_IL s"
  "cpu_ADL (snd (cpu_pop_byte s)) = cpu_ADL s"
  "cpu_MADL (snd (cpu_pop_byte s)) = cpu_MADL s"
  "cpu_IEF1 (snd (cpu_pop_byte s)) = cpu_IEF1 s"
  "cpu_IEF2 (snd (cpu_pop_byte s)) = cpu_IEF2 s"
  "cpu_IEF_wait (snd (cpu_pop_byte s)) = cpu_IEF_wait s"
  "cpu_IM (snd (cpu_pop_byte s)) = cpu_IM s"
  "cpu_halted (snd (cpu_pop_byte s)) = cpu_halted s"
  "cpu_cycles (snd (cpu_pop_byte s)) = cpu_cycles s"
  "cycle_count_delta (snd (cpu_pop_byte s)) = cycle_count_delta s"
  "cycle_offset (snd (cpu_pop_byte s)) = cycle_offset s"
  "cpu_events (snd (cpu_pop_byte s)) = cpu_events s"
  "exiting (snd (cpu_pop_byte s)) = exiting s"
  "memory (snd (cpu_pop_byte s)) = memory s"
  "mem_writes (snd (cpu_pop_byte s)) = mem_writes s"
  "port_in (snd (cpu_pop_byte s)) = port_in s"
  "port_writes (snd (cpu_pop_byte s)) = port_writes s"
  "intrpt_pending (snd (cpu_pop_byte s)) = intrpt_pending s"
  by (simp_all add: cpu_pop_byte_def Let_def split_beta)

lemma cpu_pop_byte_obs [simp]:
  "cpu_address_mode a' m' (snd (cpu_pop_byte s)) = cpu_address_mode a' m' s"
  "flags_C (snd (cpu_pop_byte s)) = flags_C s"
  "flags_N (snd (cpu_pop_byte s)) = flags_N s"
  "flags_PV (snd (cpu_pop_byte s)) = flags_PV s"
  "flags_H (snd (cpu_pop_byte s)) = flags_H s"
  "flags_Z (snd (cpu_pop_byte s)) = flags_Z s"
  "flags_S (snd (cpu_pop_byte s)) = flags_S s"
  "r_B (snd (cpu_pop_byte s)) = r_B s"
  "r_C (snd (cpu_pop_byte s)) = r_C s"
  "r_D (snd (cpu_pop_byte s)) = r_D s"
  "r_E (snd (cpu_pop_byte s)) = r_E s"
  "r_PCL (snd (cpu_pop_byte s)) = r_PCL s"
  "r_PCH (snd (cpu_pop_byte s)) = r_PCH s"
  "r_PCU (snd (cpu_pop_byte s)) = r_PCU s"
  "r_AF (snd (cpu_pop_byte s)) = r_AF s"
  "index_hl i' (snd (cpu_pop_byte s)) = index_hl i' s"
  "cpu_read_index (snd (cpu_pop_byte s)) = cpu_read_index s"
  "cpu_read_index_low (snd (cpu_pop_byte s)) = cpu_read_index_low s"
  "cpu_read_index_high (snd (cpu_pop_byte s)) = cpu_read_index_high s"
  "cpu_read_other_index (snd (cpu_pop_byte s)) = cpu_read_other_index s"
  "memory_read_byte a' (snd (cpu_pop_byte s)) = memory_read_byte a' s"
  "cpu_read_byte a' (snd (cpu_pop_byte s)) = cpu_read_byte a' s"
  "cpu_read_word a' (snd (cpu_pop_byte s)) = cpu_read_word a' s"
  "cpu_read_in p' (snd (cpu_pop_byte s)) = cpu_read_in p' s"
  by (simp_all add: cpu_address_mode_def flags_C_def flags_N_def flags_PV_def flags_H_def flags_Z_def flags_S_def r_B_def r_C_def r_D_def r_E_def r_PCL_def r_PCH_def r_PCU_def r_AF_def stack_hl_def cpu_read_sp_def index_hl_def cpu_read_index_def cpu_read_index_low_def cpu_read_index_high_def cpu_read_other_index_def memory_read_byte_def cpu_read_byte_def cpu_read_word_def cpu_read_in_def port_read_byte_def)

lemma cpu_pop_word_frame [simp]:
  "r_A (snd (cpu_pop_word s)) = r_A s"
  "r_F (snd (cpu_pop_word s)) = r_F s"
  "r_BC (snd (cpu_pop_word s)) = r_BC s"
  "r_DE (snd (cpu_pop_word s)) = r_DE s"
  "r_HL (snd (cpu_pop_word s)) = r_HL s"
  "r_HL' (snd (cpu_pop_word s)) = r_HL' s"
  "r_IX (snd (cpu_pop_word s)) = r_IX s"
  "r_IY (snd (cpu_pop_word s)) = r_IY s"
  "r_AF' (snd (cpu_pop_word s)) = r_AF' s"
  "r_BC' (snd (cpu_pop_word s)) = r_BC' s"
  "r_DE' (snd (cpu_pop_word s)) = r_DE' s"
  "r_PC (snd (cpu_pop_word s)) = r_PC s"
  "r_I (snd (cpu_pop_word s)) = r_I s"
  "r_R (snd (cpu_pop_word s)) = r_R s"
  "r_MBASE (snd (cpu_pop_word s)) = r_MBASE s"
  "cpu_prefetch_byte (snd (cpu_pop_word s)) = cpu_prefetch_byte s"
  "cpu_PREFIX (snd (cpu_pop_word s)) = cpu_PREFIX s"
  "cpu_SUFFIX (snd (cpu_pop_word s)) = cpu_SUFFIX s"
  "cpu_L (snd (cpu_pop_word s)) = cpu_L s"
  "cpu_IL (snd (cpu_pop_word s)) = cpu_IL s"
  "cpu_ADL (snd (cpu_pop_word s)) = cpu_ADL s"
  "cpu_MADL (snd (cpu_pop_word s)) = cpu_MADL s"
  "cpu_IEF1 (snd (cpu_pop_word s)) = cpu_IEF1 s"
  "cpu_IEF2 (snd (cpu_pop_word s)) = cpu_IEF2 s"
  "cpu_IEF_wait (snd (cpu_pop_word s)) = cpu_IEF_wait s"
  "cpu_IM (snd (cpu_pop_word s)) = cpu_IM s"
  "cpu_halted (snd (cpu_pop_word s)) = cpu_halted s"
  "cpu_cycles (snd (cpu_pop_word s)) = cpu_cycles s"
  "cycle_count_delta (snd (cpu_pop_word s)) = cycle_count_delta s"
  "cycle_offset (snd (cpu_pop_word s)) = cycle_offset s"
  "cpu_events (snd (cpu_pop_word s)) = cpu_events s"
  "exiting (snd (cpu_pop_word s)) = exiting s"
  "memory (snd (cpu_pop_word s)) = memory s"
  "mem_writes (snd (cpu_pop_word s)) = mem_writes s"
  "port_in (snd (cpu_pop_word s)) = port_in s"
  "port_writes (snd (cpu_pop_word s)) = port_writes s"
  "intrpt_pending (snd (cpu_pop_word s)) = intrpt_pending s"
  by (simp_all add: cpu_pop_word_def Let_def split_beta)

lemma cpu_pop_word_obs [simp]:
  "cpu_address_mode a' m' (snd (cpu_pop_word s)) = cpu_address_mode a' m' s"
  "flags_C (snd (cpu_pop_word s)) = flags_C s"
  "flags_N (snd (cpu_pop_word s)) = flags_N s"
  "flags_PV (snd (cpu_pop_word s)) = flags_PV s"
  "flags_H (snd (cpu_pop_word s)) = flags_H s"
  "flags_Z (snd (cpu_pop_word s)) = flags_Z s"
  "flags_S (snd (cpu_pop_word s)) = flags_S s"
  "r_B (snd (cpu_pop_word s)) = r_B s"
  "r_C (snd (cpu_pop_word s)) = r_C s"
  "r_D (snd (cpu_pop_word s)) = r_D s"
  "r_E (snd (cpu_pop_word s)) = r_E s"
  "r_PCL (snd (cpu_pop_word s)) = r_PCL s"
  "r_PCH (snd (cpu_pop_word s)) = r_PCH s"
  "r_PCU (snd (cpu_pop_word s)) = r_PCU s"
  "r_AF (snd (cpu_pop_word s)) = r_AF s"
  "index_hl i' (snd (cpu_pop_word s)) = index_hl i' s"
  "cpu_read_index (snd (cpu_pop_word s)) = cpu_read_index s"
  "cpu_read_index_low (snd (cpu_pop_word s)) = cpu_read_index_low s"
  "cpu_read_index_high (snd (cpu_pop_word s)) = cpu_read_index_high s"
  "cpu_read_other_index (snd (cpu_pop_word s)) = cpu_read_other_index s"
  "memory_read_byte a' (snd (cpu_pop_word s)) = memory_read_byte a' s"
  "cpu_read_byte a' (snd (cpu_pop_word s)) = cpu_read_byte a' s"
  "cpu_read_word a' (snd (cpu_pop_word s)) = cpu_read_word a' s"
  "cpu_read_in p' (snd (cpu_pop_word s)) = cpu_read_in p' s"
  by (simp_all add: cpu_address_mode_def flags_C_def flags_N_def flags_PV_def flags_H_def flags_Z_def flags_S_def r_B_def r_C_def r_D_def r_E_def r_PCL_def r_PCH_def r_PCU_def r_AF_def stack_hl_def cpu_read_sp_def index_hl_def cpu_read_index_def cpu_read_index_low_def cpu_read_index_high_def cpu_read_other_index_def memory_read_byte_def cpu_read_byte_def cpu_read_word_def cpu_read_in_def port_read_byte_def)

lemma cpu_push_byte_frame [simp]:
  "r_A (cpu_push_byte v s) = r_A s"
  "r_F (cpu_push_byte v s) = r_F s"
  "r_BC (cpu_push_byte v s) = r_BC s"
  "r_DE (cpu_push_byte v s) = r_DE s"
  "r_HL (cpu_push_byte v s) = r_HL s"
  "r_HL' (cpu_push_byte v s) = r_HL' s"
  "r_IX (cpu_push_byte v s) = r_IX s"
  "r_IY (cpu_push_byte v s) = r_IY s"
  "r_AF' (cpu_push_byte v s) = r_AF' s"
  "r_BC' (cpu_push_byte v s) = r_BC' s"
  "r_DE' (cpu_push_byte v s) = r_DE' s"
  "r_PC (cpu_push_byte v s) = r_PC s"
  "r_I (cpu_push_byte v s) = r_I s"
  "r_R (cpu_push_byte v s) = r_R s"
  "r_MBASE (cpu_push_byte v s) = r_MBASE s"
  "cpu_prefetch_byte (cpu_push_byte v s) = cpu_prefetch_byte s"
  "cpu_PREFIX (cpu_push_byte v s) = cpu_PREFIX s"
  "cpu_SUFFIX (cpu_push_byte v s) = cpu_SUFFIX s"
  "cpu_L (cpu_push_byte v s) = cpu_L s"
  "cpu_IL (cpu_push_byte v s) = cpu_IL s"
  "cpu_ADL (cpu_push_byte v s) = cpu_ADL s"
  "cpu_MADL (cpu_push_byte v s) = cpu_MADL s"
  "cpu_IEF1 (cpu_push_byte v s) = cpu_IEF1 s"
  "cpu_IEF2 (cpu_push_byte v s) = cpu_IEF2 s"
  "cpu_IEF_wait (cpu_push_byte v s) = cpu_IEF_wait s"
  "cpu_IM (cpu_push_byte v s) = cpu_IM s"
  "cpu_halted (cpu_push_byte v s) = cpu_halted s"
  "cpu_cycles (cpu_push_byte v s) = cpu_cycles s"
  "cycle_count_delta (cpu_push_byte v s) = cycle_count_delta s"
  "cycle_offset (cpu_push_byte v s) = cycle_offset s"
  "cpu_events (cpu_push_byte v s) = cpu_events s"
  "exiting (cpu_push_byte v s) = exiting s"
  "port_in (cpu_push_byte v s) = port_in s"
  "port_writes (cpu_push_byte v s) = port_writes s"
  "intrpt_pending (cpu_push_byte v s) = intrpt_pending s"
  by (simp_all add: cpu_push_byte_def Let_def split_beta)

lemma cpu_push_byte_obs [simp]:
  "cpu_address_mode a' m' (cpu_push_byte v s) = cpu_address_mode a' m' s"
  "flags_C (cpu_push_byte v s) = flags_C s"
  "flags_N (cpu_push_byte v s) = flags_N s"
  "flags_PV (cpu_push_byte v s) = flags_PV s"
  "flags_H (cpu_push_byte v s) = flags_H s"
  "flags_Z (cpu_push_byte v s) = flags_Z s"
  "flags_S (cpu_push_byte v s) = flags_S s"
  "r_B (cpu_push_byte v s) = r_B s"
  "r_C (cpu_push_byte v s) = r_C s"
  "r_D (cpu_push_byte v s) = r_D s"
  "r_E (cpu_push_byte v s) = r_E s"
  "r_PCL (cpu_push_byte v s) = r_PCL s"
  "r_PCH (cpu_push_byte v s) = r_PCH s"
  "r_PCU (cpu_push_byte v s) = r_PCU s"
  "r_AF (cpu_push_byte v s) = r_AF s"
  "index_hl i' (cpu_push_byte v s) = index_hl i' s"
  "cpu_read_index (cpu_push_byte v s) = cpu_read_index s"
  "cpu_read_index_low (cpu_push_byte v s) = cpu_read_index_low s"
  "cpu_read_index_high (cpu_push_byte v s) = cpu_read_index_high s"
  "cpu_read_other_index (cpu_push_byte v s) = cpu_read_other_index s"
  "cpu_read_in p' (cpu_push_byte v s) = cpu_read_in p' s"
  by (simp_all add: cpu_address_mode_def flags_C_def flags_N_def flags_PV_def flags_H_def flags_Z_def flags_S_def r_B_def r_C_def r_D_def r_E_def r_PCL_def r_PCH_def r_PCU_def r_AF_def stack_hl_def cpu_read_sp_def index_hl_def cpu_read_index_def cpu_read_index_low_def cpu_read_index_high_def cpu_read_other_index_def memory_read_byte_def cpu_read_byte_def cpu_read_word_def cpu_read_in_def port_read_byte_def)

lemma cpu_push_word_frame [simp]:
  "r_A (cpu_push_word v s) = r_A s"
  "r_F (cpu_push_word v s) = r_F s"
  "r_BC (cpu_push_word v s) = r_BC s"
  "r_DE (cpu_push_word v s) = r_DE s"
  "r_HL (cpu_push_word v s) = r_HL s"
  "r_HL' (cpu_push_word v s) = r_HL' s"
  "r_IX (cpu_push_word v s) = r_IX s"
  "r_IY (cpu_push_word v s) = r_IY s"
  "r_AF' (cpu_push_word v s) = r_AF' s"
  "r_BC' (cpu_push_word v s) = r_BC' s"
  "r_DE' (cpu_push_word v s) = r_DE' s"
  "r_PC (cpu_push_word v s) = r_PC s"
  "r_I (cpu_push_word v s) = r_I s"
  "r_R (cpu_push_word v s) = r_R s"
  "r_MBASE (cpu_push_word v s) = r_MBASE s"
  "cpu_prefetch_byte (cpu_push_word v s) = cpu_prefetch_byte s"
  "cpu_PREFIX (cpu_push_word v s) = cpu_PREFIX s"
  "cpu_SUFFIX (cpu_push_word v s) = cpu_SUFFIX s"
  "cpu_L (cpu_push_word v s) = cpu_L s"
  "cpu_IL (cpu_push_word v s) = cpu_IL s"
  "cpu_ADL (cpu_push_word v s) = cpu_ADL s"
  "cpu_MADL (cpu_push_word v s) = cpu_MADL s"
  "cpu_IEF1 (cpu_push_word v s) = cpu_IEF1 s"
  "cpu_IEF2 (cpu_push_word v s) = cpu_IEF2 s"
  "cpu_IEF_wait (cpu_push_word v s) = cpu_IEF_wait s"
  "cpu_IM (cpu_push_word v s) = cpu_IM s"
  "cpu_halted (cpu_push_word v s) = cpu_halted s"
  "cpu_cycles (cpu_push_word v s) = cpu_cycles s"
  "cycle_count_delta (cpu_push_word v s) = cycle_count_delta s"
  "cycle_offset (cpu_push_word v s) = cycle_offset s"
  "cpu_events (cpu_push_word v s) = cpu_events s"
  "exiting (cpu_push_word v s) = exiting s"
  "port_in (cpu_push_word v s) = port_in s"
  "port_writes (cpu_push_word v s) = port_writes s"
  "intrpt_pending (cpu_push_word v s) = intrpt_pending s"
  by (simp_all add: cpu_push_word_def Let_def split_beta)

lemma cpu_push_word_obs [simp]:
  "cpu_address_mode a' m' (cpu_push_word v s) = cpu_address_mode a' m' s"
  "flags_C (cpu_push_word v s) = flags_C s"
  "flags_N (cpu_push_word v s) = flags_N s"
  "flags_PV (cpu_push_word v s) = flags_PV s"
  "flags_H (cpu_push_word v s) = flags_H s"
  "flags_Z (cpu_push_word v s) = flags_Z s"
  "flags_S (cpu_push_word v s) = flags_S s"
  "r_B (cpu_push_word v s) = r_B s"
  "r_C (cpu_push_word v s) = r_C s"
  "r_D (cpu_push_word v s) = r_D s"
  "r_E (cpu_push_word v s) = r_E s"
  "r_PCL (cpu_push_word v s) = r_PCL s"
  "r_PCH (cpu_push_word v s) = r_PCH s"
  "r_PCU (cpu_push_word v s) = r_PCU s"
  "r_AF (cpu_push_word v s) = r_AF s"
  "index_hl i' (cpu_push_word v s) = index_hl i' s"
  "cpu_read_index (cpu_push_word v s) = cpu_read_index s"
  "cpu_read_index_low (cpu_push_word v s) = cpu_read_index_low s"
  "cpu_read_index_high (cpu_push_word v s) = cpu_read_index_high s"
  "cpu_read_other_index (cpu_push_word v s) = cpu_read_other_index s"
  "cpu_read_in p' (cpu_push_word v s) = cpu_read_in p' s"
  by (simp_all add: cpu_address_mode_def flags_C_def flags_N_def flags_PV_def flags_H_def flags_Z_def flags_S_def r_B_def r_C_def r_D_def r_E_def r_PCL_def r_PCH_def r_PCU_def r_AF_def stack_hl_def cpu_read_sp_def index_hl_def cpu_read_index_def cpu_read_index_low_def cpu_read_index_high_def cpu_read_other_index_def memory_read_byte_def cpu_read_byte_def cpu_read_word_def cpu_read_in_def port_read_byte_def)

lemma cpu_write_out_frame [simp]:
  "r_A (cpu_write_out p v s) = r_A s"
  "r_F (cpu_write_out p v s) = r_F s"
  "r_BC (cpu_write_out p v s) = r_BC s"
  "r_DE (cpu_write_out p v s) = r_DE s"
  "r_HL (cpu_write_out p v s) = r_HL s"
  "r_HL' (cpu_write_out p v s) = r_HL' s"
  "r_IX (cpu_write_out p v s) = r_IX s"
  "r_IY (cpu_write_out p v s) = r_IY s"
  "r_AF' (cpu_write_out p v s) = r_AF' s"
  "r_BC' (cpu_write_out p v s) = r_BC' s"
  "r_DE' (cpu_write_out p v s) = r_DE' s"
  "r_SPS (cpu_write_out p v s) = r_SPS s"
  "r_SPL (cpu_write_out p v s) = r_SPL s"
  "r_PC (cpu_write_out p v s) = r_PC s"
  "r_I (cpu_write_out p v s) = r_I s"
  "r_R (cpu_write_out p v s) = r_R s"
  "r_MBASE (cpu_write_out p v s) = r_MBASE s"
  "cpu_prefetch_byte (cpu_write_out p v s) = cpu_prefetch_byte s"
  "cpu_PREFIX (cpu_write_out p v s) = cpu_PREFIX s"
  "cpu_SUFFIX (cpu_write_out p v s) = cpu_SUFFIX s"
  "cpu_L (cpu_write_out p v s) = cpu_L s"
  "cpu_IL (cpu_write_out p v s) = cpu_IL s"
  "cpu_ADL (cpu_write_out p v s) = cpu_ADL s"
  "cpu_MADL (cpu_write_out p v s) = cpu_MADL s"
  "cpu_IEF1 (cpu_write_out p v s) = cpu_IEF1 s"
  "cpu_IEF2 (cpu_write_out p v s) = cpu_IEF2 s"
  "cpu_IEF_wait (cpu_write_out p v s) = cpu_IEF_wait s"
  "cpu_IM (cpu_write_out p v s) = cpu_IM s"
  "cpu_halted (cpu_write_out p v s) = cpu_halted s"
  "cpu_cycles (cpu_write_out p v s) = cpu_cycles s"
  "cycle_count_delta (cpu_write_out p v s) = cycle_count_delta s"
  "cycle_offset (cpu_write_out p v s) = cycle_offset s"
  "cpu_events (cpu_write_out p v s) = cpu_events s"
  "exiting (cpu_write_out p v s) = exiting s"
  "memory (cpu_write_out p v s) = memory s"
  "mem_writes (cpu_write_out p v s) = mem_writes s"
  "port_in (cpu_write_out p v s) = port_in s"
  "intrpt_pending (cpu_write_out p v s) = intrpt_pending s"
  by (simp_all add: cpu_write_out_def Let_def split_beta)

lemma cpu_write_out_obs [simp]:
  "cpu_address_mode a' m' (cpu_write_out p v s) = cpu_address_mode a' m' s"
  "flags_C (cpu_write_out p v s) = flags_C s"
  "flags_N (cpu_write_out p v s) = flags_N s"
  "flags_PV (cpu_write_out p v s) = flags_PV s"
  "flags_H (cpu_write_out p v s) = flags_H s"
  "flags_Z (cpu_write_out p v s) = flags_Z s"
  "flags_S (cpu_write_out p v s) = flags_S s"
  "r_B (cpu_write_out p v s) = r_B s"
  "r_C (cpu_write_out p v s) = r_C s"
  "r_D (cpu_write_out p v s) = r_D s"
  "r_E (cpu_write_out p v s) = r_E s"
  "r_PCL (cpu_write_out p v s) = r_PCL s"
  "r_PCH (cpu_write_out p v s) = r_PCH s"
  "r_PCU (cpu_write_out p v s) = r_PCU s"
  "r_AF (cpu_write_out p v s) = r_AF s"
  "stack_hl (cpu_write_out p v s) = stack_hl s"
  "cpu_read_sp (cpu_write_out p v s) = cpu_read_sp s"
  "index_hl i' (cpu_write_out p v s) = index_hl i' s"
  "cpu_read_index (cpu_write_out p v s) = cpu_read_index s"
  "cpu_read_index_low (cpu_write_out p v s) = cpu_read_index_low s"
  "cpu_read_index_high (cpu_write_out p v s) = cpu_read_index_high s"
  "cpu_read_other_index (cpu_write_out p v s) = cpu_read_other_index s"
  "memory_read_byte a' (cpu_write_out p v s) = memory_read_byte a' s"
  "cpu_read_byte a' (cpu_write_out p v s) = cpu_read_byte a' s"
  "cpu_read_word a' (cpu_write_out p v s) = cpu_read_word a' s"
  "cpu_read_in p' (cpu_write_out p v s) = cpu_read_in p' s"
  by (simp_all add: cpu_address_mode_def flags_C_def flags_N_def flags_PV_def flags_H_def flags_Z_def flags_S_def r_B_def r_C_def r_D_def r_E_def r_PCL_def r_PCH_def r_PCU_def r_AF_def stack_hl_def cpu_read_sp_def index_hl_def cpu_read_index_def cpu_read_index_low_def cpu_read_index_high_def cpu_read_other_index_def memory_read_byte_def cpu_read_byte_def cpu_read_word_def cpu_read_in_def port_read_byte_def)

lemma cpu_write_sp_frame [simp]:
  "r_A (cpu_write_sp v s) = r_A s"
  "r_F (cpu_write_sp v s) = r_F s"
  "r_BC (cpu_write_sp v s) = r_BC s"
  "r_DE (cpu_write_sp v s) = r_DE s"
  "r_HL (cpu_write_sp v s) = r_HL s"
  "r_HL' (cpu_write_sp v s) = r_HL' s"
  "r_IX (cpu_write_sp v s) = r_IX s"
  "r_IY (cpu_write_sp v s) = r_IY s"
  "r_AF' (cpu_write_sp v s) = r_AF' s"
  "r_BC' (cpu_write_sp v s) = r_BC' s"
  "r_DE' (cpu_write_sp v s) = r_DE' s"
  "r_PC (cpu_write_sp v s) = r_PC s"
  "r_I (cpu_write_sp v s) = r_I s"
  "r_R (cpu_write_sp v s) = r_R s"
  "r_MBASE (cpu_write_sp v s) = r_MBASE s"
  "cpu_prefetch_byte (cpu_write_sp v s) = cpu_prefetch_byte s"
  "cpu_PREFIX (cpu_write_sp v s) = cpu_PREFIX s"
  "cpu_SUFFIX (cpu_write_sp v s) = cpu_SUFFIX s"
  "cpu_L (cpu_write_sp v s) = cpu_L s"
  "cpu_IL (cpu_write_sp v s) = cpu_IL s"
  "cpu_ADL (cpu_write_sp v s) = cpu_ADL s"
  "cpu_MADL (cpu_write_sp v s) = cpu_MADL s"
  "cpu_IEF1 (cpu_write_sp v s) = cpu_IEF1 s"
  "cpu_IEF2 (cpu_write_sp v s) = cpu_IEF2 s"
  "cpu_IEF_wait (cpu_write_sp v s) = cpu_IEF_wait s"
  "cpu_IM (cpu_write_sp v s) = cpu_IM s"
  "cpu_halted (cpu_write_sp v s) = cpu_halted s"
  "cpu_cycles (cpu_write_sp v s) = cpu_cycles s"
  "cycle_count_delta (cpu_write_sp v s) = cycle_count_delta s"
  "cycle_offset (cpu_write_sp v s) = cycle_offset s"
  "cpu_events (cpu_write_sp v s) = cpu_events s"
  "exiting (cpu_write_sp v s) = exiting s"
  "memory (cpu_write_sp v s) = memory s"
  "mem_writes (cpu_write_sp v s) = mem_writes s"
  "port_in (cpu_write_sp v s) = port_in s"
  "port_writes (cpu_write_sp v s) = port_writes s"
  "intrpt_pending (cpu_write_sp v s) = intrpt_pending s"
  by (simp_all add: cpu_write_sp_def Let_def split_beta)

lemma cpu_write_sp_obs [simp]:
  "cpu_address_mode a' m' (cpu_write_sp v s) = cpu_address_mode a' m' s"
  "flags_C (cpu_write_sp v s) = flags_C s"
  "flags_N (cpu_write_sp v s) = flags_N s"
  "flags_PV (cpu_write_sp v s) = flags_PV s"
  "flags_H (cpu_write_sp v s) = flags_H s"
  "flags_Z (cpu_write_sp v s) = flags_Z s"
  "flags_S (cpu_write_sp v s) = flags_S s"
  "r_B (cpu_write_sp v s) = r_B s"
  "r_C (cpu_write_sp v s) = r_C s"
  "r_D (cpu_write_sp v s) = r_D s"
  "r_E (cpu_write_sp v s) = r_E s"
  "r_PCL (cpu_write_sp v s) = r_PCL s"
  "r_PCH (cpu_write_sp v s) = r_PCH s"
  "r_PCU (cpu_write_sp v s) = r_PCU s"
  "r_AF (cpu_write_sp v s) = r_AF s"
  "index_hl i' (cpu_write_sp v s) = index_hl i' s"
  "cpu_read_index (cpu_write_sp v s) = cpu_read_index s"
  "cpu_read_index_low (cpu_write_sp v s) = cpu_read_index_low s"
  "cpu_read_index_high (cpu_write_sp v s) = cpu_read_index_high s"
  "cpu_read_other_index (cpu_write_sp v s) = cpu_read_other_index s"
  "memory_read_byte a' (cpu_write_sp v s) = memory_read_byte a' s"
  "cpu_read_byte a' (cpu_write_sp v s) = cpu_read_byte a' s"
  "cpu_read_word a' (cpu_write_sp v s) = cpu_read_word a' s"
  "cpu_read_in p' (cpu_write_sp v s) = cpu_read_in p' s"
  by (simp_all add: cpu_address_mode_def flags_C_def flags_N_def flags_PV_def flags_H_def flags_Z_def flags_S_def r_B_def r_C_def r_D_def r_E_def r_PCL_def r_PCH_def r_PCU_def r_AF_def stack_hl_def cpu_read_sp_def index_hl_def cpu_read_index_def cpu_read_index_low_def cpu_read_index_high_def cpu_read_other_index_def memory_read_byte_def cpu_read_byte_def cpu_read_word_def cpu_read_in_def port_read_byte_def)

lemma set_index_hl_frame [simp]:
  "r_A (set_index_hl i v s) = r_A s"
  "r_F (set_index_hl i v s) = r_F s"
  "r_BC (set_index_hl i v s) = r_BC s"
  "r_DE (set_index_hl i v s) = r_DE s"
  "r_AF' (set_index_hl i v s) = r_AF' s"
  "r_BC' (set_index_hl i v s) = r_BC' s"
  "r_DE' (set_index_hl i v s) = r_DE' s"
  "r_SPS (set_index_hl i v s) = r_SPS s"
  "r_SPL (set_index_hl i v s) = r_SPL s"
  "r_PC (set_index_hl i v s) = r_PC s"
  "r_I (set_index_hl i v s) = r_I s"
  "r_R (set_index_hl i v s) = r_R s"
  "r_MBASE (set_index_hl i v s) = r_MBASE s"
  "cpu_prefetch_byte (set_index_hl i v s) = cpu_prefetch_byte s"
  "cpu_PREFIX (set_index_hl i v s) = cpu_PREFIX s"
  "cpu_SUFFIX (set_index_hl i v s) = cpu_SUFFIX s"
  "cpu_L (set_index_hl i v s) = cpu_L s"
  "cpu_IL (set_index_hl i v s) = cpu_IL s"
  "cpu_ADL (set_index_hl i v s) = cpu_ADL s"
  "cpu_MADL (set_index_hl i v s) = cpu_MADL s"
  "cpu_IEF1 (set_index_hl i v s) = cpu_IEF1 s"
  "cpu_IEF2 (set_index_hl i v s) = cpu_IEF2 s"
  "cpu_IEF_wait (set_index_hl i v s) = cpu_IEF_wait s"
  "cpu_IM (set_index_hl i v s) = cpu_IM s"
  "cpu_halted (set_index_hl i v s) = cpu_halted s"
  "cpu_cycles (set_index_hl i v s) = cpu_cycles s"
  "cycle_count_delta (set_index_hl i v s) = cycle_count_delta s"
  "cycle_offset (set_index_hl i v s) = cycle_offset s"
  "cpu_events (set_index_hl i v s) = cpu_events s"
  "exiting (set_index_hl i v s) = exiting s"
  "memory (set_index_hl i v s) = memory s"
  "mem_writes (set_index_hl i v s) = mem_writes s"
  "port_in (set_index_hl i v s) = port_in s"
  "port_writes (set_index_hl i v s) = port_writes s"
  "intrpt_pending (set_index_hl i v s) = intrpt_pending s"
  by (simp_all add: set_index_hl_def Let_def split_beta)

lemma set_index_hl_obs [simp]:
  "cpu_address_mode a' m' (set_index_hl i v s) = cpu_address_mode a' m' s"
  "flags_C (set_index_hl i v s) = flags_C s"
  "flags_N (set_index_hl i v s) = flags_N s"
  "flags_PV (set_index_hl i v s) = flags_PV s"
  "flags_H (set_index_hl i v s) = flags_H s"
  "flags_Z (set_index_hl i v s) = flags_Z s"
  "flags_S (set_index_hl i v s) = flags_S s"
  "r_B (set_index_hl i v s) = r_B s"
  "r_C (set_index_hl i v s) = r_C s"
  "r_D (set_index_hl i v s) = r_D s"
  "r_E (set_index_hl i v s) = r_E s"
  "r_PCL (set_index_hl i v s) = r_PCL s"
  "r_PCH (set_index_hl i v s) = r_PCH s"
  "r_PCU (set_index_hl i v s) = r_PCU s"
  "r_AF (set_index_hl i v s) = r_AF s"
  "stack_hl (set_index_hl i v s) = stack_hl s"
  "cpu_read_sp (set_index_hl i v s) = cpu_read_sp s"
  "memory_read_byte a' (set_index_hl i v s) = memory_read_byte a' s"
  "cpu_read_byte a' (set_index_hl i v s) = cpu_read_byte a' s"
  "cpu_read_word a' (set_index_hl i v s) = cpu_read_word a' s"
  "cpu_read_in p' (set_index_hl i v s) = cpu_read_in p' s"
  by (simp_all add: cpu_address_mode_def flags_C_def flags_N_def flags_PV_def flags_H_def flags_Z_def flags_S_def r_B_def r_C_def r_D_def r_E_def r_PCL_def r_PCH_def r_PCU_def r_AF_def stack_hl_def cpu_read_sp_def index_hl_def cpu_read_index_def cpu_read_index_low_def cpu_read_index_high_def cpu_read_other_index_def memory_read_byte_def cpu_read_byte_def cpu_read_word_def cpu_read_in_def port_read_byte_def)

lemma cpu_write_index_low_frame [simp]:
  "r_A (cpu_write_index_low v s) = r_A s"
  "r_F (cpu_write_index_low v s) = r_F s"
  "r_BC (cpu_write_index_low v s) = r_BC s"
  "r_DE (cpu_write_index_low v s) = r_DE s"
  "r_AF' (cpu_write_index_low v s) = r_AF' s"
  "r_BC' (cpu_write_index_low v s) = r_BC' s"
  "r_DE' (cpu_write_index_low v s) = r_DE' s"
  "r_SPS (cpu_write_index_low v s) = r_SPS s"
  "r_SPL (cpu_write_index_low v s) = r_SPL s"
  "r_PC (cpu_write_index_low v s) = r_PC s"
  "r_I (cpu_write_index_low v s) = r_I s"
  "r_R (cpu_write_index_low v s) = r_R s"
  "r_MBASE (cpu_write_index_low v s) = r_MBASE s"
  "cpu_prefetch_byte (cpu_write_index_low v s) = cpu_prefetch_byte s"
  "cpu_PREFIX (cpu_write_index_low v s) = cpu_PREFIX s"
  "cpu_SUFFIX (cpu_write_index_low v s) = cpu_SUFFIX s"
  "cpu_L (cpu_write_index_low v s) = cpu_L s"
  "cpu_IL (cpu_write_index_low v s) = cpu_IL s"
  "cpu_ADL (cpu_write_index_low v s) = cpu_ADL s"
  "cpu_MADL (cpu_write_index_low v s) = cpu_MADL s"
  "cpu_IEF1 (cpu_write_index_low v s) = cpu_IEF1 s"
  "cpu_IEF2 (cpu_write_index_low v s) = cpu_IEF2 s"
  "cpu_IEF_wait (cpu_write_index_low v s) = cpu_IEF_wait s"
  "cpu_IM (cpu_write_index_low v s) = cpu_IM s"
  "cpu_halted (cpu_write_index_low v s) = cpu_halted s"
  "cpu_cycles (cpu_write_index_low v s) = cpu_cycles s"
  "cycle_count_delta (cpu_write_index_low v s) = cycle_count_delta s"
  "cycle_offset (cpu_write_index_low v s) = cycle_offset s"
  "cpu_events (cpu_write_index_low v s) = cpu_events s"
  "exiting (cpu_write_index_low v s) = exiting s"
  "memory (cpu_write_index_low v s) = memory s"
  "mem_writes (cpu_write_index_low v s) = mem_writes s"
  "port_in (cpu_write_index_low v s) = port_in s"
  "port_writes (cpu_write_index_low v s) = port_writes s"
  "intrpt_pending (cpu_write_index_low v s) = intrpt_pending s"
  by (simp_all add: cpu_write_index_low_def Let_def split_beta)

lemma cpu_write_index_low_obs [simp]:
  "cpu_address_mode a' m' (cpu_write_index_low v s) = cpu_address_mode a' m' s"
  "flags_C (cpu_write_index_low v s) = flags_C s"
  "flags_N (cpu_write_index_low v s) = flags_N s"
  "flags_PV (cpu_write_index_low v s) = flags_PV s"
  "flags_H (cpu_write_index_low v s) = flags_H s"
  "flags_Z (cpu_write_index_low v s) = flags_Z s"
  "flags_S (cpu_write_index_low v s) = flags_S s"
  "r_B (cpu_write_index_low v s) = r_B s"
  "r_C (cpu_write_index_low v s) = r_C s"
  "r_D (cpu_write_index_low v s) = r_D s"
  "r_E (cpu_write_index_low v s) = r_E s"
  "r_PCL (cpu_write_index_low v s) = r_PCL s"
  "r_PCH (cpu_write_index_low v s) = r_PCH s"
  "r_PCU (cpu_write_index_low v s) = r_PCU s"
  "r_AF (cpu_write_index_low v s) = r_AF s"
  "stack_hl (cpu_write_index_low v s) = stack_hl s"
  "cpu_read_sp (cpu_write_index_low v s) = cpu_read_sp s"
  "memory_read_byte a' (cpu_write_index_low v s) = memory_read_byte a' s"
  "cpu_read_byte a' (cpu_write_index_low v s) = cpu_read_byte a' s"
  "cpu_read_word a' (cpu_write_index_low v s) = cpu_read_word a' s"
  "cpu_read_in p' (cpu_write_index_low v s) = cpu_read_in p' s"
  by (simp_all add: cpu_address_mode_def flags_C_def flags_N_def flags_PV_def flags_H_def flags_Z_def flags_S_def r_B_def r_C_def r_D_def r_E_def r_PCL_def r_PCH_def r_PCU_def r_AF_def stack_hl_def cpu_read_sp_def index_hl_def cpu_read_index_def cpu_read_index_low_def cpu_read_index_high_def cpu_read_other_index_def memory_read_byte_def cpu_read_byte_def cpu_read_word_def cpu_read_in_def port_read_byte_def)

lemma cpu_write_index_high_frame [simp]:
  "r_A (cpu_write_index_high v s) = r_A s"
  "r_F (cpu_write_index_high v s) = r_F s"
  "r_BC (cpu_write_index_high v s) = r_BC s"
  "r_DE (cpu_write_index_high v s) = r_DE s"
  "r_AF' (cpu_write_index_high v s) = r_AF' s"
  "r_BC' (cpu_write_index_high v s) = r_BC' s"
  "r_DE' (cpu_write_index_high v s) = r_DE' s"
  "r_SPS (cpu_write_index_high v s) = r_SPS s"
  "r_SPL (cpu_write_index_high v s) = r_SPL s"
  "r_PC (cpu_write_index_high v s) = r_PC s"
  "r_I (cpu_write_index_high v s) = r_I s"
  "r_R (cpu_write_index_high v s) = r_R s"
  "r_MBASE (cpu_write_index_high v s) = r_MBASE s"
  "cpu_prefetch_byte (cpu_write_index_high v s) = cpu_prefetch_byte s"
  "cpu_PREFIX (cpu_write_index_high v s) = cpu_PREFIX s"
  "cpu_SUFFIX (cpu_write_index_high v s) = cpu_SUFFIX s"
  "cpu_L (cpu_write_index_high v s) = cpu_L s"
  "cpu_IL (cpu_write_index_high v s) = cpu_IL s"
  "cpu_ADL (cpu_write_index_high v s) = cpu_ADL s"
  "cpu_MADL (cpu_write_index_high v s) = cpu_MADL s"
  "cpu_IEF1 (cpu_write_index_high v s) = cpu_IEF1 s"
  "cpu_IEF2 (cpu_write_index_high v s) = cpu_IEF2 s"
  "cpu_IEF_wait (cpu_write_index_high v s) = cpu_IEF_wait s"
  "cpu_IM (cpu_write_index_high v s) = cpu_IM s"
  "cpu_halted (cpu_write_index_high v s) = cpu_halted s"
  "cpu_cycles (cpu_write_index_high v s) = cpu_cycles s"
  "cycle_count_delta (cpu_write_index_high v s) = cycle_count_delta s"
  "cycle_offset (cpu_write_index_high v s) = cycle_offset s"
  "cpu_events (cpu_write_index_high v s) = cpu_events s"
  "exiting (cpu_write_index_high v s) = exiting s"
  "memory (cpu_write_index_high v s) = memory s"
  "mem_writes (cpu_write_index_high v s) = mem_writes s"
  "port_in (cpu_write_index_high v s) = port_in s"
  "port_writes (cpu_write_index_high v s) = port_writes s"
  "intrpt_pending (cpu_write_index_high v s) = intrpt_pending s"
  by (simp_all add: cpu_write_index_high_def Let_def split_beta)

lemma cpu_write_index_high_obs [simp]:
  "cpu_address_mode a' m' (cpu_write_index_high v s) = cpu_address_mode a' m' s"
  "flags_C (cpu_write_index_high v s) = flags_C s"
  "flags_N (cpu_write_index_high v s) = flags_N s"
  "flags_PV (cpu_write_index_high v s) = flags_PV s"
  "flags_H (cpu_write_index_high v s) = flags_H s"
  "flags_Z (cpu_write_index_high v s) = flags_Z s"
  "flags_S (cpu_write_index_high v s) = flags_S s"
  "r_B (cpu_write_index_high v s) = r_B s"
  "r_C (cpu_write_index_high v s) = r_C s"
  "r_D (cpu_write_index_high v s) = r_D s"
  "r_E (cpu_write_index_high v s) = r_E s"
  "r_PCL (cpu_write_index_high v s) = r_PCL s"
  "r_PCH (cpu_write_index_high v s) = r_PCH s"
  "r_PCU (cpu_write_index_high v s) = r_PCU s"
  "r_AF (cpu_write_index_high v s) = r_AF s"
  "stack_hl (cpu_write_index_high v s) = stack_hl s"
  "cpu_read_sp (cpu_write_index_high v s) = cpu_read_sp s"
  "memory_read_byte a' (cpu_write_index_high v s) = memory_read_byte a' s"
  "cpu_read_byte a' (cpu_write_index_high v s) = cpu_read_byte a' s"
  "cpu_read_word a' (cpu_write_index_high v s) = cpu_read_word a' s"
  "cpu_read_in p' (cpu_write_index_high v s) = cpu_read_in p' s"
  by (simp_all add: cpu_address_mode_def flags_C_def flags_N_def flags_PV_def flags_H_def flags_Z_def flags_S_def r_B_def r_C_def r_D_def r_E_def r_PCL_def r_PCH_def r_PCU_def r_AF_def stack_hl_def cpu_read_sp_def index_hl_def cpu_read_index_def cpu_read_index_low_def cpu_read_index_high_def cpu_read_other_index_def memory_read_byte_def cpu_read_byte_def cpu_read_word_def cpu_read_in_def port_read_byte_def)

lemma cpu_write_index_frame [simp]:
  "r_A (cpu_write_index v s) = r_A s"
  "r_F (cpu_write_index v s) = r_F s"
  "r_BC (cpu_write_index v s) = r_BC s"
  "r_DE (cpu_write_index v s) = r_DE s"
  "r_AF' (cpu_write_index v s) = r_AF' s"
  "r_BC' (cpu_write_index v s) = r_BC' s"
  "r_DE' (cpu_write_index v s) = r_DE' s"
  "r_SPS (cpu_write_index v s) = r_SPS s"
  "r_SPL (cpu_write_index v s) = r_SPL s"
  "r_PC (cpu_write_index v s) = r_PC s"
  "r_I (cpu_write_index v s) = r_I s"
  "r_R (cpu_write_index v s) = r_R s"
  "r_MBASE (cpu_write_index v s) = r_MBASE s"
  "cpu_prefetch_byte (cpu_write_index v s) = cpu_prefetch_byte s"
  "cpu_PREFIX (cpu_write_index v s) = cpu_PREFIX s"
  "cpu_SUFFIX (cpu_write_index v s) = cpu_SUFFIX s"
  "cpu_L (cpu_write_index v s) = cpu_L s"
  "cpu_IL (cpu_write_index v s) = cpu_IL s"
  "cpu_ADL (cpu_write_index v s) = cpu_ADL s"
  "cpu_MADL (cpu_write_index v s) = cpu_MADL s"
  "cpu_IEF1 (cpu_write_index v s) = cpu_IEF1 s"
  "cpu_IEF2 (cpu_write_index v s) = cpu_IEF2 s"
  "cpu_IEF_wait (cpu_write_index v s) = cpu_IEF_wait s"
  "cpu_IM (cpu_write_index v s) = cpu_IM s"
  "cpu_halted (cpu_write_index v s) = cpu_halted s"
  "cpu_cycles (cpu_write_index v s) = cpu_cycles s"
  "cycle_count_delta (cpu_write_index v s) = cycle_count_delta s"
  "cycle_offset (cpu_write_index v s) = cycle_offset s"
  "cpu_events (cpu_write_index v s) = cpu_events s"
  "exiting (cpu_write_index v s) = exiting s"
  "memory (cpu_write_index v s) = memory s"
  "mem_writes (cpu_write_index v s) = mem_writes s"
  "port_in (cpu_write_index v s) = port_in s"
  "port_writes (cpu_write_index v s) = port_writes s"
  "intrpt_pending (cpu_write_index v s) = intrpt_pending s"
  by (simp_all add: cpu_write_index_def Let_def split_beta)

lemma cpu_write_index_obs [simp]:
  "cpu_address_mode a' m' (cpu_write_index v s) = cpu_address_mode a' m' s"
  "flags_C (cpu_write_index v s) = flags_C s"
  "flags_N (cpu_write_index v s) = flags_N s"
  "flags_PV (cpu_write_index v s) = flags_PV s"
  "flags_H (cpu_write_index v s) = flags_H s"
  "flags_Z (cpu_write_index v s) = flags_Z s"
  "flags_S (cpu_write_index v s) = flags_S s"
  "r_B (cpu_write_index v s) = r_B s"
  "r_C (cpu_write_index v s) = r_C s"
  "r_D (cpu_write_index v s) = r_D s"
  "r_E (cpu_write_index v s) = r_E s"
  "r_PCL (cpu_write_index v s) = r_PCL s"
  "r_PCH (cpu_write_index v s) = r_PCH s"
  "r_PCU (cpu_write_index v s) = r_PCU s"
  "r_AF (cpu_write_index v s) = r_AF s"
  "stack_hl (cpu_write_index v s) = stack_hl s"
  "cpu_read_sp (cpu_write_index v s) = cpu_read_sp s"
  "memory_read_byte a' (cpu_write_index v s) = memory_read_byte a' s"
  "cpu_read_byte a' (cpu_write_index v s) = cpu_read_byte a' s"
  "cpu_read_word a' (cpu_write_index v s) = cpu_read_word a' s"
  "cpu_read_in p' (cpu_write_index v s) = cpu_read_in p' s"
  by (simp_all add: cpu_address_mode_def flags_C_def flags_N_def flags_PV_def flags_H_def flags_Z_def flags_S_def r_B_def r_C_def r_D_def r_E_def r_PCL_def r_PCH_def r_PCU_def r_AF_def stack_hl_def cpu_read_sp_def index_hl_def cpu_read_index_def cpu_read_index_low_def cpu_read_index_high_def cpu_read_other_index_def memory_read_byte_def cpu_read_byte_def cpu_read_word_def cpu_read_in_def port_read_byte_def)

lemma cpu_write_other_index_frame [simp]:
  "r_A (cpu_write_other_index v s) = r_A s"
  "r_F (cpu_write_other_index v s) = r_F s"
  "r_BC (cpu_write_other_index v s) = r_BC s"
  "r_DE (cpu_write_other_index v s) = r_DE s"
  "r_AF' (cpu_write_other_index v s) = r_AF' s"
  "r_BC' (cpu_write_other_index v s) = r_BC' s"
  "r_DE' (cpu_write_other_index v s) = r_DE' s"
  "r_SPS (cpu_write_other_index v s) = r_SPS s"
  "r_SPL (cpu_write_other_index v s) = r_SPL s"
  "r_PC (cpu_write_other_index v s) = r_PC s"
  "r_I (cpu_write_other_index v s) = r_I s"
  "r_R (cpu_write_other_index v s) = r_R s"
  "r_MBASE (cpu_write_other_index v s) = r_MBASE s"
  "cpu_prefetch_byte (cpu_write_other_index v s) = cpu_prefetch_byte s"
  "cpu_PREFIX (cpu_write_other_index v s) = cpu_PREFIX s"
  "cpu_SUFFIX (cpu_write_other_index v s) = cpu_SUFFIX s"
  "cpu_L (cpu_write_other_index v s) = cpu_L s"
  "cpu_IL (cpu_write_other_index v s) = cpu_IL s"
  "cpu_ADL (cpu_write_other_index v s) = cpu_ADL s"
  "cpu_MADL (cpu_write_other_index v s) = cpu_MADL s"
  "cpu_IEF1 (cpu_write_other_index v s) = cpu_IEF1 s"
  "cpu_IEF2 (cpu_write_other_index v s) = cpu_IEF2 s"
  "cpu_IEF_wait (cpu_write_other_index v s) = cpu_IEF_wait s"
  "cpu_IM (cpu_write_other_index v s) = cpu_IM s"
  "cpu_halted (cpu_write_other_index v s) = cpu_halted s"
  "cpu_cycles (cpu_write_other_index v s) = cpu_cycles s"
  "cycle_count_delta (cpu_write_other_index v s) = cycle_count_delta s"
  "cycle_offset (cpu_write_other_index v s) = cycle_offset s"
  "cpu_events (cpu_write_other_index v s) = cpu_events s"
  "exiting (cpu_write_other_index v s) = exiting s"
  "memory (cpu_write_other_index v s) = memory s"
  "mem_writes (cpu_write_other_index v s) = mem_writes s"
  "port_in (cpu_write_other_index v s) = port_in s"
  "port_writes (cpu_write_other_index v s) = port_writes s"
  "intrpt_pending (cpu_write_other_index v s) = intrpt_pending s"
  by (simp_all add: cpu_write_other_index_def Let_def split_beta)

lemma cpu_write_other_index_obs [simp]:
  "cpu_address_mode a' m' (cpu_write_other_index v s) = cpu_address_mode a' m' s"
  "flags_C (cpu_write_other_index v s) = flags_C s"
  "flags_N (cpu_write_other_index v s) = flags_N s"
  "flags_PV (cpu_write_other_index v s) = flags_PV s"
  "flags_H (cpu_write_other_index v s) = flags_H s"
  "flags_Z (cpu_write_other_index v s) = flags_Z s"
  "flags_S (cpu_write_other_index v s) = flags_S s"
  "r_B (cpu_write_other_index v s) = r_B s"
  "r_C (cpu_write_other_index v s) = r_C s"
  "r_D (cpu_write_other_index v s) = r_D s"
  "r_E (cpu_write_other_index v s) = r_E s"
  "r_PCL (cpu_write_other_index v s) = r_PCL s"
  "r_PCH (cpu_write_other_index v s) = r_PCH s"
  "r_PCU (cpu_write_other_index v s) = r_PCU s"
  "r_AF (cpu_write_other_index v s) = r_AF s"
  "stack_hl (cpu_write_other_index v s) = stack_hl s"
  "cpu_read_sp (cpu_write_other_index v s) = cpu_read_sp s"
  "memory_read_byte a' (cpu_write_other_index v s) = memory_read_byte a' s"
  "cpu_read_byte a' (cpu_write_other_index v s) = cpu_read_byte a' s"
  "cpu_read_word a' (cpu_write_other_index v s) = cpu_read_word a' s"
  "cpu_read_in p' (cpu_write_other_index v s) = cpu_read_in p' s"
  by (simp_all add: cpu_address_mode_def flags_C_def flags_N_def flags_PV_def flags_H_def flags_Z_def flags_S_def r_B_def r_C_def r_D_def r_E_def r_PCL_def r_PCH_def r_PCU_def r_AF_def stack_hl_def cpu_read_sp_def index_hl_def cpu_read_index_def cpu_read_index_low_def cpu_read_index_high_def cpu_read_other_index_def memory_read_byte_def cpu_read_byte_def cpu_read_word_def cpu_read_in_def port_read_byte_def)

lemma cpu_index_address_frame [simp]:
  "r_A (snd (cpu_index_address s)) = r_A s"
  "r_F (snd (cpu_index_address s)) = r_F s"
  "r_BC (snd (cpu_index_address s)) = r_BC s"
  "r_DE (snd (cpu_index_address s)) = r_DE s"
  "r_HL (snd (cpu_index_address s)) = r_HL s"
  "r_HL' (snd (cpu_index_address s)) = r_HL' s"
  "r_IX (snd (cpu_index_address s)) = r_IX s"
  "r_IY (snd (cpu_index_address s)) = r_IY s"
  "r_AF' (snd (cpu_index_address s)) = r_AF' s"
  "r_BC' (snd (cpu_index_address s)) = r_BC' s"
  "r_DE' (snd (cpu_index_address s)) = r_DE' s"
  "r_SPS (snd (cpu_index_address s)) = r_SPS s"
  "r_SPL (snd (cpu_index_address s)) = r_SPL s"
  "r_I (snd (cpu_index_address s)) = r_I s"
  "r_R (snd (cpu_index_address s)) = r_R s"
  "r_MBASE (snd (cpu_index_address s)) = r_MBASE s"
  "cpu_PREFIX (snd (cpu_index_address s)) = cpu_PREFIX s"
  "cpu_SUFFIX (snd (cpu_index_address s)) = cpu_SUFFIX s"
  "cpu_L (snd (cpu_index_address s)) = cpu_L s"
  "cpu_IL (snd (cpu_index_address s)) = cpu_IL s"
  "cpu_ADL (snd (cpu_index_address s)) = cpu_ADL s"
  "cpu_MADL (snd (cpu_index_address s)) = cpu_MADL s"
  "cpu_IEF1 (snd (cpu_index_address s)) = cpu_IEF1 s"
  "cpu_IEF2 (snd (cpu_index_address s)) = cpu_IEF2 s"
  "cpu_IEF_wait (snd (cpu_index_address s)) = cpu_IEF_wait s"
  "cpu_IM (snd (cpu_index_address s)) = cpu_IM s"
  "cpu_halted (snd (cpu_index_address s)) = cpu_halted s"
  "cpu_cycles (snd (cpu_index_address s)) = cpu_cycles s"
  "cycle_count_delta (snd (cpu_index_address s)) = cycle_count_delta s"
  "cycle_offset (snd (cpu_index_address s)) = cycle_offset s"
  "cpu_events (snd (cpu_index_address s)) = cpu_events s"
  "exiting (snd (cpu_index_address s)) = exiting s"
  "memory (snd (cpu_index_address s)) = memory s"
  "mem_writes (snd (cpu_index_address s)) = mem_writes s"
  "port_in (snd (cpu_index_address s)) = port_in s"
  "port_writes (snd (cpu_index_address s)) = port_writes s"
  "intrpt_pending (snd (cpu_index_address s)) = intrpt_pending s"
  by (simp_all add: cpu_index_address_def Let_def split_beta)

lemma cpu_index_address_obs [simp]:
  "cpu_address_mode a' m' (snd (cpu_index_address s)) = cpu_address_mode a' m' s"
  "flags_C (snd (cpu_index_address s)) = flags_C s"
  "flags_N (snd (cpu_index_address s)) = flags_N s"
  "flags_PV (snd (cpu_index_address s)) = flags_PV s"
  "flags_H (snd (cpu_index_address s)) = flags_H s"
  "flags_Z (snd (cpu_index_address s)) = flags_Z s"
  "flags_S (snd (cpu_index_address s)) = flags_S s"
  "r_B (snd (cpu_index_address s)) = r_B s"
  "r_C (snd (cpu_index_address s)) = r_C s"
  "r_D (snd (cpu_index_address s)) = r_D s"
  "r_E (snd (cpu_index_address s)) = r_E s"
  "r_AF (snd (cpu_index_address s)) = r_AF s"
  "stack_hl (snd (cpu_index_address s)) = stack_hl s"
  "cpu_read_sp (snd (cpu_index_address s)) = cpu_read_sp s"
  "index_hl i' (snd (cpu_index_address s)) = index_hl i' s"
  "cpu_read_index (snd (cpu_index_address s)) = cpu_read_index s"
  "cpu_read_index_low (snd (cpu_index_address s)) = cpu_read_index_low s"
  "cpu_read_index_high (snd (cpu_index_address s)) = cpu_read_index_high s"
  "cpu_read_other_index (snd (cpu_index_address s)) = cpu_read_other_index s"
  "memory_read_byte a' (snd (cpu_index_address s)) = memory_read_byte a' s"
  "cpu_read_byte a' (snd (cpu_index_address s)) = cpu_read_byte a' s"
  "cpu_read_word a' (snd (cpu_index_address s)) = cpu_read_word a' s"
  "cpu_read_in p' (snd (cpu_index_address s)) = cpu_read_in p' s"
  by (simp_all add: cpu_address_mode_def flags_C_def flags_N_def flags_PV_def flags_H_def flags_Z_def flags_S_def r_B_def r_C_def r_D_def r_E_def r_PCL_def r_PCH_def r_PCU_def r_AF_def stack_hl_def cpu_read_sp_def index_hl_def cpu_read_index_def cpu_read_index_low_def cpu_read_index_high_def cpu_read_other_index_def memory_read_byte_def cpu_read_byte_def cpu_read_word_def cpu_read_in_def port_read_byte_def)

lemma set_B_frame [simp]:
  "r_A (set_B v s) = r_A s"
  "r_F (set_B v s) = r_F s"
  "r_DE (set_B v s) = r_DE s"
  "r_HL (set_B v s) = r_HL s"
  "r_HL' (set_B v s) = r_HL' s"
  "r_IX (set_B v s) = r_IX s"
  "r_IY (set_B v s) = r_IY s"
  "r_AF' (set_B v s) = r_AF' s"
  "r_BC' (set_B v s) = r_BC' s"
  "r_DE' (set_B v s) = r_DE' s"
  "r_SPS (set_B v s) = r_SPS s"
  "r_SPL (set_B v s) = r_SPL s"
  "r_PC (set_B v s) = r_PC s"
  "r_I (set_B v s) = r_I s"
  "r_R (set_B v s) = r_R s"
  "r_MBASE (set_B v s) = r_MBASE s"
  "cpu_prefetch_byte (set_B v s) = cpu_prefetch_byte s"
  "cpu_PREFIX (set_B v s) = cpu_PREFIX s"
  "cpu_SUFFIX (set_B v s) = cpu_SUFFIX s"
  "cpu_L (set_B v s) = cpu_L s"
  "cpu_IL (set_B v s) = cpu_IL s"
  "cpu_ADL (set_B v s) = cpu_ADL s"
  "cpu_MADL (set_B v s) = cpu_MADL s"
  "cpu_IEF1 (set_B v s) = cpu_IEF1 s"
  "cpu_IEF2 (set_B v s) = cpu_IEF2 s"
  "cpu_IEF_wait (set_B v s) = cpu_IEF_wait s"
  "cpu_IM (set_B v s) = cpu_IM s"
  "cpu_halted (set_B v s) = cpu_halted s"
  "cpu_cycles (set_B v s) = cpu_cycles s"
  "cycle_count_delta (set_B v s) = cycle_count_delta s"
  "cycle_offset (set_B v s) = cycle_offset s"
  "cpu_events (set_B v s) = cpu_events s"
  "exiting (set_B v s) = exiting s"
  "memory (set_B v s) = memory s"
  "mem_writes (set_B v s) = mem_writes s"
  "port_in (set_B v s) = port_in s"
  "port_writes (set_B v s) = port_writes s"
  "intrpt_pending (set_B v s) = intrpt_pending s"
  by (simp_all add: set_B_def Let_def split_beta)

lemma set_B_obs [simp]:
  "cpu_address_mode a' m' (set_B v s) = cpu_address_mode a' m' s"
  "flags_C (set_B v s) = flags_C s"
  "flags_N (set_B v s) = flags_N s"
  "flags_PV (set_B v s) = flags_PV s"
  "flags_H (set_B v s) = flags_H s"
  "flags_Z (set_B v s) = flags_Z s"
  "flags_S (set_B v s) = flags_S s"
  "r_D (set_B v s) = r_D s"
  "r_E (set_B v s) = r_E s"
  "r_PCL (set_B v s) = r_PCL s"
  "r_PCH (set_B v s) = r_PCH s"
  "r_PCU (set_B v s) = r_PCU s"
  "r_AF (set_B v s) = r_AF s"
  "stack_hl (set_B v s) = stack_hl s"
  "cpu_read_sp (set_B v s) = cpu_read_sp s"
  "index_hl i' (set_B v s) = index_hl i' s"
  "cpu_read_index (set_B v s) = cpu_read_index s"
  "cpu_read_index_low (set_B v s) = cpu_read_index_low s"
  "cpu_read_index_high (set_B v s) = cpu_read_index_high s"
  "cpu_read_other_index (set_B v s) = cpu_read_other_index s"
  "memory_read_byte a' (set_B v s) = memory_read_byte a' s"
  "cpu_read_byte a' (set_B v s) = cpu_read_byte a' s"
  "cpu_read_word a' (set_B v s) = cpu_read_word a' s"
  "cpu_read_in p' (set_B v s) = cpu_read_in p' s"
  by (simp_all add: cpu_address_mode_def flags_C_def flags_N_def flags_PV_def flags_H_def flags_Z_def flags_S_def r_B_def r_C_def r_D_def r_E_def r_PCL_def r_PCH_def r_PCU_def r_AF_def stack_hl_def cpu_read_sp_def index_hl_def cpu_read_index_def cpu_read_index_low_def cpu_read_index_high_def cpu_read_other_index_def memory_read_byte_def cpu_read_byte_def cpu_read_word_def cpu_read_in_def port_read_byte_def)

lemma set_C_frame [simp]:
  "r_A (set_C v s) = r_A s"
  "r_F (set_C v s) = r_F s"
  "r_DE (set_C v s) = r_DE s"
  "r_HL (set_C v s) = r_HL s"
  "r_HL' (set_C v s) = r_HL' s"
  "r_IX (set_C v s) = r_IX s"
  "r_IY (set_C v s) = r_IY s"
  "r_AF' (set_C v s) = r_AF' s"
  "r_BC' (set_C v s) = r_BC' s"
  "r_DE' (set_C v s) = r_DE' s"
  "r_SPS (set_C v s) = r_SPS s"
  "r_SPL (set_C v s) = r_SPL s"
  "r_PC (set_C v s) = r_PC s"
  "r_I (set_C v s) = r_I s"
  "r_R (set_C v s) = r_R s"
  "r_MBASE (set_C v s) = r_MBASE s"
  "cpu_prefetch_byte (set_C v s) = cpu_prefetch_byte s"
  "cpu_PREFIX (set_C v s) = cpu_PREFIX s"
  "cpu_SUFFIX (set_C v s) = cpu_SUFFIX s"
  "cpu_L (set_C v s) = cpu_L s"
  "cpu_IL (set_C v s) = cpu_IL s"
  "cpu_ADL (set_C v s) = cpu_ADL s"
  "cpu_MADL (set_C v s) = cpu_MADL s"
  "cpu_IEF1 (set_C v s) = cpu_IEF1 s"
  "cpu_IEF2 (set_C v s) = cpu_IEF2 s"
  "cpu_IEF_wait (set_C v s) = cpu_IEF_wait s"
  "cpu_IM (set_C v s) = cpu_IM s"
  "cpu_halted (set_C v s) = cpu_halted s"
  "cpu_cycles (set_C v s) = cpu_cycles s"
  "cycle_count_delta (set_C v s) = cycle_count_delta s"
  "cycle_offset (set_C v s) = cycle_offset s"
  "cpu_events (set_C v s) = cpu_events s"
  "exiting (set_C v s) = exiting s"
  "memory (set_C v s) = memory s"
  "mem_writes (set_C v s) = mem_writes s"
  "port_in (set_C v s) = port_in s"
  "port_writes (set_C v s) = port_writes s"
  "intrpt_pending (set_C v s) = intrpt_pending s"
  by (simp_all add: set_C_def Let_def split_beta)

lemma set_C_obs [simp]:
  "cpu_address_mode a' m' (set_C v s) = cpu_address_mode a' m' s"
  "flags_C (set_C v s) = flags_C s"
  "flags_N (set_C v s) = flags_N s"
  "flags_PV (set_C v s) = flags_PV s"
  "flags_H (set_C v s) = flags_H s"
  "flags_Z (set_C v s) = flags_Z s"
  "flags_S (set_C v s) = flags_S s"
  "r_D (set_C v s) = r_D s"
  "r_E (set_C v s) = r_E s"
  "r_PCL (set_C v s) = r_PCL s"
  "r_PCH (set_C v s) = r_PCH s"
  "r_PCU (set_C v s) = r_PCU s"
  "r_AF (set_C v s) = r_AF s"
  "stack_hl (set_C v s) = stack_hl s"
  "cpu_read_sp (set_C v s) = cpu_read_sp s"
  "index_hl i' (set_C v s) = index_hl i' s"
  "cpu_read_index (set_C v s) = cpu_read_index s"
  "cpu_read_index_low (set_C v s) = cpu_read_index_low s"
  "cpu_read_index_high (set_C v s) = cpu_read_index_high s"
  "cpu_read_other_index (set_C v s) = cpu_read_other_index s"
  "memory_read_byte a' (set_C v s) = memory_read_byte a' s"
  "cpu_read_byte a' (set_C v s) = cpu_read_byte a' s"
  "cpu_read_word a' (set_C v s) = cpu_read_word a' s"
  "cpu_read_in p' (set_C v s) = cpu_read_in p' s"
  by (simp_all add: cpu_address_mode_def flags_C_def flags_N_def flags_PV_def flags_H_def flags_Z_def flags_S_def r_B_def r_C_def r_D_def r_E_def r_PCL_def r_PCH_def r_PCU_def r_AF_def stack_hl_def cpu_read_sp_def index_hl_def cpu_read_index_def cpu_read_index_low_def cpu_read_index_high_def cpu_read_other_index_def memory_read_byte_def cpu_read_byte_def cpu_read_word_def cpu_read_in_def port_read_byte_def)

lemma set_D_frame [simp]:
  "r_A (set_D v s) = r_A s"
  "r_F (set_D v s) = r_F s"
  "r_BC (set_D v s) = r_BC s"
  "r_HL (set_D v s) = r_HL s"
  "r_HL' (set_D v s) = r_HL' s"
  "r_IX (set_D v s) = r_IX s"
  "r_IY (set_D v s) = r_IY s"
  "r_AF' (set_D v s) = r_AF' s"
  "r_BC' (set_D v s) = r_BC' s"
  "r_DE' (set_D v s) = r_DE' s"
  "r_SPS (set_D v s) = r_SPS s"
  "r_SPL (set_D v s) = r_SPL s"
  "r_PC (set_D v s) = r_PC s"
  "r_I (set_D v s) = r_I s"
  "r_R (set_D v s) = r_R s"
  "r_MBASE (set_D v s) = r_MBASE s"
  "cpu_prefetch_byte (set_D v s) = cpu_prefetch_byte s"
  "cpu_PREFIX (set_D v s) = cpu_PREFIX s"
  "cpu_SUFFIX (set_D v s) = cpu_SUFFIX s"
  "cpu_L (set_D v s) = cpu_L s"
  "cpu_IL (set_D v s) = cpu_IL s"
  "cpu_ADL (set_D v s) = cpu_ADL s"
  "cpu_MADL (set_D v s) = cpu_MADL s"
  "cpu_IEF1 (set_D v s) = cpu_IEF1 s"
  "cpu_IEF2 (set_D v s) = cpu_IEF2 s"
  "cpu_IEF_wait (set_D v s) = cpu_IEF_wait s"
  "cpu_IM (set_D v s) = cpu_IM s"
  "cpu_halted (set_D v s) = cpu_halted s"
  "cpu_cycles (set_D v s) = cpu_cycles s"
  "cycle_count_delta (set_D v s) = cycle_count_delta s"
  "cycle_offset (set_D v s) = cycle_offset s"
  "cpu_events (set_D v s) = cpu_events s"
  "exiting (set_D v s) = exiting s"
  "memory (set_D v s) = memory s"
  "mem_writes (set_D v s) = mem_writes s"
  "port_in (set_D v s) = port_in s"
  "port_writes (set_D v s) = port_writes s"
  "intrpt_pending (set_D v s) = intrpt_pending s"
  by (simp_all add: set_D_def Let_def split_beta)

lemma set_D_obs [simp]:
  "cpu_address_mode a' m' (set_D v s) = cpu_address_mode a' m' s"
  "flags_C (set_D v s) = flags_C s"
  "flags_N (set_D v s) = flags_N s"
  "flags_PV (set_D v s) = flags_PV s"
  "flags_H (set_D v s) = flags_H s"
  "flags_Z (set_D v s) = flags_Z s"
  "flags_S (set_D v s) = flags_S s"
  "r_B (set_D v s) = r_B s"
  "r_C (set_D v s) = r_C s"
  "r_PCL (set_D v s) = r_PCL s"
  "r_PCH (set_D v s) = r_PCH s"
  "r_PCU (set_D v s) = r_PCU s"
  "r_AF (set_D v s) = r_AF s"
  "stack_hl (set_D v s) = stack_hl s"
  "cpu_read_sp (set_D v s) = cpu_read_sp s"
  "index_hl i' (set_D v s) = index_hl i' s"
  "cpu_read_index (set_D v s) = cpu_read_index s"
  "cpu_read_index_low (set_D v s) = cpu_read_index_low s"
  "cpu_read_index_high (set_D v s) = cpu_read_index_high s"
  "cpu_read_other_index (set_D v s) = cpu_read_other_index s"
  "memory_read_byte a' (set_D v s) = memory_read_byte a' s"
  "cpu_read_byte a' (set_D v s) = cpu_read_byte a' s"
  "cpu_read_word a' (set_D v s) = cpu_read_word a' s"
  "cpu_read_in p' (set_D v s) = cpu_read_in p' s"
  by (simp_all add: cpu_address_mode_def flags_C_def flags_N_def flags_PV_def flags_H_def flags_Z_def flags_S_def r_B_def r_C_def r_D_def r_E_def r_PCL_def r_PCH_def r_PCU_def r_AF_def stack_hl_def cpu_read_sp_def index_hl_def cpu_read_index_def cpu_read_index_low_def cpu_read_index_high_def cpu_read_other_index_def memory_read_byte_def cpu_read_byte_def cpu_read_word_def cpu_read_in_def port_read_byte_def)

lemma set_E_frame [simp]:
  "r_A (set_E v s) = r_A s"
  "r_F (set_E v s) = r_F s"
  "r_BC (set_E v s) = r_BC s"
  "r_HL (set_E v s) = r_HL s"
  "r_HL' (set_E v s) = r_HL' s"
  "r_IX (set_E v s) = r_IX s"
  "r_IY (set_E v s) = r_IY s"
  "r_AF' (set_E v s) = r_AF' s"
  "r_BC' (set_E v s) = r_BC' s"
  "r_DE' (set_E v s) = r_DE' s"
  "r_SPS (set_E v s) = r_SPS s"
  "r_SPL (set_E v s) = r_SPL s"
  "r_PC (set_E v s) = r_PC s"
  "r_I (set_E v s) = r_I s"
  "r_R (set_E v s) = r_R s"
  "r_MBASE (set_E v s) = r_MBASE s"
  "cpu_prefetch_byte (set_E v s) = cpu_prefetch_byte s"
  "cpu_PREFIX (set_E v s) = cpu_PREFIX s"
  "cpu_SUFFIX (set_E v s) = cpu_SUFFIX s"
  "cpu_L (set_E v s) = cpu_L s"
  "cpu_IL (set_E v s) = cpu_IL s"
  "cpu_ADL (set_E v s) = cpu_ADL s"
  "cpu_MADL (set_E v s) = cpu_MADL s"
  "cpu_IEF1 (set_E v s) = cpu_IEF1 s"
  "cpu_IEF2 (set_E v s) = cpu_IEF2 s"
  "cpu_IEF_wait (set_E v s) = cpu_IEF_wait s"
  "cpu_IM (set_E v s) = cpu_IM s"
  "cpu_halted (set_E v s) = cpu_halted s"
  "cpu_cycles (set_E v s) = cpu_cycles s"
  "cycle_count_delta (set_E v s) = cycle_count_delta s"
  "cycle_offset (set_E v s) = cycle_offset s"
  "cpu_events (set_E v s) = cpu_events s"
  "exiting (set_E v s) = exiting s"
  "memory (set_E v s) = memory s"
  "mem_writes (set_E v s) = mem_writes s"
  "port_in (set_E v s) = port_in s"
  "port_writes (set_E v s) = port_writes s"
  "intrpt_pending (set_E v s) = intrpt_pending s"
  by (simp_all add: set_E_def Let_def split_beta)

lemma set_E_obs [simp]:
  "cpu_address_mode a' m' (set_E v s) = cpu_address_mode a' m' s"
  "flags_C (set_E v s) = flags_C s"
  "flags_N (set_E v s) = flags_N s"
  "flags_PV (set_E v s) = flags_PV s"
  "flags_H (set_E v s) = flags_H s"
  "flags_Z (set_E v s) = flags_Z s"
  "flags_S (set_E v s) = flags_S s"
  "r_B (set_E v s) = r_B s"
  "r_C (set_E v s) = r_C s"
  "r_PCL (set_E v s) = r_PCL s"
  "r_PCH (set_E v s) = r_PCH s"
  "r_PCU (set_E v s) = r_PCU s"
  "r_AF (set_E v s) = r_AF s"
  "stack_hl (set_E v s) = stack_hl s"
  "cpu_read_sp (set_E v s) = cpu_read_sp s"
  "index_hl i' (set_E v s) = index_hl i' s"
  "cpu_read_index (set_E v s) = cpu_read_index s"
  "cpu_read_index_low (set_E v s) = cpu_read_index_low s"
  "cpu_read_index_high (set_E v s) = cpu_read_index_high s"
  "cpu_read_other_index (set_E v s) = cpu_read_other_index s"
  "memory_read_byte a' (set_E v s) = memory_read_byte a' s"
  "cpu_read_byte a' (set_E v s) = cpu_read_byte a' s"
  "cpu_read_word a' (set_E v s) = cpu_read_word a' s"
  "cpu_read_in p' (set_E v s) = cpu_read_in p' s"
  by (simp_all add: cpu_address_mode_def flags_C_def flags_N_def flags_PV_def flags_H_def flags_Z_def flags_S_def r_B_def r_C_def r_D_def r_E_def r_PCL_def r_PCH_def r_PCU_def r_AF_def stack_hl_def cpu_read_sp_def index_hl_def cpu_read_index_def cpu_read_index_low_def cpu_read_index_high_def cpu_read_other_index_def memory_read_byte_def cpu_read_byte_def cpu_read_word_def cpu_read_in_def port_read_byte_def)

lemma set_AF_frame [simp]:
  "r_BC (set_AF v s) = r_BC s"
  "r_DE (set_AF v s) = r_DE s"
  "r_HL (set_AF v s) = r_HL s"
  "r_HL' (set_AF v s) = r_HL' s"
  "r_IX (set_AF v s) = r_IX s"
  "r_IY (set_AF v s) = r_IY s"
  "r_AF' (set_AF v s) = r_AF' s"
  "r_BC' (set_AF v s) = r_BC' s"
  "r_DE' (set_AF v s) = r_DE' s"
  "r_SPS (set_AF v s) = r_SPS s"
  "r_SPL (set_AF v s) = r_SPL s"
  "r_PC (set_AF v s) = r_PC s"
  "r_I (set_AF v s) = r_I s"
  "r_R (set_AF v s) = r_R s"
  "r_MBASE (set_AF v s) = r_MBASE s"
  "cpu_prefetch_byte (set_AF v s) = cpu_prefetch_byte s"
  "cpu_PREFIX (set_AF v s) = cpu_PREFIX s"
  "cpu_SUFFIX (set_AF v s) = cpu_SUFFIX s"
  "cpu_L (set_AF v s) = cpu_L s"
  "cpu_IL (set_AF v s) = cpu_IL s"
  "cpu_ADL (set_AF v s) = cpu_ADL s"
  "cpu_MADL (set_AF v s) = cpu_MADL s"
  "cpu_IEF1 (set_AF v s) = cpu_IEF1 s"
  "cpu_IEF2 (set_AF v s) = cpu_IEF2 s"
  "cpu_IEF_wait (set_AF v s) = cpu_IEF_wait s"
  "cpu_IM (set_AF v s) = cpu_IM s"
  "cpu_halted (set_AF v s) = cpu_halted s"
  "cpu_cycles (set_AF v s) = cpu_cycles s"
  "cycle_count_delta (set_AF v s) = cycle_count_delta s"
  "cycle_offset (set_AF v s) = cycle_offset s"
  "cpu_events (set_AF v s) = cpu_events s"
  "exiting (set_AF v s) = exiting s"
  "memory (set_AF v s) = memory s"
  "mem_writes (set_AF v s) = mem_writes s"
  "port_in (set_AF v s) = port_in s"
  "port_writes (set_AF v s) = port_writes s"
  "intrpt_pending (set_AF v s) = intrpt_pending s"
  by (simp_all add: set_AF_def Let_def split_beta)

lemma set_AF_obs [simp]:
  "cpu_address_mode a' m' (set_AF v s) = cpu_address_mode a' m' s"
  "r_B (set_AF v s) = r_B s"
  "r_C (set_AF v s) = r_C s"
  "r_D (set_AF v s) = r_D s"
  "r_E (set_AF v s) = r_E s"
  "r_PCL (set_AF v s) = r_PCL s"
  "r_PCH (set_AF v s) = r_PCH s"
  "r_PCU (set_AF v s) = r_PCU s"
  "stack_hl (set_AF v s) = stack_hl s"
  "cpu_read_sp (set_AF v s) = cpu_read_sp s"
  "index_hl i' (set_AF v s) = index_hl i' s"
  "cpu_read_index (set_AF v s) = cpu_read_index s"
  "cpu_read_index_low (set_AF v s) = cpu_read_index_low s"
  "cpu_read_index_high (set_AF v s) = cpu_read_index_high s"
  "cpu_read_other_index (set_AF v s) = cpu_read_other_index s"
  "memory_read_byte a' (set_AF v s) = memory_read_byte a' s"
  "cpu_read_byte a' (set_AF v s) = cpu_read_byte a' s"
  "cpu_read_word a' (set_AF v s) = cpu_read_word a' s"
  "cpu_read_in p' (set_AF v s) = cpu_read_in p' s"
  by (simp_all add: cpu_address_mode_def flags_C_def flags_N_def flags_PV_def flags_H_def flags_Z_def flags_S_def r_B_def r_C_def r_D_def r_E_def r_PCL_def r_PCH_def r_PCU_def r_AF_def stack_hl_def cpu_read_sp_def index_hl_def cpu_read_index_def cpu_read_index_low_def cpu_read_index_high_def cpu_read_other_index_def memory_read_byte_def cpu_read_byte_def cpu_read_word_def cpu_read_in_def port_read_byte_def)

lemma ex_af_frame [simp]:
  "r_BC (ex_af s) = r_BC s"
  "r_DE (ex_af s) = r_DE s"
  "r_HL (ex_af s) = r_HL s"
  "r_HL' (ex_af s) = r_HL' s"
  "r_IX (ex_af s) = r_IX s"
  "r_IY (ex_af s) = r_IY s"
  "r_BC' (ex_af s) = r_BC' s"
  "r_DE' (ex_af s) = r_DE' s"
  "r_SPS (ex_af s) = r_SPS s"
  "r_SPL (ex_af s) = r_SPL s"
  "r_PC (ex_af s) = r_PC s"
  "r_I (ex_af s) = r_I s"
  "r_R (ex_af s) = r_R s"
  "r_MBASE (ex_af s) = r_MBASE s"
  "cpu_prefetch_byte (ex_af s) = cpu_prefetch_byte s"
  "cpu_PREFIX (ex_af s) = cpu_PREFIX s"
  "cpu_SUFFIX (ex_af s) = cpu_SUFFIX s"
  "cpu_L (ex_af s) = cpu_L s"
  "cpu_IL (ex_af s) = cpu_IL s"
  "cpu_ADL (ex_af s) = cpu_ADL s"
  "cpu_MADL (ex_af s) = cpu_MADL s"
  "cpu_IEF1 (ex_af s) = cpu_IEF1 s"
  "cpu_IEF2 (ex_af s) = cpu_IEF2 s"
  "cpu_IEF_wait (ex_af s) = cpu_IEF_wait s"
  "cpu_IM (ex_af s) = cpu_IM s"
  "cpu_halted (ex_af s) = cpu_halted s"
  "cpu_cycles (ex_af s) = cpu_cycles s"
  "cycle_count_delta (ex_af s) = cycle_count_delta s"
  "cycle_offset (ex_af s) = cycle_offset s"
  "cpu_events (ex_af s) = cpu_events s"
  "exiting (ex_af s) = exiting s"
  "memory (ex_af s) = memory s"
  "mem_writes (ex_af s) = mem_writes s"
  "port_in (ex_af s) = port_in s"
  "port_writes (ex_af s) = port_writes s"
  "intrpt_pending (ex_af s) = intrpt_pending s"
  by (simp_all add: ex_af_def Let_def split_beta)

lemma ex_af_obs [simp]:
  "cpu_address_mode a' m' (ex_af s) = cpu_address_mode a' m' s"
  "r_B (ex_af s) = r_B s"
  "r_C (ex_af s) = r_C s"
  "r_D (ex_af s) = r_D s"
  "r_E (ex_af s) = r_E s"
  "r_PCL (ex_af s) = r_PCL s"
  "r_PCH (ex_af s) = r_PCH s"
  "r_PCU (ex_af s) = r_PCU s"
  "stack_hl (ex_af s) = stack_hl s"
  "cpu_read_sp (ex_af s) = cpu_read_sp s"
  "index_hl i' (ex_af s) = index_hl i' s"
  "cpu_read_index (ex_af s) = cpu_read_index s"
  "cpu_read_index_low (ex_af s) = cpu_read_index_low s"
  "cpu_read_index_high (ex_af s) = cpu_read_index_high s"
  "cpu_read_other_index (ex_af s) = cpu_read_other_index s"
  "memory_read_byte a' (ex_af s) = memory_read_byte a' s"
  "cpu_read_byte a' (ex_af s) = cpu_read_byte a' s"
  "cpu_read_word a' (ex_af s) = cpu_read_word a' s"
  "cpu_read_in p' (ex_af s) = cpu_read_in p' s"
  by (simp_all add: cpu_address_mode_def flags_C_def flags_N_def flags_PV_def flags_H_def flags_Z_def flags_S_def r_B_def r_C_def r_D_def r_E_def r_PCL_def r_PCH_def r_PCU_def r_AF_def stack_hl_def cpu_read_sp_def index_hl_def cpu_read_index_def cpu_read_index_low_def cpu_read_index_high_def cpu_read_other_index_def memory_read_byte_def cpu_read_byte_def cpu_read_word_def cpu_read_in_def port_read_byte_def)

lemma exx_frame [simp]:
  "r_A (exx s) = r_A s"
  "r_F (exx s) = r_F s"
  "r_IX (exx s) = r_IX s"
  "r_IY (exx s) = r_IY s"
  "r_AF' (exx s) = r_AF' s"
  "r_SPS (exx s) = r_SPS s"
  "r_SPL (exx s) = r_SPL s"
  "r_PC (exx s) = r_PC s"
  "r_I (exx s) = r_I s"
  "r_R (exx s) = r_R s"
  "r_MBASE (exx s) = r_MBASE s"
  "cpu_prefetch_byte (exx s) = cpu_prefetch_byte s"
  "cpu_PREFIX (exx s) = cpu_PREFIX s"
  "cpu_SUFFIX (exx s) = cpu_SUFFIX s"
  "cpu_L (exx s) = cpu_L s"
  "cpu_IL (exx s) = cpu_IL s"
  "cpu_ADL (exx s) = cpu_ADL s"
  "cpu_MADL (exx s) = cpu_MADL s"
  "cpu_IEF1 (exx s) = cpu_IEF1 s"
  "cpu_IEF2 (exx s) = cpu_IEF2 s"
  "cpu_IEF_wait (exx s) = cpu_IEF_wait s"
  "cpu_IM (exx s) = cpu_IM s"
  "cpu_halted (exx s) = cpu_halted s"
  "cpu_cycles (exx s) = cpu_cycles s"
  "cycle_count_delta (exx s) = cycle_count_delta s"
  "cycle_offset (exx s) = cycle_offset s"
  "cpu_events (exx s) = cpu_events s"
  "exiting (exx s) = exiting s"
  "memory (exx s) = memory s"
  "mem_writes (exx s) = mem_writes s"
  "port_in (exx s) = port_in s"
  "port_writes (exx s) = port_writes s"
  "intrpt_pending (exx s) = intrpt_pending s"
  by (simp_all add: exx_def Let_def split_beta)

lemma exx_obs [simp]:
  "cpu_address_mode a' m' (exx s) = cpu_address_mode a' m' s"
  "flags_C (exx s) = flags_C s"
  "flags_N (exx s) = flags_N s"
  "flags_PV (exx s) = flags_PV s"
  "flags_H (exx s) = flags_H s"
  "flags_Z (exx s) = flags_Z s"
  "flags_S (exx s) = flags_S s"
  "r_PCL (exx s) = r_PCL s"
  "r_PCH (exx s) = r_PCH s"
  "r_PCU (exx s) = r_PCU s"
  "r_AF (exx s) = r_AF s"
  "stack_hl (exx s) = stack_hl s"
  "cpu_read_sp (exx s) = cpu_read_sp s"
  "memory_read_byte a' (exx s) = memory_read_byte a' s"
  "cpu_read_byte a' (exx s) = cpu_read_byte a' s"
  "cpu_read_word a' (exx s) = cpu_read_word a' s"
  "cpu_read_in p' (exx s) = cpu_read_in p' s"
  by (simp_all add: cpu_address_mode_def flags_C_def flags_N_def flags_PV_def flags_H_def flags_Z_def flags_S_def r_B_def r_C_def r_D_def r_E_def r_PCL_def r_PCH_def r_PCU_def r_AF_def stack_hl_def cpu_read_sp_def index_hl_def cpu_read_index_def cpu_read_index_low_def cpu_read_index_high_def cpu_read_other_index_def memory_read_byte_def cpu_read_byte_def cpu_read_word_def cpu_read_in_def port_read_byte_def)

lemma set_flag_frame [simp]:
  "r_A (set_flag m b s) = r_A s"
  "r_BC (set_flag m b s) = r_BC s"
  "r_DE (set_flag m b s) = r_DE s"
  "r_HL (set_flag m b s) = r_HL s"
  "r_HL' (set_flag m b s) = r_HL' s"
  "r_IX (set_flag m b s) = r_IX s"
  "r_IY (set_flag m b s) = r_IY s"
  "r_AF' (set_flag m b s) = r_AF' s"
  "r_BC' (set_flag m b s) = r_BC' s"
  "r_DE' (set_flag m b s) = r_DE' s"
  "r_SPS (set_flag m b s) = r_SPS s"
  "r_SPL (set_flag m b s) = r_SPL s"
  "r_PC (set_flag m b s) = r_PC s"
  "r_I (set_flag m b s) = r_I s"
  "r_R (set_flag m b s) = r_R s"
  "r_MBASE (set_flag m b s) = r_MBASE s"
  "cpu_prefetch_byte (set_flag m b s) = cpu_prefetch_byte s"
  "cpu_PREFIX (set_flag m b s) = cpu_PREFIX s"
  "cpu_SUFFIX (set_flag m b s) = cpu_SUFFIX s"
  "cpu_L (set_flag m b s) = cpu_L s"
  "cpu_IL (set_flag m b s) = cpu_IL s"
  "cpu_ADL (set_flag m b s) = cpu_ADL s"
  "cpu_MADL (set_flag m b s) = cpu_MADL s"
  "cpu_IEF1 (set_flag m b s) = cpu_IEF1 s"
  "cpu_IEF2 (set_flag m b s) = cpu_IEF2 s"
  "cpu_IEF_wait (set_flag m b s) = cpu_IEF_wait s"
  "cpu_IM (set_flag m b s) = cpu_IM s"
  "cpu_halted (set_flag m b s) = cpu_halted s"
  "cpu_cycles (set_flag m b s) = cpu_cycles s"
  "cycle_count_delta (set_flag m b s) = cycle_count_delta s"
  "cycle_offset (set_flag m b s) = cycle_offset s"
  "cpu_events (set_flag m b s) = cpu_events s"
  "exiting (set_flag m b s) = exiting s"
  "memory (set_flag m b s) = memory s"
  "mem_writes (set_flag m b s) = mem_writes s"
  "port_in (set_flag m b s) = port_in s"
  "port_writes (set_flag m b s) = port_writes s"
  "intrpt_pending (set_flag m b s) = intrpt_pending s"
  by (simp_all add: set_flag_def Let_def split_beta)

lemma set_flag_obs [simp]:
  "cpu_address_mode a' m' (set_flag m b s) = cpu_address_mode a' m' s"
  "r_B (set_flag m b s) = r_B s"
  "r_C (set_flag m b s) = r_C s"
  "r_D (set_flag m b s) = r_D s"
  "r_E (set_flag m b s) = r_E s"
  "r_PCL (set_flag m b s) = r_PCL s"
  "r_PCH (set_flag m b s) = r_PCH s"
  "r_PCU (set_flag m b s) = r_PCU s"
  "stack_hl (set_flag m b s) = stack_hl s"
  "cpu_read_sp (set_flag m b s) = cpu_read_sp s"
  "index_hl i' (set_flag m b s) = index_hl i' s"
  "cpu_read_index (set_flag m b s) = cpu_read_index s"
  "cpu_read_index_low (set_flag m b s) = cpu_read_index_low s"
  "cpu_read_index_high (set_flag m b s) = cpu_read_index_high s"
  "cpu_read_other_index (set_flag m b s) = cpu_read_other_index s"
  "memory_read_byte a' (set_flag m b s) = memory_read_byte a' s"
  "cpu_read_byte a' (set_flag m b s) = cpu_read_byte a' s"
  "cpu_read_word a' (set_flag m b s) = cpu_read_word a' s"
  "cpu_read_in p' (set_flag m b s) = cpu_read_in p' s"
  by (simp_all add: cpu_address_mode_def flags_C_def flags_N_def flags_PV_def flags_H_def flags_Z_def flags_S_def r_B_def r_C_def r_D_def r_E_def r_PCL_def r_PCH_def r_PCU_def r_AF_def stack_hl_def cpu_read_sp_def index_hl_def cpu_read_index_def cpu_read_index_low_def cpu_read_index_high_def cpu_read_other_index_def memory_read_byte_def cpu_read_byte_def cpu_read_word_def cpu_read_in_def port_read_byte_def)

lemma cpu_get_cntrl_data_blocks_format_frame [simp]:
  "r_A (cpu_get_cntrl_data_blocks_format s) = r_A s"
  "r_F (cpu_get_cntrl_data_blocks_format s) = r_F s"
  "r_BC (cpu_get_cntrl_data_blocks_format s) = r_BC s"
  "r_DE (cpu_get_cntrl_data_blocks_format s) = r_DE s"
  "r_HL (cpu_get_cntrl_data_blocks_format s) = r_HL s"
  "r_HL' (cpu_get_cntrl_data_blocks_format s) = r_HL' s"
  "r_IX (cpu_get_cntrl_data_blocks_format s) = r_IX s"
  "r_IY (cpu_get_cntrl_data_blocks_format s) = r_IY s"
  "r_AF' (cpu_get_cntrl_data_blocks_format s) = r_AF' s"
  "r_BC' (cpu_get_cntrl_data_blocks_format s) = r_BC' s"
  "r_DE' (cpu_get_cntrl_data_blocks_format s) = r_DE' s"
  "r_SPS (cpu_get_cntrl_data_blocks_format s) = r_SPS s"
  "r_SPL (cpu_get_cntrl_data_blocks_format s) = r_SPL s"
  "r_PC (cpu_get_cntrl_data_blocks_format s) = r_PC s"
  "r_I (cpu_get_cntrl_data_blocks_format s) = r_I s"
  "r_R (cpu_get_cntrl_data_blocks_format s) = r_R s"
  "r_MBASE (cpu_get_cntrl_data_blocks_format s) = r_MBASE s"
  "cpu_prefetch_byte (cpu_get_cntrl_data_blocks_format s) = cpu_prefetch_byte s"
  "cpu_ADL (cpu_get_cntrl_data_blocks_format s) = cpu_ADL s"
  "cpu_MADL (cpu_get_cntrl_data_blocks_format s) = cpu_MADL s"
  "cpu_IEF1 (cpu_get_cntrl_data_blocks_format s) = cpu_IEF1 s"
  "cpu_IEF2 (cpu_get_cntrl_data_blocks_format s) = cpu_IEF2 s"
  "cpu_IEF_wait (cpu_get_cntrl_data_blocks_format s) = cpu_IEF_wait s"
  "cpu_IM (cpu_get_cntrl_data_blocks_format s) = cpu_IM s"
  "cpu_halted (cpu_get_cntrl_data_blocks_format s) = cpu_halted s"
  "cpu_cycles (cpu_get_cntrl_data_blocks_format s) = cpu_cycles s"
  "cycle_count_delta (cpu_get_cntrl_data_blocks_format s) = cycle_count_delta s"
  "cycle_offset (cpu_get_cntrl_data_blocks_format s) = cycle_offset s"
  "cpu_events (cpu_get_cntrl_data_blocks_format s) = cpu_events s"
  "exiting (cpu_get_cntrl_data_blocks_format s) = exiting s"
  "memory (cpu_get_cntrl_data_blocks_format s) = memory s"
  "mem_writes (cpu_get_cntrl_data_blocks_format s) = mem_writes s"
  "port_in (cpu_get_cntrl_data_blocks_format s) = port_in s"
  "port_writes (cpu_get_cntrl_data_blocks_format s) = port_writes s"
  "intrpt_pending (cpu_get_cntrl_data_blocks_format s) = intrpt_pending s"
  by (simp_all add: cpu_get_cntrl_data_blocks_format_def Let_def split_beta)

lemma cpu_get_cntrl_data_blocks_format_obs [simp]:
  "cpu_address_mode a' m' (cpu_get_cntrl_data_blocks_format s) = cpu_address_mode a' m' s"
  "flags_C (cpu_get_cntrl_data_blocks_format s) = flags_C s"
  "flags_N (cpu_get_cntrl_data_blocks_format s) = flags_N s"
  "flags_PV (cpu_get_cntrl_data_blocks_format s) = flags_PV s"
  "flags_H (cpu_get_cntrl_data_blocks_format s) = flags_H s"
  "flags_Z (cpu_get_cntrl_data_blocks_format s) = flags_Z s"
  "flags_S (cpu_get_cntrl_data_blocks_format s) = flags_S s"
  "r_B (cpu_get_cntrl_data_blocks_format s) = r_B s"
  "r_C (cpu_get_cntrl_data_blocks_format s) = r_C s"
  "r_D (cpu_get_cntrl_data_blocks_format s) = r_D s"
  "r_E (cpu_get_cntrl_data_blocks_format s) = r_E s"
  "r_PCL (cpu_get_cntrl_data_blocks_format s) = r_PCL s"
  "r_PCH (cpu_get_cntrl_data_blocks_format s) = r_PCH s"
  "r_PCU (cpu_get_cntrl_data_blocks_format s) = r_PCU s"
  "r_AF (cpu_get_cntrl_data_blocks_format s) = r_AF s"
  "index_hl i' (cpu_get_cntrl_data_blocks_format s) = index_hl i' s"
  "memory_read_byte a' (cpu_get_cntrl_data_blocks_format s) = memory_read_byte a' s"
  "cpu_read_in p' (cpu_get_cntrl_data_blocks_format s) = cpu_read_in p' s"
  by (simp_all add: cpu_address_mode_def flags_C_def flags_N_def flags_PV_def flags_H_def flags_Z_def flags_S_def r_B_def r_C_def r_D_def r_E_def r_PCL_def r_PCH_def r_PCU_def r_AF_def stack_hl_def cpu_read_sp_def index_hl_def cpu_read_index_def cpu_read_index_low_def cpu_read_index_high_def cpu_read_other_index_def memory_read_byte_def cpu_read_byte_def cpu_read_word_def cpu_read_in_def port_read_byte_def)

lemma cpu_dec_bc_partial_mode_frame [simp]:
  "r_A (snd (cpu_dec_bc_partial_mode s)) = r_A s"
  "r_F (snd (cpu_dec_bc_partial_mode s)) = r_F s"
  "r_DE (snd (cpu_dec_bc_partial_mode s)) = r_DE s"
  "r_HL (snd (cpu_dec_bc_partial_mode s)) = r_HL s"
  "r_HL' (snd (cpu_dec_bc_partial_mode s)) = r_HL' s"
  "r_IX (snd (cpu_dec_bc_partial_mode s)) = r_IX s"
  "r_IY (snd (cpu_dec_bc_partial_mode s)) = r_IY s"
  "r_AF' (snd (cpu_dec_bc_partial_mode s)) = r_AF' s"
  "r_BC' (snd (cpu_dec_bc_partial_mode s)) = r_BC' s"
  "r_DE' (snd (cpu_dec_bc_partial_mode s)) = r_DE' s"
  "r_SPS (snd (cpu_dec_bc_partial_mode s)) = r_SPS s"
  "r_SPL (snd (cpu_dec_bc_partial_mode s)) = r_SPL s"
  "r_PC (snd (cpu_dec_bc_partial_mode s)) = r_PC s"
  "r_I (snd (cpu_dec_bc_partial_mode s)) = r_I s"
  "r_R (snd (cpu_dec_bc_partial_mode s)) = r_R s"
  "r_MBASE (snd (cpu_dec_bc_partial_mode s)) = r_MBASE s"
  "cpu_prefetch_byte (snd (cpu_dec_bc_partial_mode s)) = cpu_prefetch_byte s"
  "cpu_PREFIX (snd (cpu_dec_bc_partial_mode s)) = cpu_PREFIX s"
  "cpu_SUFFIX (snd (cpu_dec_bc_partial_mode s)) = cpu_SUFFIX s"
  "cpu_L (snd (cpu_dec_bc_partial_mode s)) = cpu_L s"
  "cpu_IL (snd (cpu_dec_bc_partial_mode s)) = cpu_IL s"
  "cpu_ADL (snd (cpu_dec_bc_partial_mode s)) = cpu_ADL s"
  "cpu_MADL (snd (cpu_dec_bc_partial_mode s)) = cpu_MADL s"
  "cpu_IEF1 (snd (cpu_dec_bc_partial_mode s)) = cpu_IEF1 s"
  "cpu_IEF2 (snd (cpu_dec_bc_partial_mode s)) = cpu_IEF2 s"
  "cpu_IEF_wait (snd (cpu_dec_bc_partial_mode s)) = cpu_IEF_wait s"
  "cpu_IM (snd (cpu_dec_bc_partial_mode s)) = cpu_IM s"
  "cpu_halted (snd (cpu_dec_bc_partial_mode s)) = cpu_halted s"
  "cpu_cycles (snd (cpu_dec_bc_partial_mode s)) = cpu_cycles s"
  "cycle_count_delta (snd (cpu_dec_bc_partial_mode s)) = cycle_count_delta s"
  "cycle_offset (snd (cpu_dec_bc_partial_mode s)) = cycle_offset s"
  "cpu_events (snd (cpu_dec_bc_partial_mode s)) = cpu_events s"
  "exiting (snd (cpu_dec_bc_partial_mode s)) = exiting s"
  "memory (snd (cpu_dec_bc_partial_mode s)) = memory s"
  "mem_writes (snd (cpu_dec_bc_partial_mode s)) = mem_writes s"
  "port_in (snd (cpu_dec_bc_partial_mode s)) = port_in s"
  "port_writes (snd (cpu_dec_bc_partial_mode s)) = port_writes s"
  "intrpt_pending (snd (cpu_dec_bc_partial_mode s)) = intrpt_pending s"
  by (simp_all add: cpu_dec_bc_partial_mode_def Let_def split_beta)

lemma cpu_dec_bc_partial_mode_obs [simp]:
  "cpu_address_mode a' m' (snd (cpu_dec_bc_partial_mode s)) = cpu_address_mode a' m' s"
  "flags_C (snd (cpu_dec_bc_partial_mode s)) = flags_C s"
  "flags_N (snd (cpu_dec_bc_partial_mode s)) = flags_N s"
  "flags_PV (snd (cpu_dec_bc_partial_mode s)) = flags_PV s"
  "flags_H (snd (cpu_dec_bc_partial_mode s)) = flags_H s"
  "flags_Z (snd (cpu_dec_bc_partial_mode s)) = flags_Z s"
  "flags_S (snd (cpu_dec_bc_partial_mode s)) = flags_S s"
  "r_D (snd (cpu_dec_bc_partial_mode s)) = r_D s"
  "r_E (snd (cpu_dec_bc_partial_mode s)) = r_E s"
  "r_PCL (snd (cpu_dec_bc_partial_mode s)) = r_PCL s"
  "r_PCH (snd (cpu_dec_bc_partial_mode s)) = r_PCH s"
  "r_PCU (snd (cpu_dec_bc_partial_mode s)) = r_PCU s"
  "r_AF (snd (cpu_dec_bc_partial_mode s)) = r_AF s"
  "stack_hl (snd (cpu_dec_bc_partial_mode s)) = stack_hl s"
  "cpu_read_sp (snd (cpu_dec_bc_partial_mode s)) = cpu_read_sp s"
  "index_hl i' (snd (cpu_dec_bc_partial_mode s)) = index_hl i' s"
  "cpu_read_index (snd (cpu_dec_bc_partial_mode s)) = cpu_read_index s"
  "cpu_read_index_low (snd (cpu_dec_bc_partial_mode s)) = cpu_read_index_low s"
  "cpu_read_index_high (snd (cpu_dec_bc_partial_mode s)) = cpu_read_index_high s"
  "cpu_read_other_index (snd (cpu_dec_bc_partial_mode s)) = cpu_read_other_index s"
  "memory_read_byte a' (snd (cpu_dec_bc_partial_mode s)) = memory_read_byte a' s"
  "cpu_read_byte a' (snd (cpu_dec_bc_partial_mode s)) = cpu_read_byte a' s"
  "cpu_read_word a' (snd (cpu_dec_bc_partial_mode s)) = cpu_read_word a' s"
  "cpu_read_in p' (snd (cpu_dec_bc_partial_mode s)) = cpu_read_in p' s"
  by (simp_all add: cpu_address_mode_def flags_C_def flags_N_def flags_PV_def flags_H_def flags_Z_def flags_S_def r_B_def r_C_def r_D_def r_E_def r_PCL_def r_PCH_def r_PCU_def r_AF_def stack_hl_def cpu_read_sp_def index_hl_def cpu_read_index_def cpu_read_index_low_def cpu_read_index_high_def cpu_read_other_index_def memory_read_byte_def cpu_read_byte_def cpu_read_word_def cpu_read_in_def port_read_byte_def)

lemma cpu_call_frame [simp]:
  "r_A (cpu_call a m s) = r_A s"
  "r_F (cpu_call a m s) = r_F s"
  "r_BC (cpu_call a m s) = r_BC s"
  "r_DE (cpu_call a m s) = r_DE s"
  "r_HL (cpu_call a m s) = r_HL s"
  "r_HL' (cpu_call a m s) = r_HL' s"
  "r_IX (cpu_call a m s) = r_IX s"
  "r_IY (cpu_call a m s) = r_IY s"
  "r_AF' (cpu_call a m s) = r_AF' s"
  "r_BC' (cpu_call a m s) = r_BC' s"
  "r_DE' (cpu_call a m s) = r_DE' s"
  "r_I (cpu_call a m s) = r_I s"
  "r_R (cpu_call a m s) = r_R s"
  "r_MBASE (cpu_call a m s) = r_MBASE s"
  "cpu_PREFIX (cpu_call a m s) = cpu_PREFIX s"
  "cpu_SUFFIX (cpu_call a m s) = cpu_SUFFIX s"
  "cpu_L (cpu_call a m s) = cpu_L s"
  "cpu_IL (cpu_call a m s) = cpu_IL s"
  "cpu_MADL (cpu_call a m s) = cpu_MADL s"
  "cpu_IEF1 (cpu_call a m s) = cpu_IEF1 s"
  "cpu_IEF2 (cpu_call a m s) = cpu_IEF2 s"
  "cpu_IEF_wait (cpu_call a m s) = cpu_IEF_wait s"
  "cpu_IM (cpu_call a m s) = cpu_IM s"
  "cpu_halted (cpu_call a m s) = cpu_halted s"
  "cpu_cycles (cpu_call a m s) = cpu_cycles s"
  "cycle_count_delta (cpu_call a m s) = cycle_count_delta s"
  "cycle_offset (cpu_call a m s) = cycle_offset s"
  "cpu_events (cpu_call a m s) = cpu_events s"
  "exiting (cpu_call a m s) = exiting s"
  "port_in (cpu_call a m s) = port_in s"
  "port_writes (cpu_call a m s) = port_writes s"
  "intrpt_pending (cpu_call a m s) = intrpt_pending s"
  by (simp_all add: cpu_call_def Let_def split_beta)

lemma cpu_call_obs [simp]:
  "cpu_address_mode a' m' (cpu_call a m s) = cpu_address_mode a' m' s"
  "flags_C (cpu_call a m s) = flags_C s"
  "flags_N (cpu_call a m s) = flags_N s"
  "flags_PV (cpu_call a m s) = flags_PV s"
  "flags_H (cpu_call a m s) = flags_H s"
  "flags_Z (cpu_call a m s) = flags_Z s"
  "flags_S (cpu_call a m s) = flags_S s"
  "r_B (cpu_call a m s) = r_B s"
  "r_C (cpu_call a m s) = r_C s"
  "r_D (cpu_call a m s) = r_D s"
  "r_E (cpu_call a m s) = r_E s"
  "r_AF (cpu_call a m s) = r_AF s"
  "index_hl i' (cpu_call a m s) = index_hl i' s"
  "cpu_read_index (cpu_call a m s) = cpu_read_index s"
  "cpu_read_index_low (cpu_call a m s) = cpu_read_index_low s"
  "cpu_read_index_high (cpu_call a m s) = cpu_read_index_high s"
  "cpu_read_other_index (cpu_call a m s) = cpu_read_other_index s"
  "cpu_read_in p' (cpu_call a m s) = cpu_read_in p' s"
  by (simp_all add: cpu_address_mode_def flags_C_def flags_N_def flags_PV_def flags_H_def flags_Z_def flags_S_def r_B_def r_C_def r_D_def r_E_def r_PCL_def r_PCH_def r_PCU_def r_AF_def stack_hl_def cpu_read_sp_def index_hl_def cpu_read_index_def cpu_read_index_low_def cpu_read_index_high_def cpu_read_other_index_def memory_read_byte_def cpu_read_byte_def cpu_read_word_def cpu_read_in_def port_read_byte_def)

lemma cpu_return_frame [simp]:
  "r_A (cpu_return s) = r_A s"
  "r_F (cpu_return s) = r_F s"
  "r_BC (cpu_return s) = r_BC s"
  "r_DE (cpu_return s) = r_DE s"
  "r_HL (cpu_return s) = r_HL s"
  "r_HL' (cpu_return s) = r_HL' s"
  "r_IX (cpu_return s) = r_IX s"
  "r_IY (cpu_return s) = r_IY s"
  "r_AF' (cpu_return s) = r_AF' s"
  "r_BC' (cpu_return s) = r_BC' s"
  "r_DE' (cpu_return s) = r_DE' s"
  "r_I (cpu_return s) = r_I s"
  "r_R (cpu_return s) = r_R s"
  "r_MBASE (cpu_return s) = r_MBASE s"
  "cpu_PREFIX (cpu_return s) = cpu_PREFIX s"
  "cpu_SUFFIX (cpu_return s) = cpu_SUFFIX s"
  "cpu_L (cpu_return s) = cpu_L s"
  "cpu_IL (cpu_return s) = cpu_IL s"
  "cpu_MADL (cpu_return s) = cpu_MADL s"
  "cpu_IEF1 (cpu_return s) = cpu_IEF1 s"
  "cpu_IEF2 (cpu_return s) = cpu_IEF2 s"
  "cpu_IEF_wait (cpu_return s) = cpu_IEF_wait s"
  "cpu_IM (cpu_return s) = cpu_IM s"
  "cpu_halted (cpu_return s) = cpu_halted s"
  "cycle_count_delta (cpu_return s) = cycle_count_delta s"
  "cycle_offset (cpu_return s) = cycle_offset s"
  "cpu_events (cpu_return s) = cpu_events s"
  "exiting (cpu_return s) = exiting s"
  "memory (cpu_return s) = memory s"
  "mem_writes (cpu_return s) = mem_writes s"
  "port_in (cpu_return s) = port_in s"
  "port_writes (cpu_return s) = port_writes s"
  "intrpt_pending (cpu_return s) = intrpt_pending s"
  by (simp_all add: cpu_return_def Let_def split_beta)

lemma cpu_return_obs [simp]:
  "cpu_address_mode a' m' (cpu_return s) = cpu_address_mode a' m' s"
  "flags_C (cpu_return s) = flags_C s"
  "flags_N (cpu_return s) = flags_N s"
  "flags_PV (cpu_return s) = flags_PV s"
  "flags_H (cpu_return s) = flags_H s"
  "flags_Z (cpu_return s) = flags_Z s"
  "flags_S (cpu_return s) = flags_S s"
  "r_B (cpu_return s) = r_B s"
  "r_C (cpu_return s) = r_C s"
  "r_D (cpu_return s) = r_D s"
  "r_E (cpu_return s) = r_E s"
  "r_AF (cpu_return s) = r_AF s"
  "index_hl i' (cpu_return s) = index_hl i' s"
  "cpu_read_index (cpu_return s) = cpu_read_index s"
  "cpu_read_index_low (cpu_return s) = cpu_read_index_low s"
  "cpu_read_index_high (cpu_return s) = cpu_read_index_high s"
  "cpu_read_other_index (cpu_return s) = cpu_read_other_index s"
  "memory_read_byte a' (cpu_return s) = memory_read_byte a' s"
  "cpu_read_byte a' (cpu_return s) = cpu_read_byte a' s"
  "cpu_read_word a' (cpu_return s) = cpu_read_word a' s"
  "cpu_read_in p' (cpu_return s) = cpu_read_in p' s"
  by (simp_all add: cpu_address_mode_def flags_C_def flags_N_def flags_PV_def flags_H_def flags_Z_def flags_S_def r_B_def r_C_def r_D_def r_E_def r_PCL_def r_PCH_def r_PCU_def r_AF_def stack_hl_def cpu_read_sp_def index_hl_def cpu_read_index_def cpu_read_index_low_def cpu_read_index_high_def cpu_read_other_index_def memory_read_byte_def cpu_read_byte_def cpu_read_word_def cpu_read_in_def port_read_byte_def)

lemma cpu_execute_daa_frame [simp]:
  "r_BC (cpu_execute_daa s) = r_BC s"
  "r_DE (cpu_execute_daa s) = r_DE s"
  "r_HL (cpu_execute_daa s) = r_HL s"
  "r_HL' (cpu_execute_daa s) = r_HL' s"
  "r_IX (cpu_execute_daa s) = r_IX s"
  "r_IY (cpu_execute_daa s) = r_IY s"
  "r_AF' (cpu_execute_daa s) = r_AF' s"
  "r_BC' (cpu_execute_daa s) = r_BC' s"
  "r_DE' (cpu_execute_daa s) = r_DE' s"
  "r_SPS (cpu_execute_daa s) = r_SPS s"
  "r_SPL (cpu_execute_daa s) = r_SPL s"
  "r_PC (cpu_execute_daa s) = r_PC s"
  "r_I (cpu_execute_daa s) = r_I s"
  "r_R (cpu_execute_daa s) = r_R s"
  "r_MBASE (cpu_execute_daa s) = r_MBASE s"
  "cpu_prefetch_byte (cpu_execute_daa s) = cpu_prefetch_byte s"
  "cpu_PREFIX (cpu_execute_daa s) = cpu_PREFIX s"
  "cpu_SUFFIX (cpu_execute_daa s) = cpu_SUFFIX s"
  "cpu_L (cpu_execute_daa s) = cpu_L s"
  "cpu_IL (cpu_execute_daa s) = cpu_IL s"
  "cpu_ADL (cpu_execute_daa s) = cpu_ADL s"
  "cpu_MADL (cpu_execute_daa s) = cpu_MADL s"
  "cpu_IEF1 (cpu_execute_daa s) = cpu_IEF1 s"
  "cpu_IEF2 (cpu_execute_daa s) = cpu_IEF2 s"
  "cpu_IEF_wait (cpu_execute_daa s) = cpu_IEF_wait s"
  "cpu_IM (cpu_execute_daa s) = cpu_IM s"
  "cpu_halted (cpu_execute_daa s) = cpu_halted s"
  "cpu_cycles (cpu_execute_daa s) = cpu_cycles s"
  "cycle_count_delta (cpu_execute_daa s) = cycle_count_delta s"
  "cycle_offset (cpu_execute_daa s) = cycle_offset s"
  "cpu_events (cpu_execute_daa s) = cpu_events s"
  "exiting (cpu_execute_daa s) = exiting s"
  "memory (cpu_execute_daa s) = memory s"
  "mem_writes (cpu_execute_daa s) = mem_writes s"
  "port_in (cpu_execute_daa s) = port_in s"
  "port_writes (cpu_execute_daa s) = port_writes s"
  "intrpt_pending (cpu_execute_daa s) = intrpt_pending s"
  by (simp_all add: cpu_execute_daa_def Let_def split_beta)

lemma cpu_execute_daa_obs [simp]:
  "cpu_address_mode a' m' (cpu_execute_daa s) = cpu_address_mode a' m' s"
  "r_B (cpu_execute_daa s) = r_B s"
  "r_C (cpu_execute_daa s) = r_C s"
  "r_D (cpu_execute_daa s) = r_D s"
  "r_E (cpu_execute_daa s) = r_E s"
  "r_PCL (cpu_execute_daa s) = r_PCL s"
  "r_PCH (cpu_execute_daa s) = r_PCH s"
  "r_PCU (cpu_execute_daa s) = r_PCU s"
  "stack_hl (cpu_execute_daa s) = stack_hl s"
  "cpu_read_sp (cpu_execute_daa s) = cpu_read_sp s"
  "index_hl i' (cpu_execute_daa s) = index_hl i' s"
  "cpu_read_index (cpu_execute_daa s) = cpu_read_index s"
  "cpu_read_index_low (cpu_execute_daa s) = cpu_read_index_low s"
  "cpu_read_index_high (cpu_execute_daa s) = cpu_read_index_high s"
  "cpu_read_other_index (cpu_execute_daa s) = cpu_read_other_index s"
  "memory_read_byte a' (cpu_execute_daa s) = memory_read_byte a' s"
  "cpu_read_byte a' (cpu_execute_daa s) = cpu_read_byte a' s"
  "cpu_read_word a' (cpu_execute_daa s) = cpu_read_word a' s"
  "cpu_read_in p' (cpu_execute_daa s) = cpu_read_in p' s"
  by (simp_all add: cpu_address_mode_def flags_C_def flags_N_def flags_PV_def flags_H_def flags_Z_def flags_S_def r_B_def r_C_def r_D_def r_E_def r_PCL_def r_PCH_def r_PCU_def r_AF_def stack_hl_def cpu_read_sp_def index_hl_def cpu_read_index_def cpu_read_index_low_def cpu_read_index_high_def cpu_read_other_index_def memory_read_byte_def cpu_read_byte_def cpu_read_word_def cpu_read_in_def port_read_byte_def)

lemma cpu_execute_alu_frame [simp]:
  "r_BC (cpu_execute_alu i v s) = r_BC s"
  "r_DE (cpu_execute_alu i v s) = r_DE s"
  "r_HL (cpu_execute_alu i v s) = r_HL s"
  "r_HL' (cpu_execute_alu i v s) = r_HL' s"
  "r_IX (cpu_execute_alu i v s) = r_IX s"
  "r_IY (cpu_execute_alu i v s) = r_IY s"
  "r_AF' (cpu_execute_alu i v s) = r_AF' s"
  "r_BC' (cpu_execute_alu i v s) = r_BC' s"
  "r_DE' (cpu_execute_alu i v s) = r_DE' s"
  "r_SPS (cpu_execute_alu i v s) = r_SPS s"
  "r_SPL (cpu_execute_alu i v s) = r_SPL s"
  "r_PC (cpu_execute_alu i v s) = r_PC s"
  "r_I (cpu_execute_alu i v s) = r_I s"
  "r_R (cpu_execute_alu i v s) = r_R s"
  "r_MBASE (cpu_execute_alu i v s) = r_MBASE s"
  "cpu_prefetch_byte (cpu_execute_alu i v s) = cpu_prefetch_byte s"
  "cpu_PREFIX (cpu_execute_alu i v s) = cpu_PREFIX s"
  "cpu_SUFFIX (cpu_execute_alu i v s) = cpu_SUFFIX s"
  "cpu_L (cpu_execute_alu i v s) = cpu_L s"
  "cpu_IL (cpu_execute_alu i v s) = cpu_IL s"
  "cpu_ADL (cpu_execute_alu i v s) = cpu_ADL s"
  "cpu_MADL (cpu_execute_alu i v s) = cpu_MADL s"
  "cpu_IEF1 (cpu_execute_alu i v s) = cpu_IEF1 s"
  "cpu_IEF2 (cpu_execute_alu i v s) = cpu_IEF2 s"
  "cpu_IEF_wait (cpu_execute_alu i v s) = cpu_IEF_wait s"
  "cpu_IM (cpu_execute_alu i v s) = cpu_IM s"
  "cpu_halted (cpu_execute_alu i v s) = cpu_halted s"
  "cycle_count_delta (cpu_execute_alu i v s) = cycle_count_delta s"
  "cycle_offset (cpu_execute_alu i v s) = cycle_offset s"
  "cpu_events (cpu_execute_alu i v s) = cpu_events s"
  "exiting (cpu_execute_alu i v s) = exiting s"
  "memory (cpu_execute_alu i v s) = memory s"
  "mem_writes (cpu_execute_alu i v s) = mem_writes s"
  "port_in (cpu_execute_alu i v s) = port_in s"
  "port_writes (cpu_execute_alu i v s) = port_writes s"
  "intrpt_pending (cpu_execute_alu i v s) = intrpt_pending s"
  by (simp_all add: cpu_execute_alu_def Let_def split_beta)

lemma cpu_execute_alu_obs [simp]:
  "cpu_address_mode a' m' (cpu_execute_alu i v s) = cpu_address_mode a' m' s"
  "r_B (cpu_execute_alu i v s) = r_B s"
  "r_C (cpu_execute_alu i v s) = r_C s"
  "r_D (cpu_execute_alu i v s) = r_D s"
  "r_E (cpu_execute_alu i v s) = r_E s"
  "r_PCL (cpu_execute_alu i v s) = r_PCL s"
  "r_PCH (cpu_execute_alu i v s) = r_PCH s"
  "r_PCU (cpu_execute_alu i v s) = r_PCU s"
  "stack_hl (cpu_execute_alu i v s) = stack_hl s"
  "cpu_read_sp (cpu_execute_alu i v s) = cpu_read_sp s"
  "index_hl i' (cpu_execute_alu i v s) = index_hl i' s"
  "cpu_read_index (cpu_execute_alu i v s) = cpu_read_index s"
  "cpu_read_index_low (cpu_execute_alu i v s) = cpu_read_index_low s"
  "cpu_read_index_high (cpu_execute_alu i v s) = cpu_read_index_high s"
  "cpu_read_other_index (cpu_execute_alu i v s) = cpu_read_other_index s"
  "memory_read_byte a' (cpu_execute_alu i v s) = memory_read_byte a' s"
  "cpu_read_byte a' (cpu_execute_alu i v s) = cpu_read_byte a' s"
  "cpu_read_word a' (cpu_execute_alu i v s) = cpu_read_word a' s"
  "cpu_read_in p' (cpu_execute_alu i v s) = cpu_read_in p' s"
  by (simp_all add: cpu_address_mode_def flags_C_def flags_N_def flags_PV_def flags_H_def flags_Z_def flags_S_def r_B_def r_C_def r_D_def r_E_def r_PCL_def r_PCH_def r_PCU_def r_AF_def stack_hl_def cpu_read_sp_def index_hl_def cpu_read_index_def cpu_read_index_low_def cpu_read_index_high_def cpu_read_other_index_def memory_read_byte_def cpu_read_byte_def cpu_read_word_def cpu_read_in_def port_read_byte_def)

lemma cpu_execute_rot_acc_frame [simp]:
  "r_BC (cpu_execute_rot_acc y s) = r_BC s"
  "r_DE (cpu_execute_rot_acc y s) = r_DE s"
  "r_HL (cpu_execute_rot_acc y s) = r_HL s"
  "r_HL' (cpu_execute_rot_acc y s) = r_HL' s"
  "r_IX (cpu_execute_rot_acc y s) = r_IX s"
  "r_IY (cpu_execute_rot_acc y s) = r_IY s"
  "r_AF' (cpu_execute_rot_acc y s) = r_AF' s"
  "r_BC' (cpu_execute_rot_acc y s) = r_BC' s"
  "r_DE' (cpu_execute_rot_acc y s) = r_DE' s"
  "r_SPS (cpu_execute_rot_acc y s) = r_SPS s"
  "r_SPL (cpu_execute_rot_acc y s) = r_SPL s"
  "r_PC (cpu_execute_rot_acc y s) = r_PC s"
  "r_I (cpu_execute_rot_acc y s) = r_I s"
  "r_R (cpu_execute_rot_acc y s) = r_R s"
  "r_MBASE (cpu_execute_rot_acc y s) = r_MBASE s"
  "cpu_prefetch_byte (cpu_execute_rot_acc y s) = cpu_prefetch_byte s"
  "cpu_PREFIX (cpu_execute_rot_acc y s) = cpu_PREFIX s"
  "cpu_SUFFIX (cpu_execute_rot_acc y s) = cpu_SUFFIX s"
  "cpu_L (cpu_execute_rot_acc y s) = cpu_L s"
  "cpu_IL (cpu_execute_rot_acc y s) = cpu_IL s"
  "cpu_ADL (cpu_execute_rot_acc y s) = cpu_ADL s"
  "cpu_MADL (cpu_execute_rot_acc y s) = cpu_MADL s"
  "cpu_IEF1 (cpu_execute_rot_acc y s) = cpu_IEF1 s"
  "cpu_IEF2 (cpu_execute_rot_acc y s) = cpu_IEF2 s"
  "cpu_IEF_wait (cpu_execute_rot_acc y s) = cpu_IEF_wait s"
  "cpu_IM (cpu_execute_rot_acc y s) = cpu_IM s"
  "cpu_halted (cpu_execute_rot_acc y s) = cpu_halted s"
  "cycle_count_delta (cpu_execute_rot_acc y s) = cycle_count_delta s"
  "cycle_offset (cpu_execute_rot_acc y s) = cycle_offset s"
  "cpu_events (cpu_execute_rot_acc y s) = cpu_events s"
  "exiting (cpu_execute_rot_acc y s) = exiting s"
  "memory (cpu_execute_rot_acc y s) = memory s"
  "mem_writes (cpu_execute_rot_acc y s) = mem_writes s"
  "port_in (cpu_execute_rot_acc y s) = port_in s"
  "port_writes (cpu_execute_rot_acc y s) = port_writes s"
  "intrpt_pending (cpu_execute_rot_acc y s) = intrpt_pending s"
  by (simp_all add: cpu_execute_rot_acc_def Let_def split_beta)

lemma cpu_execute_rot_acc_obs [simp]:
  "cpu_address_mode a' m' (cpu_execute_rot_acc y s) = cpu_address_mode a' m' s"
  "r_B (cpu_execute_rot_acc y s) = r_B s"
  "r_C (cpu_execute_rot_acc y s) = r_C s"
  "r_D (cpu_execute_rot_acc y s) = r_D s"
  "r_E (cpu_execute_rot_acc y s) = r_E s"
  "r_PCL (cpu_execute_rot_acc y s) = r_PCL s"
  "r_PCH (cpu_execute_rot_acc y s) = r_PCH s"
  "r_PCU (cpu_execute_rot_acc y s) = r_PCU s"
  "stack_hl (cpu_execute_rot_acc y s) = stack_hl s"
  "cpu_read_sp (cpu_execute_rot_acc y s) = cpu_read_sp s"
  "index_hl i' (cpu_execute_rot_acc y s) = index_hl i' s"
  "cpu_read_index (cpu_execute_rot_acc y s) = cpu_read_index s"
  "cpu_read_index_low (cpu_execute_rot_acc y s) = cpu_read_index_low s"
  "cpu_read_index_high (cpu_execute_rot_acc y s) = cpu_read_index_high s"
  "cpu_read_other_index (cpu_execute_rot_acc y s) = cpu_read_other_index s"
  "memory_read_byte a' (cpu_execute_rot_acc y s) = memory_read_byte a' s"
  "cpu_read_byte a' (cpu_execute_rot_acc y s) = cpu_read_byte a' s"
  "cpu_read_word a' (cpu_execute_rot_acc y s) = cpu_read_word a' s"
  "cpu_read_in p' (cpu_execute_rot_acc y s) = cpu_read_in p' s"
  by (simp_all add: cpu_address_mode_def flags_C_def flags_N_def flags_PV_def flags_H_def flags_Z_def flags_S_def r_B_def r_C_def r_D_def r_E_def r_PCL_def r_PCH_def r_PCU_def r_AF_def stack_hl_def cpu_read_sp_def index_hl_def cpu_read_index_def cpu_read_index_low_def cpu_read_index_high_def cpu_read_other_index_def memory_read_byte_def cpu_read_byte_def cpu_read_word_def cpu_read_in_def port_read_byte_def)

lemma inc_HL_frame [simp]:
  "r_A (inc_HL s) = r_A s"
  "r_F (inc_HL s) = r_F s"
  "r_BC (inc_HL s) = r_BC s"
  "r_DE (inc_HL s) = r_DE s"
  "r_HL' (inc_HL s) = r_HL' s"
  "r_IX (inc_HL s) = r_IX s"
  "r_IY (inc_HL s) = r_IY s"
  "r_AF' (inc_HL s) = r_AF' s"
  "r_BC' (inc_HL s) = r_BC' s"
  "r_DE' (inc_HL s) = r_DE' s"
  "r_SPS (inc_HL s) = r_SPS s"
  "r_SPL (inc_HL s) = r_SPL s"
  "r_PC (inc_HL s) = r_PC s"
  "r_I (inc_HL s) = r_I s"
  "r_R (inc_HL s) = r_R s"
  "r_MBASE (inc_HL s) = r_MBASE s"
  "cpu_prefetch_byte (inc_HL s) = cpu_prefetch_byte s"
  "cpu_PREFIX (inc_HL s) = cpu_PREFIX s"
  "cpu_SUFFIX (inc_HL s) = cpu_SUFFIX s"
  "cpu_L (inc_HL s) = cpu_L s"
  "cpu_IL (inc_HL s) = cpu_IL s"
  "cpu_ADL (inc_HL s) = cpu_ADL s"
  "cpu_MADL (inc_HL s) = cpu_MADL s"
  "cpu_IEF1 (inc_HL s) = cpu_IEF1 s"
  "cpu_IEF2 (inc_HL s) = cpu_IEF2 s"
  "cpu_IEF_wait (inc_HL s) = cpu_IEF_wait s"
  "cpu_IM (inc_HL s) = cpu_IM s"
  "cpu_halted (inc_HL s) = cpu_halted s"
  "cpu_cycles (inc_HL s) = cpu_cycles s"
  "cycle_count_delta (inc_HL s) = cycle_count_delta s"
  "cycle_offset (inc_HL s) = cycle_offset s"
  "cpu_events (inc_HL s) = cpu_events s"
  "exiting (inc_HL s) = exiting s"
  "memory (inc_HL s) = memory s"
  "mem_writes (inc_HL s) = mem_writes s"
  "port_in (inc_HL s) = port_in s"
  "port_writes (inc_HL s) = port_writes s"
  "intrpt_pending (inc_HL s) = intrpt_pending s"
  by (simp_all add: inc_HL_def Let_def split_beta)

lemma inc_HL_obs [simp]:
  "cpu_address_mode a' m' (inc_HL s) = cpu_address_mode a' m' s"
  "flags_C (inc_HL s) = flags_C s"
  "flags_N (inc_HL s) = flags_N s"
  "flags_PV (inc_HL s) = flags_PV s"
  "flags_H (inc_HL s) = flags_H s"
  "flags_Z (inc_HL s) = flags_Z s"
  "flags_S (inc_HL s) = flags_S s"
  "r_B (inc_HL s) = r_B s"
  "r_C (inc_HL s) = r_C s"
  "r_D (inc_HL s) = r_D s"
  "r_E (inc_HL s) = r_E s"
  "r_PCL (inc_HL s) = r_PCL s"
  "r_PCH (inc_HL s) = r_PCH s"
  "r_PCU (inc_HL s) = r_PCU s"
  "r_AF (inc_HL s) = r_AF s"
  "stack_hl (inc_HL s) = stack_hl s"
  "cpu_read_sp (inc_HL s) = cpu_read_sp s"
  "memory_read_byte a' (inc_HL s) = memory_read_byte a' s"
  "cpu_read_byte a' (inc_HL s) = cpu_read_byte a' s"
  "cpu_read_word a' (inc_HL s) = cpu_read_word a' s"
  "cpu_read_in p' (inc_HL s) = cpu_read_in p' s"
  by (simp_all add: cpu_address_mode_def flags_C_def flags_N_def flags_PV_def flags_H_def flags_Z_def flags_S_def r_B_def r_C_def r_D_def r_E_def r_PCL_def r_PCH_def r_PCU_def r_AF_def stack_hl_def cpu_read_sp_def index_hl_def cpu_read_index_def cpu_read_index_low_def cpu_read_index_high_def cpu_read_other_index_def memory_read_byte_def cpu_read_byte_def cpu_read_word_def cpu_read_in_def port_read_byte_def)

lemma dec_HL_frame [simp]:
  "r_A (dec_HL s) = r_A s"
  "r_F (dec_HL s) = r_F s"
  "r_BC (dec_HL s) = r_BC s"
  "r_DE (dec_HL s) = r_DE s"
  "r_HL' (dec_HL s) = r_HL' s"
  "r_IX (dec_HL s) = r_IX s"
  "r_IY (dec_HL s) = r_IY s"
  "r_AF' (dec_HL s) = r_AF' s"
  "r_BC' (dec_HL s) = r_BC' s"
  "r_DE' (dec_HL s) = r_DE' s"
  "r_SPS (dec_HL s) = r_SPS s"
  "r_SPL (dec_HL s) = r_SPL s"
  "r_PC (dec_HL s) = r_PC s"
  "r_I (dec_HL s) = r_I s"
  "r_R (dec_HL s) = r_R s"
  "r_MBASE (dec_HL s) = r_MBASE s"
  "cpu_prefetch_byte (dec_HL s) = cpu_prefetch_byte s"
  "cpu_PREFIX (dec_HL s) = cpu_PREFIX s"
  "cpu_SUFFIX (dec_HL s) = cpu_SUFFIX s"
  "cpu_L (dec_HL s) = cpu_L s"
  "cpu_IL (dec_HL s) = cpu_IL s"
  "cpu_ADL (dec_HL s) = cpu_ADL s"
  "cpu_MADL (dec_HL s) = cpu_MADL s"
  "cpu_IEF1 (dec_HL s) = cpu_IEF1 s"
  "cpu_IEF2 (dec_HL s) = cpu_IEF2 s"
  "cpu_IEF_wait (dec_HL s) = cpu_IEF_wait s"
  "cpu_IM (dec_HL s) = cpu_IM s"
  "cpu_halted (dec_HL s) = cpu_halted s"
  "cpu_cycles (dec_HL s) = cpu_cycles s"
  "cycle_count_delta (dec_HL s) = cycle_count_delta s"
  "cycle_offset (dec_HL s) = cycle_offset s"
  "cpu_events (dec_HL s) = cpu_events s"
  "exiting (dec_HL s) = exiting s"
  "memory (dec_HL s) = memory s"
  "mem_writes (dec_HL s) = mem_writes s"
  "port_in (dec_HL s) = port_in s"
  "port_writes (dec_HL s) = port_writes s"
  "intrpt_pending (dec_HL s) = intrpt_pending s"
  by (simp_all add: dec_HL_def Let_def split_beta)

lemma dec_HL_obs [simp]:
  "cpu_address_mode a' m' (dec_HL s) = cpu_address_mode a' m' s"
  "flags_C (dec_HL s) = flags_C s"
  "flags_N (dec_HL s) = flags_N s"
  "flags_PV (dec_HL s) = flags_PV s"
  "flags_H (dec_HL s) = flags_H s"
  "flags_Z (dec_HL s) = flags_Z s"
  "flags_S (dec_HL s) = flags_S s"
  "r_B (dec_HL s) = r_B s"
  "r_C (dec_HL s) = r_C s"
  "r_D (dec_HL s) = r_D s"
  "r_E (dec_HL s) = r_E s"
  "r_PCL (dec_HL s) = r_PCL s"
  "r_PCH (dec_HL s) = r_PCH s"
  "r_PCU (dec_HL s) = r_PCU s"
  "r_AF (dec_HL s) = r_AF s"
  "stack_hl (dec_HL s) = stack_hl s"
  "cpu_read_sp (dec_HL s) = cpu_read_sp s"
  "memory_read_byte a' (dec_HL s) = memory_read_byte a' s"
  "cpu_read_byte a' (dec_HL s) = cpu_read_byte a' s"
  "cpu_read_word a' (dec_HL s) = cpu_read_word a' s"
  "cpu_read_in p' (dec_HL s) = cpu_read_in p' s"
  by (simp_all add: cpu_address_mode_def flags_C_def flags_N_def flags_PV_def flags_H_def flags_Z_def flags_S_def r_B_def r_C_def r_D_def r_E_def r_PCL_def r_PCH_def r_PCU_def r_AF_def stack_hl_def cpu_read_sp_def index_hl_def cpu_read_index_def cpu_read_index_low_def cpu_read_index_high_def cpu_read_other_index_def memory_read_byte_def cpu_read_byte_def cpu_read_word_def cpu_read_in_def port_read_byte_def)

lemma inc_DE_frame [simp]:
  "r_A (inc_DE s) = r_A s"
  "r_F (inc_DE s) = r_F s"
  "r_BC (inc_DE s) = r_BC s"
  "r_HL (inc_DE s) = r_HL s"
  "r_HL' (inc_DE s) = r_HL' s"
  "r_IX (inc_DE s) = r_IX s"
  "r_IY (inc_DE s) = r_IY s"
  "r_AF' (inc_DE s) = r_AF' s"
  "r_BC' (inc_DE s) = r_BC' s"
  "r_DE' (inc_DE s) = r_DE' s"
  "r_SPS (inc_DE s) = r_SPS s"
  "r_SPL (inc_DE s) = r_SPL s"
  "r_PC (inc_DE s) = r_PC s"
  "r_I (inc_DE s) = r_I s"
  "r_R (inc_DE s) = r_R s"
  "r_MBASE (inc_DE s) = r_MBASE s"
  "cpu_prefetch_byte (inc_DE s) = cpu_prefetch_byte s"
  "cpu_PREFIX (inc_DE s) = cpu_PREFIX s"
  "cpu_SUFFIX (inc_DE s) = cpu_SUFFIX s"
  "cpu_L (inc_DE s) = cpu_L s"
  "cpu_IL (inc_DE s) = cpu_IL s"
  "cpu_ADL (inc_DE s) = cpu_ADL s"
  "cpu_MADL (inc_DE s) = cpu_MADL s"
  "cpu_IEF1 (inc_DE s) = cpu_IEF1 s"
  "cpu_IEF2 (inc_DE s) = cpu_IEF2 s"
  "cpu_IEF_wait (inc_DE s) = cpu_IEF_wait s"
  "cpu_IM (inc_DE s) = cpu_IM s"
  "cpu_halted (inc_DE s) = cpu_halted s"
  "cpu_cycles (inc_DE s) = cpu_cycles s"
  "cycle_count_delta (inc_DE s) = cycle_count_delta s"
  "cycle_offset (inc_DE s) = cycle_offset s"
  "cpu_events (inc_DE s) = cpu_events s"
  "exiting (inc_DE s) = exiting s"
  "memory (inc_DE s) = memory s"
  "mem_writes (inc_DE s) = mem_writes s"
  "port_in (inc_DE s) = port_in s"
  "port_writes (inc_DE s) = port_writes s"
  "intrpt_pending (inc_DE s) = intrpt_pending s"
  by (simp_all add: inc_DE_def Let_def split_beta)

lemma inc_DE_obs [simp]:
  "cpu_address_mode a' m' (inc_DE s) = cpu_address_mode a' m' s"
  "flags_C (inc_DE s) = flags_C s"
  "flags_N (inc_DE s) = flags_N s"
  "flags_PV (inc_DE s) = flags_PV s"
  "flags_H (inc_DE s) = flags_H s"
  "flags_Z (inc_DE s) = flags_Z s"
  "flags_S (inc_DE s) = flags_S s"
  "r_B (inc_DE s) = r_B s"
  "r_C (inc_DE s) = r_C s"
  "r_PCL (inc_DE s) = r_PCL s"
  "r_PCH (inc_DE s) = r_PCH s"
  "r_PCU (inc_DE s) = r_PCU s"
  "r_AF (inc_DE s) = r_AF s"
  "stack_hl (inc_DE s) = stack_hl s"
  "cpu_read_sp (inc_DE s) = cpu_read_sp s"
  "index_hl i' (inc_DE s) = index_hl i' s"
  "cpu_read_index (inc_DE s) = cpu_read_index s"
  "cpu_read_index_low (inc_DE s) = cpu_read_index_low s"
  "cpu_read_index_high (inc_DE s) = cpu_read_index_high s"
  "cpu_read_other_index (inc_DE s) = cpu_read_other_index s"
  "memory_read_byte a' (inc_DE s) = memory_read_byte a' s"
  "cpu_read_byte a' (inc_DE s) = cpu_read_byte a' s"
  "cpu_read_word a' (inc_DE s) = cpu_read_word a' s"
  "cpu_read_in p' (inc_DE s) = cpu_read_in p' s"
  by (simp_all add: cpu_address_mode_def flags_C_def flags_N_def flags_PV_def flags_H_def flags_Z_def flags_S_def r_B_def r_C_def r_D_def r_E_def r_PCL_def r_PCH_def r_PCU_def r_AF_def stack_hl_def cpu_read_sp_def index_hl_def cpu_read_index_def cpu_read_index_low_def cpu_read_index_high_def cpu_read_other_index_def memory_read_byte_def cpu_read_byte_def cpu_read_word_def cpu_read_in_def port_read_byte_def)

lemma dec_DE_frame [simp]:
  "r_A (dec_DE s) = r_A s"
  "r_F (dec_DE s) = r_F s"
  "r_BC (dec_DE s) = r_BC s"
  "r_HL (dec_DE s) = r_HL s"
  "r_HL' (dec_DE s) = r_HL' s"
  "r_IX (dec_DE s) = r_IX s"
  "r_IY (dec_DE s) = r_IY s"
  "r_AF' (dec_DE s) = r_AF' s"
  "r_BC' (dec_DE s) = r_BC' s"
  "r_DE' (dec_DE s) = r_DE' s"
  "r_SPS (dec_DE s) = r_SPS s"
  "r_SPL (dec_DE s) = r_SPL s"
  "r_PC (dec_DE s) = r_PC s"
  "r_I (dec_DE s) = r_I s"
  "r_R (dec_DE s) = r_R s"
  "r_MBASE (dec_DE s) = r_MBASE s"
  "cpu_prefetch_byte (dec_DE s) = cpu_prefetch_byte s"
  "cpu_PREFIX (dec_DE s) = cpu_PREFIX s"
  "cpu_SUFFIX (dec_DE s) = cpu_SUFFIX s"
  "cpu_L (dec_DE s) = cpu_L s"
  "cpu_IL (dec_DE s) = cpu_IL s"
  "cpu_ADL (dec_DE s) = cpu_ADL s"
  "cpu_MADL (dec_DE s) = cpu_MADL s"
  "cpu_IEF1 (dec_DE s) = cpu_IEF1 s"
  "cpu_IEF2 (dec_DE s) = cpu_IEF2 s"
  "cpu_IEF_wait (dec_DE s) = cpu_IEF_wait s"
  "cpu_IM (dec_DE s) = cpu_IM s"
  "cpu_halted (dec_DE s) = cpu_halted s"
  "cpu_cycles (dec_DE s) = cpu_cycles s"
  "cycle_count_delta (dec_DE s) = cycle_count_delta s"
  "cycle_offset (dec_DE s) = cycle_offset s"
  "cpu_events (dec_DE s) = cpu_events s"
  "exiting (dec_DE s) = exiting s"
  "memory (dec_DE s) = memory s"
  "mem_writes (dec_DE s) = mem_writes s"
  "port_in (dec_DE s) = port_in s"
  "port_writes (dec_DE s) = port_writes s"
  "intrpt_pending (dec_DE s) = intrpt_pending s"
  by (simp_all add: dec_DE_def Let_def split_beta)

lemma dec_DE_obs [simp]:
  "cpu_address_mode a' m' (dec_DE s) = cpu_address_mode a' m' s"
  "flags_C (dec_DE s) = flags_C s"
  "flags_N (dec_DE s) = flags_N s"
  "flags_PV (dec_DE s) = flags_PV s"
  "flags_H (dec_DE s) = flags_H s"
  "flags_Z (dec_DE s) = flags_Z s"
  "flags_S (dec_DE s) = flags_S s"
  "r_B (dec_DE s) = r_B s"
  "r_C (dec_DE s) = r_C s"
  "r_PCL (dec_DE s) = r_PCL s"
  "r_PCH (dec_DE s) = r_PCH s"
  "r_PCU (dec_DE s) = r_PCU s"
  "r_AF (dec_DE s) = r_AF s"
  "stack_hl (dec_DE s) = stack_hl s"
  "cpu_read_sp (dec_DE s) = cpu_read_sp s"
  "index_hl i' (dec_DE s) = index_hl i' s"
  "cpu_read_index (dec_DE s) = cpu_read_index s"
  "cpu_read_index_low (dec_DE s) = cpu_read_index_low s"
  "cpu_read_index_high (dec_DE s) = cpu_read_index_high s"
  "cpu_read_other_index (dec_DE s) = cpu_read_other_index s"
  "memory_read_byte a' (dec_DE s) = memory_read_byte a' s"
  "cpu_read_byte a' (dec_DE s) = cpu_read_byte a' s"
  "cpu_read_word a' (dec_DE s) = cpu_read_word a' s"
  "cpu_read_in p' (dec_DE s) = cpu_read_in p' s"
  by (simp_all add: cpu_address_mode_def flags_C_def flags_N_def flags_PV_def flags_H_def flags_Z_def flags_S_def r_B_def r_C_def r_D_def r_E_def r_PCL_def r_PCH_def r_PCU_def r_AF_def stack_hl_def cpu_read_sp_def index_hl_def cpu_read_index_def cpu_read_index_low_def cpu_read_index_high_def cpu_read_other_index_def memory_read_byte_def cpu_read_byte_def cpu_read_word_def cpu_read_in_def port_read_byte_def)

lemma dec_BC_frame [simp]:
  "r_A (dec_BC s) = r_A s"
  "r_F (dec_BC s) = r_F s"
  "r_DE (dec_BC s) = r_DE s"
  "r_HL (dec_BC s) = r_HL s"
  "r_HL' (dec_BC s) = r_HL' s"
  "r_IX (dec_BC s) = r_IX s"
  "r_IY (dec_BC s) = r_IY s"
  "r_AF' (dec_BC s) = r_AF' s"
  "r_BC' (dec_BC s) = r_BC' s"
  "r_DE' (dec_BC s) = r_DE' s"
  "r_SPS (dec_BC s) = r_SPS s"
  "r_SPL (dec_BC s) = r_SPL s"
  "r_PC (dec_BC s) = r_PC s"
  "r_I (dec_BC s) = r_I s"
  "r_R (dec_BC s) = r_R s"
  "r_MBASE (dec_BC s) = r_MBASE s"
  "cpu_prefetch_byte (dec_BC s) = cpu_prefetch_byte s"
  "cpu_PREFIX (dec_BC s) = cpu_PREFIX s"
  "cpu_SUFFIX (dec_BC s) = cpu_SUFFIX s"
  "cpu_L (dec_BC s) = cpu_L s"
  "cpu_IL (dec_BC s) = cpu_IL s"
  "cpu_ADL (dec_BC s) = cpu_ADL s"
  "cpu_MADL (dec_BC s) = cpu_MADL s"
  "cpu_IEF1 (dec_BC s) = cpu_IEF1 s"
  "cpu_IEF2 (dec_BC s) = cpu_IEF2 s"
  "cpu_IEF_wait (dec_BC s) = cpu_IEF_wait s"
  "cpu_IM (dec_BC s) = cpu_IM s"
  "cpu_halted (dec_BC s) = cpu_halted s"
  "cpu_cycles (dec_BC s) = cpu_cycles s"
  "cycle_count_delta (dec_BC s) = cycle_count_delta s"
  "cycle_offset (dec_BC s) = cycle_offset s"
  "cpu_events (dec_BC s) = cpu_events s"
  "exiting (dec_BC s) = exiting s"
  "memory (dec_BC s) = memory s"
  "mem_writes (dec_BC s) = mem_writes s"
  "port_in (dec_BC s) = port_in s"
  "port_writes (dec_BC s) = port_writes s"
  "intrpt_pending (dec_BC s) = intrpt_pending s"
  by (simp_all add: dec_BC_def Let_def split_beta)

lemma dec_BC_obs [simp]:
  "cpu_address_mode a' m' (dec_BC s) = cpu_address_mode a' m' s"
  "flags_C (dec_BC s) = flags_C s"
  "flags_N (dec_BC s) = flags_N s"
  "flags_PV (dec_BC s) = flags_PV s"
  "flags_H (dec_BC s) = flags_H s"
  "flags_Z (dec_BC s) = flags_Z s"
  "flags_S (dec_BC s) = flags_S s"
  "r_D (dec_BC s) = r_D s"
  "r_E (dec_BC s) = r_E s"
  "r_PCL (dec_BC s) = r_PCL s"
  "r_PCH (dec_BC s) = r_PCH s"
  "r_PCU (dec_BC s) = r_PCU s"
  "r_AF (dec_BC s) = r_AF s"
  "stack_hl (dec_BC s) = stack_hl s"
  "cpu_read_sp (dec_BC s) = cpu_read_sp s"
  "index_hl i' (dec_BC s) = index_hl i' s"
  "cpu_read_index (dec_BC s) = cpu_read_index s"
  "cpu_read_index_low (dec_BC s) = cpu_read_index_low s"
  "cpu_read_index_high (dec_BC s) = cpu_read_index_high s"
  "cpu_read_other_index (dec_BC s) = cpu_read_other_index s"
  "memory_read_byte a' (dec_BC s) = memory_read_byte a' s"
  "cpu_read_byte a' (dec_BC s) = cpu_read_byte a' s"
  "cpu_read_word a' (dec_BC s) = cpu_read_word a' s"
  "cpu_read_in p' (dec_BC s) = cpu_read_in p' s"
  by (simp_all add: cpu_address_mode_def flags_C_def flags_N_def flags_PV_def flags_H_def flags_Z_def flags_S_def r_B_def r_C_def r_D_def r_E_def r_PCL_def r_PCH_def r_PCU_def r_AF_def stack_hl_def cpu_read_sp_def index_hl_def cpu_read_index_def cpu_read_index_low_def cpu_read_index_high_def cpu_read_other_index_def memory_read_byte_def cpu_read_byte_def cpu_read_word_def cpu_read_in_def port_read_byte_def)

lemma inc_C_frame [simp]:
  "r_A (inc_C s) = r_A s"
  "r_F (inc_C s) = r_F s"
  "r_DE (inc_C s) = r_DE s"
  "r_HL (inc_C s) = r_HL s"
  "r_HL' (inc_C s) = r_HL' s"
  "r_IX (inc_C s) = r_IX s"
  "r_IY (inc_C s) = r_IY s"
  "r_AF' (inc_C s) = r_AF' s"
  "r_BC' (inc_C s) = r_BC' s"
  "r_DE' (inc_C s) = r_DE' s"
  "r_SPS (inc_C s) = r_SPS s"
  "r_SPL (inc_C s) = r_SPL s"
  "r_PC (inc_C s) = r_PC s"
  "r_I (inc_C s) = r_I s"
  "r_R (inc_C s) = r_R s"
  "r_MBASE (inc_C s) = r_MBASE s"
  "cpu_prefetch_byte (inc_C s) = cpu_prefetch_byte s"
  "cpu_PREFIX (inc_C s) = cpu_PREFIX s"
  "cpu_SUFFIX (inc_C s) = cpu_SUFFIX s"
  "cpu_L (inc_C s) = cpu_L s"
  "cpu_IL (inc_C s) = cpu_IL s"
  "cpu_ADL (inc_C s) = cpu_ADL s"
  "cpu_MADL (inc_C s) = cpu_MADL s"
  "cpu_IEF1 (inc_C s) = cpu_IEF1 s"
  "cpu_IEF2 (inc_C s) = cpu_IEF2 s"
  "cpu_IEF_wait (inc_C s) = cpu_IEF_wait s"
  "cpu_IM (inc_C s) = cpu_IM s"
  "cpu_halted (inc_C s) = cpu_halted s"
  "cpu_cycles (inc_C s) = cpu_cycles s"
  "cycle_count_delta (inc_C s) = cycle_count_delta s"
  "cycle_offset (inc_C s) = cycle_offset s"
  "cpu_events (inc_C s) = cpu_events s"
  "exiting (inc_C s) = exiting s"
  "memory (inc_C s) = memory s"
  "mem_writes (inc_C s) = mem_writes s"
  "port_in (inc_C s) = port_in s"
  "port_writes (inc_C s) = port_writes s"
  "intrpt_pending (inc_C s) = intrpt_pending s"
  by (simp_all add: inc_C_def Let_def split_beta)

lemma inc_C_obs [simp]:
  "cpu_address_mode a' m' (inc_C s) = cpu_address_mode a' m' s"
  "flags_C (inc_C s) = flags_C s"
  "flags_N (inc_C s) = flags_N s"
  "flags_PV (inc_C s) = flags_PV s"
  "flags_H (inc_C s) = flags_H s"
  "flags_Z (inc_C s) = flags_Z s"
  "flags_S (inc_C s) = flags_S s"
  "r_D (inc_C s) = r_D s"
  "r_E (inc_C s) = r_E s"
  "r_PCL (inc_C s) = r_PCL s"
  "r_PCH (inc_C s) = r_PCH s"
  "r_PCU (inc_C s) = r_PCU s"
  "r_AF (inc_C s) = r_AF s"
  "stack_hl (inc_C s) = stack_hl s"
  "cpu_read_sp (inc_C s) = cpu_read_sp s"
  "index_hl i' (inc_C s) = index_hl i' s"
  "cpu_read_index (inc_C s) = cpu_read_index s"
  "cpu_read_index_low (inc_C s) = cpu_read_index_low s"
  "cpu_read_index_high (inc_C s) = cpu_read_index_high s"
  "cpu_read_other_index (inc_C s) = cpu_read_other_index s"
  "memory_read_byte a' (inc_C s) = memory_read_byte a' s"
  "cpu_read_byte a' (inc_C s) = cpu_read_byte a' s"
  "cpu_read_word a' (inc_C s) = cpu_read_word a' s"
  "cpu_read_in p' (inc_C s) = cpu_read_in p' s"
  by (simp_all add: cpu_address_mode_def flags_C_def flags_N_def flags_PV_def flags_H_def flags_Z_def flags_S_def r_B_def r_C_def r_D_def r_E_def r_PCL_def r_PCH_def r_PCU_def r_AF_def stack_hl_def cpu_read_sp_def index_hl_def cpu_read_index_def cpu_read_index_low_def cpu_read_index_high_def cpu_read_other_index_def memory_read_byte_def cpu_read_byte_def cpu_read_word_def cpu_read_in_def port_read_byte_def)

lemma dec_C_frame [simp]:
  "r_A (dec_C s) = r_A s"
  "r_F (dec_C s) = r_F s"
  "r_DE (dec_C s) = r_DE s"
  "r_HL (dec_C s) = r_HL s"
  "r_HL' (dec_C s) = r_HL' s"
  "r_IX (dec_C s) = r_IX s"
  "r_IY (dec_C s) = r_IY s"
  "r_AF' (dec_C s) = r_AF' s"
  "r_BC' (dec_C s) = r_BC' s"
  "r_DE' (dec_C s) = r_DE' s"
  "r_SPS (dec_C s) = r_SPS s"
  "r_SPL (dec_C s) = r_SPL s"
  "r_PC (dec_C s) = r_PC s"
  "r_I (dec_C s) = r_I s"
  "r_R (dec_C s) = r_R s"
  "r_MBASE (dec_C s) = r_MBASE s"
  "cpu_prefetch_byte (dec_C s) = cpu_prefetch_byte s"
  "cpu_PREFIX (dec_C s) = cpu_PREFIX s"
  "cpu_SUFFIX (dec_C s) = cpu_SUFFIX s"
  "cpu_L (dec_C s) = cpu_L s"
  "cpu_IL (dec_C s) = cpu_IL s"
  "cpu_ADL (dec_C s) = cpu_ADL s"
  "cpu_MADL (dec_C s) = cpu_MADL s"
  "cpu_IEF1 (dec_C s) = cpu_IEF1 s"
  "cpu_IEF2 (dec_C s) = cpu_IEF2 s"
  "cpu_IEF_wait (dec_C s) = cpu_IEF_wait s"
  "cpu_IM (dec_C s) = cpu_IM s"
  "cpu_halted (dec_C s) = cpu_halted s"
  "cpu_cycles (dec_C s) = cpu_cycles s"
  "cycle_count_delta (dec_C s) = cycle_count_delta s"
  "cycle_offset (dec_C s) = cycle_offset s"
  "cpu_events (dec_C s) = cpu_events s"
  "exiting (dec_C s) = exiting s"
  "memory (dec_C s) = memory s"
  "mem_writes (dec_C s) = mem_writes s"
  "port_in (dec_C s) = port_in s"
  "port_writes (dec_C s) = port_writes s"
  "intrpt_pending (dec_C s) = intrpt_pending s"
  by (simp_all add: dec_C_def Let_def split_beta)

lemma dec_C_obs [simp]:
  "cpu_address_mode a' m' (dec_C s) = cpu_address_mode a' m' s"
  "flags_C (dec_C s) = flags_C s"
  "flags_N (dec_C s) = flags_N s"
  "flags_PV (dec_C s) = flags_PV s"
  "flags_H (dec_C s) = flags_H s"
  "flags_Z (dec_C s) = flags_Z s"
  "flags_S (dec_C s) = flags_S s"
  "r_D (dec_C s) = r_D s"
  "r_E (dec_C s) = r_E s"
  "r_PCL (dec_C s) = r_PCL s"
  "r_PCH (dec_C s) = r_PCH s"
  "r_PCU (dec_C s) = r_PCU s"
  "r_AF (dec_C s) = r_AF s"
  "stack_hl (dec_C s) = stack_hl s"
  "cpu_read_sp (dec_C s) = cpu_read_sp s"
  "index_hl i' (dec_C s) = index_hl i' s"
  "cpu_read_index (dec_C s) = cpu_read_index s"
  "cpu_read_index_low (dec_C s) = cpu_read_index_low s"
  "cpu_read_index_high (dec_C s) = cpu_read_index_high s"
  "cpu_read_other_index (dec_C s) = cpu_read_other_index s"
  "memory_read_byte a' (dec_C s) = memory_read_byte a' s"
  "cpu_read_byte a' (dec_C s) = cpu_read_byte a' s"
  "cpu_read_word a' (dec_C s) = cpu_read_word a' s"
  "cpu_read_in p' (dec_C s) = cpu_read_in p' s"
  by (simp_all add: cpu_address_mode_def flags_C_def flags_N_def flags_PV_def flags_H_def flags_Z_def flags_S_def r_B_def r_C_def r_D_def r_E_def r_PCL_def r_PCH_def r_PCU_def r_AF_def stack_hl_def cpu_read_sp_def index_hl_def cpu_read_index_def cpu_read_index_low_def cpu_read_index_high_def cpu_read_other_index_def memory_read_byte_def cpu_read_byte_def cpu_read_word_def cpu_read_in_def port_read_byte_def)

lemma dec_B_frame [simp]:
  "r_A (dec_B s) = r_A s"
  "r_F (dec_B s) = r_F s"
  "r_DE (dec_B s) = r_DE s"
  "r_HL (dec_B s) = r_HL s"
  "r_HL' (dec_B s) = r_HL' s"
  "r_IX (dec_B s) = r_IX s"
  "r_IY (dec_B s) = r_IY s"
  "r_AF' (dec_B s) = r_AF' s"
  "r_BC' (dec_B s) = r_BC' s"
  "r_DE' (dec_B s) = r_DE' s"
  "r_SPS (dec_B s) = r_SPS s"
  "r_SPL (dec_B s) = r_SPL s"
  "r_PC (dec_B s) = r_PC s"
  "r_I (dec_B s) = r_I s"
  "r_R (dec_B s) = r_R s"
  "r_MBASE (dec_B s) = r_MBASE s"
  "cpu_prefetch_byte (dec_B s) = cpu_prefetch_byte s"
  "cpu_PREFIX (dec_B s) = cpu_PREFIX s"
  "cpu_SUFFIX (dec_B s) = cpu_SUFFIX s"
  "cpu_L (dec_B s) = cpu_L s"
  "cpu_IL (dec_B s) = cpu_IL s"
  "cpu_ADL (dec_B s) = cpu_ADL s"
  "cpu_MADL (dec_B s) = cpu_MADL s"
  "cpu_IEF1 (dec_B s) = cpu_IEF1 s"
  "cpu_IEF2 (dec_B s) = cpu_IEF2 s"
  "cpu_IEF_wait (dec_B s) = cpu_IEF_wait s"
  "cpu_IM (dec_B s) = cpu_IM s"
  "cpu_halted (dec_B s) = cpu_halted s"
  "cpu_cycles (dec_B s) = cpu_cycles s"
  "cycle_count_delta (dec_B s) = cycle_count_delta s"
  "cycle_offset (dec_B s) = cycle_offset s"
  "cpu_events (dec_B s) = cpu_events s"
  "exiting (dec_B s) = exiting s"
  "memory (dec_B s) = memory s"
  "mem_writes (dec_B s) = mem_writes s"
  "port_in (dec_B s) = port_in s"
  "port_writes (dec_B s) = port_writes s"
  "intrpt_pending (dec_B s) = intrpt_pending s"
  by (simp_all add: dec_B_def Let_def split_beta)

lemma dec_B_obs [simp]:
  "cpu_address_mode a' m' (dec_B s) = cpu_address_mode a' m' s"
  "flags_C (dec_B s) = flags_C s"
  "flags_N (dec_B s) = flags_N s"
  "flags_PV (dec_B s) = flags_PV s"
  "flags_H (dec_B s) = flags_H s"
  "flags_Z (dec_B s) = flags_Z s"
  "flags_S (dec_B s) = flags_S s"
  "r_D (dec_B s) = r_D s"
  "r_E (dec_B s) = r_E s"
  "r_PCL (dec_B s) = r_PCL s"
  "r_PCH (dec_B s) = r_PCH s"
  "r_PCU (dec_B s) = r_PCU s"
  "r_AF (dec_B s) = r_AF s"
  "stack_hl (dec_B s) = stack_hl s"
  "cpu_read_sp (dec_B s) = cpu_read_sp s"
  "index_hl i' (dec_B s) = index_hl i' s"
  "cpu_read_index (dec_B s) = cpu_read_index s"
  "cpu_read_index_low (dec_B s) = cpu_read_index_low s"
  "cpu_read_index_high (dec_B s) = cpu_read_index_high s"
  "cpu_read_other_index (dec_B s) = cpu_read_other_index s"
  "memory_read_byte a' (dec_B s) = memory_read_byte a' s"
  "cpu_read_byte a' (dec_B s) = cpu_read_byte a' s"
  "cpu_read_word a' (dec_B s) = cpu_read_word a' s"
  "cpu_read_in p' (dec_B s) = cpu_read_in p' s"
  by (simp_all add: cpu_address_mode_def flags_C_def flags_N_def flags_PV_def flags_H_def flags_Z_def flags_S_def r_B_def r_C_def r_D_def r_E_def r_PCL_def r_PCH_def r_PCU_def r_AF_def stack_hl_def cpu_read_sp_def index_hl_def cpu_read_index_def cpu_read_index_low_def cpu_read_index_high_def cpu_read_other_index_def memory_read_byte_def cpu_read_byte_def cpu_read_word_def cpu_read_in_def port_read_byte_def)

lemma add_cycles_frame [simp]:
  "r_A (add_cycles n s) = r_A s"
  "r_F (add_cycles n s) = r_F s"
  "r_BC (add_cycles n s) = r_BC s"
  "r_DE (add_cycles n s) = r_DE s"
  "r_HL (add_cycles n s) = r_HL s"
  "r_HL' (add_cycles n s) = r_HL' s"
  "r_IX (add_cycles n s) = r_IX s"
  "r_IY (add_cycles n s) = r_IY s"
  "r_AF' (add_cycles n s) = r_AF' s"
  "r_BC' (add_cycles n s) = r_BC' s"
  "r_DE' (add_cycles n s) = r_DE' s"
  "r_SPS (add_cycles n s) = r_SPS s"
  "r_SPL (add_cycles n s) = r_SPL s"
  "r_PC (add_cycles n s) = r_PC s"
  "r_I (add_cycles n s) = r_I s"
  "r_R (add_cycles n s) = r_R s"
  "r_MBASE (add_cycles n s) = r_MBASE s"
  "cpu_prefetch_byte (add_cycles n s) = cpu_prefetch_byte s"
  "cpu_PREFIX (add_cycles n s) = cpu_PREFIX s"
  "cpu_SUFFIX (add_cycles n s) = cpu_SUFFIX s"
  "cpu_L (add_cycles n s) = cpu_L s"
  "cpu_IL (add_cycles n s) = cpu_IL s"
  "cpu_ADL (add_cycles n s) = cpu_ADL s"
  "cpu_MADL (add_cycles n s) = cpu_MADL s"
  "cpu_IEF1 (add_cycles n s) = cpu_IEF1 s"
  "cpu_IEF2 (add_cycles n s) = cpu_IEF2 s"
  "cpu_IEF_wait (add_cycles n s) = cpu_IEF_wait s"
  "cpu_IM (add_cycles n s) = cpu_IM s"
  "cpu_halted (add_cycles n s) = cpu_halted s"
  "cycle_count_delta (add_cycles n s) = cycle_count_delta s"
  "cycle_offset (add_cycles n s) = cycle_offset s"
  "cpu_events (add_cycles n s) = cpu_events s"
  "exiting (add_cycles n s) = exiting s"
  "memory (add_cycles n s) = memory s"
  "mem_writes (add_cycles n s) = mem_writes s"
  "port_in (add_cycles n s) = port_in s"
  "port_writes (add_cycles n s) = port_writes s"
  "intrpt_pending (add_cycles n s) = intrpt_pending s"
  by (simp_all add: add_cycles_def Let_def split_beta)

lemma add_cycles_obs [simp]:
  "cpu_address_mode a' m' (add_cycles n s) = cpu_address_mode a' m' s"
  "flags_C (add_cycles n s) = flags_C s"
  "flags_N (add_cycles n s) = flags_N s"
  "flags_PV (add_cycles n s) = flags_PV s"
  "flags_H (add_cycles n s) = flags_H s"
  "flags_Z (add_cycles n s) = flags_Z s"
  "flags_S (add_cycles n s) = flags_S s"
  "r_B (add_cycles n s) = r_B s"
  "r_C (add_cycles n s) = r_C s"
  "r_D (add_cycles n s) = r_D s"
  "r_E (add_cycles n s) = r_E s"
  "r_PCL (add_cycles n s) = r_PCL s"
  "r_PCH (add_cycles n s) = r_PCH s"
  "r_PCU (add_cycles n s) = r_PCU s"
  "r_AF (add_cycles n s) = r_AF s"
  "stack_hl (add_cycles n s) = stack_hl s"
  "cpu_read_sp (add_cycles n s) = cpu_read_sp s"
  "index_hl i' (add_cycles n s) = index_hl i' s"
  "cpu_read_index (add_cycles n s) = cpu_read_index s"
  "cpu_read_index_low (add_cycles n s) = cpu_read_index_low s"
  "cpu_read_index_high (add_cycles n s) = cpu_read_index_high s"
  "cpu_read_other_index (add_cycles n s) = cpu_read_other_index s"
  "memory_read_byte a' (add_cycles n s) = memory_read_byte a' s"
  "cpu_read_byte a' (add_cycles n s) = cpu_read_byte a' s"
  "cpu_read_word a' (add_cycles n s) = cpu_read_word a' s"
  "cpu_read_in p' (add_cycles n s) = cpu_read_in p' s"
  by (simp_all add: cpu_address_mode_def flags_C_def flags_N_def flags_PV_def flags_H_def flags_Z_def flags_S_def r_B_def r_C_def r_D_def r_E_def r_PCL_def r_PCH_def r_PCU_def r_AF_def stack_hl_def cpu_read_sp_def index_hl_def cpu_read_index_def cpu_read_index_low_def cpu_read_index_high_def cpu_read_other_index_def memory_read_byte_def cpu_read_byte_def cpu_read_word_def cpu_read_in_def port_read_byte_def)

lemma add_cycles_cycles [simp]: "cpu_cycles (add_cycles n s) = cpu_cycles s + n"
  by (simp add: add_cycles_def)

lemma bli_flags_B_frame [simp]:
  "r_A (bli_flags_B old new s) = r_A s"
  "r_BC (bli_flags_B old new s) = r_BC s"
  "r_DE (bli_flags_B old new s) = r_DE s"
  "r_HL (bli_flags_B old new s) = r_HL s"
  "r_HL' (bli_flags_B old new s) = r_HL' s"
  "r_IX (bli_flags_B old new s) = r_IX s"
  "r_IY (bli_flags_B old new s) = r_IY s"
  "r_AF' (bli_flags_B old new s) = r_AF' s"
  "r_BC' (bli_flags_B old new s) = r_BC' s"
  "r_DE' (bli_flags_B old new s) = r_DE' s"
  "r_SPS (bli_flags_B old new s) = r_SPS s"
  "r_SPL (bli_flags_B old new s) = r_SPL s"
  "r_PC (bli_flags_B old new s) = r_PC s"
  "r_I (bli_flags_B old new s) = r_I s"
  "r_R (bli_flags_B old new s) = r_R s"
  "r_MBASE (bli_flags_B old new s) = r_MBASE s"
  "cpu_prefetch_byte (bli_flags_B old new s) = cpu_prefetch_byte s"
  "cpu_PREFIX (bli_flags_B old new s) = cpu_PREFIX s"
  "cpu_SUFFIX (bli_flags_B old new s) = cpu_SUFFIX s"
  "cpu_L (bli_flags_B old new s) = cpu_L s"
  "cpu_IL (bli_flags_B old new s) = cpu_IL s"
  "cpu_ADL (bli_flags_B old new s) = cpu_ADL s"
  "cpu_MADL (bli_flags_B old new s) = cpu_MADL s"
  "cpu_IEF1 (bli_flags_B old new s) = cpu_IEF1 s"
  "cpu_IEF2 (bli_flags_B old new s) = cpu_IEF2 s"
  "cpu_IEF_wait (bli_flags_B old new s) = cpu_IEF_wait s"
  "cpu_IM (bli_flags_B old new s) = cpu_IM s"
  "cpu_halted (bli_flags_B old new s) = cpu_halted s"
  "cpu_cycles (bli_flags_B old new s) = cpu_cycles s"
  "cycle_count_delta (bli_flags_B old new s) = cycle_count_delta s"
  "cycle_offset (bli_flags_B old new s) = cycle_offset s"
  "cpu_events (bli_flags_B old new s) = cpu_events s"
  "exiting (bli_flags_B old new s) = exiting s"
  "memory (bli_flags_B old new s) = memory s"
  "mem_writes (bli_flags_B old new s) = mem_writes s"
  "port_in (bli_flags_B old new s) = port_in s"
  "port_writes (bli_flags_B old new s) = port_writes s"
  "intrpt_pending (bli_flags_B old new s) = intrpt_pending s"
  by (simp_all add: bli_flags_B_def Let_def split_beta)

lemma bli_flags_B_obs [simp]:
  "cpu_address_mode a' m' (bli_flags_B old new s) = cpu_address_mode a' m' s"
  "r_B (bli_flags_B old new s) = r_B s"
  "r_C (bli_flags_B old new s) = r_C s"
  "r_D (bli_flags_B old new s) = r_D s"
  "r_E (bli_flags_B old new s) = r_E s"
  "r_PCL (bli_flags_B old new s) = r_PCL s"
  "r_PCH (bli_flags_B old new s) = r_PCH s"
  "r_PCU (bli_flags_B old new s) = r_PCU s"
  "stack_hl (bli_flags_B old new s) = stack_hl s"
  "cpu_read_sp (bli_flags_B old new s) = cpu_read_sp s"
  "index_hl i' (bli_flags_B old new s) = index_hl i' s"
  "cpu_read_index (bli_flags_B old new s) = cpu_read_index s"
  "cpu_read_index_low (bli_flags_B old new s) = cpu_read_index_low s"
  "cpu_read_index_high (bli_flags_B old new s) = cpu_read_index_high s"
  "cpu_read_other_index (bli_flags_B old new s) = cpu_read_other_index s"
  "memory_read_byte a' (bli_flags_B old new s) = memory_read_byte a' s"
  "cpu_read_byte a' (bli_flags_B old new s) = cpu_read_byte a' s"
  "cpu_read_word a' (bli_flags_B old new s) = cpu_read_word a' s"
  "cpu_read_in p' (bli_flags_B old new s) = cpu_read_in p' s"
  by (simp_all add: cpu_address_mode_def flags_C_def flags_N_def flags_PV_def flags_H_def flags_Z_def flags_S_def r_B_def r_C_def r_D_def r_E_def r_PCL_def r_PCH_def r_PCU_def r_AF_def stack_hl_def cpu_read_sp_def index_hl_def cpu_read_index_def cpu_read_index_low_def cpu_read_index_high_def cpu_read_other_index_def memory_read_byte_def cpu_read_byte_def cpu_read_word_def cpu_read_in_def port_read_byte_def)

lemma bli_flags_ZN_frame [simp]:
  "r_A (bli_flags_ZN c new s) = r_A s"
  "r_BC (bli_flags_ZN c new s) = r_BC s"
  "r_DE (bli_flags_ZN c new s) = r_DE s"
  "r_HL (bli_flags_ZN c new s) = r_HL s"
  "r_HL' (bli_flags_ZN c new s) = r_HL' s"
  "r_IX (bli_flags_ZN c new s) = r_IX s"
  "r_IY (bli_flags_ZN c new s) = r_IY s"
  "r_AF' (bli_flags_ZN c new s) = r_AF' s"
  "r_BC' (bli_flags_ZN c new s) = r_BC' s"
  "r_DE' (bli_flags_ZN c new s) = r_DE' s"
  "r_SPS (bli_flags_ZN c new s) = r_SPS s"
  "r_SPL (bli_flags_ZN c new s) = r_SPL s"
  "r_PC (bli_flags_ZN c new s) = r_PC s"
  "r_I (bli_flags_ZN c new s) = r_I s"
  "r_R (bli_flags_ZN c new s) = r_R s"
  "r_MBASE (bli_flags_ZN c new s) = r_MBASE s"
  "cpu_prefetch_byte (bli_flags_ZN c new s) = cpu_prefetch_byte s"
  "cpu_PREFIX (bli_flags_ZN c new s) = cpu_PREFIX s"
  "cpu_SUFFIX (bli_flags_ZN c new s) = cpu_SUFFIX s"
  "cpu_L (bli_flags_ZN c new s) = cpu_L s"
  "cpu_IL (bli_flags_ZN c new s) = cpu_IL s"
  "cpu_ADL (bli_flags_ZN c new s) = cpu_ADL s"
  "cpu_MADL (bli_flags_ZN c new s) = cpu_MADL s"
  "cpu_IEF1 (bli_flags_ZN c new s) = cpu_IEF1 s"
  "cpu_IEF2 (bli_flags_ZN c new s) = cpu_IEF2 s"
  "cpu_IEF_wait (bli_flags_ZN c new s) = cpu_IEF_wait s"
  "cpu_IM (bli_flags_ZN c new s) = cpu_IM s"
  "cpu_halted (bli_flags_ZN c new s) = cpu_halted s"
  "cpu_cycles (bli_flags_ZN c new s) = cpu_cycles s"
  "cycle_count_delta (bli_flags_ZN c new s) = cycle_count_delta s"
  "cycle_offset (bli_flags_ZN c new s) = cycle_offset s"
  "cpu_events (bli_flags_ZN c new s) = cpu_events s"
  "exiting (bli_flags_ZN c new s) = exiting s"
  "memory (bli_flags_ZN c new s) = memory s"
  "mem_writes (bli_flags_ZN c new s) = mem_writes s"
  "port_in (bli_flags_ZN c new s) = port_in s"
  "port_writes (bli_flags_ZN c new s) = port_writes s"
  "intrpt_pending (bli_flags_ZN c new s) = intrpt_pending s"
  by (simp_all add: bli_flags_ZN_def Let_def split_beta)

lemma bli_flags_ZN_obs [simp]:
  "cpu_address_mode a' m' (bli_flags_ZN c new s) = cpu_address_mode a' m' s"
  "r_B (bli_flags_ZN c new s) = r_B s"
  "r_C (bli_flags_ZN c new s) = r_C s"
  "r_D (bli_flags_ZN c new s) = r_D s"
  "r_E (bli_flags_ZN c new s) = r_E s"
  "r_PCL (bli_flags_ZN c new s) = r_PCL s"
  "r_PCH (bli_flags_ZN c new s) = r_PCH s"
  "r_PCU (bli_flags_ZN c new s) = r_PCU s"
  "stack_hl (bli_flags_ZN c new s) = stack_hl s"
  "cpu_read_sp (bli_flags_ZN c new s) = cpu_read_sp s"
  "index_hl i' (bli_flags_ZN c new s) = index_hl i' s"
  "cpu_read_index (bli_flags_ZN c new s) = cpu_read_index s"
  "cpu_read_index_low (bli_flags_ZN c new s) = cpu_read_index_low s"
  "cpu_read_index_high (bli_flags_ZN c new s) = cpu_read_index_high s"
  "cpu_read_other_index (bli_flags_ZN c new s) = cpu_read_other_index s"
  "memory_read_byte a' (bli_flags_ZN c new s) = memory_read_byte a' s"
  "cpu_read_byte a' (bli_flags_ZN c new s) = cpu_read_byte a' s"
  "cpu_read_word a' (bli_flags_ZN c new s) = cpu_read_word a' s"
  "cpu_read_in p' (bli_flags_ZN c new s) = cpu_read_in p' s"
  by (simp_all add: cpu_address_mode_def flags_C_def flags_N_def flags_PV_def flags_H_def flags_Z_def flags_S_def r_B_def r_C_def r_D_def r_E_def r_PCL_def r_PCH_def r_PCU_def r_AF_def stack_hl_def cpu_read_sp_def index_hl_def cpu_read_index_def cpu_read_index_low_def cpu_read_index_high_def cpu_read_other_index_def memory_read_byte_def cpu_read_byte_def cpu_read_word_def cpu_read_in_def port_read_byte_def)

lemma bli_flags_cp_frame [simp]:
  "r_A (bli_flags_cp old s) = r_A s"
  "r_BC (bli_flags_cp old s) = r_BC s"
  "r_DE (bli_flags_cp old s) = r_DE s"
  "r_HL (bli_flags_cp old s) = r_HL s"
  "r_HL' (bli_flags_cp old s) = r_HL' s"
  "r_IX (bli_flags_cp old s) = r_IX s"
  "r_IY (bli_flags_cp old s) = r_IY s"
  "r_AF' (bli_flags_cp old s) = r_AF' s"
  "r_BC' (bli_flags_cp old s) = r_BC' s"
  "r_DE' (bli_flags_cp old s) = r_DE' s"
  "r_SPS (bli_flags_cp old s) = r_SPS s"
  "r_SPL (bli_flags_cp old s) = r_SPL s"
  "r_PC (bli_flags_cp old s) = r_PC s"
  "r_I (bli_flags_cp old s) = r_I s"
  "r_R (bli_flags_cp old s) = r_R s"
  "r_MBASE (bli_flags_cp old s) = r_MBASE s"
  "cpu_prefetch_byte (bli_flags_cp old s) = cpu_prefetch_byte s"
  "cpu_PREFIX (bli_flags_cp old s) = cpu_PREFIX s"
  "cpu_SUFFIX (bli_flags_cp old s) = cpu_SUFFIX s"
  "cpu_L (bli_flags_cp old s) = cpu_L s"
  "cpu_IL (bli_flags_cp old s) = cpu_IL s"
  "cpu_ADL (bli_flags_cp old s) = cpu_ADL s"
  "cpu_MADL (bli_flags_cp old s) = cpu_MADL s"
  "cpu_IEF1 (bli_flags_cp old s) = cpu_IEF1 s"
  "cpu_IEF2 (bli_flags_cp old s) = cpu_IEF2 s"
  "cpu_IEF_wait (bli_flags_cp old s) = cpu_IEF_wait s"
  "cpu_IM (bli_flags_cp old s) = cpu_IM s"
  "cpu_halted (bli_flags_cp old s) = cpu_halted s"
  "cpu_cycles (bli_flags_cp old s) = cpu_cycles s"
  "cycle_count_delta (bli_flags_cp old s) = cycle_count_delta s"
  "cycle_offset (bli_flags_cp old s) = cycle_offset s"
  "cpu_events (bli_flags_cp old s) = cpu_events s"
  "exiting (bli_flags_cp old s) = exiting s"
  "memory (bli_flags_cp old s) = memory s"
  "mem_writes (bli_flags_cp old s) = mem_writes s"
  "port_in (bli_flags_cp old s) = port_in s"
  "port_writes (bli_flags_cp old s) = port_writes s"
  "intrpt_pending (bli_flags_cp old s) = intrpt_pending s"
  by (simp_all add: bli_flags_cp_def Let_def split_beta)

lemma bli_flags_cp_obs [simp]:
  "cpu_address_mode a' m' (bli_flags_cp old s) = cpu_address_mode a' m' s"
  "r_B (bli_flags_cp old s) = r_B s"
  "r_C (bli_flags_cp old s) = r_C s"
  "r_D (bli_flags_cp old s) = r_D s"
  "r_E (bli_flags_cp old s) = r_E s"
  "r_PCL (bli_flags_cp old s) = r_PCL s"
  "r_PCH (bli_flags_cp old s) = r_PCH s"
  "r_PCU (bli_flags_cp old s) = r_PCU s"
  "stack_hl (bli_flags_cp old s) = stack_hl s"
  "cpu_read_sp (bli_flags_cp old s) = cpu_read_sp s"
  "index_hl i' (bli_flags_cp old s) = index_hl i' s"
  "cpu_read_index (bli_flags_cp old s) = cpu_read_index s"
  "cpu_read_index_low (bli_flags_cp old s) = cpu_read_index_low s"
  "cpu_read_index_high (bli_flags_cp old s) = cpu_read_index_high s"
  "cpu_read_other_index (bli_flags_cp old s) = cpu_read_other_index s"
  "memory_read_byte a' (bli_flags_cp old s) = memory_read_byte a' s"
  "cpu_read_byte a' (bli_flags_cp old s) = cpu_read_byte a' s"
  "cpu_read_word a' (bli_flags_cp old s) = cpu_read_word a' s"
  "cpu_read_in p' (bli_flags_cp old s) = cpu_read_in p' s"
  by (simp_all add: cpu_address_mode_def flags_C_def flags_N_def flags_PV_def flags_H_def flags_Z_def flags_S_def r_B_def r_C_def r_D_def r_E_def r_PCL_def r_PCH_def r_PCU_def r_AF_def stack_hl_def cpu_read_sp_def index_hl_def cpu_read_index_def cpu_read_index_low_def cpu_read_index_high_def cpu_read_other_index_def memory_read_byte_def cpu_read_byte_def cpu_read_word_def cpu_read_in_def port_read_byte_def)

lemma bli_flags_ld_frame [simp]:
  "r_A (bli_flags_ld s) = r_A s"
  "r_BC (bli_flags_ld s) = r_BC s"
  "r_DE (bli_flags_ld s) = r_DE s"
  "r_HL (bli_flags_ld s) = r_HL s"
  "r_HL' (bli_flags_ld s) = r_HL' s"
  "r_IX (bli_flags_ld s) = r_IX s"
  "r_IY (bli_flags_ld s) = r_IY s"
  "r_AF' (bli_flags_ld s) = r_AF' s"
  "r_BC' (bli_flags_ld s) = r_BC' s"
  "r_DE' (bli_flags_ld s) = r_DE' s"
  "r_SPS (bli_flags_ld s) = r_SPS s"
  "r_SPL (bli_flags_ld s) = r_SPL s"
  "r_PC (bli_flags_ld s) = r_PC s"
  "r_I (bli_flags_ld s) = r_I s"
  "r_R (bli_flags_ld s) = r_R s"
  "r_MBASE (bli_flags_ld s) = r_MBASE s"
  "cpu_prefetch_byte (bli_flags_ld s) = cpu_prefetch_byte s"
  "cpu_PREFIX (bli_flags_ld s) = cpu_PREFIX s"
  "cpu_SUFFIX (bli_flags_ld s) = cpu_SUFFIX s"
  "cpu_L (bli_flags_ld s) = cpu_L s"
  "cpu_IL (bli_flags_ld s) = cpu_IL s"
  "cpu_ADL (bli_flags_ld s) = cpu_ADL s"
  "cpu_MADL (bli_flags_ld s) = cpu_MADL s"
  "cpu_IEF1 (bli_flags_ld s) = cpu_IEF1 s"
  "cpu_IEF2 (bli_flags_ld s) = cpu_IEF2 s"
  "cpu_IEF_wait (bli_flags_ld s) = cpu_IEF_wait s"
  "cpu_IM (bli_flags_ld s) = cpu_IM s"
  "cpu_halted (bli_flags_ld s) = cpu_halted s"
  "cpu_cycles (bli_flags_ld s) = cpu_cycles s"
  "cycle_count_delta (bli_flags_ld s) = cycle_count_delta s"
  "cycle_offset (bli_flags_ld s) = cycle_offset s"
  "cpu_events (bli_flags_ld s) = cpu_events s"
  "exiting (bli_flags_ld s) = exiting s"
  "memory (bli_flags_ld s) = memory s"
  "mem_writes (bli_flags_ld s) = mem_writes s"
  "port_in (bli_flags_ld s) = port_in s"
  "port_writes (bli_flags_ld s) = port_writes s"
  "intrpt_pending (bli_flags_ld s) = intrpt_pending s"
  by (simp_all add: bli_flags_ld_def Let_def split_beta)

lemma bli_flags_ld_obs [simp]:
  "cpu_address_mode a' m' (bli_flags_ld s) = cpu_address_mode a' m' s"
  "r_B (bli_flags_ld s) = r_B s"
  "r_C (bli_flags_ld s) = r_C s"
  "r_D (bli_flags_ld s) = r_D s"
  "r_E (bli_flags_ld s) = r_E s"
  "r_PCL (bli_flags_ld s) = r_PCL s"
  "r_PCH (bli_flags_ld s) = r_PCH s"
  "r_PCU (bli_flags_ld s) = r_PCU s"
  "stack_hl (bli_flags_ld s) = stack_hl s"
  "cpu_read_sp (bli_flags_ld s) = cpu_read_sp s"
  "index_hl i' (bli_flags_ld s) = index_hl i' s"
  "cpu_read_index (bli_flags_ld s) = cpu_read_index s"
  "cpu_read_index_low (bli_flags_ld s) = cpu_read_index_low s"
  "cpu_read_index_high (bli_flags_ld s) = cpu_read_index_high s"
  "cpu_read_other_index (bli_flags_ld s) = cpu_read_other_index s"
  "memory_read_byte a' (bli_flags_ld s) = memory_read_byte a' s"
  "cpu_read_byte a' (bli_flags_ld s) = cpu_read_byte a' s"
  "cpu_read_word a' (bli_flags_ld s) = cpu_read_word a' s"
  "cpu_read_in p' (bli_flags_ld s) = cpu_read_in p' s"
  by (simp_all add: cpu_address_mode_def flags_C_def flags_N_def flags_PV_def flags_H_def flags_Z_def flags_S_def r_B_def r_C_def r_D_def r_E_def r_PCL_def r_PCH_def r_PCU_def r_AF_def stack_hl_def cpu_read_sp_def index_hl_def cpu_read_index_def cpu_read_index_low_def cpu_read_index_high_def cpu_read_other_index_def memory_read_byte_def cpu_read_byte_def cpu_read_word_def cpu_read_in_def port_read_byte_def)

lemma bli_repeat_frame [simp]:
  "r_A (bli_repeat s) = r_A s"
  "r_F (bli_repeat s) = r_F s"
  "r_BC (bli_repeat s) = r_BC s"
  "r_DE (bli_repeat s) = r_DE s"
  "r_HL (bli_repeat s) = r_HL s"
  "r_HL' (bli_repeat s) = r_HL' s"
  "r_IX (bli_repeat s) = r_IX s"
  "r_IY (bli_repeat s) = r_IY s"
  "r_AF' (bli_repeat s) = r_AF' s"
  "r_BC' (bli_repeat s) = r_BC' s"
  "r_DE' (bli_repeat s) = r_DE' s"
  "r_SPS (bli_repeat s) = r_SPS s"
  "r_SPL (bli_repeat s) = r_SPL s"
  "r_I (bli_repeat s) = r_I s"
  "r_R (bli_repeat s) = r_R s"
  "r_MBASE (bli_repeat s) = r_MBASE s"
  "cpu_PREFIX (bli_repeat s) = cpu_PREFIX s"
  "cpu_SUFFIX (bli_repeat s) = cpu_SUFFIX s"
  "cpu_L (bli_repeat s) = cpu_L s"
  "cpu_IL (bli_repeat s) = cpu_IL s"
  "cpu_ADL (bli_repeat s) = cpu_ADL s"
  "cpu_MADL (bli_repeat s) = cpu_MADL s"
  "cpu_IEF1 (bli_repeat s) = cpu_IEF1 s"
  "cpu_IEF2 (bli_repeat s) = cpu_IEF2 s"
  "cpu_IEF_wait (bli_repeat s) = cpu_IEF_wait s"
  "cpu_IM (bli_repeat s) = cpu_IM s"
  "cpu_halted (bli_repeat s) = cpu_halted s"
  "cpu_cycles (bli_repeat s) = cpu_cycles s"
  "cycle_count_delta (bli_repeat s) = cycle_count_delta s"
  "cycle_offset (bli_repeat s) = cycle_offset s"
  "cpu_events (bli_repeat s) = cpu_events s"
  "exiting (bli_repeat s) = exiting s"
  "memory (bli_repeat s) = memory s"
  "mem_writes (bli_repeat s) = mem_writes s"
  "port_in (bli_repeat s) = port_in s"
  "port_writes (bli_repeat s) = port_writes s"
  "intrpt_pending (bli_repeat s) = intrpt_pending s"
  by (simp_all add: bli_repeat_def Let_def split_beta)

lemma bli_repeat_obs [simp]:
  "cpu_address_mode a' m' (bli_repeat s) = cpu_address_mode a' m' s"
  "flags_C (bli_repeat s) = flags_C s"
  "flags_N (bli_repeat s) = flags_N s"
  "flags_PV (bli_repeat s) = flags_PV s"
  "flags_H (bli_repeat s) = flags_H s"
  "flags_Z (bli_repeat s) = flags_Z s"
  "flags_S (bli_repeat s) = flags_S s"
  "r_B (bli_repeat s) = r_B s"
  "r_C (bli_repeat s) = r_C s"
  "r_D (bli_repeat s) = r_D s"
  "r_E (bli_repeat s) = r_E s"
  "r_AF (bli_repeat s) = r_AF s"
  "stack_hl (bli_repeat s) = stack_hl s"
  "cpu_read_sp (bli_repeat s) = cpu_read_sp s"
  "index_hl i' (bli_repeat s) = index_hl i' s"
  "cpu_read_index (bli_repeat s) = cpu_read_index s"
  "cpu_read_index_low (bli_repeat s) = cpu_read_index_low s"
  "cpu_read_index_high (bli_repeat s) = cpu_read_index_high s"
  "cpu_read_other_index (bli_repeat s) = cpu_read_other_index s"
  "memory_read_byte a' (bli_repeat s) = memory_read_byte a' s"
  "cpu_read_byte a' (bli_repeat s) = cpu_read_byte a' s"
  "cpu_read_word a' (bli_repeat s) = cpu_read_word a' s"
  "cpu_read_in p' (bli_repeat s) = cpu_read_in p' s"
  by (simp_all add: cpu_address_mode_def flags_C_def flags_N_def flags_PV_def flags_H_def flags_Z_def flags_S_def r_B_def r_C_def r_D_def r_E_def r_PCL_def r_PCH_def r_PCU_def r_AF_def stack_hl_def cpu_read_sp_def index_hl_def cpu_read_index_def cpu_read_index_low_def cpu_read_index_high_def cpu_read_other_index_def memory_read_byte_def cpu_read_byte_def cpu_read_word_def cpu_read_in_def port_read_byte_def)

lemma bli_INIM_frame [simp]:
  "r_A (bli_INIM s) = r_A s"
  "r_HL' (bli_INIM s) = r_HL' s"
  "r_IX (bli_INIM s) = r_IX s"
  "r_IY (bli_INIM s) = r_IY s"
  "r_AF' (bli_INIM s) = r_AF' s"
  "r_BC' (bli_INIM s) = r_BC' s"
  "r_DE' (bli_INIM s) = r_DE' s"
  "r_SPS (bli_INIM s) = r_SPS s"
  "r_SPL (bli_INIM s) = r_SPL s"
  "r_I (bli_INIM s) = r_I s"
  "r_R (bli_INIM s) = r_R s"
  "r_MBASE (bli_INIM s) = r_MBASE s"
  "cpu_PREFIX (bli_INIM s) = cpu_PREFIX s"
  "cpu_SUFFIX (bli_INIM s) = cpu_SUFFIX s"
  "cpu_L (bli_INIM s) = cpu_L s"
  "cpu_IL (bli_INIM s) = cpu_IL s"
  "cpu_ADL (bli_INIM s) = cpu_ADL s"
  "cpu_MADL (bli_INIM s) = cpu_MADL s"
  "cpu_IEF1 (bli_INIM s) = cpu_IEF1 s"
  "cpu_IEF2 (bli_INIM s) = cpu_IEF2 s"
  "cpu_IEF_wait (bli_INIM s) = cpu_IEF_wait s"
  "cpu_IM (bli_INIM s) = cpu_IM s"
  "cpu_halted (bli_INIM s) = cpu_halted s"
  "cycle_count_delta (bli_INIM s) = cycle_count_delta s"
  "cycle_offset (bli_INIM s) = cycle_offset s"
  "cpu_events (bli_INIM s) = cpu_events s"
  "exiting (bli_INIM s) = exiting s"
  "port_in (bli_INIM s) = port_in s"
  "intrpt_pending (bli_INIM s) = intrpt_pending s"
  by (simp_all add: bli_INIM_def Let_def split_beta)

lemma bli_INIM_obs [simp]:
  "cpu_address_mode a' m' (bli_INIM s) = cpu_address_mode a' m' s"
  "stack_hl (bli_INIM s) = stack_hl s"
  "cpu_read_sp (bli_INIM s) = cpu_read_sp s"
  "cpu_read_in p' (bli_INIM s) = cpu_read_in p' s"
  by (simp_all add: cpu_address_mode_def flags_C_def flags_N_def flags_PV_def flags_H_def flags_Z_def flags_S_def r_B_def r_C_def r_D_def r_E_def r_PCL_def r_PCH_def r_PCU_def r_AF_def stack_hl_def cpu_read_sp_def index_hl_def cpu_read_index_def cpu_read_index_low_def cpu_read_index_high_def cpu_read_other_index_def memory_read_byte_def cpu_read_byte_def cpu_read_word_def cpu_read_in_def port_read_byte_def)

lemma bli_OTIM_frame [simp]:
  "r_A (bli_OTIM s) = r_A s"
  "r_HL' (bli_OTIM s) = r_HL' s"
  "r_IX (bli_OTIM s) = r_IX s"
  "r_IY (bli_OTIM s) = r_IY s"
  "r_AF' (bli_OTIM s) = r_AF' s"
  "r_BC' (bli_OTIM s) = r_BC' s"
  "r_DE' (bli_OTIM s) = r_DE' s"
  "r_SPS (bli_OTIM s) = r_SPS s"
  "r_SPL (bli_OTIM s) = r_SPL s"
  "r_I (bli_OTIM s) = r_I s"
  "r_R (bli_OTIM s) = r_R s"
  "r_MBASE (bli_OTIM s) = r_MBASE s"
  "cpu_PREFIX (bli_OTIM s) = cpu_PREFIX s"
  "cpu_SUFFIX (bli_OTIM s) = cpu_SUFFIX s"
  "cpu_L (bli_OTIM s) = cpu_L s"
  "cpu_IL (bli_OTIM s) = cpu_IL s"
  "cpu_ADL (bli_OTIM s) = cpu_ADL s"
  "cpu_MADL (bli_OTIM s) = cpu_MADL s"
  "cpu_IEF1 (bli_OTIM s) = cpu_IEF1 s"
  "cpu_IEF2 (bli_OTIM s) = cpu_IEF2 s"
  "cpu_IEF_wait (bli_OTIM s) = cpu_IEF_wait s"
  "cpu_IM (bli_OTIM s) = cpu_IM s"
  "cpu_halted (bli_OTIM s) = cpu_halted s"
  "cycle_count_delta (bli_OTIM s) = cycle_count_delta s"
  "cycle_offset (bli_OTIM s) = cycle_offset s"
  "cpu_events (bli_OTIM s) = cpu_events s"
  "exiting (bli_OTIM s) = exiting s"
  "port_in (bli_OTIM s) = port_in s"
  "intrpt_pending (bli_OTIM s) = intrpt_pending s"
  by (simp_all add: bli_OTIM_def Let_def split_beta)

lemma bli_OTIM_obs [simp]:
  "cpu_address_mode a' m' (bli_OTIM s) = cpu_address_mode a' m' s"
  "stack_hl (bli_OTIM s) = stack_hl s"
  "cpu_read_sp (bli_OTIM s) = cpu_read_sp s"
  "cpu_read_in p' (bli_OTIM s) = cpu_read_in p' s"
  by (simp_all add: cpu_address_mode_def flags_C_def flags_N_def flags_PV_def flags_H_def flags_Z_def flags_S_def r_B_def r_C_def r_D_def r_E_def r_PCL_def r_PCH_def r_PCU_def r_AF_def stack_hl_def cpu_read_sp_def index_hl_def cpu_read_index_def cpu_read_index_low_def cpu_read_index_high_def cpu_read_other_index_def memory_read_byte_def cpu_read_byte_def cpu_read_word_def cpu_read_in_def port_read_byte_def)

lemma bli_INI2_frame [simp]:
  "r_A (bli_INI2 s) = r_A s"
  "r_HL' (bli_INI2 s) = r_HL' s"
  "r_IX (bli_INI2 s) = r_IX s"
  "r_IY (bli_INI2 s) = r_IY s"
  "r_AF' (bli_INI2 s) = r_AF' s"
  "r_BC' (bli_INI2 s) = r_BC' s"
  "r_DE' (bli_INI2 s) = r_DE' s"
  "r_SPS (bli_INI2 s) = r_SPS s"
  "r_SPL (bli_INI2 s) = r_SPL s"
  "r_I (bli_INI2 s) = r_I s"
  "r_R (bli_INI2 s) = r_R s"
  "r_MBASE (bli_INI2 s) = r_MBASE s"
  "cpu_PREFIX (bli_INI2 s) = cpu_PREFIX s"
  "cpu_SUFFIX (bli_INI2 s) = cpu_SUFFIX s"
  "cpu_L (bli_INI2 s) = cpu_L s"
  "cpu_IL (bli_INI2 s) = cpu_IL s"
  "cpu_ADL (bli_INI2 s) = cpu_ADL s"
  "cpu_MADL (bli_INI2 s) = cpu_MADL s"
  "cpu_IEF1 (bli_INI2 s) = cpu_IEF1 s"
  "cpu_IEF2 (bli_INI2 s) = cpu_IEF2 s"
  "cpu_IEF_wait (bli_INI2 s) = cpu_IEF_wait s"
  "cpu_IM (bli_INI2 s) = cpu_IM s"
  "cpu_halted (bli_INI2 s) = cpu_halted s"
  "cycle_count_delta (bli_INI2 s) = cycle_count_delta s"
  "cycle_offset (bli_INI2 s) = cycle_offset s"
  "cpu_events (bli_INI2 s) = cpu_events s"
  "exiting (bli_INI2 s) = exiting s"
  "port_in (bli_INI2 s) = port_in s"
  "intrpt_pending (bli_INI2 s) = intrpt_pending s"
  by (simp_all add: bli_INI2_def Let_def split_beta)

lemma bli_INI2_obs [simp]:
  "cpu_address_mode a' m' (bli_INI2 s) = cpu_address_mode a' m' s"
  "stack_hl (bli_INI2 s) = stack_hl s"
  "cpu_read_sp (bli_INI2 s) = cpu_read_sp s"
  "cpu_read_in p' (bli_INI2 s) = cpu_read_in p' s"
  by (simp_all add: cpu_address_mode_def flags_C_def flags_N_def flags_PV_def flags_H_def flags_Z_def flags_S_def r_B_def r_C_def r_D_def r_E_def r_PCL_def r_PCH_def r_PCU_def r_AF_def stack_hl_def cpu_read_sp_def index_hl_def cpu_read_index_def cpu_read_index_low_def cpu_read_index_high_def cpu_read_other_index_def memory_read_byte_def cpu_read_byte_def cpu_read_word_def cpu_read_in_def port_read_byte_def)

lemma bli_INDM_frame [simp]:
  "r_A (bli_INDM s) = r_A s"
  "r_HL' (bli_INDM s) = r_HL' s"
  "r_IX (bli_INDM s) = r_IX s"
  "r_IY (bli_INDM s) = r_IY s"
  "r_AF' (bli_INDM s) = r_AF' s"
  "r_BC' (bli_INDM s) = r_BC' s"
  "r_DE' (bli_INDM s) = r_DE' s"
  "r_SPS (bli_INDM s) = r_SPS s"
  "r_SPL (bli_INDM s) = r_SPL s"
  "r_I (bli_INDM s) = r_I s"
  "r_R (bli_INDM s) = r_R s"
  "r_MBASE (bli_INDM s) = r_MBASE s"
  "cpu_PREFIX (bli_INDM s) = cpu_PREFIX s"
  "cpu_SUFFIX (bli_INDM s) = cpu_SUFFIX s"
  "cpu_L (bli_INDM s) = cpu_L s"
  "cpu_IL (bli_INDM s) = cpu_IL s"
  "cpu_ADL (bli_INDM s) = cpu_ADL s"
  "cpu_MADL (bli_INDM s) = cpu_MADL s"
  "cpu_IEF1 (bli_INDM s) = cpu_IEF1 s"
  "cpu_IEF2 (bli_INDM s) = cpu_IEF2 s"
  "cpu_IEF_wait (bli_INDM s) = cpu_IEF_wait s"
  "cpu_IM (bli_INDM s) = cpu_IM s"
  "cpu_halted (bli_INDM s) = cpu_halted s"
  "cycle_count_delta (bli_INDM s) = cycle_count_delta s"
  "cycle_offset (bli_INDM s) = cycle_offset s"
  "cpu_events (bli_INDM s) = cpu_events s"
  "exiting (bli_INDM s) = exiting s"
  "port_in (bli_INDM s) = port_in s"
  "intrpt_pending (bli_INDM s) = intrpt_pending s"
  by (simp_all add: bli_INDM_def Let_def split_beta)

lemma bli_INDM_obs [simp]:
  "cpu_address_mode a' m' (bli_INDM s) = cpu_address_mode a' m' s"
  "stack_hl (bli_INDM s) = stack_hl s"
  "cpu_read_sp (bli_INDM s) = cpu_read_sp s"
  "cpu_read_in p' (bli_INDM s) = cpu_read_in p' s"
  by (simp_all add: cpu_address_mode_def flags_C_def flags_N_def flags_PV_def flags_H_def flags_Z_def flags_S_def r_B_def r_C_def r_D_def r_E_def r_PCL_def r_PCH_def r_PCU_def r_AF_def stack_hl_def cpu_read_sp_def index_hl_def cpu_read_index_def cpu_read_index_low_def cpu_read_index_high_def cpu_read_other_index_def memory_read_byte_def cpu_read_byte_def cpu_read_word_def cpu_read_in_def port_read_byte_def)

lemma bli_OTDM_frame [simp]:
  "r_A (bli_OTDM s) = r_A s"
  "r_HL' (bli_OTDM s) = r_HL' s"
  "r_IX (bli_OTDM s) = r_IX s"
  "r_IY (bli_OTDM s) = r_IY s"
  "r_AF' (bli_OTDM s) = r_AF' s"
  "r_BC' (bli_OTDM s) = r_BC' s"
  "r_DE' (bli_OTDM s) = r_DE' s"
  "r_SPS (bli_OTDM s) = r_SPS s"
  "r_SPL (bli_OTDM s) = r_SPL s"
  "r_I (bli_OTDM s) = r_I s"
  "r_R (bli_OTDM s) = r_R s"
  "r_MBASE (bli_OTDM s) = r_MBASE s"
  "cpu_PREFIX (bli_OTDM s) = cpu_PREFIX s"
  "cpu_SUFFIX (bli_OTDM s) = cpu_SUFFIX s"
  "cpu_L (bli_OTDM s) = cpu_L s"
  "cpu_IL (bli_OTDM s) = cpu_IL s"
  "cpu_ADL (bli_OTDM s) = cpu_ADL s"
  "cpu_MADL (bli_OTDM s) = cpu_MADL s"
  "cpu_IEF1 (bli_OTDM s) = cpu_IEF1 s"
  "cpu_IEF2 (bli_OTDM s) = cpu_IEF2 s"
  "cpu_IEF_wait (bli_OTDM s) = cpu_IEF_wait s"
  "cpu_IM (bli_OTDM s) = cpu_IM s"
  "cpu_halted (bli_OTDM s) = cpu_halted s"
  "cycle_count_delta (bli_OTDM s) = cycle_count_delta s"
  "cycle_offset (bli_OTDM s) = cycle_offset s"
  "cpu_events (bli_OTDM s) = cpu_events s"
  "exiting (bli_OTDM s) = exiting s"
  "port_in (bli_OTDM s) = port_in s"
  "intrpt_pending (bli_OTDM s) = intrpt_pending s"
  by (simp_all add: bli_OTDM_def Let_def split_beta)

lemma bli_OTDM_obs [simp]:
  "cpu_address_mode a' m' (bli_OTDM s) = cpu_address_mode a' m' s"
  "stack_hl (bli_OTDM s) = stack_hl s"
  "cpu_read_sp (bli_OTDM s) = cpu_read_sp s"
  "cpu_read_in p' (bli_OTDM s) = cpu_read_in p' s"
  by (simp_all add: cpu_address_mode_def flags_C_def flags_N_def flags_PV_def flags_H_def flags_Z_def flags_S_def r_B_def r_C_def r_D_def r_E_def r_PCL_def r_PCH_def r_PCU_def r_AF_def stack_hl_def cpu_read_sp_def index_hl_def cpu_read_index_def cpu_read_index_low_def cpu_read_index_high_def cpu_read_other_index_def memory_read_byte_def cpu_read_byte_def cpu_read_word_def cpu_read_in_def port_read_byte_def)

lemma bli_IND2_frame [simp]:
  "r_A (bli_IND2 s) = r_A s"
  "r_HL' (bli_IND2 s) = r_HL' s"
  "r_IX (bli_IND2 s) = r_IX s"
  "r_IY (bli_IND2 s) = r_IY s"
  "r_AF' (bli_IND2 s) = r_AF' s"
  "r_BC' (bli_IND2 s) = r_BC' s"
  "r_DE' (bli_IND2 s) = r_DE' s"
  "r_SPS (bli_IND2 s) = r_SPS s"
  "r_SPL (bli_IND2 s) = r_SPL s"
  "r_I (bli_IND2 s) = r_I s"
  "r_R (bli_IND2 s) = r_R s"
  "r_MBASE (bli_IND2 s) = r_MBASE s"
  "cpu_PREFIX (bli_IND2 s) = cpu_PREFIX s"
  "cpu_SUFFIX (bli_IND2 s) = cpu_SUFFIX s"
  "cpu_L (bli_IND2 s) = cpu_L s"
  "cpu_IL (bli_IND2 s) = cpu_IL s"
  "cpu_ADL (bli_IND2 s) = cpu_ADL s"
  "cpu_MADL (bli_IND2 s) = cpu_MADL s"
  "cpu_IEF1 (bli_IND2 s) = cpu_IEF1 s"
  "cpu_IEF2 (bli_IND2 s) = cpu_IEF2 s"
  "cpu_IEF_wait (bli_IND2 s) = cpu_IEF_wait s"
  "cpu_IM (bli_IND2 s) = cpu_IM s"
  "cpu_halted (bli_IND2 s) = cpu_halted s"
  "cycle_count_delta (bli_IND2 s) = cycle_count_delta s"
  "cycle_offset (bli_IND2 s) = cycle_offset s"
  "cpu_events (bli_IND2 s) = cpu_events s"
  "exiting (bli_IND2 s) = exiting s"
  "port_in (bli_IND2 s) = port_in s"
  "intrpt_pending (bli_IND2 s) = intrpt_pending s"
  by (simp_all add: bli_IND2_def Let_def split_beta)

lemma bli_IND2_obs [simp]:
  "cpu_address_mode a' m' (bli_IND2 s) = cpu_address_mode a' m' s"
  "stack_hl (bli_IND2 s) = stack_hl s"
  "cpu_read_sp (bli_IND2 s) = cpu_read_sp s"
  "cpu_read_in p' (bli_IND2 s) = cpu_read_in p' s"
  by (simp_all add: cpu_address_mode_def flags_C_def flags_N_def flags_PV_def flags_H_def flags_Z_def flags_S_def r_B_def r_C_def r_D_def r_E_def r_PCL_def r_PCH_def r_PCU_def r_AF_def stack_hl_def cpu_read_sp_def index_hl_def cpu_read_index_def cpu_read_index_low_def cpu_read_index_high_def cpu_read_other_index_def memory_read_byte_def cpu_read_byte_def cpu_read_word_def cpu_read_in_def port_read_byte_def)

lemma bli_INIMR_frame [simp]:
  "r_A (bli_INIMR s) = r_A s"
  "r_HL' (bli_INIMR s) = r_HL' s"
  "r_IX (bli_INIMR s) = r_IX s"
  "r_IY (bli_INIMR s) = r_IY s"
  "r_AF' (bli_INIMR s) = r_AF' s"
  "r_BC' (bli_INIMR s) = r_BC' s"
  "r_DE' (bli_INIMR s) = r_DE' s"
  "r_SPS (bli_INIMR s) = r_SPS s"
  "r_SPL (bli_INIMR s) = r_SPL s"
  "r_I (bli_INIMR s) = r_I s"
  "r_R (bli_INIMR s) = r_R s"
  "r_MBASE (bli_INIMR s) = r_MBASE s"
  "cpu_PREFIX (bli_INIMR s) = cpu_PREFIX s"
  "cpu_SUFFIX (bli_INIMR s) = cpu_SUFFIX s"
  "cpu_L (bli_INIMR s) = cpu_L s"
  "cpu_IL (bli_INIMR s) = cpu_IL s"
  "cpu_ADL (bli_INIMR s) = cpu_ADL s"
  "cpu_MADL (bli_INIMR s) = cpu_MADL s"
  "cpu_IEF1 (bli_INIMR s) = cpu_IEF1 s"
  "cpu_IEF2 (bli_INIMR s) = cpu_IEF2 s"
  "cpu_IEF_wait (bli_INIMR s) = cpu_IEF_wait s"
  "cpu_IM (bli_INIMR s) = cpu_IM s"
  "cpu_halted (bli_INIMR s) = cpu_halted s"
  "cycle_count_delta (bli_INIMR s) = cycle_count_delta s"
  "cycle_offset (bli_INIMR s) = cycle_offset s"
  "cpu_events (bli_INIMR s) = cpu_events s"
  "exiting (bli_INIMR s) = exiting s"
  "port_in (bli_INIMR s) = port_in s"
  "intrpt_pending (bli_INIMR s) = intrpt_pending s"
  by (simp_all add: bli_INIMR_def Let_def split_beta)

lemma bli_INIMR_obs [simp]:
  "cpu_address_mode a' m' (bli_INIMR s) = cpu_address_mode a' m' s"
  "stack_hl (bli_INIMR s) = stack_hl s"
  "cpu_read_sp (bli_INIMR s) = cpu_read_sp s"
  "cpu_read_in p' (bli_INIMR s) = cpu_read_in p' s"
  by (simp_all add: cpu_address_mode_def flags_C_def flags_N_def flags_PV_def flags_H_def flags_Z_def flags_S_def r_B_def r_C_def r_D_def r_E_def r_PCL_def r_PCH_def r_PCU_def r_AF_def stack_hl_def cpu_read_sp_def index_hl_def cpu_read_index_def cpu_read_index_low_def cpu_read_index_high_def cpu_read_other_index_def memory_read_byte_def cpu_read_byte_def cpu_read_word_def cpu_read_in_def port_read_byte_def)

lemma bli_OTIMR_frame [simp]:
  "r_A (bli_OTIMR s) = r_A s"
  "r_HL' (bli_OTIMR s) = r_HL' s"
  "r_IX (bli_OTIMR s) = r_IX s"
  "r_IY (bli_OTIMR s) = r_IY s"
  "r_AF' (bli_OTIMR s) = r_AF' s"
  "r_BC' (bli_OTIMR s) = r_BC' s"
  "r_DE' (bli_OTIMR s) = r_DE' s"
  "r_SPS (bli_OTIMR s) = r_SPS s"
  "r_SPL (bli_OTIMR s) = r_SPL s"
  "r_I (bli_OTIMR s) = r_I s"
  "r_R (bli_OTIMR s) = r_R s"
  "r_MBASE (bli_OTIMR s) = r_MBASE s"
  "cpu_PREFIX (bli_OTIMR s) = cpu_PREFIX s"
  "cpu_SUFFIX (bli_OTIMR s) = cpu_SUFFIX s"
  "cpu_L (bli_OTIMR s) = cpu_L s"
  "cpu_IL (bli_OTIMR s) = cpu_IL s"
  "cpu_ADL (bli_OTIMR s) = cpu_ADL s"
  "cpu_MADL (bli_OTIMR s) = cpu_MADL s"
  "cpu_IEF1 (bli_OTIMR s) = cpu_IEF1 s"
  "cpu_IEF2 (bli_OTIMR s) = cpu_IEF2 s"
  "cpu_IEF_wait (bli_OTIMR s) = cpu_IEF_wait s"
  "cpu_IM (bli_OTIMR s) = cpu_IM s"
  "cpu_halted (bli_OTIMR s) = cpu_halted s"
  "cycle_count_delta (bli_OTIMR s) = cycle_count_delta s"
  "cycle_offset (bli_OTIMR s) = cycle_offset s"
  "cpu_events (bli_OTIMR s) = cpu_events s"
  "exiting (bli_OTIMR s) = exiting s"
  "port_in (bli_OTIMR s) = port_in s"
  "intrpt_pending (bli_OTIMR s) = intrpt_pending s"
  by (simp_all add: bli_OTIMR_def Let_def split_beta)

lemma bli_OTIMR_obs [simp]:
  "cpu_address_mode a' m' (bli_OTIMR s) = cpu_address_mode a' m' s"
  "stack_hl (bli_OTIMR s) = stack_hl s"
  "cpu_read_sp (bli_OTIMR s) = cpu_read_sp s"
  "cpu_read_in p' (bli_OTIMR s) = cpu_read_in p' s"
  by (simp_all add: cpu_address_mode_def flags_C_def flags_N_def flags_PV_def flags_H_def flags_Z_def flags_S_def r_B_def r_C_def r_D_def r_E_def r_PCL_def r_PCH_def r_PCU_def r_AF_def stack_hl_def cpu_read_sp_def index_hl_def cpu_read_index_def cpu_read_index_low_def cpu_read_index_high_def cpu_read_other_index_def memory_read_byte_def cpu_read_byte_def cpu_read_word_def cpu_read_in_def port_read_byte_def)

lemma bli_INI2R_frame [simp]:
  "r_A (bli_INI2R s) = r_A s"
  "r_HL' (bli_INI2R s) = r_HL' s"
  "r_IX (bli_INI2R s) = r_IX s"
  "r_IY (bli_INI2R s) = r_IY s"
  "r_AF' (bli_INI2R s) = r_AF' s"
  "r_BC' (bli_INI2R s) = r_BC' s"
  "r_DE' (bli_INI2R s) = r_DE' s"
  "r_SPS (bli_INI2R s) = r_SPS s"
  "r_SPL (bli_INI2R s) = r_SPL s"
  "r_I (bli_INI2R s) = r_I s"
  "r_R (bli_INI2R s) = r_R s"
  "r_MBASE (bli_INI2R s) = r_MBASE s"
  "cpu_PREFIX (bli_INI2R s) = cpu_PREFIX s"
  "cpu_SUFFIX (bli_INI2R s) = cpu_SUFFIX s"
  "cpu_L (bli_INI2R s) = cpu_L s"
  "cpu_IL (bli_INI2R s) = cpu_IL s"
  "cpu_ADL (bli_INI2R s) = cpu_ADL s"
  "cpu_MADL (bli_INI2R s) = cpu_MADL s"
  "cpu_IEF1 (bli_INI2R s) = cpu_IEF1 s"
  "cpu_IEF2 (bli_INI2R s) = cpu_IEF2 s"
  "cpu_IEF_wait (bli_INI2R s) = cpu_IEF_wait s"
  "cpu_IM (bli_INI2R s) = cpu_IM s"
  "cpu_halted (bli_INI2R s) = cpu_halted s"
  "cycle_count_delta (bli_INI2R s) = cycle_count_delta s"
  "cycle_offset (bli_INI2R s) = cycle_offset s"
  "cpu_events (bli_INI2R s) = cpu_events s"
  "exiting (bli_INI2R s) = exiting s"
  "port_in (bli_INI2R s) = port_in s"
  "intrpt_pending (bli_INI2R s) = intrpt_pending s"
  by (simp_all add: bli_INI2R_def Let_def split_beta)

lemma bli_INI2R_obs [simp]:
  "cpu_address_mode a' m' (bli_INI2R s) = cpu_address_mode a' m' s"
  "stack_hl (bli_INI2R s) = stack_hl s"
  "cpu_read_sp (bli_INI2R s) = cpu_read_sp s"
  "cpu_read_in p' (bli_INI2R s) = cpu_read_in p' s"
  by (simp_all add: cpu_address_mode_def flags_C_def flags_N_def flags_PV_def flags_H_def flags_Z_def flags_S_def r_B_def r_C_def r_D_def r_E_def r_PCL_def r_PCH_def r_PCU_def r_AF_def stack_hl_def cpu_read_sp_def index_hl_def cpu_read_index_def cpu_read_index_low_def cpu_read_index_high_def cpu_read_other_index_def memory_read_byte_def cpu_read_byte_def cpu_read_word_def cpu_read_in_def port_read_byte_def)

lemma bli_INDMR_frame [simp]:
  "r_A (bli_INDMR s) = r_A s"
  "r_HL' (bli_INDMR s) = r_HL' s"
  "r_IX (bli_INDMR s) = r_IX s"
  "r_IY (bli_INDMR s) = r_IY s"
  "r_AF' (bli_INDMR s) = r_AF' s"
  "r_BC' (bli_INDMR s) = r_BC' s"
  "r_DE' (bli_INDMR s) = r_DE' s"
  "r_SPS (bli_INDMR s) = r_SPS s"
  "r_SPL (bli_INDMR s) = r_SPL s"
  "r_I (bli_INDMR s) = r_I s"
  "r_R (bli_INDMR s) = r_R s"
  "r_MBASE (bli_INDMR s) = r_MBASE s"
  "cpu_PREFIX (bli_INDMR s) = cpu_PREFIX s"
  "cpu_SUFFIX (bli_INDMR s) = cpu_SUFFIX s"
  "cpu_L (bli_INDMR s) = cpu_L s"
  "cpu_IL (bli_INDMR s) = cpu_IL s"
  "cpu_ADL (bli_INDMR s) = cpu_ADL s"
  "cpu_MADL (bli_INDMR s) = cpu_MADL s"
  "cpu_IEF1 (bli_INDMR s) = cpu_IEF1 s"
  "cpu_IEF2 (bli_INDMR s) = cpu_IEF2 s"
  "cpu_IEF_wait (bli_INDMR s) = cpu_IEF_wait s"
  "cpu_IM (bli_INDMR s) = cpu_IM s"
  "cpu_halted (bli_INDMR s) = cpu_halted s"
  "cycle_count_delta (bli_INDMR s) = cycle_count_delta s"
  "cycle_offset (bli_INDMR s) = cycle_offset s"
  "cpu_events (bli_INDMR s) = cpu_events s"
  "exiting (bli_INDMR s) = exiting s"
  "port_in (bli_INDMR s) = port_in s"
  "intrpt_pending (bli_INDMR s) = intrpt_pending s"
  by (simp_all add: bli_INDMR_def Let_def split_beta)

lemma bli_INDMR_obs [simp]:
  "cpu_address_mode a' m' (bli_INDMR s) = cpu_address_mode a' m' s"
  "stack_hl (bli_INDMR s) = stack_hl s"
  "cpu_read_sp (bli_INDMR s) = cpu_read_sp s"
  "cpu_read_in p' (bli_INDMR s) = cpu_read_in p' s"
  by (simp_all add: cpu_address_mode_def flags_C_def flags_N_def flags_PV_def flags_H_def flags_Z_def flags_S_def r_B_def r_C_def r_D_def r_E_def r_PCL_def r_PCH_def r_PCU_def r_AF_def stack_hl_def cpu_read_sp_def index_hl_def cpu_read_index_def cpu_read_index_low_def cpu_read_index_high_def cpu_read_other_index_def memory_read_byte_def cpu_read_byte_def cpu_read_word_def cpu_read_in_def port_read_byte_def)

lemma bli_OTDMR_frame [simp]:
  "r_A (bli_OTDMR s) = r_A s"
  "r_HL' (bli_OTDMR s) = r_HL' s"
  "r_IX (bli_OTDMR s) = r_IX s"
  "r_IY (bli_OTDMR s) = r_IY s"
  "r_AF' (bli_OTDMR s) = r_AF' s"
  "r_BC' (bli_OTDMR s) = r_BC' s"
  "r_DE' (bli_OTDMR s) = r_DE' s"
  "r_SPS (bli_OTDMR s) = r_SPS s"
  "r_SPL (bli_OTDMR s) = r_SPL s"
  "r_I (bli_OTDMR s) = r_I s"
  "r_R (bli_OTDMR s) = r_R s"
  "r_MBASE (bli_OTDMR s) = r_MBASE s"
  "cpu_PREFIX (bli_OTDMR s) = cpu_PREFIX s"
  "cpu_SUFFIX (bli_OTDMR s) = cpu_SUFFIX s"
  "cpu_L (bli_OTDMR s) = cpu_L s"
  "cpu_IL (bli_OTDMR s) = cpu_IL s"
  "cpu_ADL (bli_OTDMR s) = cpu_ADL s"
  "cpu_MADL (bli_OTDMR s) = cpu_MADL s"
  "cpu_IEF1 (bli_OTDMR s) = cpu_IEF1 s"
  "cpu_IEF2 (bli_OTDMR s) = cpu_IEF2 s"
  "cpu_IEF_wait (bli_OTDMR s) = cpu_IEF_wait s"
  "cpu_IM (bli_OTDMR s) = cpu_IM s"
  "cpu_halted (bli_OTDMR s) = cpu_halted s"
  "cycle_count_delta (bli_OTDMR s) = cycle_count_delta s"
  "cycle_offset (bli_OTDMR s) = cycle_offset s"
  "cpu_events (bli_OTDMR s) = cpu_events s"
  "exiting (bli_OTDMR s) = exiting s"
  "port_in (bli_OTDMR s) = port_in s"
  "intrpt_pending (bli_OTDMR s) = intrpt_pending s"
  by (simp_all add: bli_OTDMR_def Let_def split_beta)

lemma bli_OTDMR_obs [simp]:
  "cpu_address_mode a' m' (bli_OTDMR s) = cpu_address_mode a' m' s"
  "stack_hl (bli_OTDMR s) = stack_hl s"
  "cpu_read_sp (bli_OTDMR s) = cpu_read_sp s"
  "cpu_read_in p' (bli_OTDMR s) = cpu_read_in p' s"
  by (simp_all add: cpu_address_mode_def flags_C_def flags_N_def flags_PV_def flags_H_def flags_Z_def flags_S_def r_B_def r_C_def r_D_def r_E_def r_PCL_def r_PCH_def r_PCU_def r_AF_def stack_hl_def cpu_read_sp_def index_hl_def cpu_read_index_def cpu_read_index_low_def cpu_read_index_high_def cpu_read_other_index_def memory_read_byte_def cpu_read_byte_def cpu_read_word_def cpu_read_in_def port_read_byte_def)

lemma bli_IND2R_frame [simp]:
  "r_A (bli_IND2R s) = r_A s"
  "r_HL' (bli_IND2R s) = r_HL' s"
  "r_IX (bli_IND2R s) = r_IX s"
  "r_IY (bli_IND2R s) = r_IY s"
  "r_AF' (bli_IND2R s) = r_AF' s"
  "r_BC' (bli_IND2R s) = r_BC' s"
  "r_DE' (bli_IND2R s) = r_DE' s"
  "r_SPS (bli_IND2R s) = r_SPS s"
  "r_SPL (bli_IND2R s) = r_SPL s"
  "r_I (bli_IND2R s) = r_I s"
  "r_R (bli_IND2R s) = r_R s"
  "r_MBASE (bli_IND2R s) = r_MBASE s"
  "cpu_PREFIX (bli_IND2R s) = cpu_PREFIX s"
  "cpu_SUFFIX (bli_IND2R s) = cpu_SUFFIX s"
  "cpu_L (bli_IND2R s) = cpu_L s"
  "cpu_IL (bli_IND2R s) = cpu_IL s"
  "cpu_ADL (bli_IND2R s) = cpu_ADL s"
  "cpu_MADL (bli_IND2R s) = cpu_MADL s"
  "cpu_IEF1 (bli_IND2R s) = cpu_IEF1 s"
  "cpu_IEF2 (bli_IND2R s) = cpu_IEF2 s"
  "cpu_IEF_wait (bli_IND2R s) = cpu_IEF_wait s"
  "cpu_IM (bli_IND2R s) = cpu_IM s"
  "cpu_halted (bli_IND2R s) = cpu_halted s"
  "cycle_count_delta (bli_IND2R s) = cycle_count_delta s"
  "cycle_offset (bli_IND2R s) = cycle_offset s"
  "cpu_events (bli_IND2R s) = cpu_events s"
  "exiting (bli_IND2R s) = exiting s"
  "port_in (bli_IND2R s) = port_in s"
  "intrpt_pending (bli_IND2R s) = intrpt_pending s"
  by (simp_all add: bli_IND2R_def Let_def split_beta)

lemma bli_IND2R_obs [simp]:
  "cpu_address_mode a' m' (bli_IND2R s) = cpu_address_mode a' m' s"
  "stack_hl (bli_IND2R s) = stack_hl s"
  "cpu_read_sp (bli_IND2R s) = cpu_read_sp s"
  "cpu_read_in p' (bli_IND2R s) = cpu_read_in p' s"
  by (simp_all add: cpu_address_mode_def flags_C_def flags_N_def flags_PV_def flags_H_def flags_Z_def flags_S_def r_B_def r_C_def r_D_def r_E_def r_PCL_def r_PCH_def r_PCU_def r_AF_def stack_hl_def cpu_read_sp_def index_hl_def cpu_read_index_def cpu_read_index_low_def cpu_read_index_high_def cpu_read_other_index_def memory_read_byte_def cpu_read_byte_def cpu_read_word_def cpu_read_in_def port_read_byte_def)

lemma bli_LDI_frame [simp]:
  "r_A (bli_LDI s) = r_A s"
  "r_HL' (bli_LDI s) = r_HL' s"
  "r_IX (bli_LDI s) = r_IX s"
  "r_IY (bli_LDI s) = r_IY s"
  "r_AF' (bli_LDI s) = r_AF' s"
  "r_BC' (bli_LDI s) = r_BC' s"
  "r_DE' (bli_LDI s) = r_DE' s"
  "r_SPS (bli_LDI s) = r_SPS s"
  "r_SPL (bli_LDI s) = r_SPL s"
  "r_I (bli_LDI s) = r_I s"
  "r_R (bli_LDI s) = r_R s"
  "r_MBASE (bli_LDI s) = r_MBASE s"
  "cpu_PREFIX (bli_LDI s) = cpu_PREFIX s"
  "cpu_SUFFIX (bli_LDI s) = cpu_SUFFIX s"
  "cpu_L (bli_LDI s) = cpu_L s"
  "cpu_IL (bli_LDI s) = cpu_IL s"
  "cpu_ADL (bli_LDI s) = cpu_ADL s"
  "cpu_MADL (bli_LDI s) = cpu_MADL s"
  "cpu_IEF1 (bli_LDI s) = cpu_IEF1 s"
  "cpu_IEF2 (bli_LDI s) = cpu_IEF2 s"
  "cpu_IEF_wait (bli_LDI s) = cpu_IEF_wait s"
  "cpu_IM (bli_LDI s) = cpu_IM s"
  "cpu_halted (bli_LDI s) = cpu_halted s"
  "cycle_count_delta (bli_LDI s) = cycle_count_delta s"
  "cycle_offset (bli_LDI s) = cycle_offset s"
  "cpu_events (bli_LDI s) = cpu_events s"
  "exiting (bli_LDI s) = exiting s"
  "port_in (bli_LDI s) = port_in s"
  "intrpt_pending (bli_LDI s) = intrpt_pending s"
  by (simp_all add: bli_LDI_def Let_def split_beta)

lemma bli_LDI_obs [simp]:
  "cpu_address_mode a' m' (bli_LDI s) = cpu_address_mode a' m' s"
  "stack_hl (bli_LDI s) = stack_hl s"
  "cpu_read_sp (bli_LDI s) = cpu_read_sp s"
  "cpu_read_in p' (bli_LDI s) = cpu_read_in p' s"
  by (simp_all add: cpu_address_mode_def flags_C_def flags_N_def flags_PV_def flags_H_def flags_Z_def flags_S_def r_B_def r_C_def r_D_def r_E_def r_PCL_def r_PCH_def r_PCU_def r_AF_def stack_hl_def cpu_read_sp_def index_hl_def cpu_read_index_def cpu_read_index_low_def cpu_read_index_high_def cpu_read_other_index_def memory_read_byte_def cpu_read_byte_def cpu_read_word_def cpu_read_in_def port_read_byte_def)

lemma bli_CPI_frame [simp]:
  "r_A (bli_CPI s) = r_A s"
  "r_HL' (bli_CPI s) = r_HL' s"
  "r_IX (bli_CPI s) = r_IX s"
  "r_IY (bli_CPI s) = r_IY s"
  "r_AF' (bli_CPI s) = r_AF' s"
  "r_BC' (bli_CPI s) = r_BC' s"
  "r_DE' (bli_CPI s) = r_DE' s"
  "r_SPS (bli_CPI s) = r_SPS s"
  "r_SPL (bli_CPI s) = r_SPL s"
  "r_I (bli_CPI s) = r_I s"
  "r_R (bli_CPI s) = r_R s"
  "r_MBASE (bli_CPI s) = r_MBASE s"
  "cpu_PREFIX (bli_CPI s) = cpu_PREFIX s"
  "cpu_SUFFIX (bli_CPI s) = cpu_SUFFIX s"
  "cpu_L (bli_CPI s) = cpu_L s"
  "cpu_IL (bli_CPI s) = cpu_IL s"
  "cpu_ADL (bli_CPI s) = cpu_ADL s"
  "cpu_MADL (bli_CPI s) = cpu_MADL s"
  "cpu_IEF1 (bli_CPI s) = cpu_IEF1 s"
  "cpu_IEF2 (bli_CPI s) = cpu_IEF2 s"
  "cpu_IEF_wait (bli_CPI s) = cpu_IEF_wait s"
  "cpu_IM (bli_CPI s) = cpu_IM s"
  "cpu_halted (bli_CPI s) = cpu_halted s"
  "cycle_count_delta (bli_CPI s) = cycle_count_delta s"
  "cycle_offset (bli_CPI s) = cycle_offset s"
  "cpu_events (bli_CPI s) = cpu_events s"
  "exiting (bli_CPI s) = exiting s"
  "port_in (bli_CPI s) = port_in s"
  "intrpt_pending (bli_CPI s) = intrpt_pending s"
  by (simp_all add: bli_CPI_def Let_def split_beta)

lemma bli_CPI_obs [simp]:
  "cpu_address_mode a' m' (bli_CPI s) = cpu_address_mode a' m' s"
  "stack_hl (bli_CPI s) = stack_hl s"
  "cpu_read_sp (bli_CPI s) = cpu_read_sp s"
  "cpu_read_in p' (bli_CPI s) = cpu_read_in p' s"
  by (simp_all add: cpu_address_mode_def flags_C_def flags_N_def flags_PV_def flags_H_def flags_Z_def flags_S_def r_B_def r_C_def r_D_def r_E_def r_PCL_def r_PCH_def r_PCU_def r_AF_def stack_hl_def cpu_read_sp_def index_hl_def cpu_read_index_def cpu_read_index_low_def cpu_read_index_high_def cpu_read_other_index_def memory_read_byte_def cpu_read_byte_def cpu_read_word_def cpu_read_in_def port_read_byte_def)

lemma bli_INI_frame [simp]:
  "r_A (bli_INI s) = r_A s"
  "r_HL' (bli_INI s) = r_HL' s"
  "r_IX (bli_INI s) = r_IX s"
  "r_IY (bli_INI s) = r_IY s"
  "r_AF' (bli_INI s) = r_AF' s"
  "r_BC' (bli_INI s) = r_BC' s"
  "r_DE' (bli_INI s) = r_DE' s"
  "r_SPS (bli_INI s) = r_SPS s"
  "r_SPL (bli_INI s) = r_SPL s"
  "r_I (bli_INI s) = r_I s"
  "r_R (bli_INI s) = r_R s"
  "r_MBASE (bli_INI s) = r_MBASE s"
  "cpu_PREFIX (bli_INI s) = cpu_PREFIX s"
  "cpu_SUFFIX (bli_INI s) = cpu_SUFFIX s"
  "cpu_L (bli_INI s) = cpu_L s"
  "cpu_IL (bli_INI s) = cpu_IL s"
  "cpu_ADL (bli_INI s) = cpu_ADL s"
  "cpu_MADL (bli_INI s) = cpu_MADL s"
  "cpu_IEF1 (bli_INI s) = cpu_IEF1 s"
  "cpu_IEF2 (bli_INI s) = cpu_IEF2 s"
  "cpu_IEF_wait (bli_INI s) = cpu_IEF_wait s"
  "cpu_IM (bli_INI s) = cpu_IM s"
  "cpu_halted (bli_INI s) = cpu_halted s"
  "cycle_count_delta (bli_INI s) = cycle_count_delta s"
  "cycle_offset (bli_INI s) = cycle_offset s"
  "cpu_events (bli_INI s) = cpu_events s"
  "exiting (bli_INI s) = exiting s"
  "port_in (bli_INI s) = port_in s"
  "intrpt_pending (bli_INI s) = intrpt_pending s"
  by (simp_all add: bli_INI_def Let_def split_beta)

lemma bli_INI_obs [simp]:
  "cpu_address_mode a' m' (bli_INI s) = cpu_address_mode a' m' s"
  "stack_hl (bli_INI s) = stack_hl s"
  "cpu_read_sp (bli_INI s) = cpu_read_sp s"
  "cpu_read_in p' (bli_INI s) = cpu_read_in p' s"
  by (simp_all add: cpu_address_mode_def flags_C_def flags_N_def flags_PV_def flags_H_def flags_Z_def flags_S_def r_B_def r_C_def r_D_def r_E_def r_PCL_def r_PCH_def r_PCU_def r_AF_def stack_hl_def cpu_read_sp_def index_hl_def cpu_read_index_def cpu_read_index_low_def cpu_read_index_high_def cpu_read_other_index_def memory_read_byte_def cpu_read_byte_def cpu_read_word_def cpu_read_in_def port_read_byte_def)

lemma bli_OUTI_frame [simp]:
  "r_A (bli_OUTI s) = r_A s"
  "r_HL' (bli_OUTI s) = r_HL' s"
  "r_IX (bli_OUTI s) = r_IX s"
  "r_IY (bli_OUTI s) = r_IY s"
  "r_AF' (bli_OUTI s) = r_AF' s"
  "r_BC' (bli_OUTI s) = r_BC' s"
  "r_DE' (bli_OUTI s) = r_DE' s"
  "r_SPS (bli_OUTI s) = r_SPS s"
  "r_SPL (bli_OUTI s) = r_SPL s"
  "r_I (bli_OUTI s) = r_I s"
  "r_R (bli_OUTI s) = r_R s"
  "r_MBASE (bli_OUTI s) = r_MBASE s"
  "cpu_PREFIX (bli_OUTI s) = cpu_PREFIX s"
  "cpu_SUFFIX (bli_OUTI s) = cpu_SUFFIX s"
  "cpu_L (bli_OUTI s) = cpu_L s"
  "cpu_IL (bli_OUTI s) = cpu_IL s"
  "cpu_ADL (bli_OUTI s) = cpu_ADL s"
  "cpu_MADL (bli_OUTI s) = cpu_MADL s"
  "cpu_IEF1 (bli_OUTI s) = cpu_IEF1 s"
  "cpu_IEF2 (bli_OUTI s) = cpu_IEF2 s"
  "cpu_IEF_wait (bli_OUTI s) = cpu_IEF_wait s"
  "cpu_IM (bli_OUTI s) = cpu_IM s"
  "cpu_halted (bli_OUTI s) = cpu_halted s"
  "cycle_count_delta (bli_OUTI s) = cycle_count_delta s"
  "cycle_offset (bli_OUTI s) = cycle_offset s"
  "cpu_events (bli_OUTI s) = cpu_events s"
  "exiting (bli_OUTI s) = exiting s"
  "port_in (bli_OUTI s) = port_in s"
  "intrpt_pending (bli_OUTI s) = intrpt_pending s"
  by (simp_all add: bli_OUTI_def Let_def split_beta)

lemma bli_OUTI_obs [simp]:
  "cpu_address_mode a' m' (bli_OUTI s) = cpu_address_mode a' m' s"
  "stack_hl (bli_OUTI s) = stack_hl s"
  "cpu_read_sp (bli_OUTI s) = cpu_read_sp s"
  "cpu_read_in p' (bli_OUTI s) = cpu_read_in p' s"
  by (simp_all add: cpu_address_mode_def flags_C_def flags_N_def flags_PV_def flags_H_def flags_Z_def flags_S_def r_B_def r_C_def r_D_def r_E_def r_PCL_def r_PCH_def r_PCU_def r_AF_def stack_hl_def cpu_read_sp_def index_hl_def cpu_read_index_def cpu_read_index_low_def cpu_read_index_high_def cpu_read_other_index_def memory_read_byte_def cpu_read_byte_def cpu_read_word_def cpu_read_in_def port_read_byte_def)

lemma bli_OUTI2_frame [simp]:
  "r_A (bli_OUTI2 s) = r_A s"
  "r_HL' (bli_OUTI2 s) = r_HL' s"
  "r_IX (bli_OUTI2 s) = r_IX s"
  "r_IY (bli_OUTI2 s) = r_IY s"
  "r_AF' (bli_OUTI2 s) = r_AF' s"
  "r_BC' (bli_OUTI2 s) = r_BC' s"
  "r_DE' (bli_OUTI2 s) = r_DE' s"
  "r_SPS (bli_OUTI2 s) = r_SPS s"
  "r_SPL (bli_OUTI2 s) = r_SPL s"
  "r_I (bli_OUTI2 s) = r_I s"
  "r_R (bli_OUTI2 s) = r_R s"
  "r_MBASE (bli_OUTI2 s) = r_MBASE s"
  "cpu_PREFIX (bli_OUTI2 s) = cpu_PREFIX s"
  "cpu_SUFFIX (bli_OUTI2 s) = cpu_SUFFIX s"
  "cpu_L (bli_OUTI2 s) = cpu_L s"
  "cpu_IL (bli_OUTI2 s) = cpu_IL s"
  "cpu_ADL (bli_OUTI2 s) = cpu_ADL s"
  "cpu_MADL (bli_OUTI2 s) = cpu_MADL s"
  "cpu_IEF1 (bli_OUTI2 s) = cpu_IEF1 s"
  "cpu_IEF2 (bli_OUTI2 s) = cpu_IEF2 s"
  "cpu_IEF_wait (bli_OUTI2 s) = cpu_IEF_wait s"
  "cpu_IM (bli_OUTI2 s) = cpu_IM s"
  "cpu_halted (bli_OUTI2 s) = cpu_halted s"
  "cycle_count_delta (bli_OUTI2 s) = cycle_count_delta s"
  "cycle_offset (bli_OUTI2 s) = cycle_offset s"
  "cpu_events (bli_OUTI2 s) = cpu_events s"
  "exiting (bli_OUTI2 s) = exiting s"
  "port_in (bli_OUTI2 s) = port_in s"
  "intrpt_pending (bli_OUTI2 s) = intrpt_pending s"
  by (simp_all add: bli_OUTI2_def Let_def split_beta)

lemma bli_OUTI2_obs [simp]:
  "cpu_address_mode a' m' (bli_OUTI2 s) = cpu_address_mode a' m' s"
  "stack_hl (bli_OUTI2 s) = stack_hl s"
  "cpu_read_sp (bli_OUTI2 s) = cpu_read_sp s"
  "cpu_read_in p' (bli_OUTI2 s) = cpu_read_in p' s"
  by (simp_all add: cpu_address_mode_def flags_C_def flags_N_def flags_PV_def flags_H_def flags_Z_def flags_S_def r_B_def r_C_def r_D_def r_E_def r_PCL_def r_PCH_def r_PCU_def r_AF_def stack_hl_def cpu_read_sp_def index_hl_def cpu_read_index_def cpu_read_index_low_def cpu_read_index_high_def cpu_read_other_index_def memory_read_byte_def cpu_read_byte_def cpu_read_word_def cpu_read_in_def port_read_byte_def)

lemma bli_LDD_frame [simp]:
  "r_A (bli_LDD s) = r_A s"
  "r_HL' (bli_LDD s) = r_HL' s"
  "r_IX (bli_LDD s) = r_IX s"
  "r_IY (bli_LDD s) = r_IY s"
  "r_AF' (bli_LDD s) = r_AF' s"
  "r_BC' (bli_LDD s) = r_BC' s"
  "r_DE' (bli_LDD s) = r_DE' s"
  "r_SPS (bli_LDD s) = r_SPS s"
  "r_SPL (bli_LDD s) = r_SPL s"
  "r_I (bli_LDD s) = r_I s"
  "r_R (bli_LDD s) = r_R s"
  "r_MBASE (bli_LDD s) = r_MBASE s"
  "cpu_PREFIX (bli_LDD s) = cpu_PREFIX s"
  "cpu_SUFFIX (bli_LDD s) = cpu_SUFFIX s"
  "cpu_L (bli_LDD s) = cpu_L s"
  "cpu_IL (bli_LDD s) = cpu_IL s"
  "cpu_ADL (bli_LDD s) = cpu_ADL s"
  "cpu_MADL (bli_LDD s) = cpu_MADL s"
  "cpu_IEF1 (bli_LDD s) = cpu_IEF1 s"
  "cpu_IEF2 (bli_LDD s) = cpu_IEF2 s"
  "cpu_IEF_wait (bli_LDD s) = cpu_IEF_wait s"
  "cpu_IM (bli_LDD s) = cpu_IM s"
  "cpu_halted (bli_LDD s) = cpu_halted s"
  "cycle_count_delta (bli_LDD s) = cycle_count_delta s"
  "cycle_offset (bli_LDD s) = cycle_offset s"
  "cpu_events (bli_LDD s) = cpu_events s"
  "exiting (bli_LDD s) = exiting s"
  "port_in (bli_LDD s) = port_in s"
  "intrpt_pending (bli_LDD s) = intrpt_pending s"
  by (simp_all add: bli_LDD_def Let_def split_beta)

lemma bli_LDD_obs [simp]:
  "cpu_address_mode a' m' (bli_LDD s) = cpu_address_mode a' m' s"
  "stack_hl (bli_LDD s) = stack_hl s"
  "cpu_read_sp (bli_LDD s) = cpu_read_sp s"
  "cpu_read_in p' (bli_LDD s) = cpu_read_in p' s"
  by (simp_all add: cpu_address_mode_def flags_C_def flags_N_def flags_PV_def flags_H_def flags_Z_def flags_S_def r_B_def r_C_def r_D_def r_E_def r_PCL_def r_PCH_def r_PCU_def r_AF_def stack_hl_def cpu_read_sp_def index_hl_def cpu_read_index_def cpu_read_index_low_def cpu_read_index_high_def cpu_read_other_index_def memory_read_byte_def cpu_read_byte_def cpu_read_word_def cpu_read_in_def port_read_byte_def)

lemma bli_CPD_frame [simp]:
  "r_A (bli_CPD s) = r_A s"
  "r_HL' (bli_CPD s) = r_HL' s"
  "r_IX (bli_CPD s) = r_IX s"
  "r_IY (bli_CPD s) = r_IY s"
  "r_AF' (bli_CPD s) = r_AF' s"
  "r_BC' (bli_CPD s) = r_BC' s"
  "r_DE' (bli_CPD s) = r_DE' s"
  "r_SPS (bli_CPD s) = r_SPS s"
  "r_SPL (bli_CPD s) = r_SPL s"
  "r_I (bli_CPD s) = r_I s"
  "r_R (bli_CPD s) = r_R s"
  "r_MBASE (bli_CPD s) = r_MBASE s"
  "cpu_PREFIX (bli_CPD s) = cpu_PREFIX s"
  "cpu_SUFFIX (bli_CPD s) = cpu_SUFFIX s"
  "cpu_L (bli_CPD s) = cpu_L s"
  "cpu_IL (bli_CPD s) = cpu_IL s"
  "cpu_ADL (bli_CPD s) = cpu_ADL s"
  "cpu_MADL (bli_CPD s) = cpu_MADL s"
  "cpu_IEF1 (bli_CPD s) = cpu_IEF1 s"
  "cpu_IEF2 (bli_CPD s) = cpu_IEF2 s"
  "cpu_IEF_wait (bli_CPD s) = cpu_IEF_wait s"
  "cpu_IM (bli_CPD s) = cpu_IM s"
  "cpu_halted (bli_CPD s) = cpu_halted s"
  "cycle_count_delta (bli_CPD s) = cycle_count_delta s"
  "cycle_offset (bli_CPD s) = cycle_offset s"
  "cpu_events (bli_CPD s) = cpu_events s"
  "exiting (bli_CPD s) = exiting s"
  "port_in (bli_CPD s) = port_in s"
  "intrpt_pending (bli_CPD s) = intrpt_pending s"
  by (simp_all add: bli_CPD_def Let_def split_beta)

lemma bli_CPD_obs [simp]:
  "cpu_address_mode a' m' (bli_CPD s) = cpu_address_mode a' m' s"
  "stack_hl (bli_CPD s) = stack_hl s"
  "cpu_read_sp (bli_CPD s) = cpu_read_sp s"
  "cpu_read_in p' (bli_CPD s) = cpu_read_in p' s"
  by (simp_all add: cpu_address_mode_def flags_C_def flags_N_def flags_PV_def flags_H_def flags_Z_def flags_S_def r_B_def r_C_def r_D_def r_E_def r_PCL_def r_PCH_def r_PCU_def r_AF_def stack_hl_def cpu_read_sp_def index_hl_def cpu_read_index_def cpu_read_index_low_def cpu_read_index_high_def cpu_read_other_index_def memory_read_byte_def cpu_read_byte_def cpu_read_word_def cpu_read_in_def port_read_byte_def)

lemma bli_IND_frame [simp]:
  "r_A (bli_IND s) = r_A s"
  "r_HL' (bli_IND s) = r_HL' s"
  "r_IX (bli_IND s) = r_IX s"
  "r_IY (bli_IND s) = r_IY s"
  "r_AF' (bli_IND s) = r_AF' s"
  "r_BC' (bli_IND s) = r_BC' s"
  "r_DE' (bli_IND s) = r_DE' s"
  "r_SPS (bli_IND s) = r_SPS s"
  "r_SPL (bli_IND s) = r_SPL s"
  "r_I (bli_IND s) = r_I s"
  "r_R (bli_IND s) = r_R s"
  "r_MBASE (bli_IND s) = r_MBASE s"
  "cpu_PREFIX (bli_IND s) = cpu_PREFIX s"
  "cpu_SUFFIX (bli_IND s) = cpu_SUFFIX s"
  "cpu_L (bli_IND s) = cpu_L s"
  "cpu_IL (bli_IND s) = cpu_IL s"
  "cpu_ADL (bli_IND s) = cpu_ADL s"
  "cpu_MADL (bli_IND s) = cpu_MADL s"
  "cpu_IEF1 (bli_IND s) = cpu_IEF1 s"
  "cpu_IEF2 (bli_IND s) = cpu_IEF2 s"
  "cpu_IEF_wait (bli_IND s) = cpu_IEF_wait s"
  "cpu_IM (bli_IND s) = cpu_IM s"
  "cpu_halted (bli_IND s) = cpu_halted s"
  "cycle_count_delta (bli_IND s) = cycle_count_delta s"
  "cycle_offset (bli_IND s) = cycle_offset s"
  "cpu_events (bli_IND s) = cpu_events s"
  "exiting (bli_IND s) = exiting s"
  "port_in (bli_IND s) = port_in s"
  "intrpt_pending (bli_IND s) = intrpt_pending s"
  by (simp_all add: bli_IND_def Let_def split_beta)

lemma bli_IND_obs [simp]:
  "cpu_address_mode a' m' (bli_IND s) = cpu_address_mode a' m' s"
  "stack_hl (bli_IND s) = stack_hl s"
  "cpu_read_sp (bli_IND s) = cpu_read_sp s"
  "cpu_read_in p' (bli_IND s) = cpu_read_in p' s"
  by (simp_all add: cpu_address_mode_def flags_C_def flags_N_def flags_PV_def flags_H_def flags_Z_def flags_S_def r_B_def r_C_def r_D_def r_E_def r_PCL_def r_PCH_def r_PCU_def r_AF_def stack_hl_def cpu_read_sp_def index_hl_def cpu_read_index_def cpu_read_index_low_def cpu_read_index_high_def cpu_read_other_index_def memory_read_byte_def cpu_read_byte_def cpu_read_word_def cpu_read_in_def port_read_byte_def)

lemma bli_OUTD_frame [simp]:
  "r_A (bli_OUTD s) = r_A s"
  "r_HL' (bli_OUTD s) = r_HL' s"
  "r_IX (bli_OUTD s) = r_IX s"
  "r_IY (bli_OUTD s) = r_IY s"
  "r_AF' (bli_OUTD s) = r_AF' s"
  "r_BC' (bli_OUTD s) = r_BC' s"
  "r_DE' (bli_OUTD s) = r_DE' s"
  "r_SPS (bli_OUTD s) = r_SPS s"
  "r_SPL (bli_OUTD s) = r_SPL s"
  "r_I (bli_OUTD s) = r_I s"
  "r_R (bli_OUTD s) = r_R s"
  "r_MBASE (bli_OUTD s) = r_MBASE s"
  "cpu_PREFIX (bli_OUTD s) = cpu_PREFIX s"
  "cpu_SUFFIX (bli_OUTD s) = cpu_SUFFIX s"
  "cpu_L (bli_OUTD s) = cpu_L s"
  "cpu_IL (bli_OUTD s) = cpu_IL s"
  "cpu_ADL (bli_OUTD s) = cpu_ADL s"
  "cpu_MADL (bli_OUTD s) = cpu_MADL s"
  "cpu_IEF1 (bli_OUTD s) = cpu_IEF1 s"
  "cpu_IEF2 (bli_OUTD s) = cpu_IEF2 s"
  "cpu_IEF_wait (bli_OUTD s) = cpu_IEF_wait s"
  "cpu_IM (bli_OUTD s) = cpu_IM s"
  "cpu_halted (bli_OUTD s) = cpu_halted s"
  "cycle_count_delta (bli_OUTD s) = cycle_count_delta s"
  "cycle_offset (bli_OUTD s) = cycle_offset s"
  "cpu_events (bli_OUTD s) = cpu_events s"
  "exiting (bli_OUTD s) = exiting s"
  "port_in (bli_OUTD s) = port_in s"
  "intrpt_pending (bli_OUTD s) = intrpt_pending s"
  by (simp_all add: bli_OUTD_def Let_def split_beta)

lemma bli_OUTD_obs [simp]:
  "cpu_address_mode a' m' (bli_OUTD s) = cpu_address_mode a' m' s"
  "stack_hl (bli_OUTD s) = stack_hl s"
  "cpu_read_sp (bli_OUTD s) = cpu_read_sp s"
  "cpu_read_in p' (bli_OUTD s) = cpu_read_in p' s"
  by (simp_all add: cpu_address_mode_def flags_C_def flags_N_def flags_PV_def flags_H_def flags_Z_def flags_S_def r_B_def r_C_def r_D_def r_E_def r_PCL_def r_PCH_def r_PCU_def r_AF_def stack_hl_def cpu_read_sp_def index_hl_def cpu_read_index_def cpu_read_index_low_def cpu_read_index_high_def cpu_read_other_index_def memory_read_byte_def cpu_read_byte_def cpu_read_word_def cpu_read_in_def port_read_byte_def)

lemma bli_OUTD2_frame [simp]:
  "r_A (bli_OUTD2 s) = r_A s"
  "r_HL' (bli_OUTD2 s) = r_HL' s"
  "r_IX (bli_OUTD2 s) = r_IX s"
  "r_IY (bli_OUTD2 s) = r_IY s"
  "r_AF' (bli_OUTD2 s) = r_AF' s"
  "r_BC' (bli_OUTD2 s) = r_BC' s"
  "r_DE' (bli_OUTD2 s) = r_DE' s"
  "r_SPS (bli_OUTD2 s) = r_SPS s"
  "r_SPL (bli_OUTD2 s) = r_SPL s"
  "r_I (bli_OUTD2 s) = r_I s"
  "r_R (bli_OUTD2 s) = r_R s"
  "r_MBASE (bli_OUTD2 s) = r_MBASE s"
  "cpu_PREFIX (bli_OUTD2 s) = cpu_PREFIX s"
  "cpu_SUFFIX (bli_OUTD2 s) = cpu_SUFFIX s"
  "cpu_L (bli_OUTD2 s) = cpu_L s"
  "cpu_IL (bli_OUTD2 s) = cpu_IL s"
  "cpu_ADL (bli_OUTD2 s) = cpu_ADL s"
  "cpu_MADL (bli_OUTD2 s) = cpu_MADL s"
  "cpu_IEF1 (bli_OUTD2 s) = cpu_IEF1 s"
  "cpu_IEF2 (bli_OUTD2 s) = cpu_IEF2 s"
  "cpu_IEF_wait (bli_OUTD2 s) = cpu_IEF_wait s"
  "cpu_IM (bli_OUTD2 s) = cpu_IM s"
  "cpu_halted (bli_OUTD2 s) = cpu_halted s"
  "cycle_count_delta (bli_OUTD2 s) = cycle_count_delta s"
  "cycle_offset (bli_OUTD2 s) = cycle_offset s"
  "cpu_events (bli_OUTD2 s) = cpu_events s"
  "exiting (bli_OUTD2 s) = exiting s"
  "port_in (bli_OUTD2 s) = port_in s"
  "intrpt_pending (bli_OUTD2 s) = intrpt_pending s"
  by (simp_all add: bli_OUTD2_def Let_def split_beta)

lemma bli_OUTD2_obs [simp]:
  "cpu_address_mode a' m' (bli_OUTD2 s) = cpu_address_mode a' m' s"
  "stack_hl (bli_OUTD2 s) = stack_hl s"
  "cpu_read_sp (bli_OUTD2 s) = cpu_read_sp s"
  "cpu_read_in p' (bli_OUTD2 s) = cpu_read_in p' s"
  by (simp_all add: cpu_address_mode_def flags_C_def flags_N_def flags_PV_def flags_H_def flags_Z_def flags_S_def r_B_def r_C_def r_D_def r_E_def r_PCL_def r_PCH_def r_PCU_def r_AF_def stack_hl_def cpu_read_sp_def index_hl_def cpu_read_index_def cpu_read_index_low_def cpu_read_index_high_def cpu_read_other_index_def memory_read_byte_def cpu_read_byte_def cpu_read_word_def cpu_read_in_def port_read_byte_def)

lemma bli_LDIR_frame [simp]:
  "r_A (bli_LDIR s) = r_A s"
  "r_HL' (bli_LDIR s) = r_HL' s"
  "r_IX (bli_LDIR s) = r_IX s"
  "r_IY (bli_LDIR s) = r_IY s"
  "r_AF' (bli_LDIR s) = r_AF' s"
  "r_BC' (bli_LDIR s) = r_BC' s"
  "r_DE' (bli_LDIR s) = r_DE' s"
  "r_SPS (bli_LDIR s) = r_SPS s"
  "r_SPL (bli_LDIR s) = r_SPL s"
  "r_I (bli_LDIR s) = r_I s"
  "r_R (bli_LDIR s) = r_R s"
  "r_MBASE (bli_LDIR s) = r_MBASE s"
  "cpu_PREFIX (bli_LDIR s) = cpu_PREFIX s"
  "cpu_SUFFIX (bli_LDIR s) = cpu_SUFFIX s"
  "cpu_L (bli_LDIR s) = cpu_L s"
  "cpu_IL (bli_LDIR s) = cpu_IL s"
  "cpu_ADL (bli_LDIR s) = cpu_ADL s"
  "cpu_MADL (bli_LDIR s) = cpu_MADL s"
  "cpu_IEF1 (bli_LDIR s) = cpu_IEF1 s"
  "cpu_IEF2 (bli_LDIR s) = cpu_IEF2 s"
  "cpu_IEF_wait (bli_LDIR s) = cpu_IEF_wait s"
  "cpu_IM (bli_LDIR s) = cpu_IM s"
  "cpu_halted (bli_LDIR s) = cpu_halted s"
  "cycle_count_delta (bli_LDIR s) = cycle_count_delta s"
  "cycle_offset (bli_LDIR s) = cycle_offset s"
  "cpu_events (bli_LDIR s) = cpu_events s"
  "exiting (bli_LDIR s) = exiting s"
  "port_in (bli_LDIR s) = port_in s"
  "intrpt_pending (bli_LDIR s) = intrpt_pending s"
  by (simp_all add: bli_LDIR_def Let_def split_beta)

lemma bli_LDIR_obs [simp]:
  "cpu_address_mode a' m' (bli_LDIR s) = cpu_address_mode a' m' s"
  "stack_hl (bli_LDIR s) = stack_hl s"
  "cpu_read_sp (bli_LDIR s) = cpu_read_sp s"
  "cpu_read_in p' (bli_LDIR s) = cpu_read_in p' s"
  by (simp_all add: cpu_address_mode_def flags_C_def flags_N_def flags_PV_def flags_H_def flags_Z_def flags_S_def r_B_def r_C_def r_D_def r_E_def r_PCL_def r_PCH_def r_PCU_def r_AF_def stack_hl_def cpu_read_sp_def index_hl_def cpu_read_index_def cpu_read_index_low_def cpu_read_index_high_def cpu_read_other_index_def memory_read_byte_def cpu_read_byte_def cpu_read_word_def cpu_read_in_def port_read_byte_def)

lemma bli_CPIR_frame [simp]:
  "r_A (bli_CPIR s) = r_A s"
  "r_HL' (bli_CPIR s) = r_HL' s"
  "r_IX (bli_CPIR s) = r_IX s"
  "r_IY (bli_CPIR s) = r_IY s"
  "r_AF' (bli_CPIR s) = r_AF' s"
  "r_BC' (bli_CPIR s) = r_BC' s"
  "r_DE' (bli_CPIR s) = r_DE' s"
  "r_SPS (bli_CPIR s) = r_SPS s"
  "r_SPL (bli_CPIR s) = r_SPL s"
  "r_I (bli_CPIR s) = r_I s"
  "r_R (bli_CPIR s) = r_R s"
  "r_MBASE (bli_CPIR s) = r_MBASE s"
  "cpu_PREFIX (bli_CPIR s) = cpu_PREFIX s"
  "cpu_SUFFIX (bli_CPIR s) = cpu_SUFFIX s"
  "cpu_L (bli_CPIR s) = cpu_L s"
  "cpu_IL (bli_CPIR s) = cpu_IL s"
  "cpu_ADL (bli_CPIR s) = cpu_ADL s"
  "cpu_MADL (bli_CPIR s) = cpu_MADL s"
  "cpu_IEF1 (bli_CPIR s) = cpu_IEF1 s"
  "cpu_IEF2 (bli_CPIR s) = cpu_IEF2 s"
  "cpu_IEF_wait (bli_CPIR s) = cpu_IEF_wait s"
  "cpu_IM (bli_CPIR s) = cpu_IM s"
  "cpu_halted (bli_CPIR s) = cpu_halted s"
  "cycle_count_delta (bli_CPIR s) = cycle_count_delta s"
  "cycle_offset (bli_CPIR s) = cycle_offset s"
  "cpu_events (bli_CPIR s) = cpu_events s"
  "exiting (bli_CPIR s) = exiting s"
  "port_in (bli_CPIR s) = port_in s"
  "intrpt_pending (bli_CPIR s) = intrpt_pending s"
  by (simp_all add: bli_CPIR_def Let_def split_beta)

lemma bli_CPIR_obs [simp]:
  "cpu_address_mode a' m' (bli_CPIR s) = cpu_address_mode a' m' s"
  "stack_hl (bli_CPIR s) = stack_hl s"
  "cpu_read_sp (bli_CPIR s) = cpu_read_sp s"
  "cpu_read_in p' (bli_CPIR s) = cpu_read_in p' s"
  by (simp_all add: cpu_address_mode_def flags_C_def flags_N_def flags_PV_def flags_H_def flags_Z_def flags_S_def r_B_def r_C_def r_D_def r_E_def r_PCL_def r_PCH_def r_PCU_def r_AF_def stack_hl_def cpu_read_sp_def index_hl_def cpu_read_index_def cpu_read_index_low_def cpu_read_index_high_def cpu_read_other_index_def memory_read_byte_def cpu_read_byte_def cpu_read_word_def cpu_read_in_def port_read_byte_def)

lemma bli_INIR_frame [simp]:
  "r_A (bli_INIR s) = r_A s"
  "r_HL' (bli_INIR s) = r_HL' s"
  "r_IX (bli_INIR s) = r_IX s"
  "r_IY (bli_INIR s) = r_IY s"
  "r_AF' (bli_INIR s) = r_AF' s"
  "r_BC' (bli_INIR s) = r_BC' s"
  "r_DE' (bli_INIR s) = r_DE' s"
  "r_SPS (bli_INIR s) = r_SPS s"
  "r_SPL (bli_INIR s) = r_SPL s"
  "r_I (bli_INIR s) = r_I s"
  "r_R (bli_INIR s) = r_R s"
  "r_MBASE (bli_INIR s) = r_MBASE s"
  "cpu_PREFIX (bli_INIR s) = cpu_PREFIX s"
  "cpu_SUFFIX (bli_INIR s) = cpu_SUFFIX s"
  "cpu_L (bli_INIR s) = cpu_L s"
  "cpu_IL (bli_INIR s) = cpu_IL s"
  "cpu_ADL (bli_INIR s) = cpu_ADL s"
  "cpu_MADL (bli_INIR s) = cpu_MADL s"
  "cpu_IEF1 (bli_INIR s) = cpu_IEF1 s"
  "cpu_IEF2 (bli_INIR s) = cpu_IEF2 s"
  "cpu_IEF_wait (bli_INIR s) = cpu_IEF_wait s"
  "cpu_IM (bli_INIR s) = cpu_IM s"
  "cpu_halted (bli_INIR s) = cpu_halted s"
  "cycle_count_delta (bli_INIR s) = cycle_count_delta s"
  "cycle_offset (bli_INIR s) = cycle_offset s"
  "cpu_events (bli_INIR s) = cpu_events s"
  "exiting (bli_INIR s) = exiting s"
  "port_in (bli_INIR s) = port_in s"
  "intrpt_pending (bli_INIR s) = intrpt_pending s"
  by (simp_all add: bli_INIR_def Let_def split_beta)

lemma bli_INIR_obs [simp]:
  "cpu_address_mode a' m' (bli_INIR s) = cpu_address_mode a' m' s"
  "stack_hl (bli_INIR s) = stack_hl s"
  "cpu_read_sp (bli_INIR s) = cpu_read_sp s"
  "cpu_read_in p' (bli_INIR s) = cpu_read_in p' s"
  by (simp_all add: cpu_address_mode_def flags_C_def flags_N_def flags_PV_def flags_H_def flags_Z_def flags_S_def r_B_def r_C_def r_D_def r_E_def r_PCL_def r_PCH_def r_PCU_def r_AF_def stack_hl_def cpu_read_sp_def index_hl_def cpu_read_index_def cpu_read_index_low_def cpu_read_index_high_def cpu_read_other_index_def memory_read_byte_def cpu_read_byte_def cpu_read_word_def cpu_read_in_def port_read_byte_def)

lemma bli_OTIR_frame [simp]:
  "r_A (bli_OTIR s) = r_A s"
  "r_HL' (bli_OTIR s) = r_HL' s"
  "r_IX (bli_OTIR s) = r_IX s"
  "r_IY (bli_OTIR s) = r_IY s"
  "r_AF' (bli_OTIR s) = r_AF' s"
  "r_BC' (bli_OTIR s) = r_BC' s"
  "r_DE' (bli_OTIR s) = r_DE' s"
  "r_SPS (bli_OTIR s) = r_SPS s"
  "r_SPL (bli_OTIR s) = r_SPL s"
  "r_I (bli_OTIR s) = r_I s"
  "r_R (bli_OTIR s) = r_R s"
  "r_MBASE (bli_OTIR s) = r_MBASE s"
  "cpu_PREFIX (bli_OTIR s) = cpu_PREFIX s"
  "cpu_SUFFIX (bli_OTIR s) = cpu_SUFFIX s"
  "cpu_L (bli_OTIR s) = cpu_L s"
  "cpu_IL (bli_OTIR s) = cpu_IL s"
  "cpu_ADL (bli_OTIR s) = cpu_ADL s"
  "cpu_MADL (bli_OTIR s) = cpu_MADL s"
  "cpu_IEF1 (bli_OTIR s) = cpu_IEF1 s"
  "cpu_IEF2 (bli_OTIR s) = cpu_IEF2 s"
  "cpu_IEF_wait (bli_OTIR s) = cpu_IEF_wait s"
  "cpu_IM (bli_OTIR s) = cpu_IM s"
  "cpu_halted (bli_OTIR s) = cpu_halted s"
  "cycle_count_delta (bli_OTIR s) = cycle_count_delta s"
  "cycle_offset (bli_OTIR s) = cycle_offset s"
  "cpu_events (bli_OTIR s) = cpu_events s"
  "exiting (bli_OTIR s) = exiting s"
  "port_in (bli_OTIR s) = port_in s"
  "intrpt_pending (bli_OTIR s) = intrpt_pending s"
  by (simp_all add: bli_OTIR_def Let_def split_beta)

lemma bli_OTIR_obs [simp]:
  "cpu_address_mode a' m' (bli_OTIR s) = cpu_address_mode a' m' s"
  "stack_hl (bli_OTIR s) = stack_hl s"
  "cpu_read_sp (bli_OTIR s) = cpu_read_sp s"
  "cpu_read_in p' (bli_OTIR s) = cpu_read_in p' s"
  by (simp_all add: cpu_address_mode_def flags_C_def flags_N_def flags_PV_def flags_H_def flags_Z_def flags_S_def r_B_def r_C_def r_D_def r_E_def r_PCL_def r_PCH_def r_PCU_def r_AF_def stack_hl_def cpu_read_sp_def index_hl_def cpu_read_index_def cpu_read_index_low_def cpu_read_index_high_def cpu_read_other_index_def memory_read_byte_def cpu_read_byte_def cpu_read_word_def cpu_read_in_def port_read_byte_def)

lemma bli_OTI2R_frame [simp]:
  "r_A (bli_OTI2R s) = r_A s"
  "r_HL' (bli_OTI2R s) = r_HL' s"
  "r_IX (bli_OTI2R s) = r_IX s"
  "r_IY (bli_OTI2R s) = r_IY s"
  "r_AF' (bli_OTI2R s) = r_AF' s"
  "r_BC' (bli_OTI2R s) = r_BC' s"
  "r_DE' (bli_OTI2R s) = r_DE' s"
  "r_SPS (bli_OTI2R s) = r_SPS s"
  "r_SPL (bli_OTI2R s) = r_SPL s"
  "r_I (bli_OTI2R s) = r_I s"
  "r_R (bli_OTI2R s) = r_R s"
  "r_MBASE (bli_OTI2R s) = r_MBASE s"
  "cpu_PREFIX (bli_OTI2R s) = cpu_PREFIX s"
  "cpu_SUFFIX (bli_OTI2R s) = cpu_SUFFIX s"
  "cpu_L (bli_OTI2R s) = cpu_L s"
  "cpu_IL (bli_OTI2R s) = cpu_IL s"
  "cpu_ADL (bli_OTI2R s) = cpu_ADL s"
  "cpu_MADL (bli_OTI2R s) = cpu_MADL s"
  "cpu_IEF1 (bli_OTI2R s) = cpu_IEF1 s"
  "cpu_IEF2 (bli_OTI2R s) = cpu_IEF2 s"
  "cpu_IEF_wait (bli_OTI2R s) = cpu_IEF_wait s"
  "cpu_IM (bli_OTI2R s) = cpu_IM s"
  "cpu_halted (bli_OTI2R s) = cpu_halted s"
  "cycle_count_delta (bli_OTI2R s) = cycle_count_delta s"
  "cycle_offset (bli_OTI2R s) = cycle_offset s"
  "cpu_events (bli_OTI2R s) = cpu_events s"
  "exiting (bli_OTI2R s) = exiting s"
  "port_in (bli_OTI2R s) = port_in s"
  "intrpt_pending (bli_OTI2R s) = intrpt_pending s"
  by (simp_all add: bli_OTI2R_def Let_def split_beta)

lemma bli_OTI2R_obs [simp]:
  "cpu_address_mode a' m' (bli_OTI2R s) = cpu_address_mode a' m' s"
  "stack_hl (bli_OTI2R s) = stack_hl s"
  "cpu_read_sp (bli_OTI2R s) = cpu_read_sp s"
  "cpu_read_in p' (bli_OTI2R s) = cpu_read_in p' s"
  by (simp_all add: cpu_address_mode_def flags_C_def flags_N_def flags_PV_def flags_H_def flags_Z_def flags_S_def r_B_def r_C_def r_D_def r_E_def r_PCL_def r_PCH_def r_PCU_def r_AF_def stack_hl_def cpu_read_sp_def index_hl_def cpu_read_index_def cpu_read_index_low_def cpu_read_index_high_def cpu_read_other_index_def memory_read_byte_def cpu_read_byte_def cpu_read_word_def cpu_read_in_def port_read_byte_def)

lemma bli_LDDR_frame [simp]:
  "r_A (bli_LDDR s) = r_A s"
  "r_HL' (bli_LDDR s) = r_HL' s"
  "r_IX (bli_LDDR s) = r_IX s"
  "r_IY (bli_LDDR s) = r_IY s"
  "r_AF' (bli_LDDR s) = r_AF' s"
  "r_BC' (bli_LDDR s) = r_BC' s"
  "r_DE' (bli_LDDR s) = r_DE' s"
  "r_SPS (bli_LDDR s) = r_SPS s"
  "r_SPL (bli_LDDR s) = r_SPL s"
  "r_I (bli_LDDR s) = r_I s"
  "r_R (bli_LDDR s) = r_R s"
  "r_MBASE (bli_LDDR s) = r_MBASE s"
  "cpu_PREFIX (bli_LDDR s) = cpu_PREFIX s"
  "cpu_SUFFIX (bli_LDDR s) = cpu_SUFFIX s"
  "cpu_L (bli_LDDR s) = cpu_L s"
  "cpu_IL (bli_LDDR s) = cpu_IL s"
  "cpu_ADL (bli_LDDR s) = cpu_ADL s"
  "cpu_MADL (bli_LDDR s) = cpu_MADL s"
  "cpu_IEF1 (bli_LDDR s) = cpu_IEF1 s"
  "cpu_IEF2 (bli_LDDR s) = cpu_IEF2 s"
  "cpu_IEF_wait (bli_LDDR s) = cpu_IEF_wait s"
  "cpu_IM (bli_LDDR s) = cpu_IM s"
  "cpu_halted (bli_LDDR s) = cpu_halted s"
  "cycle_count_delta (bli_LDDR s) = cycle_count_delta s"
  "cycle_offset (bli_LDDR s) = cycle_offset s"
  "cpu_events (bli_LDDR s) = cpu_events s"
  "exiting (bli_LDDR s) = exiting s"
  "port_in (bli_LDDR s) = port_in s"
  "intrpt_pending (bli_LDDR s) = intrpt_pending s"
  by (simp_all add: bli_LDDR_def Let_def split_beta)

lemma bli_LDDR_obs [simp]:
  "cpu_address_mode a' m' (bli_LDDR s) = cpu_address_mode a' m' s"
  "stack_hl (bli_LDDR s) = stack_hl s"
  "cpu_read_sp (bli_LDDR s) = cpu_read_sp s"
  "cpu_read_in p' (bli_LDDR s) = cpu_read_in p' s"
  by (simp_all add: cpu_address_mode_def flags_C_def flags_N_def flags_PV_def flags_H_def flags_Z_def flags_S_def r_B_def r_C_def r_D_def r_E_def r_PCL_def r_PCH_def r_PCU_def r_AF_def stack_hl_def cpu_read_sp_def index_hl_def cpu_read_index_def cpu_read_index_low_def cpu_read_index_high_def cpu_read_other_index_def memory_read_byte_def cpu_read_byte_def cpu_read_word_def cpu_read_in_def port_read_byte_def)

lemma bli_CPDR_frame [simp]:
  "r_A (bli_CPDR s) = r_A s"
  "r_HL' (bli_CPDR s) = r_HL' s"
  "r_IX (bli_CPDR s) = r_IX s"
  "r_IY (bli_CPDR s) = r_IY s"
  "r_AF' (bli_CPDR s) = r_AF' s"
  "r_BC' (bli_CPDR s) = r_BC' s"
  "r_DE' (bli_CPDR s) = r_DE' s"
  "r_SPS (bli_CPDR s) = r_SPS s"
  "r_SPL (bli_CPDR s) = r_SPL s"
  "r_I (bli_CPDR s) = r_I s"
  "r_R (bli_CPDR s) = r_R s"
  "r_MBASE (bli_CPDR s) = r_MBASE s"
  "cpu_PREFIX (bli_CPDR s) = cpu_PREFIX s"
  "cpu_SUFFIX (bli_CPDR s) = cpu_SUFFIX s"
  "cpu_L (bli_CPDR s) = cpu_L s"
  "cpu_IL (bli_CPDR s) = cpu_IL s"
  "cpu_ADL (bli_CPDR s) = cpu_ADL s"
  "cpu_MADL (bli_CPDR s) = cpu_MADL s"
  "cpu_IEF1 (bli_CPDR s) = cpu_IEF1 s"
  "cpu_IEF2 (bli_CPDR s) = cpu_IEF2 s"
  "cpu_IEF_wait (bli_CPDR s) = cpu_IEF_wait s"
  "cpu_IM (bli_CPDR s) = cpu_IM s"
  "cpu_halted (bli_CPDR s) = cpu_halted s"
  "cycle_count_delta (bli_CPDR s) = cycle_count_delta s"
  "cycle_offset (bli_CPDR s) = cycle_offset s"
  "cpu_events (bli_CPDR s) = cpu_events s"
  "exiting (bli_CPDR s) = exiting s"
  "port_in (bli_CPDR s) = port_in s"
  "intrpt_pending (bli_CPDR s) = intrpt_pending s"
  by (simp_all add: bli_CPDR_def Let_def split_beta)

lemma bli_CPDR_obs [simp]:
  "cpu_address_mode a' m' (bli_CPDR s) = cpu_address_mode a' m' s"
  "stack_hl (bli_CPDR s) = stack_hl s"
  "cpu_read_sp (bli_CPDR s) = cpu_read_sp s"
  "cpu_read_in p' (bli_CPDR s) = cpu_read_in p' s"
  by (simp_all add: cpu_address_mode_def flags_C_def flags_N_def flags_PV_def flags_H_def flags_Z_def flags_S_def r_B_def r_C_def r_D_def r_E_def r_PCL_def r_PCH_def r_PCU_def r_AF_def stack_hl_def cpu_read_sp_def index_hl_def cpu_read_index_def cpu_read_index_low_def cpu_read_index_high_def cpu_read_other_index_def memory_read_byte_def cpu_read_byte_def cpu_read_word_def cpu_read_in_def port_read_byte_def)

lemma bli_INDR_frame [simp]:
  "r_A (bli_INDR s) = r_A s"
  "r_HL' (bli_INDR s) = r_HL' s"
  "r_IX (bli_INDR s) = r_IX s"
  "r_IY (bli_INDR s) = r_IY s"
  "r_AF' (bli_INDR s) = r_AF' s"
  "r_BC' (bli_INDR s) = r_BC' s"
  "r_DE' (bli_INDR s) = r_DE' s"
  "r_SPS (bli_INDR s) = r_SPS s"
  "r_SPL (bli_INDR s) = r_SPL s"
  "r_I (bli_INDR s) = r_I s"
  "r_R (bli_INDR s) = r_R s"
  "r_MBASE (bli_INDR s) = r_MBASE s"
  "cpu_PREFIX (bli_INDR s) = cpu_PREFIX s"
  "cpu_SUFFIX (bli_INDR s) = cpu_SUFFIX s"
  "cpu_L (bli_INDR s) = cpu_L s"
  "cpu_IL (bli_INDR s) = cpu_IL s"
  "cpu_ADL (bli_INDR s) = cpu_ADL s"
  "cpu_MADL (bli_INDR s) = cpu_MADL s"
  "cpu_IEF1 (bli_INDR s) = cpu_IEF1 s"
  "cpu_IEF2 (bli_INDR s) = cpu_IEF2 s"
  "cpu_IEF_wait (bli_INDR s) = cpu_IEF_wait s"
  "cpu_IM (bli_INDR s) = cpu_IM s"
  "cpu_halted (bli_INDR s) = cpu_halted s"
  "cycle_count_delta (bli_INDR s) = cycle_count_delta s"
  "cycle_offset (bli_INDR s) = cycle_offset s"
  "cpu_events (bli_INDR s) = cpu_events s"
  "exiting (bli_INDR s) = exiting s"
  "port_in (bli_INDR s) = port_in s"
  "intrpt_pending (bli_INDR s) = intrpt_pending s"
  by (simp_all add: bli_INDR_def Let_def split_beta)

lemma bli_INDR_obs [simp]:
  "cpu_address_mode a' m' (bli_INDR s) = cpu_address_mode a' m' s"
  "stack_hl (bli_INDR s) = stack_hl s"
  "cpu_read_sp (bli_INDR s) = cpu_read_sp s"
  "cpu_read_in p' (bli_INDR s) = cpu_read_in p' s"
  by (simp_all add: cpu_address_mode_def flags_C_def flags_N_def flags_PV_def flags_H_def flags_Z_def flags_S_def r_B_def r_C_def r_D_def r_E_def r_PCL_def r_PCH_def r_PCU_def r_AF_def stack_hl_def cpu_read_sp_def index_hl_def cpu_read_index_def cpu_read_index_low_def cpu_read_index_high_def cpu_read_other_index_def memory_read_byte_def cpu_read_byte_def cpu_read_word_def cpu_read_in_def port_read_byte_def)

lemma bli_OTDR_frame [simp]:
  "r_A (bli_OTDR s) = r_A s"
  "r_HL' (bli_OTDR s) = r_HL' s"
  "r_IX (bli_OTDR s) = r_IX s"
  "r_IY (bli_OTDR s) = r_IY s"
  "r_AF' (bli_OTDR s) = r_AF' s"
  "r_BC' (bli_OTDR s) = r_BC' s"
  "r_DE' (bli_OTDR s) = r_DE' s"
  "r_SPS (bli_OTDR s) = r_SPS s"
  "r_SPL (bli_OTDR s) = r_SPL s"
  "r_I (bli_OTDR s) = r_I s"
  "r_R (bli_OTDR s) = r_R s"
  "r_MBASE (bli_OTDR s) = r_MBASE s"
  "cpu_PREFIX (bli_OTDR s) = cpu_PREFIX s"
  "cpu_SUFFIX (bli_OTDR s) = cpu_SUFFIX s"
  "cpu_L (bli_OTDR s) = cpu_L s"
  "cpu_IL (bli_OTDR s) = cpu_IL s"
  "cpu_ADL (bli_OTDR s) = cpu_ADL s"
  "cpu_MADL (bli_OTDR s) = cpu_MADL s"
  "cpu_IEF1 (bli_OTDR s) = cpu_IEF1 s"
  "cpu_IEF2 (bli_OTDR s) = cpu_IEF2 s"
  "cpu_IEF_wait (bli_OTDR s) = cpu_IEF_wait s"
  "cpu_IM (bli_OTDR s) = cpu_IM s"
  "cpu_halted (bli_OTDR s) = cpu_halted s"
  "cycle_count_delta (bli_OTDR s) = cycle_count_delta s"
  "cycle_offset (bli_OTDR s) = cycle_offset s"
  "cpu_events (bli_OTDR s) = cpu_events s"
  "exiting (bli_OTDR s) = exiting s"
  "port_in (bli_OTDR s) = port_in s"
  "intrpt_pending (bli_OTDR s) = intrpt_pending s"
  by (simp_all add: bli_OTDR_def Let_def split_beta)

lemma bli_OTDR_obs [simp]:
  "cpu_address_mode a' m' (bli_OTDR s) = cpu_address_mode a' m' s"
  "stack_hl (bli_OTDR s) = stack_hl s"
  "cpu_read_sp (bli_OTDR s) = cpu_read_sp s"
  "cpu_read_in p' (bli_OTDR s) = cpu_read_in p' s"
  by (simp_all add: cpu_address_mode_def flags_C_def flags_N_def flags_PV_def flags_H_def flags_Z_def flags_S_def r_B_def r_C_def r_D_def r_E_def r_PCL_def r_PCH_def r_PCU_def r_AF_def stack_hl_def cpu_read_sp_def index_hl_def cpu_read_index_def cpu_read_index_low_def cpu_read_index_high_def cpu_read_other_index_def memory_read_byte_def cpu_read_byte_def cpu_read_word_def cpu_read_in_def port_read_byte_def)

lemma bli_OTD2R_frame [simp]:
  "r_A (bli_OTD2R s) = r_A s"
  "r_HL' (bli_OTD2R s) = r_HL' s"
  "r_IX (bli_OTD2R s) = r_IX s"
  "r_IY (bli_OTD2R s) = r_IY s"
  "r_AF' (bli_OTD2R s) = r_AF' s"
  "r_BC' (bli_OTD2R s) = r_BC' s"
  "r_DE' (bli_OTD2R s) = r_DE' s"
  "r_SPS (bli_OTD2R s) = r_SPS s"
  "r_SPL (bli_OTD2R s) = r_SPL s"
  "r_I (bli_OTD2R s) = r_I s"
  "r_R (bli_OTD2R s) = r_R s"
  "r_MBASE (bli_OTD2R s) = r_MBASE s"
  "cpu_PREFIX (bli_OTD2R s) = cpu_PREFIX s"
  "cpu_SUFFIX (bli_OTD2R s) = cpu_SUFFIX s"
  "cpu_L (bli_OTD2R s) = cpu_L s"
  "cpu_IL (bli_OTD2R s) = cpu_IL s"
  "cpu_ADL (bli_OTD2R s) = cpu_ADL s"
  "cpu_MADL (bli_OTD2R s) = cpu_MADL s"
  "cpu_IEF1 (bli_OTD2R s) = cpu_IEF1 s"
  "cpu_IEF2 (bli_OTD2R s) = cpu_IEF2 s"
  "cpu_IEF_wait (bli_OTD2R s) = cpu_IEF_wait s"
  "cpu_IM (bli_OTD2R s) = cpu_IM s"
  "cpu_halted (bli_OTD2R s) = cpu_halted s"
  "cycle_count_delta (bli_OTD2R s) = cycle_count_delta s"
  "cycle_offset (bli_OTD2R s) = cycle_offset s"
  "cpu_events (bli_OTD2R s) = cpu_events s"
  "exiting (bli_OTD2R s) = exiting s"
  "port_in (bli_OTD2R s) = port_in s"
  "intrpt_pending (bli_OTD2R s) = intrpt_pending s"
  by (simp_all add: bli_OTD2R_def Let_def split_beta)

lemma bli_OTD2R_obs [simp]:
  "cpu_address_mode a' m' (bli_OTD2R s) = cpu_address_mode a' m' s"
  "stack_hl (bli_OTD2R s) = stack_hl s"
  "cpu_read_sp (bli_OTD2R s) = cpu_read_sp s"
  "cpu_read_in p' (bli_OTD2R s) = cpu_read_in p' s"
  by (simp_all add: cpu_address_mode_def flags_C_def flags_N_def flags_PV_def flags_H_def flags_Z_def flags_S_def r_B_def r_C_def r_D_def r_E_def r_PCL_def r_PCH_def r_PCU_def r_AF_def stack_hl_def cpu_read_sp_def index_hl_def cpu_read_index_def cpu_read_index_low_def cpu_read_index_high_def cpu_read_other_index_def memory_read_byte_def cpu_read_byte_def cpu_read_word_def cpu_read_in_def port_read_byte_def)

lemma cpu_execute_bli_frame [simp]:
  "r_A (cpu_execute_bli y z s) = r_A s"
  "r_HL' (cpu_execute_bli y z s) = r_HL' s"
  "r_IX (cpu_execute_bli y z s) = r_IX s"
  "r_IY (cpu_execute_bli y z s) = r_IY s"
  "r_AF' (cpu_execute_bli y z s) = r_AF' s"
  "r_BC' (cpu_execute_bli y z s) = r_BC' s"
  "r_DE' (cpu_execute_bli y z s) = r_DE' s"
  "r_SPS (cpu_execute_bli y z s) = r_SPS s"
  "r_SPL (cpu_execute_bli y z s) = r_SPL s"
  "r_I (cpu_execute_bli y z s) = r_I s"
  "r_R (cpu_execute_bli y z s) = r_R s"
  "r_MBASE (cpu_execute_bli y z s) = r_MBASE s"
  "cpu_PREFIX (cpu_execute_bli y z s) = cpu_PREFIX s"
  "cpu_SUFFIX (cpu_execute_bli y z s) = cpu_SUFFIX s"
  "cpu_L (cpu_execute_bli y z s) = cpu_L s"
  "cpu_IL (cpu_execute_bli y z s) = cpu_IL s"
  "cpu_ADL (cpu_execute_bli y z s) = cpu_ADL s"
  "cpu_MADL (cpu_execute_bli y z s) = cpu_MADL s"
  "cpu_IEF1 (cpu_execute_bli y z s) = cpu_IEF1 s"
  "cpu_IEF2 (cpu_execute_bli y z s) = cpu_IEF2 s"
  "cpu_IEF_wait (cpu_execute_bli y z s) = cpu_IEF_wait s"
  "cpu_IM (cpu_execute_bli y z s) = cpu_IM s"
  "cpu_halted (cpu_execute_bli y z s) = cpu_halted s"
  "cycle_count_delta (cpu_execute_bli y z s) = cycle_count_delta s"
  "cycle_offset (cpu_execute_bli y z s) = cycle_offset s"
  "cpu_events (cpu_execute_bli y z s) = cpu_events s"
  "exiting (cpu_execute_bli y z s) = exiting s"
  "port_in (cpu_execute_bli y z s) = port_in s"
  "intrpt_pending (cpu_execute_bli y z s) = intrpt_pending s"
  by (simp_all add: cpu_execute_bli_def Let_def split_beta)

lemma cpu_execute_bli_obs [simp]:
  "cpu_address_mode a' m' (cpu_execute_bli y z s) = cpu_address_mode a' m' s"
  "stack_hl (cpu_execute_bli y z s) = stack_hl s"
  "cpu_read_sp (cpu_execute_bli y z s) = cpu_read_sp s"
  "cpu_read_in p' (cpu_execute_bli y z s) = cpu_read_in p' s"
  by (simp_all add: cpu_address_mode_def flags_C_def flags_N_def flags_PV_def flags_H_def flags_Z_def flags_S_def r_B_def r_C_def r_D_def r_E_def r_PCL_def r_PCH_def r_PCU_def r_AF_def stack_hl_def cpu_read_sp_def index_hl_def cpu_read_index_def cpu_read_index_low_def cpu_read_index_high_def cpu_read_other_index_def memory_read_byte_def cpu_read_byte_def cpu_read_word_def cpu_read_in_def port_read_byte_def)

lemma opcode_trap_frame [simp]:
  "r_A (opcode_trap s) = r_A s"
  "r_F (opcode_trap s) = r_F s"
  "r_BC (opcode_trap s) = r_BC s"
  "r_DE (opcode_trap s) = r_DE s"
  "r_HL (opcode_trap s) = r_HL s"
  "r_HL' (opcode_trap s) = r_HL' s"
  "r_IX (opcode_trap s) = r_IX s"
  "r_IY (opcode_trap s) = r_IY s"
  "r_AF' (opcode_trap s) = r_AF' s"
  "r_BC' (opcode_trap s) = r_BC' s"
  "r_DE' (opcode_trap s) = r_DE' s"
  "r_SPS (opcode_trap s) = r_SPS s"
  "r_SPL (opcode_trap s) = r_SPL s"
  "r_PC (opcode_trap s) = r_PC s"
  "r_I (opcode_trap s) = r_I s"
  "r_R (opcode_trap s) = r_R s"
  "r_MBASE (opcode_trap s) = r_MBASE s"
  "cpu_prefetch_byte (opcode_trap s) = cpu_prefetch_byte s"
  "cpu_PREFIX (opcode_trap s) = cpu_PREFIX s"
  "cpu_SUFFIX (opcode_trap s) = cpu_SUFFIX s"
  "cpu_L (opcode_trap s) = cpu_L s"
  "cpu_IL (opcode_trap s) = cpu_IL s"
  "cpu_ADL (opcode_trap s) = cpu_ADL s"
  "cpu_MADL (opcode_trap s) = cpu_MADL s"
  "cpu_IEF1 (opcode_trap s) = cpu_IEF1 s"
  "cpu_IEF2 (opcode_trap s) = cpu_IEF2 s"
  "cpu_IM (opcode_trap s) = cpu_IM s"
  "cpu_halted (opcode_trap s) = cpu_halted s"
  "cpu_cycles (opcode_trap s) = cpu_cycles s"
  "cycle_count_delta (opcode_trap s) = cycle_count_delta s"
  "cycle_offset (opcode_trap s) = cycle_offset s"
  "cpu_events (opcode_trap s) = cpu_events s"
  "exiting (opcode_trap s) = exiting s"
  "memory (opcode_trap s) = memory s"
  "mem_writes (opcode_trap s) = mem_writes s"
  "port_in (opcode_trap s) = port_in s"
  "port_writes (opcode_trap s) = port_writes s"
  "intrpt_pending (opcode_trap s) = intrpt_pending s"
  by (simp_all add: opcode_trap_def Let_def split_beta)

lemma opcode_trap_obs [simp]:
  "cpu_address_mode a' m' (opcode_trap s) = cpu_address_mode a' m' s"
  "flags_C (opcode_trap s) = flags_C s"
  "flags_N (opcode_trap s) = flags_N s"
  "flags_PV (opcode_trap s) = flags_PV s"
  "flags_H (opcode_trap s) = flags_H s"
  "flags_Z (opcode_trap s) = flags_Z s"
  "flags_S (opcode_trap s) = flags_S s"
  "r_B (opcode_trap s) = r_B s"
  "r_C (opcode_trap s) = r_C s"
  "r_D (opcode_trap s) = r_D s"
  "r_E (opcode_trap s) = r_E s"
  "r_PCL (opcode_trap s) = r_PCL s"
  "r_PCH (opcode_trap s) = r_PCH s"
  "r_PCU (opcode_trap s) = r_PCU s"
  "r_AF (opcode_trap s) = r_AF s"
  "stack_hl (opcode_trap s) = stack_hl s"
  "cpu_read_sp (opcode_trap s) = cpu_read_sp s"
  "index_hl i' (opcode_trap s) = index_hl i' s"
  "cpu_read_index (opcode_trap s) = cpu_read_index s"
  "cpu_read_index_low (opcode_trap s) = cpu_read_index_low s"
  "cpu_read_index_high (opcode_trap s) = cpu_read_index_high s"
  "cpu_read_other_index (opcode_trap s) = cpu_read_other_index s"
  "memory_read_byte a' (opcode_trap s) = memory_read_byte a' s"
  "cpu_read_byte a' (opcode_trap s) = cpu_read_byte a' s"
  "cpu_read_word a' (opcode_trap s) = cpu_read_word a' s"
  "cpu_read_in p' (opcode_trap s) = cpu_read_in p' s"
  by (simp_all add: cpu_address_mode_def flags_C_def flags_N_def flags_PV_def flags_H_def flags_Z_def flags_S_def r_B_def r_C_def r_D_def r_E_def r_PCL_def r_PCH_def r_PCU_def r_AF_def stack_hl_def cpu_read_sp_def index_hl_def cpu_read_index_def cpu_read_index_low_def cpu_read_index_high_def cpu_read_other_index_def memory_read_byte_def cpu_read_byte_def cpu_read_word_def cpu_read_in_def port_read_byte_def)

lemma io_flags_frame [simp]:
  "r_A (io_flags new s) = r_A s"
  "r_BC (io_flags new s) = r_BC s"
  "r_DE (io_flags new s) = r_DE s"
  "r_HL (io_flags new s) = r_HL s"
  "r_HL' (io_flags new s) = r_HL' s"
  "r_IX (io_flags new s) = r_IX s"
  "r_IY (io_flags new s) = r_IY s"
  "r_AF' (io_flags new s) = r_AF' s"
  "r_BC' (io_flags new s) = r_BC' s"
  "r_DE' (io_flags new s) = r_DE' s"
  "r_SPS (io_flags new s) = r_SPS s"
  "r_SPL (io_flags new s) = r_SPL s"
  "r_PC (io_flags new s) = r_PC s"
  "r_I (io_flags new s) = r_I s"
  "r_R (io_flags new s) = r_R s"
  "r_MBASE (io_flags new s) = r_MBASE s"
  "cpu_prefetch_byte (io_flags new s) = cpu_prefetch_byte s"
  "cpu_PREFIX (io_flags new s) = cpu_PREFIX s"
  "cpu_SUFFIX (io_flags new s) = cpu_SUFFIX s"
  "cpu_L (io_flags new s) = cpu_L s"
  "cpu_IL (io_flags new s) = cpu_IL s"
  "cpu_ADL (io_flags new s) = cpu_ADL s"
  "cpu_MADL (io_flags new s) = cpu_MADL s"
  "cpu_IEF1 (io_flags new s) = cpu_IEF1 s"
  "cpu_IEF2 (io_flags new s) = cpu_IEF2 s"
  "cpu_IEF_wait (io_flags new s) = cpu_IEF_wait s"
  "cpu_IM (io_flags new s) = cpu_IM s"
  "cpu_halted (io_flags new s) = cpu_halted s"
  "cpu_cycles (io_flags new s) = cpu_cycles s"
  "cycle_count_delta (io_flags new s) = cycle_count_delta s"
  "cycle_offset (io_flags new s) = cycle_offset s"
  "cpu_events (io_flags new s) = cpu_events s"
  "exiting (io_flags new s) = exiting s"
  "memory (io_flags new s) = memory s"
  "mem_writes (io_flags new s) = mem_writes s"
  "port_in (io_flags new s) = port_in s"
  "port_writes (io_flags new s) = port_writes s"
  "intrpt_pending (io_flags new s) = intrpt_pending s"
  by (simp_all add: io_flags_def Let_def split_beta)

lemma io_flags_obs [simp]:
  "cpu_address_mode a' m' (io_flags new s) = cpu_address_mode a' m' s"
  "r_B (io_flags new s) = r_B s"
  "r_C (io_flags new s) = r_C s"
  "r_D (io_flags new s) = r_D s"
  "r_E (io_flags new s) = r_E s"
  "r_PCL (io_flags new s) = r_PCL s"
  "r_PCH (io_flags new s) = r_PCH s"
  "r_PCU (io_flags new s) = r_PCU s"
  "stack_hl (io_flags new s) = stack_hl s"
  "cpu_read_sp (io_flags new s) = cpu_read_sp s"
  "index_hl i' (io_flags new s) = index_hl i' s"
  "cpu_read_index (io_flags new s) = cpu_read_index s"
  "cpu_read_index_low (io_flags new s) = cpu_read_index_low s"
  "cpu_read_index_high (io_flags new s) = cpu_read_index_high s"
  "cpu_read_other_index (io_flags new s) = cpu_read_other_index s"
  "memory_read_byte a' (io_flags new s) = memory_read_byte a' s"
  "cpu_read_byte a' (io_flags new s) = cpu_read_byte a' s"
  "cpu_read_word a' (io_flags new s) = cpu_read_word a' s"
  "cpu_read_in p' (io_flags new s) = cpu_read_in p' s"
  by (simp_all add: cpu_address_mode_def flags_C_def flags_N_def flags_PV_def flags_H_def flags_Z_def flags_S_def r_B_def r_C_def r_D_def r_E_def r_PCL_def r_PCH_def r_PCU_def r_AF_def stack_hl_def cpu_read_sp_def index_hl_def cpu_read_index_def cpu_read_index_low_def cpu_read_index_high_def cpu_read_other_index_def memory_read_byte_def cpu_read_byte_def cpu_read_word_def cpu_read_in_def port_read_byte_def)

lemma tst_flags_frame [simp]:
  "r_A (tst_flags new s) = r_A s"
  "r_BC (tst_flags new s) = r_BC s"
  "r_DE (tst_flags new s) = r_DE s"
  "r_HL (tst_flags new s) = r_HL s"
  "r_HL' (tst_flags new s) = r_HL' s"
  "r_IX (tst_flags new s) = r_IX s"
  "r_IY (tst_flags new s) = r_IY s"
  "r_AF' (tst_flags new s) = r_AF' s"
  "r_BC' (tst_flags new s) = r_BC' s"
  "r_DE' (tst_flags new s) = r_DE' s"
  "r_SPS (tst_flags new s) = r_SPS s"
  "r_SPL (tst_flags new s) = r_SPL s"
  "r_PC (tst_flags new s) = r_PC s"
  "r_I (tst_flags new s) = r_I s"
  "r_R (tst_flags new s) = r_R s"
  "r_MBASE (tst_flags new s) = r_MBASE s"
  "cpu_prefetch_byte (tst_flags new s) = cpu_prefetch_byte s"
  "cpu_PREFIX (tst_flags new s) = cpu_PREFIX s"
  "cpu_SUFFIX (tst_flags new s) = cpu_SUFFIX s"
  "cpu_L (tst_flags new s) = cpu_L s"
  "cpu_IL (tst_flags new s) = cpu_IL s"
  "cpu_ADL (tst_flags new s) = cpu_ADL s"
  "cpu_MADL (tst_flags new s) = cpu_MADL s"
  "cpu_IEF1 (tst_flags new s) = cpu_IEF1 s"
  "cpu_IEF2 (tst_flags new s) = cpu_IEF2 s"
  "cpu_IEF_wait (tst_flags new s) = cpu_IEF_wait s"
  "cpu_IM (tst_flags new s) = cpu_IM s"
  "cpu_halted (tst_flags new s) = cpu_halted s"
  "cpu_cycles (tst_flags new s) = cpu_cycles s"
  "cycle_count_delta (tst_flags new s) = cycle_count_delta s"
  "cycle_offset (tst_flags new s) = cycle_offset s"
  "cpu_events (tst_flags new s) = cpu_events s"
  "exiting (tst_flags new s) = exiting s"
  "memory (tst_flags new s) = memory s"
  "mem_writes (tst_flags new s) = mem_writes s"
  "port_in (tst_flags new s) = port_in s"
  "port_writes (tst_flags new s) = port_writes s"
  "intrpt_pending (tst_flags new s) = intrpt_pending s"
  by (simp_all add: tst_flags_def Let_def split_beta)

lemma tst_flags_obs [simp]:
  "cpu_address_mode a' m' (tst_flags new s) = cpu_address_mode a' m' s"
  "r_B (tst_flags new s) = r_B s"
  "r_C (tst_flags new s) = r_C s"
  "r_D (tst_flags new s) = r_D s"
  "r_E (tst_flags new s) = r_E s"
  "r_PCL (tst_flags new s) = r_PCL s"
  "r_PCH (tst_flags new s) = r_PCH s"
  "r_PCU (tst_flags new s) = r_PCU s"
  "stack_hl (tst_flags new s) = stack_hl s"
  "cpu_read_sp (tst_flags new s) = cpu_read_sp s"
  "index_hl i' (tst_flags new s) = index_hl i' s"
  "cpu_read_index (tst_flags new s) = cpu_read_index s"
  "cpu_read_index_low (tst_flags new s) = cpu_read_index_low s"
  "cpu_read_index_high (tst_flags new s) = cpu_read_index_high s"
  "cpu_read_other_index (tst_flags new s) = cpu_read_other_index s"
  "memory_read_byte a' (tst_flags new s) = memory_read_byte a' s"
  "cpu_read_byte a' (tst_flags new s) = cpu_read_byte a' s"
  "cpu_read_word a' (tst_flags new s) = cpu_read_word a' s"
  "cpu_read_in p' (tst_flags new s) = cpu_read_in p' s"
  by (simp_all add: cpu_address_mode_def flags_C_def flags_N_def flags_PV_def flags_H_def flags_Z_def flags_S_def r_B_def r_C_def r_D_def r_E_def r_PCL_def r_PCH_def r_PCU_def r_AF_def stack_hl_def cpu_read_sp_def index_hl_def cpu_read_index_def cpu_read_index_low_def cpu_read_index_high_def cpu_read_other_index_def memory_read_byte_def cpu_read_byte_def cpu_read_word_def cpu_read_in_def port_read_byte_def)

lemma ld_a_flags_frame [simp]:
  "r_A (ld_a_flags s) = r_A s"
  "r_BC (ld_a_flags s) = r_BC s"
  "r_DE (ld_a_flags s) = r_DE s"
  "r_HL (ld_a_flags s) = r_HL s"
  "r_HL' (ld_a_flags s) = r_HL' s"
  "r_IX (ld_a_flags s) = r_IX s"
  "r_IY (ld_a_flags s) = r_IY s"
  "r_AF' (ld_a_flags s) = r_AF' s"
  "r_BC' (ld_a_flags s) = r_BC' s"
  "r_DE' (ld_a_flags s) = r_DE' s"
  "r_SPS (ld_a_flags s) = r_SPS s"
  "r_SPL (ld_a_flags s) = r_SPL s"
  "r_PC (ld_a_flags s) = r_PC s"
  "r_I (ld_a_flags s) = r_I s"
  "r_R (ld_a_flags s) = r_R s"
  "r_MBASE (ld_a_flags s) = r_MBASE s"
  "cpu_prefetch_byte (ld_a_flags s) = cpu_prefetch_byte s"
  "cpu_PREFIX (ld_a_flags s) = cpu_PREFIX s"
  "cpu_SUFFIX (ld_a_flags s) = cpu_SUFFIX s"
  "cpu_L (ld_a_flags s) = cpu_L s"
  "cpu_IL (ld_a_flags s) = cpu_IL s"
  "cpu_ADL (ld_a_flags s) = cpu_ADL s"
  "cpu_MADL (ld_a_flags s) = cpu_MADL s"
  "cpu_IEF1 (ld_a_flags s) = cpu_IEF1 s"
  "cpu_IEF2 (ld_a_flags s) = cpu_IEF2 s"
  "cpu_IEF_wait (ld_a_flags s) = cpu_IEF_wait s"
  "cpu_IM (ld_a_flags s) = cpu_IM s"
  "cpu_halted (ld_a_flags s) = cpu_halted s"
  "cpu_cycles (ld_a_flags s) = cpu_cycles s"
  "cycle_count_delta (ld_a_flags s) = cycle_count_delta s"
  "cycle_offset (ld_a_flags s) = cycle_offset s"
  "cpu_events (ld_a_flags s) = cpu_events s"
  "exiting (ld_a_flags s) = exiting s"
  "memory (ld_a_flags s) = memory s"
  "mem_writes (ld_a_flags s) = mem_writes s"
  "port_in (ld_a_flags s) = port_in s"
  "port_writes (ld_a_flags s) = port_writes s"
  "intrpt_pending (ld_a_flags s) = intrpt_pending s"
  by (simp_all add: ld_a_flags_def Let_def split_beta)

lemma ld_a_flags_obs [simp]:
  "cpu_address_mode a' m' (ld_a_flags s) = cpu_address_mode a' m' s"
  "r_B (ld_a_flags s) = r_B s"
  "r_C (ld_a_flags s) = r_C s"
  "r_D (ld_a_flags s) = r_D s"
  "r_E (ld_a_flags s) = r_E s"
  "r_PCL (ld_a_flags s) = r_PCL s"
  "r_PCH (ld_a_flags s) = r_PCH s"
  "r_PCU (ld_a_flags s) = r_PCU s"
  "stack_hl (ld_a_flags s) = stack_hl s"
  "cpu_read_sp (ld_a_flags s) = cpu_read_sp s"
  "index_hl i' (ld_a_flags s) = index_hl i' s"
  "cpu_read_index (ld_a_flags s) = cpu_read_index s"
  "cpu_read_index_low (ld_a_flags s) = cpu_read_index_low s"
  "cpu_read_index_high (ld_a_flags s) = cpu_read_index_high s"
  "cpu_read_other_index (ld_a_flags s) = cpu_read_other_index s"
  "memory_read_byte a' (ld_a_flags s) = memory_read_byte a' s"
  "cpu_read_byte a' (ld_a_flags s) = cpu_read_byte a' s"
  "cpu_read_word a' (ld_a_flags s) = cpu_read_word a' s"
  "cpu_read_in p' (ld_a_flags s) = cpu_read_in p' s"
  by (simp_all add: cpu_address_mode_def flags_C_def flags_N_def flags_PV_def flags_H_def flags_Z_def flags_S_def r_B_def r_C_def r_D_def r_E_def r_PCL_def r_PCH_def r_PCU_def r_AF_def stack_hl_def cpu_read_sp_def index_hl_def cpu_read_index_def cpu_read_index_low_def cpu_read_index_high_def cpu_read_other_index_def memory_read_byte_def cpu_read_byte_def cpu_read_word_def cpu_read_in_def port_read_byte_def)

lemma rxd_flags_frame [simp]:
  "r_A (rxd_flags s) = r_A s"
  "r_BC (rxd_flags s) = r_BC s"
  "r_DE (rxd_flags s) = r_DE s"
  "r_HL (rxd_flags s) = r_HL s"
  "r_HL' (rxd_flags s) = r_HL' s"
  "r_IX (rxd_flags s) = r_IX s"
  "r_IY (rxd_flags s) = r_IY s"
  "r_AF' (rxd_flags s) = r_AF' s"
  "r_BC' (rxd_flags s) = r_BC' s"
  "r_DE' (rxd_flags s) = r_DE' s"
  "r_SPS (rxd_flags s) = r_SPS s"
  "r_SPL (rxd_flags s) = r_SPL s"
  "r_PC (rxd_flags s) = r_PC s"
  "r_I (rxd_flags s) = r_I s"
  "r_R (rxd_flags s) = r_R s"
  "r_MBASE (rxd_flags s) = r_MBASE s"
  "cpu_prefetch_byte (rxd_flags s) = cpu_prefetch_byte s"
  "cpu_PREFIX (rxd_flags s) = cpu_PREFIX s"
  "cpu_SUFFIX (rxd_flags s) = cpu_SUFFIX s"
  "cpu_L (rxd_flags s) = cpu_L s"
  "cpu_IL (rxd_flags s) = cpu_IL s"
  "cpu_ADL (rxd_flags s) = cpu_ADL s"
  "cpu_MADL (rxd_flags s) = cpu_MADL s"
  "cpu_IEF1 (rxd_flags s) = cpu_IEF1 s"
  "cpu_IEF2 (rxd_flags s) = cpu_IEF2 s"
  "cpu_IEF_wait (rxd_flags s) = cpu_IEF_wait s"
  "cpu_IM (rxd_flags s) = cpu_IM s"
  "cpu_halted (rxd_flags s) = cpu_halted s"
  "cpu_cycles (rxd_flags s) = cpu_cycles s"
  "cycle_count_delta (rxd_flags s) = cycle_count_delta s"
  "cycle_offset (rxd_flags s) = cycle_offset s"
  "cpu_events (rxd_flags s) = cpu_events s"
  "exiting (rxd_flags s) = exiting s"
  "memory (rxd_flags s) = memory s"
  "mem_writes (rxd_flags s) = mem_writes s"
  "port_in (rxd_flags s) = port_in s"
  "port_writes (rxd_flags s) = port_writes s"
  "intrpt_pending (rxd_flags s) = intrpt_pending s"
  by (simp_all add: rxd_flags_def Let_def split_beta)

lemma rxd_flags_obs [simp]:
  "cpu_address_mode a' m' (rxd_flags s) = cpu_address_mode a' m' s"
  "r_B (rxd_flags s) = r_B s"
  "r_C (rxd_flags s) = r_C s"
  "r_D (rxd_flags s) = r_D s"
  "r_E (rxd_flags s) = r_E s"
  "r_PCL (rxd_flags s) = r_PCL s"
  "r_PCH (rxd_flags s) = r_PCH s"
  "r_PCU (rxd_flags s) = r_PCU s"
  "stack_hl (rxd_flags s) = stack_hl s"
  "cpu_read_sp (rxd_flags s) = cpu_read_sp s"
  "index_hl i' (rxd_flags s) = index_hl i' s"
  "cpu_read_index (rxd_flags s) = cpu_read_index s"
  "cpu_read_index_low (rxd_flags s) = cpu_read_index_low s"
  "cpu_read_index_high (rxd_flags s) = cpu_read_index_high s"
  "cpu_read_other_index (rxd_flags s) = cpu_read_other_index s"
  "memory_read_byte a' (rxd_flags s) = memory_read_byte a' s"
  "cpu_read_byte a' (rxd_flags s) = cpu_read_byte a' s"
  "cpu_read_word a' (rxd_flags s) = cpu_read_word a' s"
  "cpu_read_in p' (rxd_flags s) = cpu_read_in p' s"
  by (simp_all add: cpu_address_mode_def flags_C_def flags_N_def flags_PV_def flags_H_def flags_Z_def flags_S_def r_B_def r_C_def r_D_def r_E_def r_PCL_def r_PCH_def r_PCU_def r_AF_def stack_hl_def cpu_read_sp_def index_hl_def cpu_read_index_def cpu_read_index_low_def cpu_read_index_high_def cpu_read_other_index_def memory_read_byte_def cpu_read_byte_def cpu_read_word_def cpu_read_in_def port_read_byte_def)

lemma suffix_byte_frame [simp]:
  "r_A (suffix_byte l il s) = r_A s"
  "r_F (suffix_byte l il s) = r_F s"
  "r_BC (suffix_byte l il s) = r_BC s"
  "r_DE (suffix_byte l il s) = r_DE s"
  "r_HL (suffix_byte l il s) = r_HL s"
  "r_HL' (suffix_byte l il s) = r_HL' s"
  "r_IX (suffix_byte l il s) = r_IX s"
  "r_IY (suffix_byte l il s) = r_IY s"
  "r_AF' (suffix_byte l il s) = r_AF' s"
  "r_BC' (suffix_byte l il s) = r_BC' s"
  "r_DE' (suffix_byte l il s) = r_DE' s"
  "r_SPS (suffix_byte l il s) = r_SPS s"
  "r_SPL (suffix_byte l il s) = r_SPL s"
  "r_PC (suffix_byte l il s) = r_PC s"
  "r_I (suffix_byte l il s) = r_I s"
  "r_R (suffix_byte l il s) = r_R s"
  "r_MBASE (suffix_byte l il s) = r_MBASE s"
  "cpu_prefetch_byte (suffix_byte l il s) = cpu_prefetch_byte s"
  "cpu_PREFIX (suffix_byte l il s) = cpu_PREFIX s"
  "cpu_ADL (suffix_byte l il s) = cpu_ADL s"
  "cpu_MADL (suffix_byte l il s) = cpu_MADL s"
  "cpu_IEF1 (suffix_byte l il s) = cpu_IEF1 s"
  "cpu_IEF2 (suffix_byte l il s) = cpu_IEF2 s"
  "cpu_IEF_wait (suffix_byte l il s) = cpu_IEF_wait s"
  "cpu_IM (suffix_byte l il s) = cpu_IM s"
  "cpu_halted (suffix_byte l il s) = cpu_halted s"
  "cycle_count_delta (suffix_byte l il s) = cycle_count_delta s"
  "cycle_offset (suffix_byte l il s) = cycle_offset s"
  "cpu_events (suffix_byte l il s) = cpu_events s"
  "exiting (suffix_byte l il s) = exiting s"
  "memory (suffix_byte l il s) = memory s"
  "mem_writes (suffix_byte l il s) = mem_writes s"
  "port_in (suffix_byte l il s) = port_in s"
  "port_writes (suffix_byte l il s) = port_writes s"
  "intrpt_pending (suffix_byte l il s) = intrpt_pending s"
  by (simp_all add: suffix_byte_def Let_def split_beta)

lemma suffix_byte_obs [simp]:
  "cpu_address_mode a' m' (suffix_byte l il s) = cpu_address_mode a' m' s"
  "flags_C (suffix_byte l il s) = flags_C s"
  "flags_N (suffix_byte l il s) = flags_N s"
  "flags_PV (suffix_byte l il s) = flags_PV s"
  "flags_H (suffix_byte l il s) = flags_H s"
  "flags_Z (suffix_byte l il s) = flags_Z s"
  "flags_S (suffix_byte l il s) = flags_S s"
  "r_B (suffix_byte l il s) = r_B s"
  "r_C (suffix_byte l il s) = r_C s"
  "r_D (suffix_byte l il s) = r_D s"
  "r_E (suffix_byte l il s) = r_E s"
  "r_PCL (suffix_byte l il s) = r_PCL s"
  "r_PCH (suffix_byte l il s) = r_PCH s"
  "r_PCU (suffix_byte l il s) = r_PCU s"
  "r_AF (suffix_byte l il s) = r_AF s"
  "index_hl i' (suffix_byte l il s) = index_hl i' s"
  "cpu_read_index (suffix_byte l il s) = cpu_read_index s"
  "cpu_read_index_low (suffix_byte l il s) = cpu_read_index_low s"
  "cpu_read_index_high (suffix_byte l il s) = cpu_read_index_high s"
  "cpu_read_other_index (suffix_byte l il s) = cpu_read_other_index s"
  "memory_read_byte a' (suffix_byte l il s) = memory_read_byte a' s"
  "cpu_read_in p' (suffix_byte l il s) = cpu_read_in p' s"
  by (simp_all add: cpu_address_mode_def flags_C_def flags_N_def flags_PV_def flags_H_def flags_Z_def flags_S_def r_B_def r_C_def r_D_def r_E_def r_PCL_def r_PCH_def r_PCU_def r_AF_def stack_hl_def cpu_read_sp_def index_hl_def cpu_read_index_def cpu_read_index_low_def cpu_read_index_high_def cpu_read_other_index_def memory_read_byte_def cpu_read_byte_def cpu_read_word_def cpu_read_in_def port_read_byte_def)

lemma exec_EI_frame [simp]:
  "r_A (exec_EI s) = r_A s"
  "r_F (exec_EI s) = r_F s"
  "r_BC (exec_EI s) = r_BC s"
  "r_DE (exec_EI s) = r_DE s"
  "r_HL (exec_EI s) = r_HL s"
  "r_HL' (exec_EI s) = r_HL' s"
  "r_IX (exec_EI s) = r_IX s"
  "r_IY (exec_EI s) = r_IY s"
  "r_AF' (exec_EI s) = r_AF' s"
  "r_BC' (exec_EI s) = r_BC' s"
  "r_DE' (exec_EI s) = r_DE' s"
  "r_SPS (exec_EI s) = r_SPS s"
  "r_SPL (exec_EI s) = r_SPL s"
  "r_PC (exec_EI s) = r_PC s"
  "r_I (exec_EI s) = r_I s"
  "r_R (exec_EI s) = r_R s"
  "r_MBASE (exec_EI s) = r_MBASE s"
  "cpu_prefetch_byte (exec_EI s) = cpu_prefetch_byte s"
  "cpu_PREFIX (exec_EI s) = cpu_PREFIX s"
  "cpu_SUFFIX (exec_EI s) = cpu_SUFFIX s"
  "cpu_L (exec_EI s) = cpu_L s"
  "cpu_IL (exec_EI s) = cpu_IL s"
  "cpu_ADL (exec_EI s) = cpu_ADL s"
  "cpu_MADL (exec_EI s) = cpu_MADL s"
  "cpu_IEF1 (exec_EI s) = cpu_IEF1 s"
  "cpu_IEF2 (exec_EI s) = cpu_IEF2 s"
  "cpu_IM (exec_EI s) = cpu_IM s"
  "cpu_halted (exec_EI s) = cpu_halted s"
  "cpu_cycles (exec_EI s) = cpu_cycles s"
  "cpu_events (exec_EI s) = cpu_events s"
  "exiting (exec_EI s) = exiting s"
  "memory (exec_EI s) = memory s"
  "mem_writes (exec_EI s) = mem_writes s"
  "port_in (exec_EI s) = port_in s"
  "port_writes (exec_EI s) = port_writes s"
  "intrpt_pending (exec_EI s) = intrpt_pending s"
  by (simp_all add: exec_EI_def Let_def split_beta)

lemma exec_EI_obs [simp]:
  "cpu_address_mode a' m' (exec_EI s) = cpu_address_mode a' m' s"
  "flags_C (exec_EI s) = flags_C s"
  "flags_N (exec_EI s) = flags_N s"
  "flags_PV (exec_EI s) = flags_PV s"
  "flags_H (exec_EI s) = flags_H s"
  "flags_Z (exec_EI s) = flags_Z s"
  "flags_S (exec_EI s) = flags_S s"
  "r_B (exec_EI s) = r_B s"
  "r_C (exec_EI s) = r_C s"
  "r_D (exec_EI s) = r_D s"
  "r_E (exec_EI s) = r_E s"
  "r_PCL (exec_EI s) = r_PCL s"
  "r_PCH (exec_EI s) = r_PCH s"
  "r_PCU (exec_EI s) = r_PCU s"
  "r_AF (exec_EI s) = r_AF s"
  "stack_hl (exec_EI s) = stack_hl s"
  "cpu_read_sp (exec_EI s) = cpu_read_sp s"
  "index_hl i' (exec_EI s) = index_hl i' s"
  "cpu_read_index (exec_EI s) = cpu_read_index s"
  "cpu_read_index_low (exec_EI s) = cpu_read_index_low s"
  "cpu_read_index_high (exec_EI s) = cpu_read_index_high s"
  "cpu_read_other_index (exec_EI s) = cpu_read_other_index s"
  "memory_read_byte a' (exec_EI s) = memory_read_byte a' s"
  "cpu_read_byte a' (exec_EI s) = cpu_read_byte a' s"
  "cpu_read_word a' (exec_EI s) = cpu_read_word a' s"
  "cpu_read_in p' (exec_EI s) = cpu_read_in p' s"
  by (simp_all add: cpu_address_mode_def flags_C_def flags_N_def flags_PV_def flags_H_def flags_Z_def flags_S_def r_B_def r_C_def r_D_def r_E_def r_PCL_def r_PCH_def r_PCU_def r_AF_def stack_hl_def cpu_read_sp_def index_hl_def cpu_read_index_def cpu_read_index_low_def cpu_read_index_high_def cpu_read_other_index_def memory_read_byte_def cpu_read_byte_def cpu_read_word_def cpu_read_in_def port_read_byte_def)

lemma exit_loop_frame [simp]:
  "r_A (exit_loop s) = r_A s"
  "r_F (exit_loop s) = r_F s"
  "r_BC (exit_loop s) = r_BC s"
  "r_DE (exit_loop s) = r_DE s"
  "r_HL (exit_loop s) = r_HL s"
  "r_HL' (exit_loop s) = r_HL' s"
  "r_IX (exit_loop s) = r_IX s"
  "r_IY (exit_loop s) = r_IY s"
  "r_AF' (exit_loop s) = r_AF' s"
  "r_BC' (exit_loop s) = r_BC' s"
  "r_DE' (exit_loop s) = r_DE' s"
  "r_SPS (exit_loop s) = r_SPS s"
  "r_SPL (exit_loop s) = r_SPL s"
  "r_PC (exit_loop s) = r_PC s"
  "r_I (exit_loop s) = r_I s"
  "r_R (exit_loop s) = r_R s"
  "r_MBASE (exit_loop s) = r_MBASE s"
  "cpu_prefetch_byte (exit_loop s) = cpu_prefetch_byte s"
  "cpu_PREFIX (exit_loop s) = cpu_PREFIX s"
  "cpu_SUFFIX (exit_loop s) = cpu_SUFFIX s"
  "cpu_L (exit_loop s) = cpu_L s"
  "cpu_IL (exit_loop s) = cpu_IL s"
  "cpu_ADL (exit_loop s) = cpu_ADL s"
  "cpu_MADL (exit_loop s) = cpu_MADL s"
  "cpu_IEF1 (exit_loop s) = cpu_IEF1 s"
  "cpu_IEF2 (exit_loop s) = cpu_IEF2 s"
  "cpu_IEF_wait (exit_loop s) = cpu_IEF_wait s"
  "cpu_IM (exit_loop s) = cpu_IM s"
  "cpu_halted (exit_loop s) = cpu_halted s"
  "cpu_cycles (exit_loop s) = cpu_cycles s"
  "cycle_offset (exit_loop s) = cycle_offset s"
  "cpu_events (exit_loop s) = cpu_events s"
  "exiting (exit_loop s) = exiting s"
  "memory (exit_loop s) = memory s"
  "mem_writes (exit_loop s) = mem_writes s"
  "port_in (exit_loop s) = port_in s"
  "port_writes (exit_loop s) = port_writes s"
  "intrpt_pending (exit_loop s) = intrpt_pending s"
  by (simp_all add: exit_loop_def Let_def split_beta)

lemma exit_loop_obs [simp]:
  "cpu_address_mode a' m' (exit_loop s) = cpu_address_mode a' m' s"
  "flags_C (exit_loop s) = flags_C s"
  "flags_N (exit_loop s) = flags_N s"
  "flags_PV (exit_loop s) = flags_PV s"
  "flags_H (exit_loop s) = flags_H s"
  "flags_Z (exit_loop s) = flags_Z s"
  "flags_S (exit_loop s) = flags_S s"
  "r_B (exit_loop s) = r_B s"
  "r_C (exit_loop s) = r_C s"
  "r_D (exit_loop s) = r_D s"
  "r_E (exit_loop s) = r_E s"
  "r_PCL (exit_loop s) = r_PCL s"
  "r_PCH (exit_loop s) = r_PCH s"
  "r_PCU (exit_loop s) = r_PCU s"
  "r_AF (exit_loop s) = r_AF s"
  "stack_hl (exit_loop s) = stack_hl s"
  "cpu_read_sp (exit_loop s) = cpu_read_sp s"
  "index_hl i' (exit_loop s) = index_hl i' s"
  "cpu_read_index (exit_loop s) = cpu_read_index s"
  "cpu_read_index_low (exit_loop s) = cpu_read_index_low s"
  "cpu_read_index_high (exit_loop s) = cpu_read_index_high s"
  "cpu_read_other_index (exit_loop s) = cpu_read_other_index s"
  "memory_read_byte a' (exit_loop s) = memory_read_byte a' s"
  "cpu_read_byte a' (exit_loop s) = cpu_read_byte a' s"
  "cpu_read_word a' (exit_loop s) = cpu_read_word a' s"
  "cpu_read_in p' (exit_loop s) = cpu_read_in p' s"
  by (simp_all add: cpu_address_mode_def flags_C_def flags_N_def flags_PV_def flags_H_def flags_Z_def flags_S_def r_B_def r_C_def r_D_def r_E_def r_PCL_def r_PCH_def r_PCU_def r_AF_def stack_hl_def cpu_read_sp_def index_hl_def cpu_read_index_def cpu_read_index_low_def cpu_read_index_high_def cpu_read_other_index_def memory_read_byte_def cpu_read_byte_def cpu_read_word_def cpu_read_in_def port_read_byte_def)

lemma flash_erase_frame [simp]:
  "r_A (flash_erase s) = r_A s"
  "r_F (flash_erase s) = r_F s"
  "r_BC (flash_erase s) = r_BC s"
  "r_DE (flash_erase s) = r_DE s"
  "r_HL (flash_erase s) = r_HL s"
  "r_HL' (flash_erase s) = r_HL' s"
  "r_IX (flash_erase s) = r_IX s"
  "r_IY (flash_erase s) = r_IY s"
  "r_AF' (flash_erase s) = r_AF' s"
  "r_BC' (flash_erase s) = r_BC' s"
  "r_DE' (flash_erase s) = r_DE' s"
  "r_SPS (flash_erase s) = r_SPS s"
  "r_SPL (flash_erase s) = r_SPL s"
  "r_PC (flash_erase s) = r_PC s"
  "r_I (flash_erase s) = r_I s"
  "r_R (flash_erase s) = r_R s"
  "r_MBASE (flash_erase s) = r_MBASE s"
  "cpu_prefetch_byte (flash_erase s) = cpu_prefetch_byte s"
  "cpu_PREFIX (flash_erase s) = cpu_PREFIX s"
  "cpu_SUFFIX (flash_erase s) = cpu_SUFFIX s"
  "cpu_L (flash_erase s) = cpu_L s"
  "cpu_IL (flash_erase s) = cpu_IL s"
  "cpu_ADL (flash_erase s) = cpu_ADL s"
  "cpu_MADL (flash_erase s) = cpu_MADL s"
  "cpu_IEF1 (flash_erase s) = cpu_IEF1 s"
  "cpu_IEF2 (flash_erase s) = cpu_IEF2 s"
  "cpu_IEF_wait (flash_erase s) = cpu_IEF_wait s"
  "cpu_IM (flash_erase s) = cpu_IM s"
  "cpu_halted (flash_erase s) = cpu_halted s"
  "cpu_cycles (flash_erase s) = cpu_cycles s"
  "cycle_count_delta (flash_erase s) = cycle_count_delta s"
  "cycle_offset (flash_erase s) = cycle_offset s"
  "cpu_events (flash_erase s) = cpu_events s"
  "exiting (flash_erase s) = exiting s"
  "mem_writes (flash_erase s) = mem_writes s"
  "port_in (flash_erase s) = port_in s"
  "port_writes (flash_erase s) = port_writes s"
  "intrpt_pending (flash_erase s) = intrpt_pending s"
  by (simp_all add: flash_erase_def Let_def split_beta)

lemma flash_erase_obs [simp]:
  "cpu_address_mode a' m' (flash_erase s) = cpu_address_mode a' m' s"
  "flags_C (flash_erase s) = flags_C s"
  "flags_N (flash_erase s) = flags_N s"
  "flags_PV (flash_erase s) = flags_PV s"
  "flags_H (flash_erase s) = flags_H s"
  "flags_Z (flash_erase s) = flags_Z s"
  "flags_S (flash_erase s) = flags_S s"
  "r_B (flash_erase s) = r_B s"
  "r_C (flash_erase s) = r_C s"
  "r_D (flash_erase s) = r_D s"
  "r_E (flash_erase s) = r_E s"
  "r_PCL (flash_erase s) = r_PCL s"
  "r_PCH (flash_erase s) = r_PCH s"
  "r_PCU (flash_erase s) = r_PCU s"
  "r_AF (flash_erase s) = r_AF s"
  "stack_hl (flash_erase s) = stack_hl s"
  "cpu_read_sp (flash_erase s) = cpu_read_sp s"
  "index_hl i' (flash_erase s) = index_hl i' s"
  "cpu_read_index (flash_erase s) = cpu_read_index s"
  "cpu_read_index_low (flash_erase s) = cpu_read_index_low s"
  "cpu_read_index_high (flash_erase s) = cpu_read_index_high s"
  "cpu_read_other_index (flash_erase s) = cpu_read_other_index s"
  "cpu_read_in p' (flash_erase s) = cpu_read_in p' s"
  by (simp_all add: cpu_address_mode_def flags_C_def flags_N_def flags_PV_def flags_H_def flags_Z_def flags_S_def r_B_def r_C_def r_D_def r_E_def r_PCL_def r_PCH_def r_PCU_def r_AF_def stack_hl_def cpu_read_sp_def index_hl_def cpu_read_index_def cpu_read_index_low_def cpu_read_index_high_def cpu_read_other_index_def memory_read_byte_def cpu_read_byte_def cpu_read_word_def cpu_read_in_def port_read_byte_def)

lemma exec_ed_x1_z5_frame [simp]:
  "r_A (exec_ed_x1_z5 y s) = r_A s"
  "r_F (exec_ed_x1_z5 y s) = r_F s"
  "r_BC (exec_ed_x1_z5 y s) = r_BC s"
  "r_DE (exec_ed_x1_z5 y s) = r_DE s"
  "r_HL (exec_ed_x1_z5 y s) = r_HL s"
  "r_HL' (exec_ed_x1_z5 y s) = r_HL' s"
  "r_IX (exec_ed_x1_z5 y s) = r_IX s"
  "r_AF' (exec_ed_x1_z5 y s) = r_AF' s"
  "r_BC' (exec_ed_x1_z5 y s) = r_BC' s"
  "r_DE' (exec_ed_x1_z5 y s) = r_DE' s"
  "r_I (exec_ed_x1_z5 y s) = r_I s"
  "r_R (exec_ed_x1_z5 y s) = r_R s"
  "cpu_SUFFIX (exec_ed_x1_z5 y s) = cpu_SUFFIX s"
  "cpu_L (exec_ed_x1_z5 y s) = cpu_L s"
  "cpu_IL (exec_ed_x1_z5 y s) = cpu_IL s"
  "cpu_IEF2 (exec_ed_x1_z5 y s) = cpu_IEF2 s"
  "cpu_IM (exec_ed_x1_z5 y s) = cpu_IM s"
  "cpu_halted (exec_ed_x1_z5 y s) = cpu_halted s"
  "cycle_count_delta (exec_ed_x1_z5 y s) = cycle_count_delta s"
  "cycle_offset (exec_ed_x1_z5 y s) = cycle_offset s"
  "cpu_events (exec_ed_x1_z5 y s) = cpu_events s"
  "exiting (exec_ed_x1_z5 y s) = exiting s"
  "port_in (exec_ed_x1_z5 y s) = port_in s"
  "port_writes (exec_ed_x1_z5 y s) = port_writes s"
  "intrpt_pending (exec_ed_x1_z5 y s) = intrpt_pending s"
  by (simp_all add: exec_ed_x1_z5_def Let_def split_beta)

lemma exec_ed_x1_z5_obs [simp]:
  "flags_C (exec_ed_x1_z5 y s) = flags_C s"
  "flags_N (exec_ed_x1_z5 y s) = flags_N s"
  "flags_PV (exec_ed_x1_z5 y s) = flags_PV s"
  "flags_H (exec_ed_x1_z5 y s) = flags_H s"
  "flags_Z (exec_ed_x1_z5 y s) = flags_Z s"
  "flags_S (exec_ed_x1_z5 y s) = flags_S s"
  "r_B (exec_ed_x1_z5 y s) = r_B s"
  "r_C (exec_ed_x1_z5 y s) = r_C s"
  "r_D (exec_ed_x1_z5 y s) = r_D s"
  "r_E (exec_ed_x1_z5 y s) = r_E s"
  "r_AF (exec_ed_x1_z5 y s) = r_AF s"
  "cpu_read_in p' (exec_ed_x1_z5 y s) = cpu_read_in p' s"
  by (simp_all add: cpu_address_mode_def flags_C_def flags_N_def flags_PV_def flags_H_def flags_Z_def flags_S_def r_B_def r_C_def r_D_def r_E_def r_PCL_def r_PCH_def r_PCU_def r_AF_def stack_hl_def cpu_read_sp_def index_hl_def cpu_read_index_def cpu_read_index_low_def cpu_read_index_high_def cpu_read_other_index_def memory_read_byte_def cpu_read_byte_def cpu_read_word_def cpu_read_in_def port_read_byte_def)

lemma exec_ed_x1_z6_frame [simp]:
  "r_F (exec_ed_x1_z6 y s) = r_F s"
  "r_BC (exec_ed_x1_z6 y s) = r_BC s"
  "r_DE (exec_ed_x1_z6 y s) = r_DE s"
  "r_HL (exec_ed_x1_z6 y s) = r_HL s"
  "r_HL' (exec_ed_x1_z6 y s) = r_HL' s"
  "r_IX (exec_ed_x1_z6 y s) = r_IX s"
  "r_IY (exec_ed_x1_z6 y s) = r_IY s"
  "r_AF' (exec_ed_x1_z6 y s) = r_AF' s"
  "r_BC' (exec_ed_x1_z6 y s) = r_BC' s"
  "r_DE' (exec_ed_x1_z6 y s) = r_DE' s"
  "r_I (exec_ed_x1_z6 y s) = r_I s"
  "r_R (exec_ed_x1_z6 y s) = r_R s"
  "r_MBASE (exec_ed_x1_z6 y s) = r_MBASE s"
  "cpu_PREFIX (exec_ed_x1_z6 y s) = cpu_PREFIX s"
  "cpu_SUFFIX (exec_ed_x1_z6 y s) = cpu_SUFFIX s"
  "cpu_L (exec_ed_x1_z6 y s) = cpu_L s"
  "cpu_IL (exec_ed_x1_z6 y s) = cpu_IL s"
  "cpu_ADL (exec_ed_x1_z6 y s) = cpu_ADL s"
  "cpu_IEF1 (exec_ed_x1_z6 y s) = cpu_IEF1 s"
  "cpu_IEF2 (exec_ed_x1_z6 y s) = cpu_IEF2 s"
  "cpu_halted (exec_ed_x1_z6 y s) = cpu_halted s"
  "cycle_count_delta (exec_ed_x1_z6 y s) = cycle_count_delta s"
  "cycle_offset (exec_ed_x1_z6 y s) = cycle_offset s"
  "cpu_events (exec_ed_x1_z6 y s) = cpu_events s"
  "exiting (exec_ed_x1_z6 y s) = exiting s"
  "port_in (exec_ed_x1_z6 y s) = port_in s"
  "port_writes (exec_ed_x1_z6 y s) = port_writes s"
  "intrpt_pending (exec_ed_x1_z6 y s) = intrpt_pending s"
  by (simp_all add: exec_ed_x1_z6_def Let_def split_beta)

lemma exec_ed_x1_z6_obs [simp]:
  "cpu_address_mode a' m' (exec_ed_x1_z6 y s) = cpu_address_mode a' m' s"
  "flags_C (exec_ed_x1_z6 y s) = flags_C s"
  "flags_N (exec_ed_x1_z6 y s) = flags_N s"
  "flags_PV (exec_ed_x1_z6 y s) = flags_PV s"
  "flags_H (exec_ed_x1_z6 y s) = flags_H s"
  "flags_Z (exec_ed_x1_z6 y s) = flags_Z s"
  "flags_S (exec_ed_x1_z6 y s) = flags_S s"
  "r_B (exec_ed_x1_z6 y s) = r_B s"
  "r_C (exec_ed_x1_z6 y s) = r_C s"
  "r_D (exec_ed_x1_z6 y s) = r_D s"
  "r_E (exec_ed_x1_z6 y s) = r_E s"
  "index_hl i' (exec_ed_x1_z6 y s) = index_hl i' s"
  "cpu_read_index (exec_ed_x1_z6 y s) = cpu_read_index s"
  "cpu_read_index_low (exec_ed_x1_z6 y s) = cpu_read_index_low s"
  "cpu_read_index_high (exec_ed_x1_z6 y s) = cpu_read_index_high s"
  "cpu_read_other_index (exec_ed_x1_z6 y s) = cpu_read_other_index s"
  "cpu_read_in p' (exec_ed_x1_z6 y s) = cpu_read_in p' s"
  by (simp_all add: cpu_address_mode_def flags_C_def flags_N_def flags_PV_def flags_H_def flags_Z_def flags_S_def r_B_def r_C_def r_D_def r_E_def r_PCL_def r_PCH_def r_PCU_def r_AF_def stack_hl_def cpu_read_sp_def index_hl_def cpu_read_index_def cpu_read_index_low_def cpu_read_index_high_def cpu_read_other_index_def memory_read_byte_def cpu_read_byte_def cpu_read_word_def cpu_read_in_def port_read_byte_def)

lemma exec_ed_x1_z7_frame [simp]:
  "r_BC (exec_ed_x1_z7 y s) = r_BC s"
  "r_DE (exec_ed_x1_z7 y s) = r_DE s"
  "r_HL (exec_ed_x1_z7 y s) = r_HL s"
  "r_HL' (exec_ed_x1_z7 y s) = r_HL' s"
  "r_IX (exec_ed_x1_z7 y s) = r_IX s"
  "r_IY (exec_ed_x1_z7 y s) = r_IY s"
  "r_AF' (exec_ed_x1_z7 y s) = r_AF' s"
  "r_BC' (exec_ed_x1_z7 y s) = r_BC' s"
  "r_DE' (exec_ed_x1_z7 y s) = r_DE' s"
  "r_SPS (exec_ed_x1_z7 y s) = r_SPS s"
  "r_SPL (exec_ed_x1_z7 y s) = r_SPL s"
  "r_PC (exec_ed_x1_z7 y s) = r_PC s"
  "r_MBASE (exec_ed_x1_z7 y s) = r_MBASE s"
  "cpu_prefetch_byte (exec_ed_x1_z7 y s) = cpu_prefetch_byte s"
  "cpu_PREFIX (exec_ed_x1_z7 y s) = cpu_PREFIX s"
  "cpu_SUFFIX (exec_ed_x1_z7 y s) = cpu_SUFFIX s"
  "cpu_L (exec_ed_x1_z7 y s) = cpu_L s"
  "cpu_IL (exec_ed_x1_z7 y s) = cpu_IL s"
  "cpu_ADL (exec_ed_x1_z7 y s) = cpu_ADL s"
  "cpu_MADL (exec_ed_x1_z7 y s) = cpu_MADL s"
  "cpu_IEF1 (exec_ed_x1_z7 y s) = cpu_IEF1 s"
  "cpu_IEF2 (exec_ed_x1_z7 y s) = cpu_IEF2 s"
  "cpu_IM (exec_ed_x1_z7 y s) = cpu_IM s"
  "cpu_halted (exec_ed_x1_z7 y s) = cpu_halted s"
  "cycle_count_delta (exec_ed_x1_z7 y s) = cycle_count_delta s"
  "cycle_offset (exec_ed_x1_z7 y s) = cycle_offset s"
  "cpu_events (exec_ed_x1_z7 y s) = cpu_events s"
  "exiting (exec_ed_x1_z7 y s) = exiting s"
  "port_in (exec_ed_x1_z7 y s) = port_in s"
  "port_writes (exec_ed_x1_z7 y s) = port_writes s"
  "intrpt_pending (exec_ed_x1_z7 y s) = intrpt_pending s"
  by (simp_all add: exec_ed_x1_z7_def Let_def split_beta)

lemma exec_ed_x1_z7_obs [simp]:
  "cpu_address_mode a' m' (exec_ed_x1_z7 y s) = cpu_address_mode a' m' s"
  "r_B (exec_ed_x1_z7 y s) = r_B s"
  "r_C (exec_ed_x1_z7 y s) = r_C s"
  "r_D (exec_ed_x1_z7 y s) = r_D s"
  "r_E (exec_ed_x1_z7 y s) = r_E s"
  "r_PCL (exec_ed_x1_z7 y s) = r_PCL s"
  "r_PCH (exec_ed_x1_z7 y s) = r_PCH s"
  "r_PCU (exec_ed_x1_z7 y s) = r_PCU s"
  "stack_hl (exec_ed_x1_z7 y s) = stack_hl s"
  "cpu_read_sp (exec_ed_x1_z7 y s) = cpu_read_sp s"
  "index_hl i' (exec_ed_x1_z7 y s) = index_hl i' s"
  "cpu_read_index (exec_ed_x1_z7 y s) = cpu_read_index s"
  "cpu_read_index_low (exec_ed_x1_z7 y s) = cpu_read_index_low s"
  "cpu_read_index_high (exec_ed_x1_z7 y s) = cpu_read_index_high s"
  "cpu_read_other_index (exec_ed_x1_z7 y s) = cpu_read_other_index s"
  "cpu_read_in p' (exec_ed_x1_z7 y s) = cpu_read_in p' s"
  by (simp_all add: cpu_address_mode_def flags_C_def flags_N_def flags_PV_def flags_H_def flags_Z_def flags_S_def r_B_def r_C_def r_D_def r_E_def r_PCL_def r_PCH_def r_PCU_def r_AF_def stack_hl_def cpu_read_sp_def index_hl_def cpu_read_index_def cpu_read_index_low_def cpu_read_index_high_def cpu_read_other_index_def memory_read_byte_def cpu_read_byte_def cpu_read_word_def cpu_read_in_def port_read_byte_def)

lemma fetch_opcode_frame [simp]:
  "r_A (snd (fetch_opcode s)) = r_A s"
  "r_F (snd (fetch_opcode s)) = r_F s"
  "r_BC (snd (fetch_opcode s)) = r_BC s"
  "r_DE (snd (fetch_opcode s)) = r_DE s"
  "r_HL (snd (fetch_opcode s)) = r_HL s"
  "r_HL' (snd (fetch_opcode s)) = r_HL' s"
  "r_IX (snd (fetch_opcode s)) = r_IX s"
  "r_IY (snd (fetch_opcode s)) = r_IY s"
  "r_AF' (snd (fetch_opcode s)) = r_AF' s"
  "r_BC' (snd (fetch_opcode s)) = r_BC' s"
  "r_DE' (snd (fetch_opcode s)) = r_DE' s"
  "r_SPS (snd (fetch_opcode s)) = r_SPS s"
  "r_SPL (snd (fetch_opcode s)) = r_SPL s"
  "r_I (snd (fetch_opcode s)) = r_I s"
  "r_MBASE (snd (fetch_opcode s)) = r_MBASE s"
  "cpu_PREFIX (snd (fetch_opcode s)) = cpu_PREFIX s"
  "cpu_SUFFIX (snd (fetch_opcode s)) = cpu_SUFFIX s"
  "cpu_L (snd (fetch_opcode s)) = cpu_L s"
  "cpu_IL (snd (fetch_opcode s)) = cpu_IL s"
  "cpu_ADL (snd (fetch_opcode s)) = cpu_ADL s"
  "cpu_MADL (snd (fetch_opcode s)) = cpu_MADL s"
  "cpu_IEF1 (snd (fetch_opcode s)) = cpu_IEF1 s"
  "cpu_IEF2 (snd (fetch_opcode s)) = cpu_IEF2 s"
  "cpu_IEF_wait (snd (fetch_opcode s)) = cpu_IEF_wait s"
  "cpu_IM (snd (fetch_opcode s)) = cpu_IM s"
  "cpu_halted (snd (fetch_opcode s)) = cpu_halted s"
  "cycle_count_delta (snd (fetch_opcode s)) = cycle_count_delta s"
  "cycle_offset (snd (fetch_opcode s)) = cycle_offset s"
  "cpu_events (snd (fetch_opcode s)) = cpu_events s"
  "exiting (snd (fetch_opcode s)) = exiting s"
  "memory (snd (fetch_opcode s)) = memory s"
  "mem_writes (snd (fetch_opcode s)) = mem_writes s"
  "port_in (snd (fetch_opcode s)) = port_in s"
  "port_writes (snd (fetch_opcode s)) = port_writes s"
  "intrpt_pending (snd (fetch_opcode s)) = intrpt_pending s"
  by (simp_all add: fetch_opcode_def Let_def split_beta)

lemma fetch_opcode_obs [simp]:
  "cpu_address_mode a' m' (snd (fetch_opcode s)) = cpu_address_mode a' m' s"
  "flags_C (snd (fetch_opcode s)) = flags_C s"
  "flags_N (snd (fetch_opcode s)) = flags_N s"
  "flags_PV (snd (fetch_opcode s)) = flags_PV s"
  "flags_H (snd (fetch_opcode s)) = flags_H s"
  "flags_Z (snd (fetch_opcode s)) = flags_Z s"
  "flags_S (snd (fetch_opcode s)) = flags_S s"
  "r_B (snd (fetch_opcode s)) = r_B s"
  "r_C (snd (fetch_opcode s)) = r_C s"
  "r_D (snd (fetch_opcode s)) = r_D s"
  "r_E (snd (fetch_opcode s)) = r_E s"
  "r_AF (snd (fetch_opcode s)) = r_AF s"
  "stack_hl (snd (fetch_opcode s)) = stack_hl s"
  "cpu_read_sp (snd (fetch_opcode s)) = cpu_read_sp s"
  "index_hl i' (snd (fetch_opcode s)) = index_hl i' s"
  "cpu_read_index (snd (fetch_opcode s)) = cpu_read_index s"
  "cpu_read_index_low (snd (fetch_opcode s)) = cpu_read_index_low s"
  "cpu_read_index_high (snd (fetch_opcode s)) = cpu_read_index_high s"
  "cpu_read_other_index (snd (fetch_opcode s)) = cpu_read_other_index s"
  "memory_read_byte a' (snd (fetch_opcode s)) = memory_read_byte a' s"
  "cpu_read_byte a' (snd (fetch_opcode s)) = cpu_read_byte a' s"
  "cpu_read_word a' (snd (fetch_opcode s)) = cpu_read_word a' s"
  "cpu_read_in p' (snd (fetch_opcode s)) = cpu_read_in p' s"
  by (simp_all add: cpu_address_mode_def flags_C_def flags_N_def flags_PV_def flags_H_def flags_Z_def flags_S_def r_B_def r_C_def r_D_def r_E_def r_PCL_def r_PCH_def r_PCU_def r_AF_def stack_hl_def cpu_read_sp_def index_hl_def cpu_read_index_def cpu_read_index_low_def cpu_read_index_high_def cpu_read_other_index_def memory_read_byte_def cpu_read_byte_def cpu_read_word_def cpu_read_in_def port_read_byte_def)

section \<open>Decoding\<close>

lemma ctx_ED [simp]:
  "ctx_x 0xED = 3" "ctx_y 0xED = 5" "ctx_z 0xED = 5" "ctx_p 0xED = 2" "ctx_q 0xED = 1"
  by (simp_all add: ctx_x_def ctx_y_def ctx_z_def ctx_p_def ctx_q_def)

lemma ctx_CB [simp]:
  "ctx_x 0xCB = 3" "ctx_y 0xCB = 1" "ctx_z 0xCB = 3" "ctx_p 0xCB = 0" "ctx_q 0xCB = 1"
  by (simp_all add: ctx_x_def ctx_y_def ctx_z_def ctx_p_def ctx_q_def)

lemma ctx_44 [simp]:
  "ctx_x 0x44 = 1" "ctx_y 0x44 = 0" "ctx_z 0x44 = 4" "ctx_p 0x44 = 0" "ctx_q 0x44 = 0"
  by (simp_all add: ctx_x_def ctx_y_def ctx_z_def ctx_p_def ctx_q_def)

lemma ctx_6D [simp]:
  "ctx_x 0x6D = 1" "ctx_y 0x6D = 5" "ctx_z 0x6D = 5" "ctx_p 0x6D = 2" "ctx_q 0x6D = 1"
  by (simp_all add: ctx_x_def ctx_y_def ctx_z_def ctx_p_def ctx_q_def)

lemma ctx_30 [simp]:
  "ctx_x 0x30 = 0" "ctx_y 0x30 = 6" "ctx_z 0x30 = 0" "ctx_p 0x30 = 3" "ctx_q 0x30 = 0"
  by (simp_all add: ctx_x_def ctx_y_def ctx_z_def ctx_p_def ctx_q_def)

lemma ctx_40 [simp]:
  "ctx_x 0x40 = 1" "ctx_y 0x40 = 0" "ctx_z 0x40 = 0" "ctx_p 0x40 = 0" "ctx_q 0x40 = 0"
  by (simp_all add: ctx_x_def ctx_y_def ctx_z_def ctx_p_def ctx_q_def)

lemma ctx_49 [simp]:
  "ctx_x 0x49 = 1" "ctx_y 0x49 = 1" "ctx_z 0x49 = 1" "ctx_p 0x49 = 0" "ctx_q 0x49 = 1"
  by (simp_all add: ctx_x_def ctx_y_def ctx_z_def ctx_p_def ctx_q_def)

lemma ctx_52 [simp]:
  "ctx_x 0x52 = 1" "ctx_y 0x52 = 2" "ctx_z 0x52 = 2" "ctx_p 0x52 = 1" "ctx_q 0x52 = 0"
  by (simp_all add: ctx_x_def ctx_y_def ctx_z_def ctx_p_def ctx_q_def)

lemma ctx_5B [simp]:
  "ctx_x 0x5B = 1" "ctx_y 0x5B = 3" "ctx_z 0x5B = 3" "ctx_p 0x5B = 1" "ctx_q 0x5B = 1"
  by (simp_all add: ctx_x_def ctx_y_def ctx_z_def ctx_p_def ctx_q_def)

lemma ctx_DD [simp]:
  "ctx_x 0xDD = 3" "ctx_y 0xDD = 3" "ctx_z 0xDD = 5" "ctx_p 0xDD = 1" "ctx_q 0xDD = 1"
  by (simp_all add: ctx_x_def ctx_y_def ctx_z_def ctx_p_def ctx_q_def)

lemma ctx_FD [simp]:
  "ctx_x 0xFD = 3" "ctx_y 0xFD = 7" "ctx_z 0xFD = 5" "ctx_p 0xFD = 3" "ctx_q 0xFD = 1"
  by (simp_all add: ctx_x_def ctx_y_def ctx_z_def ctx_p_def ctx_q_def)

lemma ctx_FB [simp]:
  "ctx_x 0xFB = 3" "ctx_y 0xFB = 7" "ctx_z 0xFB = 3" "ctx_p 0xFB = 3" "ctx_q 0xFB = 1"
  by (simp_all add: ctx_x_def ctx_y_def ctx_z_def ctx_p_def ctx_q_def)

lemma ctx_00 [simp]:
  "ctx_x 0x00 = 0" "ctx_y 0x00 = 0" "ctx_z 0x00 = 0" "ctx_p 0x00 = 0" "ctx_q 0x00 = 0"
  by (simp_all add: ctx_x_def ctx_y_def ctx_z_def ctx_p_def ctx_q_def)

lemma ctx_bounds [simp]:
  "ctx_x b < 4" "ctx_y b < 8" "ctx_z b < 8" "ctx_p b < 4" "ctx_q b < 2"
proof -
  have m: "(7 :: byte) = mask 3" "(3 :: byte) = mask 2"
    by (simp_all add: mask_eq_exp_minus_1)
  have "unat b < 256" using unsigned_less[of b] by simp
  then show "ctx_x b < 4"
    by (simp add: ctx_x_def unat_drop_bit_eq drop_bit_eq_div unat_div)
  have t: "unat (take_bit n w) < 2 ^ n" for n and w :: byte
    by (simp add: unsigned_take_bit_eq)
  show "ctx_y b < 8" "ctx_z b < 8" "ctx_p b < 4"
    unfolding ctx_y_def ctx_z_def ctx_p_def m
    using t[of 3 "drop_bit 3 b"] t[of 3 b] t[of 2 "drop_bit 4 b"]
    by (simp_all flip: take_bit_eq_mask)
  show "ctx_q b < 2"
    using t[of 1 "drop_bit 3 b"] by (simp add: ctx_q_def and_one_eq)
qed


lemma fetch_opcode_eq:
  "fetch_opcode s =
     (cpu_prefetch_byte s,
      s\<lparr>cpu_cycles := 0, r_PC := next_pc s (r_PC s),
        cpu_prefetch_byte := memory s (next_pc s (r_PC s)),
        r_R := ((r_R s + 1) AND 0x7F) OR (r_R s AND 0x80)\<rparr>)"
  by (simp add: fetch_opcode_def cpu_fetch_byte_def cpu_prefetch_def next_pc_def
        memory_read_byte_def Let_def)


lemma exec_opcode_ED: "exec_opcode 0xED u = done_opt (exec_ed u)"
  by (simp add: exec_opcode_def exec_x3_def exec_x3_z5_def)

lemma exec_opcode_CB: "exec_opcode 0xCB u = done_opt (exec_cb u)"
  by (simp add: exec_opcode_def exec_x3_def exec_x3_z3_def)


lemma exec_opcode_prefix:
  "exec_opcode 0x40 u = ExitLoop (suffix_byte False False u)"
  "exec_opcode 0x49 u = ExitLoop (suffix_byte True False u)"
  "exec_opcode 0x52 u = ExitLoop (suffix_byte False True u)"
  "exec_opcode 0x5B u = ExitLoop (suffix_byte True True u)"
  "exec_opcode 0xDD u = ExitLoop ((add_cycles 1 u)\<lparr>cpu_PREFIX := 2\<rparr>)"
  "exec_opcode 0xFD u = ExitLoop ((add_cycles 1 u)\<lparr>cpu_PREFIX := 3\<rparr>)"
  by (simp_all add: exec_opcode_def exec_x1_def exec_x3_def exec_x3_z5_def)

lemma exec_opcode_EI: "exec_opcode 0xFB u = Continue (exec_EI u)"
  by (simp add: exec_opcode_def exec_x3_def exec_x3_z3_def)


section \<open>DAA\<close>

lemma upt8: "[0..<8] = [0, 1, 2, 3, 4, 5, 6, 7 :: nat]"
  by code_simp

lemma nib_u32: "(ucast (a::byte) AND 0xF :: u32) = of_nat (unat a mod 16)"
proof -
  have "(ucast a AND 0xF :: u32) = take_bit 4 (ucast a)"
    by (simp add: take_bit_eq_mask mask_eq_exp_minus_1)
  also have "\<dots> = of_nat (take_bit 4 (unat a))"
    by (simp add: unsigned_take_bit_eq of_nat_take_bit word_eq_iff_unsigned[where ?'a=nat] unsigned_ucast_eq)
  finally show ?thesis by (simp add: take_bit_eq_mod)
qed

lemma low_nib: "((a::byte) AND 0xF) > 9 \<longleftrightarrow> unat a mod 16 > 9"
proof -
  have "a AND 0xF = take_bit 4 a" by (simp add: take_bit_eq_mask mask_eq_exp_minus_1)
  then have "unat (a AND 0xF) = unat a mod 16" by (simp add: unat_mod take_bit_eq_mod)
  then show ?thesis by (simp add: word_less_nat_alt)
qed

lemma tab_sub: "\<forall>n\<in>{0..<16::nat}. \<forall>m\<in>{0..<16::nat}. (((of_nat n :: u32) - of_nat m) AND 0x10 \<noteq> 0) = (n < m)"
  by code_simp

lemma tab_add: "\<forall>n\<in>{0..<16::nat}. \<forall>m\<in>{0..<16::nat}. (((of_nat n :: u32) + of_nat m) AND 0x10 \<noteq> 0) = (n + m > 15)"
  by code_simp

lemma halfcarry_b_add_iff:
  "flag_halfcarry_b_add (ucast (a::byte)) (ucast (v::byte)) 0 = flag_h (unat a mod 16 + unat v mod 16 > 15)"
  using tab_add by (simp add: flag_halfcarry_b_add_def nib_u32)

lemma halfcarry_b_sub_iff:
  "flag_halfcarry_b_sub (ucast (a::byte)) (ucast (v::byte)) 0 = flag_h (unat a mod 16 < unat v mod 16)"
  using tab_sub by (simp add: flag_halfcarry_b_sub_def nib_u32)

lemma unat_sum_u32: "unat (ucast (a::byte) + ucast (v::byte) :: u32) = unat a + unat v"
proof -
  have "unat a < 256" "unat v < 256" using unsigned_less[of a] unsigned_less[of v] by simp_all
  then show ?thesis by (simp add: unat_word_ariths unsigned_ucast_eq take_bit_nat_eq_self)
qed

lemma drop4_gt9: "(drop_bit 4 (x::u32) > 9) = (unat x div 16 > 9)"
  by (simp add: word_less_nat_alt unat_drop_bit_eq drop_bit_eq_div unat_div)

lemma carry_b_iff:
  assumes "unat (x::u32) < 512"
  shows "(flag_carry_b x \<noteq> 0) = (unat x > 255)"
proof -
  have "(x AND 0x100 \<noteq> 0) = bit x 8"
    using and_exp_eq_0_iff_not_bit[of x 8] by simp
  also have "\<dots> = bit (unat x) 8"
    by (simp add: bit_unsigned_iff)
  also have "\<dots> = odd (unat x div 256)"
    by (simp add: bit_iff_odd)
  also have "\<dots> = (unat x > 255)"
  proof (cases "unat x < 256")
    case True
    then show ?thesis by simp
  next
    case False
    then have "unat x div 256 = 1" using assms by simp
    then show ?thesis using False by simp
  qed
  finally show ?thesis by (simp add: flag_carry_b_def flag_c_def FLAG_C_def)
qed

lemma c0: "unat (r_A s) < 256 \<Longrightarrow> (flag_carry_b (ucast (r_A s)) \<noteq> 0) = (unat (r_A s) > 255)"
    using carry_b_iff[of "ucast (r_A s) :: u32"] by (simp add: unsigned_ucast_eq take_bit_nat_eq_self)

lemma d6: "unat (ucast (r_A s) + 6 :: u32) = unat (r_A s) + 6"
    using unat_sum_u32[of "r_A s" 6] by simp

lemma c6: "unat (r_A s) < 256 \<Longrightarrow> (flag_carry_b (ucast (r_A s) + 6) \<noteq> 0) = (unat (r_A s) + 6 > 255)"
    using carry_b_iff[of "ucast (r_A s) + 6 :: u32"] by (simp add: d6)


lemma daa_adjust_cases: "daa_adjust a h c \<in> {0, 6, 96, 102}"
  by (simp add: daa_adjust_def Let_def)

lemma daa_unfold:
  "cpu_execute_daa s =
     (let v = (of_nat (daa_adjust (r_A s) (flags_H s) (flags_C s)) :: byte) in
      if flags_N s
      then s\<lparr>r_A := r_A s - v,
             r_F := flag_sign_b (ucast (r_A s - v)) OR flag_zero (ucast (r_A s - v))
                    OR flag_undef (r_F s) OR flag_parity (r_A s - v)
                    OR flag_subtract (flags_N s) OR flag_c (v \<ge> 0x60)
                    OR flag_halfcarry_b_sub (ucast (r_A s)) (ucast v) 0\<rparr>
      else s\<lparr>r_A := r_A s + v,
             r_F := flag_sign_b (ucast (r_A s + v)) OR flag_zero (ucast (r_A s + v))
                    OR flag_undef (r_F s) OR flag_parity (r_A s + v)
                    OR flag_subtract (flags_N s) OR flag_c (v \<ge> 0x60)
                    OR flag_halfcarry_b_add (ucast (r_A s)) (ucast v) 0\<rparr>)"
proof -
  define v1 :: byte where "v1 = (if (r_A s AND 0xF) > 9 \<or> flags_H s then 6 else 0)"
  define vv :: byte where
    "vv = (if drop_bit 4 (ucast (r_A s) + ucast v1 :: u32) > 9
              \<or> flag_carry_b (ucast (r_A s) + ucast v1) \<noteq> 0 \<or> flags_C s
           then v1 + 0x60 else v1)"
  have b: "unat (r_A s) < 256" using unsigned_less[of "r_A s"] by simp
  have 1: "vv = of_nat (daa_adjust (r_A s) (flags_H s) (flags_C s))"
    by (simp add: vv_def v1_def daa_adjust_def Let_def low_nib drop4_gt9
        c0[OF b] c6[OF b] d6 unsigned_ucast_eq take_bit_nat_eq_self b)
  have 2: "cpu_execute_daa s =
      (if flags_N s
      then s\<lparr>r_A := r_A s - vv,
             r_F := flag_sign_b (ucast (r_A s - vv)) OR flag_zero (ucast (r_A s - vv))
                    OR flag_undef (r_F s) OR flag_parity (r_A s - vv)
                    OR flag_subtract (flags_N s) OR flag_c (vv \<ge> 0x60)
                    OR flag_halfcarry_b_sub (ucast (r_A s)) (ucast vv) 0\<rparr>
      else s\<lparr>r_A := r_A s + vv,
             r_F := flag_sign_b (ucast (r_A s + vv)) OR flag_zero (ucast (r_A s + vv))
                    OR flag_undef (r_F s) OR flag_parity (r_A s + vv)
                    OR flag_subtract (flags_N s) OR flag_c (vv \<ge> 0x60)
                    OR flag_halfcarry_b_add (ucast (r_A s)) (ucast vv) 0\<rparr>)"
    unfolding vv_def v1_def by (simp add: cpu_execute_daa_def Let_def)
  show ?thesis unfolding 2 1 Let_def ..
qed

lemma sign_b_ucast: "flag_sign_b (ucast (a::byte)) = flag_s (bit a 7)"
proof -
  have "((ucast a :: u32) AND 0x80 \<noteq> 0) = bit (ucast a :: u32) 7"
    using and_exp_eq_0_iff_not_bit[of "ucast a :: u32" 7] by simp
  then show ?thesis by (simp add: flag_sign_b_def bit_ucast_iff)
qed

lemma zero_ucast: "flag_zero (ucast (a::byte)) = flag_z (a = 0)"
proof -
  have "unat a < 256" using unsigned_less[of a] by simp
  then have "unat (ucast a :: u32) = unat a"
    by (simp add: unsigned_ucast_eq take_bit_nat_eq_self)
  then have "((ucast a :: u32) = 0) = (a = 0)"
    by (metis unat_eq_0)
  then show ?thesis by (simp add: flag_zero_def flag_z_def)
qed

lemma ge96: "n \<in> {0, 6, 96, 102::nat} \<Longrightarrow> ((of_nat n :: byte) \<ge> 0x60) = (n \<ge> 96)"
  by auto

lemma mod16v: "n \<in> {0, 6, 96, 102::nat} \<Longrightarrow> unat (of_nat n :: byte) mod 16 = n mod 16"
  by auto


lemma bit_byte_pow: "k < 8 \<Longrightarrow> bit ((2::byte) ^ k) n = (n = k)"
  by (auto simp: bit_exp_iff)

lemma bit_FLAGS:
  "bit FLAG_C n = (n = 0)" "bit FLAG_N n = (n = 1)" "bit FLAG_PV n = (n = 2)"
  "bit FLAG_3 n = (n = 3)" "bit FLAG_H n = (n = 4)" "bit FLAG_5 n = (n = 5)"
  "bit FLAG_Z n = (n = 6)" "bit FLAG_S n = (n = 7)"
  using bit_byte_pow[of 0 n] bit_byte_pow[of 1 n] bit_byte_pow[of 2 n] bit_byte_pow[of 3 n]
    bit_byte_pow[of 4 n] bit_byte_pow[of 5 n] bit_byte_pow[of 6 n] bit_byte_pow[of 7 n]
  by (simp_all add: FLAG_C_def FLAG_N_def FLAG_PV_def FLAG_3_def FLAG_H_def FLAG_5_def
          FLAG_Z_def FLAG_S_def)

lemma bit_flag_fns:
  "bit (flag_s a) n = (n = 7 \<and> a)" "bit (flag_z a) n = (n = 6 \<and> a)"
  "bit (flag_h a) n = (n = 4 \<and> a)" "bit (flag_pv a) n = (n = 2 \<and> a)"
  "bit (flag_subtract a) n = (n = 1 \<and> a)" "bit (flag_c a) n = (n = 0 \<and> a)"
  "bit (flag_undef f) n = (bit f n \<and> (n = 3 \<or> n = 5))"
  by (simp_all add: flag_s_def flag_z_def flag_h_def flag_pv_def flag_subtract_def flag_c_def
        flag_undef_def bit_FLAGS bit_or_iff bit_and_iff)

lemma F_bits:
  "bit (flag_s a OR flag_z b OR flag_undef f OR flag_pv c OR flag_subtract d OR flag_c e OR flag_h g) n
   = ((n = 7 \<and> a) \<or> (n = 6 \<and> b) \<or> (n = 5 \<and> bit f 5) \<or> (n = 4 \<and> g)
      \<or> (n = 3 \<and> bit f 3) \<or> (n = 2 \<and> c) \<or> (n = 1 \<and> d) \<or> (n = 0 \<and> e))"
  by (auto simp add: bit_or_iff bit_flag_fns)


text \<open>
  C3, as amended.  DAA computes the correction \<open>v\<close> as 6 when the low nibble of A is above
  9 or H is set, plus \<^verbatim>\<open>0x60\<close> when \<^verbatim>\<open>(A + v) >> 4 > 9\<close>, or the eight-bit sum carries
  out, or the carry flag C is set on entry.  \<open>v\<close> is added to A when N is clear and
  subtracted when N is set; afterwards C is set iff \<open>v \<ge> 0x60\<close>, H is the half-carry
  (N clear) or half-borrow (N set) of the adjustment, S, Z and P (even parity) come from
  the new A, N and the undefined bits 3 and 5 are kept, and nothing else changes.
\<close>

theorem daa_amended:
  "let v = daa_adjust (r_A s) (flags_H s) (flags_C s); t = cpu_execute_daa s in
     r_A t = (if flags_N s then r_A s - of_nat v else r_A s + of_nat v)
   \<and> flags_C t = (v \<ge> 96)
   \<and> flags_H t = (if flags_N s then unat (r_A s) mod 16 < v mod 16
                    else unat (r_A s) mod 16 + v mod 16 > 15)
   \<and> flags_S t = bit (r_A t) 7
   \<and> flags_Z t = (r_A t = 0)
   \<and> flags_PV t = even (length (filter (bit (r_A t)) [0..<8]))
   \<and> flags_N t = flags_N s
   \<and> bit (r_F t) 3 = bit (r_F s) 3
   \<and> bit (r_F t) 5 = bit (r_F s) 5
   \<and> t = s\<lparr>r_A := r_A t, r_F := r_F t\<rparr>"
proof -
  define v where "v = daa_adjust (r_A s) (flags_H s) (flags_C s)"
  have c: "v \<in> {0, 6, 96, 102}" unfolding v_def by (rule daa_adjust_cases)
  have u: "cpu_execute_daa s =
      (if flags_N s
      then s\<lparr>r_A := r_A s - of_nat v,
             r_F := flag_sign_b (ucast (r_A s - of_nat v)) OR flag_zero (ucast (r_A s - of_nat v))
                    OR flag_undef (r_F s) OR flag_parity (r_A s - of_nat v)
                    OR flag_subtract (flags_N s) OR flag_c ((of_nat v :: byte) \<ge> 0x60)
                    OR flag_halfcarry_b_sub (ucast (r_A s)) (ucast (of_nat v :: byte)) 0\<rparr>
      else s\<lparr>r_A := r_A s + of_nat v,
             r_F := flag_sign_b (ucast (r_A s + of_nat v)) OR flag_zero (ucast (r_A s + of_nat v))
                    OR flag_undef (r_F s) OR flag_parity (r_A s + of_nat v)
                    OR flag_subtract (flags_N s) OR flag_c ((of_nat v :: byte) \<ge> 0x60)
                    OR flag_halfcarry_b_add (ucast (r_A s)) (ucast (of_nat v :: byte)) 0\<rparr>)"
    unfolding v_def by (simp add: daa_unfold Let_def)
  have "r_A (cpu_execute_daa s) = (if flags_N s then r_A s - of_nat v else r_A s + of_nat v)
   \<and> flags_C (cpu_execute_daa s) = (v \<ge> 96)
   \<and> flags_H (cpu_execute_daa s) = (if flags_N s then unat (r_A s) mod 16 < v mod 16
                    else unat (r_A s) mod 16 + v mod 16 > 15)
   \<and> flags_S (cpu_execute_daa s) = bit (r_A (cpu_execute_daa s)) 7
   \<and> flags_Z (cpu_execute_daa s) = (r_A (cpu_execute_daa s) = 0)
   \<and> flags_PV (cpu_execute_daa s) = even (length (filter (bit (r_A (cpu_execute_daa s))) [0..<8]))
   \<and> flags_N (cpu_execute_daa s) = flags_N s
   \<and> bit (r_F (cpu_execute_daa s)) 3 = bit (r_F s) 3
   \<and> bit (r_F (cpu_execute_daa s)) 5 = bit (r_F s) 5
   \<and> cpu_execute_daa s = s\<lparr>r_A := r_A (cpu_execute_daa s), r_F := r_F (cpu_execute_daa s)\<rparr>"
    unfolding u
    by (simp add: flags_C_def flags_H_def flags_S_def flags_Z_def
        flags_PV_def flags_N_def F_bits sign_b_ucast zero_ucast flag_parity_def parity_def
        halfcarry_b_add_iff halfcarry_b_sub_iff ge96[OF c] mod16v[OF c])
  then show ?thesis unfolding v_def Let_def .
qed


text \<open>
  The specification's second scenario: A = \<^verbatim>\<open>0x3C\<close> with H set (after \<^verbatim>\<open>0x15 + 0x27\<close>)
  is adjusted to \<^verbatim>\<open>0x42\<close>, with C clear, N clear and P set.
\<close>

theorem daa_amended_witness:
  "r_A (cpu_execute_daa (blank_state\<lparr>r_A := 0x3C, r_F := FLAG_H\<rparr>)) = 0x42
   \<and> flags_C (cpu_execute_daa (blank_state\<lparr>r_A := 0x3C, r_F := FLAG_H\<rparr>)) = False
   \<and> flags_N (cpu_execute_daa (blank_state\<lparr>r_A := 0x3C, r_F := FLAG_H\<rparr>)) = False
   \<and> flags_PV (cpu_execute_daa (blank_state\<lparr>r_A := 0x3C, r_F := FLAG_H\<rparr>)) = True"
  using daa_amended [of "blank_state\<lparr>r_A := 0x3C, r_F := FLAG_H\<rparr>"]
  by (simp add: Let_def daa_adjust_def blank_state_def flags_H_def flags_C_def flags_N_def
        flags_PV_def bit_FLAGS cpu_execute_daa_def flag_carry_b_def bit_flag_fns bit_or_iff
        sign_b_ucast zero_ucast flag_parity_def parity_def halfcarry_b_add_iff upt8)

text \<open>
  C3 as stated fails: with A = 0, H clear, N clear and the carry flag set, the stated
  correction is 0, but the code adds \<^verbatim>\<open>0x60\<close>.
\<close>

theorem daa_claimed_counterexample:
  "daa_claimed (r_A (blank_state\<lparr>r_F := FLAG_C\<rparr>)) (flags_H (blank_state\<lparr>r_F := FLAG_C\<rparr>)) = 0
   \<and> r_A (cpu_execute_daa (blank_state\<lparr>r_F := FLAG_C\<rparr>)) = 0x60"
  by (simp add: daa_claimed_def cpu_execute_daa_def blank_state_def flags_H_def flags_C_def
        flags_N_def bit_FLAGS flag_carry_b_def flag_c_def Let_def)

section \<open>Mixed-mode CALL and RET\<close>

text \<open>
  C1.  \<^verbatim>\<open>cpu_call\<close> with \<open>mixed\<close> set issues its writes in this order: PCU below SPL
  when ADL is set; then PCH and PCL, below SPL when IL is set or L is set with ADL clear,
  and below SPS otherwise; then the mode byte \<^verbatim>\<open>(MADL << 1) | ADL\<close> below SPL.  SPL and
  SPS end decremented by the bytes pushed on them.  With \<open>mixed\<close> clear the call is
  \<^verbatim>\<open>cpu_push_word(PC)\<close>, which pushes PCU (when L is set), PCH and PCL on the stack L
  selects, followed by the prefetch of the target.  CALL nn, a taken CALL cc,nn and RST
  pass \<^verbatim>\<open>cpu.SUFFIX\<close> as \<open>mixed\<close>.
\<close>

theorem cpu_call_push_order:
  "mem_writes (cpu_call address True s) =
     mem_writes s
     @ (if cpu_ADL s then [(cpu_address_mode (r_SPL s - 1) (cpu_L s) s, r_PCU s)] else [])
     @ (let sp = (if cpu_ADL s then r_SPL s - 1 else r_SPL s)
        in if cpu_IL s \<or> (cpu_L s \<and> \<not> cpu_ADL s)
           then [(cpu_address_mode (sp - 1) (cpu_L s) s, r_PCH s),
                 (cpu_address_mode (sp - 2) (cpu_L s) s, r_PCL s),
                 (cpu_address_mode (sp - 3) (cpu_L s) s, mode_byte (cpu_MADL s) (cpu_ADL s))]
           else [(cpu_address_mode (ucast (r_SPS s - 1)) (cpu_L s) s, r_PCH s),
                 (cpu_address_mode (ucast (r_SPS s - 2)) (cpu_L s) s, r_PCL s),
                 (cpu_address_mode (sp - 1) (cpu_L s) s, mode_byte (cpu_MADL s) (cpu_ADL s))])
   \<and> r_SPL (cpu_call address True s) =
       r_SPL s - (if cpu_ADL s then 1 else 0)
               - (if cpu_IL s \<or> (cpu_L s \<and> \<not> cpu_ADL s) then 2 else 0) - 1
   \<and> r_SPS (cpu_call address True s) =
       (if cpu_IL s \<or> (cpu_L s \<and> \<not> cpu_ADL s) then r_SPS s else r_SPS s - 2)
   \<and> cpu_call address False s = cpu_prefetch address (cpu_IL s) (cpu_push_word (r_PC s) s)
   \<and> mem_writes (cpu_push_word (r_PC s) s) =
       mem_writes s
       @ (if cpu_L s then [(cpu_address_mode (r_SPL s - 1) True s, r_PCU s),
                           (cpu_address_mode (r_SPL s - 2) True s, r_PCH s),
                           (cpu_address_mode (r_SPL s - 3) True s, r_PCL s)]
          else [(cpu_address_mode (ucast (r_SPS s - 1)) False s, r_PCH s),
                (cpu_address_mode (ucast (r_SPS s - 2)) False s, r_PCL s)])"
  by (cases "cpu_ADL s"; cases "cpu_IL s"; cases "cpu_L s")
     (simp_all add: cpu_call_def Let_def mode_byte_def cpu_push_word_def cpu_push_byte_def
       set_stack_hl_def stack_hl_def r_PCU_def r_PCH_def r_PCL_def byte0_def byte1_def byte2_def
       ucast_down_diff ucast_up_down)

text \<open>
  A CALL under \<^verbatim>\<open>.LIL\<close> from Z80 mode, return address \<^verbatim>\<open>0x000104\<close>, SPL =
  \<^verbatim>\<open>0x1000\<close>: PCH, PCL and the mode byte 0 go below SPL, nothing goes to SPS.
\<close>

theorem cpu_call_push_order_witness:
  "mem_writes (cpu_call 0x400000 True
       (blank_state\<lparr>r_PC := 0x104, r_SPL := 0x1000, cpu_SUFFIX := True, cpu_L := True,
                     cpu_IL := True\<rparr>))
     = [(0xFFF, 0x01), (0xFFE, 0x04), (0xFFD, 0x00)]
   \<and> r_SPL (cpu_call 0x400000 True
       (blank_state\<lparr>r_PC := 0x104, r_SPL := 0x1000, cpu_SUFFIX := True, cpu_L := True,
                     cpu_IL := True\<rparr>)) = 0xFFD
   \<and> r_SPS (cpu_call 0x400000 True
       (blank_state\<lparr>r_PC := 0x104, r_SPL := 0x1000, cpu_SUFFIX := True, cpu_L := True,
                     cpu_IL := True\<rparr>)) = 0"
  using cpu_call_push_order [where address = "0x400000" and s =
      "blank_state\<lparr>r_PC := 0x104, r_SPL := 0x1000, cpu_SUFFIX := True, cpu_L := True,
                    cpu_IL := True\<rparr>"]
  by (simp add: blank_state_def cpu_address_mode_def mode_byte_def r_PCH_def r_PCL_def
        byte0_def byte1_def)

text \<open>
  C2, as amended.  A return with SUFFIX set reads the mode byte first, from the top of
  the SPL stack.  The current ADL (not the saved mode byte) decides the stack of the low
  sixteen bits of the return address: the next two bytes of SPL when ADL is set, the top
  two bytes of SPS when it is clear.  Bit 0 of the saved mode byte decides whether one
  more byte is read from SPL as the upper byte (kept when ADL or L is set), and it is
  the mode in which execution resumes, at the restored address.
\<close>

theorem cpu_return_mixed:
  assumes "cpu_SUFFIX s"
  shows "let mode = bit (cpu_read_byte (r_SPL s) s) 0;
             lo = (if cpu_ADL s then cpu_read_byte (r_SPL s + 1) s
                   else cpu_read_byte (ucast (r_SPS s)) s);
             hi = (if cpu_ADL s then cpu_read_byte (r_SPL s + 2) s
                   else cpu_read_byte (ucast (r_SPS s + 1)) s);
             up = cpu_read_byte (r_SPL s + (if cpu_ADL s then 3 else 1)) s;
             address = ucast lo OR push_bit 8 (ucast hi)
                       OR (if mode then cpu_mask_mode (push_bit 16 (ucast up)) (cpu_ADL s \<or> cpu_L s)
                           else 0)
         in cpu_ADL (cpu_return s) = mode
          \<and> r_PC (cpu_return s) = cpu_address_mode address mode s
          \<and> r_SPL (cpu_return s) =
              r_SPL s + 1 + (if cpu_ADL s then 2 else 0) + (if mode then 1 else 0)
          \<and> r_SPS (cpu_return s) = (if cpu_ADL s then r_SPS s else r_SPS s + 2)
          \<and> cpu_prefetch_byte (cpu_return s) = memory s (cpu_address_mode address mode s)
          \<and> mem_writes (cpu_return s) = mem_writes s"
proof -
  have m: "(cpu_read_byte (r_SPL s) s AND 1 \<noteq> 0) = bit (cpu_read_byte (r_SPL s) s) 0"
    using and_exp_eq_0_iff_not_bit[of "cpu_read_byte (r_SPL s) s" 0] by simp
  have m2: "(1 AND cpu_read_byte (r_SPL s) s \<noteq> 0) = bit (cpu_read_byte (r_SPL s) s) 0"
    using m by (simp add: and.commute)
  show ?thesis using assms
    by (cases "cpu_ADL s"; cases "bit (cpu_read_byte (r_SPL s) s) 0")
       (simp_all add: cpu_return_def Let_def m m2 ac_simps)
qed

theorem cpu_return_mixed_witness:
  "cpu_SUFFIX (ret_state False)
   \<and> cpu_ADL (cpu_return (ret_state False)) = True
   \<and> r_PC (cpu_return (ret_state False)) = 0x345678
   \<and> r_SPL (cpu_return (ret_state False)) = 0x102
   \<and> r_SPS (cpu_return (ret_state False)) = 0x202"
proof -
  have h: "cpu_SUFFIX (ret_state False)" by (simp add: ret_state_def blank_state_def)
  show ?thesis
    using h cpu_return_mixed [OF h]
    by (simp add: ret_state_def blank_state_def Let_def cpu_read_byte_def memory_read_byte_def
          cpu_address_mode_def cpu_mask_mode_def)
qed

text \<open>
  C2 as stated fails: the two states \<open>ret_state True\<close> and \<open>ret_state False\<close> hold the
  same saved mode byte on SPL and differ only in the current ADL, yet the first takes the
  low sixteen bits of the return address from SPL and the second from SPS.
\<close>

theorem cpu_return_stack_counterexample:
  "cpu_read_byte (r_SPL (ret_state True)) (ret_state True)
     = cpu_read_byte (r_SPL (ret_state False)) (ret_state False)
   \<and> r_SPS (cpu_return (ret_state True)) = r_SPS (ret_state True)
   \<and> r_PC (cpu_return (ret_state True)) = 0x001234
   \<and> r_SPS (cpu_return (ret_state False)) = r_SPS (ret_state False) + 2
   \<and> r_PC (cpu_return (ret_state False)) = 0x345678"
  by (simp add: ret_state_def blank_state_def cpu_return_def Let_def cpu_read_byte_def
        memory_read_byte_def cpu_address_mode_def cpu_mask_mode_def)

section \<open>Repeating block instructions\<close>

lemma mask_consts: "(0xFF :: u32) = mask 8" "(0xFF00 :: u32) = push_bit 8 (mask 8)"
  "(0xFFFF :: u32) = mask 16" "(0xFFFFFF :: u32) = mask 24"
  by (simp_all add: mask_eq_exp_minus_1)

lemma byte_views [simp]:
  "byte1 (set_byte1 v w) = v" "byte0 (set_byte0 v w) = v"
  "byte1 (set_byte0 v w) = byte1 w" "byte0 (set_byte1 v w) = byte0 w"
  unfolding byte0_def byte1_def set_byte0_def set_byte1_def mask_consts
  by (rule bit_word_eqI; auto simp: bit_simps dest: bit_imp_le_length)+

lemma r_B_set [simp]: "r_B (set_B v s) = v" "r_B (set_C v s) = r_B s"
  "r_C (set_C v s) = v" "r_C (set_B v s) = r_C s"
  by (simp_all add: r_B_def r_C_def set_B_def set_C_def)

lemma repeat_LDIR:
  "repeats_iff (r_BC (bli_LDIR s) \<noteq> 0) s (bli_LDIR s)
   \<and> r_BC (bli_LDIR s) = cpu_mask_mode (r_BC s - 1) (cpu_L s)"
  by (simp add: repeats_iff_def reprefetched_def falls_through_def bli_LDIR_def Let_def
        bli_repeat_def dec_BC_def)

lemma repeat_LDDR:
  "repeats_iff (r_BC (bli_LDDR s) \<noteq> 0) s (bli_LDDR s)
   \<and> r_BC (bli_LDDR s) = cpu_mask_mode (r_BC s - 1) (cpu_L s)"
  by (simp add: repeats_iff_def reprefetched_def falls_through_def bli_LDDR_def Let_def
        bli_repeat_def dec_BC_def)

lemma repeat_CPIR:
  "repeats_iff (r_BC (bli_CPIR s) \<noteq> 0 \<and> \<not> flags_Z (bli_CPIR s)) s (bli_CPIR s)
   \<and> r_BC (bli_CPIR s) = cpu_mask_mode (r_BC s - 1) (cpu_L s)"
  by (simp add: repeats_iff_def reprefetched_def falls_through_def bli_CPIR_def Let_def
        bli_repeat_def dec_BC_def)

lemma repeat_CPDR:
  "repeats_iff (r_BC (bli_CPDR s) \<noteq> 0 \<and> \<not> flags_Z (bli_CPDR s)) s (bli_CPDR s)
   \<and> r_BC (bli_CPDR s) = cpu_mask_mode (r_BC s - 1) (cpu_L s)"
  by (simp add: repeats_iff_def reprefetched_def falls_through_def bli_CPDR_def Let_def
        bli_repeat_def dec_BC_def)

lemma repeat_INIR:
  "repeats_iff (r_B (bli_INIR s) \<noteq> 0) s (bli_INIR s)
   \<and> r_B (bli_INIR s) = r_B s - 1"
  by (simp add: repeats_iff_def reprefetched_def falls_through_def bli_INIR_def Let_def
        bli_repeat_def dec_B_def)

lemma repeat_INDR:
  "repeats_iff (r_B (bli_INDR s) \<noteq> 0) s (bli_INDR s)
   \<and> r_B (bli_INDR s) = r_B s - 1"
  by (simp add: repeats_iff_def reprefetched_def falls_through_def bli_INDR_def Let_def
        bli_repeat_def dec_B_def)

lemma repeat_OTIR:
  "repeats_iff (r_B (bli_OTIR s) \<noteq> 0) s (bli_OTIR s)
   \<and> r_B (bli_OTIR s) = r_B s - 1"
  by (simp add: repeats_iff_def reprefetched_def falls_through_def bli_OTIR_def Let_def
        bli_repeat_def dec_B_def)

lemma repeat_OTDR:
  "repeats_iff (r_B (bli_OTDR s) \<noteq> 0) s (bli_OTDR s)
   \<and> r_B (bli_OTDR s) = r_B s - 1"
  by (simp add: repeats_iff_def reprefetched_def falls_through_def bli_OTDR_def Let_def
        bli_repeat_def dec_B_def)

lemma repeat_INIMR:
  "repeats_iff (r_B (bli_INIMR s) \<noteq> 0) s (bli_INIMR s)
   \<and> r_B (bli_INIMR s) = r_B s - 1"
  by (simp add: repeats_iff_def reprefetched_def falls_through_def bli_INIMR_def Let_def
        bli_repeat_def dec_B_def inc_C_def)

lemma repeat_INDMR:
  "repeats_iff (r_B (bli_INDMR s) \<noteq> 0) s (bli_INDMR s)
   \<and> r_B (bli_INDMR s) = r_B s - 1"
  by (simp add: repeats_iff_def reprefetched_def falls_through_def bli_INDMR_def Let_def
        bli_repeat_def dec_B_def dec_C_def)

lemma repeat_OTIMR:
  "repeats_iff (r_B (bli_OTIMR s) \<noteq> 0) s (bli_OTIMR s)
   \<and> r_B (bli_OTIMR s) = r_B s - 1"
  by (simp add: repeats_iff_def reprefetched_def falls_through_def bli_OTIMR_def Let_def
        bli_repeat_def dec_B_def inc_C_def)

lemma repeat_OTDMR:
  "repeats_iff (r_B (bli_OTDMR s) \<noteq> 0) s (bli_OTDMR s)
   \<and> r_B (bli_OTDMR s) = r_B s - 1"
  by (simp add: repeats_iff_def reprefetched_def falls_through_def bli_OTDMR_def Let_def
        bli_repeat_def dec_B_def dec_C_def)

text \<open>
  C4, as amended.  Each pass of a repeating block instruction re-prefetches the
  instruction, by \<^verbatim>\<open>prefetch(PC - 2 - SUFFIX, ADL)\<close>, exactly when its loop terminator is
  non-zero after the decrement, and otherwise leaves PC and the prefetch byte alone, so
  that execution falls through: the terminator is BC for LDIR and LDDR, and B for INIR,
  INDR, OTIR, OTDR, INIMR, INDMR, OTIMR and OTDMR.  CPIR and CPDR re-prefetch exactly
  when BC is non-zero after the decrement and the compare did not match (Z clear).
\<close>

theorem block_repeat_amended:
  "(repeats_iff (r_BC (bli_LDIR s) \<noteq> 0) s (bli_LDIR s)
   \<and> r_BC (bli_LDIR s) = cpu_mask_mode (r_BC s - 1) (cpu_L s))
   \<and> (repeats_iff (r_BC (bli_LDDR s) \<noteq> 0) s (bli_LDDR s)
   \<and> r_BC (bli_LDDR s) = cpu_mask_mode (r_BC s - 1) (cpu_L s))
   \<and> (repeats_iff (r_BC (bli_CPIR s) \<noteq> 0 \<and> \<not> flags_Z (bli_CPIR s)) s (bli_CPIR s)
   \<and> r_BC (bli_CPIR s) = cpu_mask_mode (r_BC s - 1) (cpu_L s))
   \<and> (repeats_iff (r_BC (bli_CPDR s) \<noteq> 0 \<and> \<not> flags_Z (bli_CPDR s)) s (bli_CPDR s)
   \<and> r_BC (bli_CPDR s) = cpu_mask_mode (r_BC s - 1) (cpu_L s))
   \<and> (repeats_iff (r_B (bli_INIR s) \<noteq> 0) s (bli_INIR s)
   \<and> r_B (bli_INIR s) = r_B s - 1)
   \<and> (repeats_iff (r_B (bli_INDR s) \<noteq> 0) s (bli_INDR s)
   \<and> r_B (bli_INDR s) = r_B s - 1)
   \<and> (repeats_iff (r_B (bli_OTIR s) \<noteq> 0) s (bli_OTIR s)
   \<and> r_B (bli_OTIR s) = r_B s - 1)
   \<and> (repeats_iff (r_B (bli_OTDR s) \<noteq> 0) s (bli_OTDR s)
   \<and> r_B (bli_OTDR s) = r_B s - 1)
   \<and> (repeats_iff (r_B (bli_INIMR s) \<noteq> 0) s (bli_INIMR s)
   \<and> r_B (bli_INIMR s) = r_B s - 1)
   \<and> (repeats_iff (r_B (bli_INDMR s) \<noteq> 0) s (bli_INDMR s)
   \<and> r_B (bli_INDMR s) = r_B s - 1)
   \<and> (repeats_iff (r_B (bli_OTIMR s) \<noteq> 0) s (bli_OTIMR s)
   \<and> r_B (bli_OTIMR s) = r_B s - 1)
   \<and> (repeats_iff (r_B (bli_OTDMR s) \<noteq> 0) s (bli_OTDMR s)
   \<and> r_B (bli_OTDMR s) = r_B s - 1)"
  using repeat_LDIR [of s] repeat_LDDR [of s] repeat_CPIR [of s] repeat_CPDR [of s] repeat_INIR [of s] repeat_INDR [of s] repeat_OTIR [of s] repeat_OTDR [of s] repeat_INIMR [of s] repeat_INDMR [of s] repeat_OTIMR [of s] repeat_OTDMR [of s]
  by (intro conjI) blast+


text \<open>
  LDIR with BC = 4 at PC = 2 (the two opcode bytes already fetched): BC becomes 3 and
  PC is rewound to 0.
\<close>

theorem block_repeat_amended_witness:
  "r_BC (bli_LDIR (blank_state\<lparr>r_BC := 4, r_PC := 2\<rparr>)) = 3
   \<and> r_PC (bli_LDIR (blank_state\<lparr>r_BC := 4, r_PC := 2\<rparr>)) = 0"
proof -
  let ?s = "blank_state\<lparr>r_BC := 4, r_PC := 2\<rparr>"
  from block_repeat_amended [of ?s]
  have 1: "repeats_iff (r_BC (bli_LDIR ?s) \<noteq> 0) ?s (bli_LDIR ?s)"
    and 2: "r_BC (bli_LDIR ?s) = cpu_mask_mode (r_BC ?s - 1) (cpu_L ?s)"
    by blast+
  have 3: "r_BC (bli_LDIR ?s) = 3"
    unfolding 2 by (simp add: blank_state_def cpu_mask_mode_def)
  from 1 have "reprefetched ?s (bli_LDIR ?s)"
    unfolding 3 by (simp add: repeats_iff_def)
  then have "r_PC (bli_LDIR ?s) = 0"
    by (simp add: reprefetched_def blank_state_def cpu_address_mode_def)
  with 3 show ?thesis by simp
qed

text \<open>
  C4 as stated fails for CPIR: with BC = 2 and A equal to the byte at HL, BC is 1 after
  the decrement, so the terminator is non-zero, but the match (Z set) ends the loop: PC
  stays at 2, where the re-prefetch would have put it back to 0.
\<close>

theorem block_repeat_counterexample:
  "r_BC (bli_CPIR (blank_state\<lparr>r_BC := 2, r_PC := 2\<rparr>)) = 1
   \<and> r_PC (bli_CPIR (blank_state\<lparr>r_BC := 2, r_PC := 2\<rparr>)) = 2
   \<and> cpu_address_mode
         (r_PC (blank_state\<lparr>r_BC := 2, r_PC := 2\<rparr>) - 2
            - of_bool (cpu_SUFFIX (blank_state\<lparr>r_BC := 2, r_PC := 2\<rparr>)))
         (cpu_ADL (blank_state\<lparr>r_BC := 2, r_PC := 2\<rparr>))
         (blank_state\<lparr>r_BC := 2, r_PC := 2\<rparr>) = 0"
  by (simp add: bli_CPIR_def Let_def blank_state_def dec_BC_def inc_HL_def add_cycles_def
        bli_flags_cp_def cpu_mask_mode_def cpu_address_mode_def cpu_read_byte_def
        memory_read_byte_def flags_Z_def flags_C_def bit_flag_fns bit_or_iff sign_b_ucast
        zero_ucast)

section \<open>Opcode traps\<close>

lemma ed_x0_trap:
  assumes "(ctx_z b = 0 \<and> ctx_y b = 6) \<or> ((ctx_z b = 2 \<or> ctx_z b = 3) \<and> ctx_q b \<noteq> 0)
           \<or> ctx_z b = 5 \<or> (ctx_z b = 6 \<and> ctx_y b \<noteq> 7)"
  shows "exec_ed_x0 b u = Some (opcode_trap u)"
  using assms by (elim disjE conjE; simp add: exec_ed_x0_def Let_def)

lemma ed_x1_trap:
  assumes "(ctx_z b = 0 \<and> ctx_y b = 6) \<or> (ctx_z b = 1 \<and> ctx_y b = 6)
           \<or> (ctx_z b = 5 \<and> (ctx_y b = 3 \<or> ctx_y b = 6))
           \<or> (ctx_z b = 6 \<and> ctx_y b = 1) \<or> (ctx_z b = 7 \<and> ctx_y b \<ge> 6)"
  shows "exec_ed_x1 b u = Some (opcode_trap u)"
  using assms
  by (elim disjE conjE;
      simp add: exec_ed_x1_def exec_ed_x1_z5_def exec_ed_x1_z6_def exec_ed_x1_z7_def Let_def)

lemma ed_x3_trap:
  assumes "b \<noteq> 0xC2 \<and> b \<noteq> 0xC3 \<and> b \<noteq> 0xC7 \<and> b \<noteq> 0xD7 \<and> b \<noteq> 0xCA \<and> b \<noteq> 0xCB
              \<and> b \<noteq> 0xEE"
  shows "exec_ed_x3 b u = opcode_trap u"
  using assms by (simp add: exec_ed_x3_def)

lemma exec_ed_trap:
  assumes "ed_trap (cpu_prefetch_byte s)"
  shows "exec_ed s =
     Some ((add_cycles 1 s)\<lparr>cpu_PREFIX := 0, r_PC := next_pc s (r_PC s),
            cpu_prefetch_byte := memory s (next_pc s (r_PC s)), cpu_IEF_wait := True\<rparr>)"
proof -
  let ?b = "cpu_prefetch_byte s"
  let ?u = "snd (cpu_fetch_byte ((add_cycles 1 s)\<lparr>cpu_PREFIX := 0\<rparr>))"
  have u: "opcode_trap ?u = (add_cycles 1 s)\<lparr>cpu_PREFIX := 0, r_PC := next_pc s (r_PC s),
            cpu_prefetch_byte := memory s (next_pc s (r_PC s)), cpu_IEF_wait := True\<rparr>"
    by (simp add: cpu_fetch_byte_def cpu_prefetch_def opcode_trap_def add_cycles_def next_pc_def
          memory_read_byte_def Let_def)
  have e: "exec_ed s =
     (if ctx_x ?b = 0 then exec_ed_x0 ?b ?u
      else if ctx_x ?b = 1 then exec_ed_x1 ?b ?u
      else if ctx_x ?b = 2 then
           (if ctx_z ?b \<le> 4 then Some (cpu_execute_bli (ctx_y ?b) (ctx_z ?b) ?u)
            else Some (opcode_trap ?u))
      else if ctx_x ?b = 3 then Some (exec_ed_x3 ?b ?u)
      else Some (opcode_trap ?u))"
    by (simp add: exec_ed_def Let_def split_beta cpu_fetch_byte_def add_cycles_def)
  have "exec_ed s = Some (opcode_trap ?u)"
  proof (cases "ctx_x ?b = 0")
    case True
    with assms show ?thesis unfolding e by (simp add: ed_trap_def Let_def ed_x0_trap)
  next
    case x0: False
    show ?thesis
    proof (cases "ctx_x ?b = 1")
      case True
      with assms show ?thesis unfolding e by (simp add: ed_trap_def Let_def ed_x1_trap)
    next
      case x1: False
      show ?thesis
      proof (cases "ctx_x ?b = 2")
        case True
        with assms show ?thesis unfolding e by (simp add: ed_trap_def Let_def)
      next
        case x2: False
        with x0 x1 assms show ?thesis unfolding e by (simp add: ed_trap_def Let_def ed_x3_trap)
      qed
    qed
  qed
  then show ?thesis unfolding u .
qed


lemma read_reg_prefetched_total:
  "i < 8 \<Longrightarrow> \<exists>v. cpu_read_reg_prefetched i a s = Some v"
  by (simp add: cpu_read_reg_prefetched_def)

lemma exec_cb_trap:
  assumes "ctx_x (fst (cpu_fetch_byte (snd (cpu_index_address s)))) = 0"
    and "ctx_y (fst (cpu_fetch_byte (snd (cpu_index_address s)))) = 6"
  shows "exec_cb s = Some ((snd (cpu_fetch_byte (snd (cpu_index_address s))))\<lparr>cpu_IEF_wait := True\<rparr>)"
proof -
  let ?s2 = "snd (cpu_fetch_byte (snd (cpu_index_address s)))"
  let ?opc = "fst (cpu_fetch_byte (snd (cpu_index_address s)))"
  obtain v where v: "cpu_read_reg_prefetched (ctx_z ?opc) (fst (cpu_index_address s)) ?s2 = Some v"
    using read_reg_prefetched_total[of "ctx_z ?opc"] by auto
  show ?thesis
    using assms v by (simp add: exec_cb_def Let_def split_beta cpu_execute_rot_def)
qed


lemma body_ed_trap:
  assumes "cpu_prefetch_byte s = 0xED" and "ed_trap (memory s (next_pc s (r_PC s)))"
  shows "cpu_execute_body s =
     (if cpu_events s AND EVENT_DEBUG_STEP \<noteq> 0
      then LoopBreak ((after_trap (next_pc s (next_pc s (r_PC s))) 1 s)\<lparr>cycle_count_delta := 0\<rparr>)
      else Iterate ((after_trap (next_pc s (next_pc s (r_PC s))) 1 s)
                      \<lparr>cycle_count_delta := cycle_count_delta s + 1\<rparr>))"
proof -
  define s1 where "s1 = s\<lparr>cpu_cycles := 0, r_PC := next_pc s (r_PC s),
        cpu_prefetch_byte := memory s (next_pc s (r_PC s)),
        r_R := ((r_R s + 1) AND 0x7F) OR (r_R s AND 0x80)\<rparr>"
  have f: "fetch_opcode s = (0xED, s1)"
    using assms(1) by (simp add: fetch_opcode_eq s1_def)
  have t: "ed_trap (cpu_prefetch_byte s1)" using assms(2) by (simp add: s1_def)
  have b: "cpu_execute_body s =
      (let t1 = cpu_get_cntrl_data_blocks_format
                  ((add_cycles 1 s1)\<lparr>cpu_PREFIX := 0, r_PC := next_pc s1 (r_PC s1),
                     cpu_prefetch_byte := memory s1 (next_pc s1 (r_PC s1)),
                     cpu_IEF_wait := True\<rparr>)
       in if cpu_events t1 AND EVENT_DEBUG_STEP \<noteq> 0
          then LoopBreak (t1\<lparr>cycle_count_delta := 0\<rparr>)
          else Iterate (exit_loop t1))"
    by (simp add: cpu_execute_body_def f exec_opcode_ED exec_ed_trap[OF t] done_opt_def)
  show ?thesis
    unfolding b
    by (simp add: s1_def after_trap_def cpu_get_cntrl_data_blocks_format_def
          exit_loop_def add_cycles_def next_pc_def Let_def)
qed


lemma body_cb_trap:
  assumes "cpu_prefetch_byte s = 0xCB"
    and "cb_trap (memory s (if cpu_PREFIX s = 0 then next_pc s (r_PC s)
                            else next_pc s (next_pc s (r_PC s))))"
  shows "cpu_execute_body s =
     (let pc = (if cpu_PREFIX s = 0 then next_pc s (next_pc s (r_PC s))
                else next_pc s (next_pc s (next_pc s (r_PC s))))
      in if cpu_events s AND EVENT_DEBUG_STEP \<noteq> 0
         then LoopBreak ((after_trap pc 0 s)\<lparr>cycle_count_delta := 0\<rparr>)
         else Iterate ((after_trap pc 0 s)\<lparr>cycle_count_delta := cycle_count_delta s + 1\<rparr>))"
proof -
  define s1 where "s1 = s\<lparr>cpu_cycles := 0, r_PC := next_pc s (r_PC s),
        cpu_prefetch_byte := memory s (next_pc s (r_PC s)),
        r_R := ((r_R s + 1) AND 0x7F) OR (r_R s AND 0x80)\<rparr>"
  define s2 where "s2 = snd (cpu_fetch_byte (snd (cpu_index_address s1)))"
  have f: "fetch_opcode s = (0xCB, s1)"
    using assms(1) by (simp add: fetch_opcode_eq s1_def)
  have s2: "s2 = s1\<lparr>r_PC := (if cpu_PREFIX s = 0 then next_pc s (next_pc s (r_PC s))
                                  else next_pc s (next_pc s (next_pc s (r_PC s)))),
                    cpu_prefetch_byte :=
                      memory s (if cpu_PREFIX s = 0 then next_pc s (next_pc s (r_PC s))
                                else next_pc s (next_pc s (next_pc s (r_PC s))))\<rparr>"
    by (simp add: s2_def s1_def cpu_index_address_def cpu_fetch_offset_def cpu_fetch_byte_def
          cpu_prefetch_def next_pc_def memory_read_byte_def Let_def split_beta)
  have o: "fst (cpu_fetch_byte (snd (cpu_index_address s1))) =
             memory s (if cpu_PREFIX s = 0 then next_pc s (r_PC s)
                       else next_pc s (next_pc s (r_PC s)))"
    by (simp add: s1_def cpu_index_address_def cpu_fetch_offset_def cpu_fetch_byte_def
          cpu_prefetch_def next_pc_def memory_read_byte_def Let_def split_beta)
  have c: "exec_cb s1 = Some (s2\<lparr>cpu_IEF_wait := True\<rparr>)"
    unfolding s2_def using assms(2) by (intro exec_cb_trap) (simp_all add: o cb_trap_def)
  have b: "cpu_execute_body s =
      (let t1 = cpu_get_cntrl_data_blocks_format (s2\<lparr>cpu_IEF_wait := True\<rparr>)
       in if cpu_events t1 AND EVENT_DEBUG_STEP \<noteq> 0
          then LoopBreak (t1\<lparr>cycle_count_delta := 0\<rparr>)
          else Iterate (exit_loop t1))"
    by (simp add: cpu_execute_body_def f exec_opcode_CB c done_opt_def)
  show ?thesis
    unfolding b s2
    by (simp add: s1_def after_trap_def cpu_get_cntrl_data_blocks_format_def
          exit_loop_def Let_def)
qed

lemma prefix_pass_cost:
  assumes "is_prefix_byte (cpu_prefetch_byte u)"
  shows "\<exists>t. cpu_execute_body u = Iterate t
           \<and> cycle_count_delta t = cycle_count_delta u + 1
           \<and> cpu_IEF_wait t = cpu_IEF_wait u"
  using assms
  by (auto simp: is_prefix_byte_def cpu_execute_body_def fetch_opcode_eq exec_opcode_prefix
      exit_loop_def suffix_byte_def add_cycles_def Let_def)

text \<open>
  C9, as amended.  An instruction that reaches an \<^verbatim>\<open>OPCODETRAP\<close> case of the decoder (a
  trapping second byte after ED, or the rot entry \<open>y = 6\<close> after CB, with or without an
  index prefix and its displacement) is not aborted: the pass through the loop body that
  starts at the ED or CB byte ends normally.  It sets \<^verbatim>\<open>IEF_wait\<close> and adds no cycle (CB)
  or one cycle (ED) to \<^verbatim>\<open>cpu.cycles\<close>.  When no debug step is pending, the accounting at
  \<^verbatim>\<open>exit_loop\<close> charges exactly one cycle to the budget for this pass; a pending debug
  step sets the budget to 0 instead.  Apart from \<^verbatim>\<open>IEF_wait\<close> and the budget, the state
  at the next boundary differs from the state before only in R, in PC and the prefetch
  byte, which have moved past the encoding, in \<^verbatim>\<open>cpu.cycles\<close>, and in the decoder latches
  PREFIX, SUFFIX, L and IL, which every boundary resets: registers, memory, ports, the
  interrupt enables and the modes are untouched.  A DD, FD or suffix byte in front of
  the trapping opcode is a pass of its own, which is charged one cycle and leaves
  \<^verbatim>\<open>IEF_wait\<close> as it was.
\<close>

theorem opcode_trap_effect:
  assumes "trap_shape s = Some (pc, c)"
  shows "cpu_execute_body s =
           (if cpu_events s AND EVENT_DEBUG_STEP \<noteq> 0
            then LoopBreak ((after_trap pc c s)\<lparr>cycle_count_delta := 0\<rparr>)
            else Iterate ((after_trap pc c s)\<lparr>cycle_count_delta := cycle_count_delta s + 1\<rparr>))
         \<and> (c = 0 \<or> c = 1)
         \<and> (is_prefix_byte (cpu_prefetch_byte u) \<longrightarrow>
              (\<exists>t. cpu_execute_body u = Iterate t
                   \<and> cycle_count_delta t = cycle_count_delta u + 1
                   \<and> cpu_IEF_wait t = cpu_IEF_wait u))"
proof (cases "cpu_prefetch_byte s = 0xED")
  case True
  with assms have e: "ed_trap (memory s (next_pc s (r_PC s)))"
    and p: "pc = next_pc s (next_pc s (r_PC s))" and c: "c = 1"
    by (auto simp: trap_shape_def Let_def split: if_splits)
  show ?thesis using body_ed_trap[OF True e] prefix_pass_cost[of u] by (simp add: p c)
next
  case False
  with assms have cb: "cpu_prefetch_byte s = 0xCB"
    by (auto simp: trap_shape_def Let_def split: if_splits)
  with False assms have t: "cb_trap (memory s (if cpu_PREFIX s = 0 then next_pc s (r_PC s)
                            else next_pc s (next_pc s (r_PC s))))"
    and p: "pc = (if cpu_PREFIX s = 0 then next_pc s (next_pc s (r_PC s))
                else next_pc s (next_pc s (next_pc s (r_PC s))))" and c: "c = 0"
    by (auto simp: trap_shape_def Let_def split: if_splits)
  show ?thesis using body_cb_trap[OF cb t] prefix_pass_cost[of u] by (simp add: p c Let_def)
qed

text \<open>
  The trap \<^verbatim>\<open>ED 30\<close> at address 0 in Z80 mode, and the prefix byte DD at address 0.
\<close>

theorem opcode_trap_effect_witness:
  "trap_shape trap_state = Some (2, 1)
   \<and> cpu_execute_body trap_state =
       Iterate ((after_trap 2 1 trap_state)\<lparr>cycle_count_delta := - 9\<rparr>)
   \<and> cpu_IEF_wait (after_trap 2 1 trap_state) = True
   \<and> r_R (after_trap 2 1 trap_state) = 1
   \<and> is_prefix_byte (cpu_prefetch_byte dd_state)
   \<and> (\<exists>t. cpu_execute_body dd_state = Iterate t \<and> cycle_count_delta t = - 9
           \<and> cpu_IEF_wait t = False)"
proof -
  have h: "trap_shape trap_state = Some (2, 1)"
    by (simp add: trap_shape_def trap_state_def program2_def blank_state_def next_pc_def
          cpu_address_mode_def ed_trap_def Let_def ctx_x_def ctx_y_def ctx_z_def ctx_q_def)
  have d: "is_prefix_byte (cpu_prefetch_byte dd_state)"
    "cycle_count_delta dd_state = - 10" "cpu_IEF_wait dd_state = False"
    by (simp_all add: is_prefix_byte_def dd_state_def program2_def blank_state_def)
  from opcode_trap_effect [OF h, of dd_state] d
  have p: "\<exists>t. cpu_execute_body dd_state = Iterate t \<and> cycle_count_delta t = - 9
              \<and> cpu_IEF_wait t = False"
    by simp
  have "cpu_execute_body trap_state =
       Iterate ((after_trap 2 1 trap_state)\<lparr>cycle_count_delta := - 9\<rparr>)
   \<and> cpu_IEF_wait (after_trap 2 1 trap_state) = True
   \<and> r_R (after_trap 2 1 trap_state) = 1"
    using opcode_trap_effect [OF h, of dd_state]
    by (simp add: trap_state_def program2_def blank_state_def EVENT_DEBUG_STEP_def
          after_trap_def)
  with h d(1) p show ?thesis by blast
qed

text \<open>
  C9 as stated fails.  With a debug step pending, the trap \<^verbatim>\<open>ED 30\<close> entered with a budget
  of \<open>-10\<close> leaves the budget at 0: the pass is not charged zero or one cycle.  The
  indexed trap \<^verbatim>\<open>DD CB 00 36\<close> takes two passes and is charged two cycles, one for the
  prefix byte and one for the trapping pass.  And \<^verbatim>\<open>ED 80\<close>, which no case of the
  decoder recognises, is not sent to a trap: the instruction completes with \<^verbatim>\<open>IEF_wait\<close>
  still clear.
\<close>

theorem opcode_trap_counterexample:
  "(\<exists>t. cpu_execute_body step_trap_state = LoopBreak t \<and> cpu_IEF_wait t
        \<and> cycle_count_delta step_trap_state = - 10 \<and> cycle_count_delta t = 0)
   \<and> (\<exists>t1 t2. cpu_execute_body index_trap_state = Iterate t1
        \<and> cpu_execute_body t1 = Iterate t2 \<and> cpu_IEF_wait t2 \<and> r_PC t2 = 4
        \<and> cycle_count_delta index_trap_state = - 10 \<and> cycle_count_delta t2 = - 8)
   \<and> (\<exists>t. cpu_execute_body ed_80_state = Iterate t \<and> \<not> cpu_IEF_wait t \<and> r_PC t = 2
        \<and> cycle_count_delta t = - 9)"
proof -
  have 1: "\<exists>t. cpu_execute_body step_trap_state = LoopBreak t \<and> cpu_IEF_wait t
        \<and> cycle_count_delta step_trap_state = - 10 \<and> cycle_count_delta t = 0"
    by (simp add: step_trap_state_def trap_state_def program2_def blank_state_def
      cpu_execute_body_def
      fetch_opcode_def cpu_fetch_byte_def exec_opcode_def exec_x3_def exec_x3_z5_def
      exec_ed_def exec_ed_x0_def opcode_trap_def done_opt_def Let_def cpu_prefetch_def
      memory_read_byte_def add_cycles_def cpu_address_mode_def
      cpu_get_cntrl_data_blocks_format_def exit_loop_def EVENT_DEBUG_STEP_def)
  have c36: "ctx_x (0x36 :: byte) = 0" "ctx_y (0x36 :: byte) = 6" "ctx_z (0x36 :: byte) = 6"
    by (simp_all add: ctx_x_def ctx_y_def ctx_z_def)
  have 2: "\<exists>t1 t2. cpu_execute_body index_trap_state = Iterate t1
        \<and> cpu_execute_body t1 = Iterate t2 \<and> cpu_IEF_wait t2 \<and> r_PC t2 = 4
        \<and> cycle_count_delta index_trap_state = - 10 \<and> cycle_count_delta t2 = - 8"
    by (simp add: index_trap_state_def blank_state_def cpu_execute_body_def
      fetch_opcode_def cpu_fetch_byte_def exec_opcode_def exec_x3_def exec_x3_z5_def
      exec_x3_z3_def exec_cb_def cpu_index_address_def cpu_fetch_offset_def
      cpu_read_reg_prefetched_def cpu_execute_rot_def cpu_read_index_def index_hl_def
      cpu_read_byte_def c36 done_opt_def Let_def cpu_prefetch_def
      memory_read_byte_def add_cycles_def cpu_address_mode_def
      cpu_get_cntrl_data_blocks_format_def exit_loop_def EVENT_DEBUG_STEP_def)
  have c80: "ctx_x (0x80 :: byte) = 2" "ctx_y (0x80 :: byte) = 0" "ctx_z (0x80 :: byte) = 0"
    by (simp_all add: ctx_x_def ctx_y_def ctx_z_def)
  have 3: "\<exists>t. cpu_execute_body ed_80_state = Iterate t \<and> \<not> cpu_IEF_wait t \<and> r_PC t = 2
        \<and> cycle_count_delta t = - 9"
    by (simp add: ed_80_state_def program2_def blank_state_def cpu_execute_body_def
      fetch_opcode_def cpu_fetch_byte_def exec_opcode_def exec_x3_def exec_x3_z5_def
      exec_ed_def cpu_execute_bli_def c80 done_opt_def Let_def cpu_prefetch_def
      memory_read_byte_def add_cycles_def cpu_address_mode_def
      cpu_get_cntrl_data_blocks_format_def exit_loop_def EVENT_DEBUG_STEP_def)
  from 1 2 3 show ?thesis by blast
qed

section \<open>LD MB,A\<close>

text \<open>
  C10.  LD MB,A (\<^verbatim>\<open>ED 6D\<close>) copies A into MBASE when ADL is set.  With ADL clear it leaves
  MBASE alone, and in both modes every other register but R and PC is unchanged (the
  prefetch byte follows PC, and the decoder latches are reset as at every boundary).  The
  case adds its two cycles to \<^verbatim>\<open>cpu.cycles\<close> in both modes, on top of the one cycle of
  the ED byte: three cycles are charged to the budget.
\<close>

theorem ld_mb_a_effect:
  assumes "cpu_prefetch_byte s = 0xED"
    and "memory s (next_pc s (r_PC s)) = 0x6D"
  shows "cpu_execute_body s =
           (if cpu_events s AND EVENT_DEBUG_STEP \<noteq> 0
            then LoopBreak ((after_ld_mb_a s)\<lparr>cycle_count_delta := 0\<rparr>)
            else Iterate ((after_ld_mb_a s)\<lparr>cycle_count_delta := cycle_count_delta s + 3\<rparr>))
         \<and> cpu_cycles (exec_ed_x1_z5 5 u) = cpu_cycles u + 2
         \<and> r_MBASE (exec_ed_x1_z5 5 u) = (if cpu_ADL u then r_A u else r_MBASE u)"
  using assms
  by (simp add: cpu_execute_body_def fetch_opcode_def cpu_fetch_byte_def exec_opcode_def
      exec_x3_def exec_x3_z5_def exec_ed_def exec_ed_x1_def exec_ed_x1_z5_def done_opt_def
      Let_def cpu_prefetch_def memory_read_byte_def add_cycles_def next_pc_def
      cpu_get_cntrl_data_blocks_format_def exit_loop_def after_ld_mb_a_def)

text \<open>
  In Z80 mode, with A = \<^verbatim>\<open>0x55\<close> and MBASE = \<^verbatim>\<open>0x11\<close>: MBASE and A are kept, three
  cycles are charged.
\<close>

theorem ld_mb_a_effect_witness:
  "cpu_prefetch_byte ld_mb_state = 0xED
   \<and> memory ld_mb_state (next_pc ld_mb_state (r_PC ld_mb_state)) = 0x6D
   \<and> cpu_execute_body ld_mb_state =
       Iterate ((after_ld_mb_a ld_mb_state)\<lparr>cycle_count_delta := - 7\<rparr>)
   \<and> r_MBASE (after_ld_mb_a ld_mb_state) = 0x11
   \<and> r_A (after_ld_mb_a ld_mb_state) = 0x55
   \<and> r_PC (after_ld_mb_a ld_mb_state) = 0x110002
   \<and> cpu_cycles (after_ld_mb_a ld_mb_state) = 3"
proof -
  have h1: "cpu_prefetch_byte ld_mb_state = 0xED"
    by (simp add: ld_mb_state_def program2_def blank_state_def)
  have h2: "memory ld_mb_state (next_pc ld_mb_state (r_PC ld_mb_state)) = 0x6D"
    by (simp add: ld_mb_state_def program2_def blank_state_def next_pc_def
          cpu_address_mode_def)
  show ?thesis
    using h1 h2 ld_mb_a_effect [OF h1 h2]
    by (simp add: ld_mb_state_def program2_def blank_state_def EVENT_DEBUG_STEP_def
          after_ld_mb_a_def next_pc_def cpu_address_mode_def)
qed

section \<open>The operand tables on decoded indices\<close>

text \<open>
  The operand tables are only called with a field of the opcode as index, which is in
  range: they never reach their \<^verbatim>\<open>default: abort()\<close>.  The lemmas below replace a call by
  its result and say which fields of the state the result leaves alone.
\<close>

lemma nat_lt8:
  "i < 8 \<Longrightarrow> i = 0 \<or> i = 1 \<or> i = 2 \<or> i = 3 \<or> i = 4 \<or> i = 5 \<or> i = 6 \<or> i = (7::nat)"
  by arith

lemma nat_lt4: "i < 4 \<Longrightarrow> i = 0 \<or> i = 1 \<or> i = 2 \<or> i = (3::nat)"
  by arith

lemma cpu_read_reg_some:
  "i < 8 \<Longrightarrow> cpu_read_reg i s = Some (the (cpu_read_reg i s))"
  using nat_lt8[of i] by (auto simp add: cpu_read_reg_def Let_def split_beta)

lemma cpu_read_reg_case [simp]:
  "i < 8 \<Longrightarrow> case_option n f (cpu_read_reg i s) = f (the (cpu_read_reg i s))"
  using cpu_read_reg_some[of i s] by (cases "cpu_read_reg i s") simp_all

lemma cpu_read_reg_nn [simp]:
  "i < 8 \<Longrightarrow> cpu_read_reg i s \<noteq> None"
  using cpu_read_reg_some[of i s] by (cases "cpu_read_reg i s") auto

lemma cpu_read_reg_eq [simp]:
  "i < 8 \<Longrightarrow> (cpu_read_reg i s = Some t) = (t = the (cpu_read_reg i s))"
  using cpu_read_reg_some[of i s] by (cases "cpu_read_reg i s") auto

lemma cpu_read_reg_keeps [simp]:
  assumes "i < 8"
  shows
    "r_A (snd (the (cpu_read_reg i s))) = r_A s"
    "r_F (snd (the (cpu_read_reg i s))) = r_F s"
    "r_BC (snd (the (cpu_read_reg i s))) = r_BC s"
    "r_DE (snd (the (cpu_read_reg i s))) = r_DE s"
    "r_HL (snd (the (cpu_read_reg i s))) = r_HL s"
    "r_HL' (snd (the (cpu_read_reg i s))) = r_HL' s"
    "r_IX (snd (the (cpu_read_reg i s))) = r_IX s"
    "r_IY (snd (the (cpu_read_reg i s))) = r_IY s"
    "r_AF' (snd (the (cpu_read_reg i s))) = r_AF' s"
    "r_BC' (snd (the (cpu_read_reg i s))) = r_BC' s"
    "r_DE' (snd (the (cpu_read_reg i s))) = r_DE' s"
    "r_SPS (snd (the (cpu_read_reg i s))) = r_SPS s"
    "r_SPL (snd (the (cpu_read_reg i s))) = r_SPL s"
    "r_I (snd (the (cpu_read_reg i s))) = r_I s"
    "r_R (snd (the (cpu_read_reg i s))) = r_R s"
    "r_MBASE (snd (the (cpu_read_reg i s))) = r_MBASE s"
    "cpu_PREFIX (snd (the (cpu_read_reg i s))) = cpu_PREFIX s"
    "cpu_SUFFIX (snd (the (cpu_read_reg i s))) = cpu_SUFFIX s"
    "cpu_L (snd (the (cpu_read_reg i s))) = cpu_L s"
    "cpu_IL (snd (the (cpu_read_reg i s))) = cpu_IL s"
    "cpu_ADL (snd (the (cpu_read_reg i s))) = cpu_ADL s"
    "cpu_MADL (snd (the (cpu_read_reg i s))) = cpu_MADL s"
    "cpu_IEF1 (snd (the (cpu_read_reg i s))) = cpu_IEF1 s"
    "cpu_IEF2 (snd (the (cpu_read_reg i s))) = cpu_IEF2 s"
    "cpu_IEF_wait (snd (the (cpu_read_reg i s))) = cpu_IEF_wait s"
    "cpu_IM (snd (the (cpu_read_reg i s))) = cpu_IM s"
    "cpu_halted (snd (the (cpu_read_reg i s))) = cpu_halted s"
    "cpu_cycles (snd (the (cpu_read_reg i s))) = cpu_cycles s"
    "cycle_count_delta (snd (the (cpu_read_reg i s))) = cycle_count_delta s"
    "cycle_offset (snd (the (cpu_read_reg i s))) = cycle_offset s"
    "cpu_events (snd (the (cpu_read_reg i s))) = cpu_events s"
    "exiting (snd (the (cpu_read_reg i s))) = exiting s"
    "memory (snd (the (cpu_read_reg i s))) = memory s"
    "mem_writes (snd (the (cpu_read_reg i s))) = mem_writes s"
    "port_in (snd (the (cpu_read_reg i s))) = port_in s"
    "port_writes (snd (the (cpu_read_reg i s))) = port_writes s"
    "intrpt_pending (snd (the (cpu_read_reg i s))) = intrpt_pending s"
  using assms nat_lt8[of i] by (auto simp add: cpu_read_reg_def Let_def split_beta)

lemma cpu_write_reg_some:
  "i < 8 \<Longrightarrow> cpu_write_reg i v s = Some (the (cpu_write_reg i v s))"
  using nat_lt8[of i] by (auto simp add: cpu_write_reg_def Let_def split_beta)

lemma cpu_write_reg_case [simp]:
  "i < 8 \<Longrightarrow> case_option n f (cpu_write_reg i v s) = f (the (cpu_write_reg i v s))"
  using cpu_write_reg_some[of i v s] by (cases "cpu_write_reg i v s") simp_all

lemma cpu_write_reg_nn [simp]:
  "i < 8 \<Longrightarrow> cpu_write_reg i v s \<noteq> None"
  using cpu_write_reg_some[of i v s] by (cases "cpu_write_reg i v s") auto

lemma cpu_write_reg_eq [simp]:
  "i < 8 \<Longrightarrow> (cpu_write_reg i v s = Some t) = (t = the (cpu_write_reg i v s))"
  using cpu_write_reg_some[of i v s] by (cases "cpu_write_reg i v s") auto

lemma cpu_write_reg_keeps [simp]:
  assumes "i < 8"
  shows
    "r_F (the (cpu_write_reg i v s)) = r_F s"
    "r_AF' (the (cpu_write_reg i v s)) = r_AF' s"
    "r_BC' (the (cpu_write_reg i v s)) = r_BC' s"
    "r_DE' (the (cpu_write_reg i v s)) = r_DE' s"
    "r_SPS (the (cpu_write_reg i v s)) = r_SPS s"
    "r_SPL (the (cpu_write_reg i v s)) = r_SPL s"
    "r_I (the (cpu_write_reg i v s)) = r_I s"
    "r_R (the (cpu_write_reg i v s)) = r_R s"
    "r_MBASE (the (cpu_write_reg i v s)) = r_MBASE s"
    "cpu_PREFIX (the (cpu_write_reg i v s)) = cpu_PREFIX s"
    "cpu_SUFFIX (the (cpu_write_reg i v s)) = cpu_SUFFIX s"
    "cpu_L (the (cpu_write_reg i v s)) = cpu_L s"
    "cpu_IL (the (cpu_write_reg i v s)) = cpu_IL s"
    "cpu_ADL (the (cpu_write_reg i v s)) = cpu_ADL s"
    "cpu_MADL (the (cpu_write_reg i v s)) = cpu_MADL s"
    "cpu_IEF1 (the (cpu_write_reg i v s)) = cpu_IEF1 s"
    "cpu_IEF2 (the (cpu_write_reg i v s)) = cpu_IEF2 s"
    "cpu_IEF_wait (the (cpu_write_reg i v s)) = cpu_IEF_wait s"
    "cpu_IM (the (cpu_write_reg i v s)) = cpu_IM s"
    "cpu_halted (the (cpu_write_reg i v s)) = cpu_halted s"
    "cpu_cycles (the (cpu_write_reg i v s)) = cpu_cycles s"
    "cycle_count_delta (the (cpu_write_reg i v s)) = cycle_count_delta s"
    "cycle_offset (the (cpu_write_reg i v s)) = cycle_offset s"
    "cpu_events (the (cpu_write_reg i v s)) = cpu_events s"
    "exiting (the (cpu_write_reg i v s)) = exiting s"
    "port_in (the (cpu_write_reg i v s)) = port_in s"
    "port_writes (the (cpu_write_reg i v s)) = port_writes s"
    "intrpt_pending (the (cpu_write_reg i v s)) = intrpt_pending s"
  using assms nat_lt8[of i] by (auto simp add: cpu_write_reg_def Let_def split_beta)

lemma cpu_read_reg_prefetched_some:
  "i < 8 \<Longrightarrow> cpu_read_reg_prefetched i a s = Some (the (cpu_read_reg_prefetched i a s))"
  using nat_lt8[of i] by (auto simp add: cpu_read_reg_prefetched_def Let_def split_beta)

lemma cpu_read_reg_prefetched_case [simp]:
  "i < 8 \<Longrightarrow> case_option n f (cpu_read_reg_prefetched i a s) = f (the (cpu_read_reg_prefetched i a s))"
  using cpu_read_reg_prefetched_some[of i a s] by (cases "cpu_read_reg_prefetched i a s") simp_all

lemma cpu_read_reg_prefetched_nn [simp]:
  "i < 8 \<Longrightarrow> cpu_read_reg_prefetched i a s \<noteq> None"
  using cpu_read_reg_prefetched_some[of i a s] by (cases "cpu_read_reg_prefetched i a s") auto

lemma cpu_read_reg_prefetched_eq [simp]:
  "i < 8 \<Longrightarrow> (cpu_read_reg_prefetched i a s = Some t) = (t = the (cpu_read_reg_prefetched i a s))"
  using cpu_read_reg_prefetched_some[of i a s] by (cases "cpu_read_reg_prefetched i a s") auto

lemma cpu_write_reg_prefetched_some:
  "i < 8 \<Longrightarrow> cpu_write_reg_prefetched i a v s = Some (the (cpu_write_reg_prefetched i a v s))"
  using nat_lt8[of i] by (auto simp add: cpu_write_reg_prefetched_def Let_def split_beta)

lemma cpu_write_reg_prefetched_case [simp]:
  "i < 8 \<Longrightarrow> case_option n f (cpu_write_reg_prefetched i a v s) = f (the (cpu_write_reg_prefetched i a v s))"
  using cpu_write_reg_prefetched_some[of i a v s] by (cases "cpu_write_reg_prefetched i a v s") simp_all

lemma cpu_write_reg_prefetched_nn [simp]:
  "i < 8 \<Longrightarrow> cpu_write_reg_prefetched i a v s \<noteq> None"
  using cpu_write_reg_prefetched_some[of i a v s] by (cases "cpu_write_reg_prefetched i a v s") auto

lemma cpu_write_reg_prefetched_eq [simp]:
  "i < 8 \<Longrightarrow> (cpu_write_reg_prefetched i a v s = Some t) = (t = the (cpu_write_reg_prefetched i a v s))"
  using cpu_write_reg_prefetched_some[of i a v s] by (cases "cpu_write_reg_prefetched i a v s") auto

lemma cpu_write_reg_prefetched_keeps [simp]:
  assumes "i < 8"
  shows
    "r_F (the (cpu_write_reg_prefetched i a v s)) = r_F s"
    "r_AF' (the (cpu_write_reg_prefetched i a v s)) = r_AF' s"
    "r_BC' (the (cpu_write_reg_prefetched i a v s)) = r_BC' s"
    "r_DE' (the (cpu_write_reg_prefetched i a v s)) = r_DE' s"
    "r_SPS (the (cpu_write_reg_prefetched i a v s)) = r_SPS s"
    "r_SPL (the (cpu_write_reg_prefetched i a v s)) = r_SPL s"
    "r_PC (the (cpu_write_reg_prefetched i a v s)) = r_PC s"
    "r_I (the (cpu_write_reg_prefetched i a v s)) = r_I s"
    "r_R (the (cpu_write_reg_prefetched i a v s)) = r_R s"
    "r_MBASE (the (cpu_write_reg_prefetched i a v s)) = r_MBASE s"
    "cpu_prefetch_byte (the (cpu_write_reg_prefetched i a v s)) = cpu_prefetch_byte s"
    "cpu_PREFIX (the (cpu_write_reg_prefetched i a v s)) = cpu_PREFIX s"
    "cpu_SUFFIX (the (cpu_write_reg_prefetched i a v s)) = cpu_SUFFIX s"
    "cpu_L (the (cpu_write_reg_prefetched i a v s)) = cpu_L s"
    "cpu_IL (the (cpu_write_reg_prefetched i a v s)) = cpu_IL s"
    "cpu_ADL (the (cpu_write_reg_prefetched i a v s)) = cpu_ADL s"
    "cpu_MADL (the (cpu_write_reg_prefetched i a v s)) = cpu_MADL s"
    "cpu_IEF1 (the (cpu_write_reg_prefetched i a v s)) = cpu_IEF1 s"
    "cpu_IEF2 (the (cpu_write_reg_prefetched i a v s)) = cpu_IEF2 s"
    "cpu_IEF_wait (the (cpu_write_reg_prefetched i a v s)) = cpu_IEF_wait s"
    "cpu_IM (the (cpu_write_reg_prefetched i a v s)) = cpu_IM s"
    "cpu_halted (the (cpu_write_reg_prefetched i a v s)) = cpu_halted s"
    "cpu_cycles (the (cpu_write_reg_prefetched i a v s)) = cpu_cycles s"
    "cycle_count_delta (the (cpu_write_reg_prefetched i a v s)) = cycle_count_delta s"
    "cycle_offset (the (cpu_write_reg_prefetched i a v s)) = cycle_offset s"
    "cpu_events (the (cpu_write_reg_prefetched i a v s)) = cpu_events s"
    "exiting (the (cpu_write_reg_prefetched i a v s)) = exiting s"
    "port_in (the (cpu_write_reg_prefetched i a v s)) = port_in s"
    "port_writes (the (cpu_write_reg_prefetched i a v s)) = port_writes s"
    "intrpt_pending (the (cpu_write_reg_prefetched i a v s)) = intrpt_pending s"
  using assms nat_lt8[of i] by (auto simp add: cpu_write_reg_prefetched_def Let_def split_beta)

lemma cpu_read_rp_some:
  "i < 4 \<Longrightarrow> cpu_read_rp i s = Some (the (cpu_read_rp i s))"
  using nat_lt4[of i] by (auto simp add: cpu_read_rp_def Let_def split_beta)

lemma cpu_read_rp_case [simp]:
  "i < 4 \<Longrightarrow> case_option n f (cpu_read_rp i s) = f (the (cpu_read_rp i s))"
  using cpu_read_rp_some[of i s] by (cases "cpu_read_rp i s") simp_all

lemma cpu_read_rp_nn [simp]:
  "i < 4 \<Longrightarrow> cpu_read_rp i s \<noteq> None"
  using cpu_read_rp_some[of i s] by (cases "cpu_read_rp i s") auto

lemma cpu_read_rp_eq [simp]:
  "i < 4 \<Longrightarrow> (cpu_read_rp i s = Some t) = (t = the (cpu_read_rp i s))"
  using cpu_read_rp_some[of i s] by (cases "cpu_read_rp i s") auto

lemma cpu_write_rp_some:
  "i < 4 \<Longrightarrow> cpu_write_rp i v s = Some (the (cpu_write_rp i v s))"
  using nat_lt4[of i] by (auto simp add: cpu_write_rp_def Let_def split_beta)

lemma cpu_write_rp_case [simp]:
  "i < 4 \<Longrightarrow> case_option n f (cpu_write_rp i v s) = f (the (cpu_write_rp i v s))"
  using cpu_write_rp_some[of i v s] by (cases "cpu_write_rp i v s") simp_all

lemma cpu_write_rp_nn [simp]:
  "i < 4 \<Longrightarrow> cpu_write_rp i v s \<noteq> None"
  using cpu_write_rp_some[of i v s] by (cases "cpu_write_rp i v s") auto

lemma cpu_write_rp_eq [simp]:
  "i < 4 \<Longrightarrow> (cpu_write_rp i v s = Some t) = (t = the (cpu_write_rp i v s))"
  using cpu_write_rp_some[of i v s] by (cases "cpu_write_rp i v s") auto

lemma cpu_write_rp_keeps [simp]:
  assumes "i < 4"
  shows
    "r_A (the (cpu_write_rp i v s)) = r_A s"
    "r_F (the (cpu_write_rp i v s)) = r_F s"
    "r_AF' (the (cpu_write_rp i v s)) = r_AF' s"
    "r_BC' (the (cpu_write_rp i v s)) = r_BC' s"
    "r_DE' (the (cpu_write_rp i v s)) = r_DE' s"
    "r_PC (the (cpu_write_rp i v s)) = r_PC s"
    "r_I (the (cpu_write_rp i v s)) = r_I s"
    "r_R (the (cpu_write_rp i v s)) = r_R s"
    "r_MBASE (the (cpu_write_rp i v s)) = r_MBASE s"
    "cpu_prefetch_byte (the (cpu_write_rp i v s)) = cpu_prefetch_byte s"
    "cpu_PREFIX (the (cpu_write_rp i v s)) = cpu_PREFIX s"
    "cpu_SUFFIX (the (cpu_write_rp i v s)) = cpu_SUFFIX s"
    "cpu_L (the (cpu_write_rp i v s)) = cpu_L s"
    "cpu_IL (the (cpu_write_rp i v s)) = cpu_IL s"
    "cpu_ADL (the (cpu_write_rp i v s)) = cpu_ADL s"
    "cpu_MADL (the (cpu_write_rp i v s)) = cpu_MADL s"
    "cpu_IEF1 (the (cpu_write_rp i v s)) = cpu_IEF1 s"
    "cpu_IEF2 (the (cpu_write_rp i v s)) = cpu_IEF2 s"
    "cpu_IEF_wait (the (cpu_write_rp i v s)) = cpu_IEF_wait s"
    "cpu_IM (the (cpu_write_rp i v s)) = cpu_IM s"
    "cpu_halted (the (cpu_write_rp i v s)) = cpu_halted s"
    "cpu_cycles (the (cpu_write_rp i v s)) = cpu_cycles s"
    "cycle_count_delta (the (cpu_write_rp i v s)) = cycle_count_delta s"
    "cycle_offset (the (cpu_write_rp i v s)) = cycle_offset s"
    "cpu_events (the (cpu_write_rp i v s)) = cpu_events s"
    "exiting (the (cpu_write_rp i v s)) = exiting s"
    "memory (the (cpu_write_rp i v s)) = memory s"
    "mem_writes (the (cpu_write_rp i v s)) = mem_writes s"
    "port_in (the (cpu_write_rp i v s)) = port_in s"
    "port_writes (the (cpu_write_rp i v s)) = port_writes s"
    "intrpt_pending (the (cpu_write_rp i v s)) = intrpt_pending s"
  using assms nat_lt4[of i] by (auto simp add: cpu_write_rp_def Let_def split_beta)

lemma cpu_read_rp2_some:
  "i < 4 \<Longrightarrow> cpu_read_rp2 i s = Some (the (cpu_read_rp2 i s))"
  using nat_lt4[of i] by (auto simp add: cpu_read_rp2_def cpu_read_rp_def Let_def split_beta)

lemma cpu_read_rp2_case [simp]:
  "i < 4 \<Longrightarrow> case_option n f (cpu_read_rp2 i s) = f (the (cpu_read_rp2 i s))"
  using cpu_read_rp2_some[of i s] by (cases "cpu_read_rp2 i s") simp_all

lemma cpu_read_rp2_nn [simp]:
  "i < 4 \<Longrightarrow> cpu_read_rp2 i s \<noteq> None"
  using cpu_read_rp2_some[of i s] by (cases "cpu_read_rp2 i s") auto

lemma cpu_read_rp2_eq [simp]:
  "i < 4 \<Longrightarrow> (cpu_read_rp2 i s = Some t) = (t = the (cpu_read_rp2 i s))"
  using cpu_read_rp2_some[of i s] by (cases "cpu_read_rp2 i s") auto

lemma cpu_write_rp2_some:
  "i < 4 \<Longrightarrow> cpu_write_rp2 i v s = Some (the (cpu_write_rp2 i v s))"
  using nat_lt4[of i] by (auto simp add: cpu_write_rp2_def cpu_write_rp_def Let_def split_beta)

lemma cpu_write_rp2_case [simp]:
  "i < 4 \<Longrightarrow> case_option n f (cpu_write_rp2 i v s) = f (the (cpu_write_rp2 i v s))"
  using cpu_write_rp2_some[of i v s] by (cases "cpu_write_rp2 i v s") simp_all

lemma cpu_write_rp2_nn [simp]:
  "i < 4 \<Longrightarrow> cpu_write_rp2 i v s \<noteq> None"
  using cpu_write_rp2_some[of i v s] by (cases "cpu_write_rp2 i v s") auto

lemma cpu_write_rp2_eq [simp]:
  "i < 4 \<Longrightarrow> (cpu_write_rp2 i v s = Some t) = (t = the (cpu_write_rp2 i v s))"
  using cpu_write_rp2_some[of i v s] by (cases "cpu_write_rp2 i v s") auto

lemma cpu_write_rp2_keeps [simp]:
  assumes "i < 4"
  shows
    "r_AF' (the (cpu_write_rp2 i v s)) = r_AF' s"
    "r_BC' (the (cpu_write_rp2 i v s)) = r_BC' s"
    "r_DE' (the (cpu_write_rp2 i v s)) = r_DE' s"
    "r_PC (the (cpu_write_rp2 i v s)) = r_PC s"
    "r_I (the (cpu_write_rp2 i v s)) = r_I s"
    "r_R (the (cpu_write_rp2 i v s)) = r_R s"
    "r_MBASE (the (cpu_write_rp2 i v s)) = r_MBASE s"
    "cpu_prefetch_byte (the (cpu_write_rp2 i v s)) = cpu_prefetch_byte s"
    "cpu_PREFIX (the (cpu_write_rp2 i v s)) = cpu_PREFIX s"
    "cpu_SUFFIX (the (cpu_write_rp2 i v s)) = cpu_SUFFIX s"
    "cpu_L (the (cpu_write_rp2 i v s)) = cpu_L s"
    "cpu_IL (the (cpu_write_rp2 i v s)) = cpu_IL s"
    "cpu_ADL (the (cpu_write_rp2 i v s)) = cpu_ADL s"
    "cpu_MADL (the (cpu_write_rp2 i v s)) = cpu_MADL s"
    "cpu_IEF1 (the (cpu_write_rp2 i v s)) = cpu_IEF1 s"
    "cpu_IEF2 (the (cpu_write_rp2 i v s)) = cpu_IEF2 s"
    "cpu_IEF_wait (the (cpu_write_rp2 i v s)) = cpu_IEF_wait s"
    "cpu_IM (the (cpu_write_rp2 i v s)) = cpu_IM s"
    "cpu_halted (the (cpu_write_rp2 i v s)) = cpu_halted s"
    "cpu_cycles (the (cpu_write_rp2 i v s)) = cpu_cycles s"
    "cycle_count_delta (the (cpu_write_rp2 i v s)) = cycle_count_delta s"
    "cycle_offset (the (cpu_write_rp2 i v s)) = cycle_offset s"
    "cpu_events (the (cpu_write_rp2 i v s)) = cpu_events s"
    "exiting (the (cpu_write_rp2 i v s)) = exiting s"
    "memory (the (cpu_write_rp2 i v s)) = memory s"
    "mem_writes (the (cpu_write_rp2 i v s)) = mem_writes s"
    "port_in (the (cpu_write_rp2 i v s)) = port_in s"
    "port_writes (the (cpu_write_rp2 i v s)) = port_writes s"
    "intrpt_pending (the (cpu_write_rp2 i v s)) = intrpt_pending s"
  using assms nat_lt4[of i] by (auto simp add: cpu_write_rp2_def cpu_write_rp_def Let_def split_beta)

lemma cpu_read_rp3_some:
  "i < 4 \<Longrightarrow> cpu_read_rp3 i s = Some (the (cpu_read_rp3 i s))"
  using nat_lt4[of i] by (auto simp add: cpu_read_rp3_def Let_def split_beta)

lemma cpu_read_rp3_case [simp]:
  "i < 4 \<Longrightarrow> case_option n f (cpu_read_rp3 i s) = f (the (cpu_read_rp3 i s))"
  using cpu_read_rp3_some[of i s] by (cases "cpu_read_rp3 i s") simp_all

lemma cpu_read_rp3_nn [simp]:
  "i < 4 \<Longrightarrow> cpu_read_rp3 i s \<noteq> None"
  using cpu_read_rp3_some[of i s] by (cases "cpu_read_rp3 i s") auto

lemma cpu_read_rp3_eq [simp]:
  "i < 4 \<Longrightarrow> (cpu_read_rp3 i s = Some t) = (t = the (cpu_read_rp3 i s))"
  using cpu_read_rp3_some[of i s] by (cases "cpu_read_rp3 i s") auto

lemma cpu_write_rp3_some:
  "i < 4 \<Longrightarrow> cpu_write_rp3 i v s = Some (the (cpu_write_rp3 i v s))"
  using nat_lt4[of i] by (auto simp add: cpu_write_rp3_def Let_def split_beta)

lemma cpu_write_rp3_case [simp]:
  "i < 4 \<Longrightarrow> case_option n f (cpu_write_rp3 i v s) = f (the (cpu_write_rp3 i v s))"
  using cpu_write_rp3_some[of i v s] by (cases "cpu_write_rp3 i v s") simp_all

lemma cpu_write_rp3_nn [simp]:
  "i < 4 \<Longrightarrow> cpu_write_rp3 i v s \<noteq> None"
  using cpu_write_rp3_some[of i v s] by (cases "cpu_write_rp3 i v s") auto

lemma cpu_write_rp3_eq [simp]:
  "i < 4 \<Longrightarrow> (cpu_write_rp3 i v s = Some t) = (t = the (cpu_write_rp3 i v s))"
  using cpu_write_rp3_some[of i v s] by (cases "cpu_write_rp3 i v s") auto

lemma cpu_write_rp3_keeps [simp]:
  assumes "i < 4"
  shows
    "r_A (the (cpu_write_rp3 i v s)) = r_A s"
    "r_F (the (cpu_write_rp3 i v s)) = r_F s"
    "r_AF' (the (cpu_write_rp3 i v s)) = r_AF' s"
    "r_BC' (the (cpu_write_rp3 i v s)) = r_BC' s"
    "r_DE' (the (cpu_write_rp3 i v s)) = r_DE' s"
    "r_SPS (the (cpu_write_rp3 i v s)) = r_SPS s"
    "r_SPL (the (cpu_write_rp3 i v s)) = r_SPL s"
    "r_PC (the (cpu_write_rp3 i v s)) = r_PC s"
    "r_I (the (cpu_write_rp3 i v s)) = r_I s"
    "r_R (the (cpu_write_rp3 i v s)) = r_R s"
    "r_MBASE (the (cpu_write_rp3 i v s)) = r_MBASE s"
    "cpu_prefetch_byte (the (cpu_write_rp3 i v s)) = cpu_prefetch_byte s"
    "cpu_PREFIX (the (cpu_write_rp3 i v s)) = cpu_PREFIX s"
    "cpu_SUFFIX (the (cpu_write_rp3 i v s)) = cpu_SUFFIX s"
    "cpu_L (the (cpu_write_rp3 i v s)) = cpu_L s"
    "cpu_IL (the (cpu_write_rp3 i v s)) = cpu_IL s"
    "cpu_ADL (the (cpu_write_rp3 i v s)) = cpu_ADL s"
    "cpu_MADL (the (cpu_write_rp3 i v s)) = cpu_MADL s"
    "cpu_IEF1 (the (cpu_write_rp3 i v s)) = cpu_IEF1 s"
    "cpu_IEF2 (the (cpu_write_rp3 i v s)) = cpu_IEF2 s"
    "cpu_IEF_wait (the (cpu_write_rp3 i v s)) = cpu_IEF_wait s"
    "cpu_IM (the (cpu_write_rp3 i v s)) = cpu_IM s"
    "cpu_halted (the (cpu_write_rp3 i v s)) = cpu_halted s"
    "cpu_cycles (the (cpu_write_rp3 i v s)) = cpu_cycles s"
    "cycle_count_delta (the (cpu_write_rp3 i v s)) = cycle_count_delta s"
    "cycle_offset (the (cpu_write_rp3 i v s)) = cycle_offset s"
    "cpu_events (the (cpu_write_rp3 i v s)) = cpu_events s"
    "exiting (the (cpu_write_rp3 i v s)) = exiting s"
    "memory (the (cpu_write_rp3 i v s)) = memory s"
    "mem_writes (the (cpu_write_rp3 i v s)) = mem_writes s"
    "port_in (the (cpu_write_rp3 i v s)) = port_in s"
    "port_writes (the (cpu_write_rp3 i v s)) = port_writes s"
    "intrpt_pending (the (cpu_write_rp3 i v s)) = intrpt_pending s"
  using assms nat_lt4[of i] by (auto simp add: cpu_write_rp3_def Let_def split_beta)

lemma cpu_read_cc_some:
  "i < 8 \<Longrightarrow> cpu_read_cc i s = Some (the (cpu_read_cc i s))"
  using nat_lt8[of i] by (auto simp add: cpu_read_cc_def Let_def split_beta)

lemma cpu_read_cc_case [simp]:
  "i < 8 \<Longrightarrow> case_option n f (cpu_read_cc i s) = f (the (cpu_read_cc i s))"
  using cpu_read_cc_some[of i s] by (cases "cpu_read_cc i s") simp_all

lemma cpu_read_cc_nn [simp]:
  "i < 8 \<Longrightarrow> cpu_read_cc i s \<noteq> None"
  using cpu_read_cc_some[of i s] by (cases "cpu_read_cc i s") auto

lemma cpu_read_cc_eq [simp]:
  "i < 8 \<Longrightarrow> (cpu_read_cc i s = Some t) = (t = the (cpu_read_cc i s))"
  using cpu_read_cc_some[of i s] by (cases "cpu_read_cc i s") auto

lemma cpu_read_write_reg_some:
  "i < 8 \<Longrightarrow> j < 8 \<Longrightarrow> cpu_read_write_reg i j s = Some (the (cpu_read_write_reg i j s))"
  by (auto simp add: cpu_read_write_reg_def Let_def split_beta)

lemma cpu_read_write_reg_case [simp]:
  "i < 8 \<Longrightarrow> j < 8 \<Longrightarrow> case_option n f (cpu_read_write_reg i j s) = f (the (cpu_read_write_reg i j s))"
  using cpu_read_write_reg_some[of i j s] by (cases "cpu_read_write_reg i j s") simp_all

lemma cpu_read_write_reg_nn [simp]:
  "i < 8 \<Longrightarrow> j < 8 \<Longrightarrow> cpu_read_write_reg i j s \<noteq> None"
  using cpu_read_write_reg_some[of i j s] by (cases "cpu_read_write_reg i j s") auto

lemma cpu_read_write_reg_eq [simp]:
  "i < 8 \<Longrightarrow> j < 8 \<Longrightarrow> (cpu_read_write_reg i j s = Some t) = (t = the (cpu_read_write_reg i j s))"
  using cpu_read_write_reg_some[of i j s] by (cases "cpu_read_write_reg i j s") auto

lemma cpu_read_write_reg_keeps [simp]:
  assumes "i < 8" "j < 8"
  shows
    "r_F (the (cpu_read_write_reg i j s)) = r_F s"
    "r_AF' (the (cpu_read_write_reg i j s)) = r_AF' s"
    "r_BC' (the (cpu_read_write_reg i j s)) = r_BC' s"
    "r_DE' (the (cpu_read_write_reg i j s)) = r_DE' s"
    "r_SPS (the (cpu_read_write_reg i j s)) = r_SPS s"
    "r_SPL (the (cpu_read_write_reg i j s)) = r_SPL s"
    "r_I (the (cpu_read_write_reg i j s)) = r_I s"
    "r_R (the (cpu_read_write_reg i j s)) = r_R s"
    "r_MBASE (the (cpu_read_write_reg i j s)) = r_MBASE s"
    "cpu_SUFFIX (the (cpu_read_write_reg i j s)) = cpu_SUFFIX s"
    "cpu_L (the (cpu_read_write_reg i j s)) = cpu_L s"
    "cpu_IL (the (cpu_read_write_reg i j s)) = cpu_IL s"
    "cpu_ADL (the (cpu_read_write_reg i j s)) = cpu_ADL s"
    "cpu_MADL (the (cpu_read_write_reg i j s)) = cpu_MADL s"
    "cpu_IEF1 (the (cpu_read_write_reg i j s)) = cpu_IEF1 s"
    "cpu_IEF2 (the (cpu_read_write_reg i j s)) = cpu_IEF2 s"
    "cpu_IEF_wait (the (cpu_read_write_reg i j s)) = cpu_IEF_wait s"
    "cpu_IM (the (cpu_read_write_reg i j s)) = cpu_IM s"
    "cpu_halted (the (cpu_read_write_reg i j s)) = cpu_halted s"
    "cpu_cycles (the (cpu_read_write_reg i j s)) = cpu_cycles s"
    "cycle_count_delta (the (cpu_read_write_reg i j s)) = cycle_count_delta s"
    "cycle_offset (the (cpu_read_write_reg i j s)) = cycle_offset s"
    "cpu_events (the (cpu_read_write_reg i j s)) = cpu_events s"
    "exiting (the (cpu_read_write_reg i j s)) = exiting s"
    "port_in (the (cpu_read_write_reg i j s)) = port_in s"
    "port_writes (the (cpu_read_write_reg i j s)) = port_writes s"
    "intrpt_pending (the (cpu_read_write_reg i j s)) = intrpt_pending s"
  using assms  by (auto simp add: cpu_read_write_reg_def Let_def split_beta)

lemma cpu_execute_rot_some:
  "i < 8 \<Longrightarrow> j < 8 \<Longrightarrow> cpu_execute_rot i j a v s = Some (the (cpu_execute_rot i j a v s))"
  using nat_lt8[of i] by (auto simp add: cpu_execute_rot_def Let_def split_beta)

lemma cpu_execute_rot_case [simp]:
  "i < 8 \<Longrightarrow> j < 8 \<Longrightarrow> case_option n f (cpu_execute_rot i j a v s) = f (the (cpu_execute_rot i j a v s))"
  using cpu_execute_rot_some[of i j a v s] by (cases "cpu_execute_rot i j a v s") simp_all

lemma cpu_execute_rot_nn [simp]:
  "i < 8 \<Longrightarrow> j < 8 \<Longrightarrow> cpu_execute_rot i j a v s \<noteq> None"
  using cpu_execute_rot_some[of i j a v s] by (cases "cpu_execute_rot i j a v s") auto

lemma cpu_execute_rot_eq [simp]:
  "i < 8 \<Longrightarrow> j < 8 \<Longrightarrow> (cpu_execute_rot i j a v s = Some t) = (t = the (cpu_execute_rot i j a v s))"
  using cpu_execute_rot_some[of i j a v s] by (cases "cpu_execute_rot i j a v s") auto

lemma cpu_execute_rot_keeps [simp]:
  assumes "i < 8" "j < 8"
  shows
    "r_AF' (the (cpu_execute_rot i j a v s)) = r_AF' s"
    "r_BC' (the (cpu_execute_rot i j a v s)) = r_BC' s"
    "r_DE' (the (cpu_execute_rot i j a v s)) = r_DE' s"
    "r_SPS (the (cpu_execute_rot i j a v s)) = r_SPS s"
    "r_SPL (the (cpu_execute_rot i j a v s)) = r_SPL s"
    "r_PC (the (cpu_execute_rot i j a v s)) = r_PC s"
    "r_I (the (cpu_execute_rot i j a v s)) = r_I s"
    "r_R (the (cpu_execute_rot i j a v s)) = r_R s"
    "r_MBASE (the (cpu_execute_rot i j a v s)) = r_MBASE s"
    "cpu_prefetch_byte (the (cpu_execute_rot i j a v s)) = cpu_prefetch_byte s"
    "cpu_PREFIX (the (cpu_execute_rot i j a v s)) = cpu_PREFIX s"
    "cpu_SUFFIX (the (cpu_execute_rot i j a v s)) = cpu_SUFFIX s"
    "cpu_L (the (cpu_execute_rot i j a v s)) = cpu_L s"
    "cpu_IL (the (cpu_execute_rot i j a v s)) = cpu_IL s"
    "cpu_ADL (the (cpu_execute_rot i j a v s)) = cpu_ADL s"
    "cpu_MADL (the (cpu_execute_rot i j a v s)) = cpu_MADL s"
    "cpu_IEF1 (the (cpu_execute_rot i j a v s)) = cpu_IEF1 s"
    "cpu_IEF2 (the (cpu_execute_rot i j a v s)) = cpu_IEF2 s"
    "cpu_IM (the (cpu_execute_rot i j a v s)) = cpu_IM s"
    "cpu_halted (the (cpu_execute_rot i j a v s)) = cpu_halted s"
    "cycle_count_delta (the (cpu_execute_rot i j a v s)) = cycle_count_delta s"
    "cycle_offset (the (cpu_execute_rot i j a v s)) = cycle_offset s"
    "cpu_events (the (cpu_execute_rot i j a v s)) = cpu_events s"
    "exiting (the (cpu_execute_rot i j a v s)) = exiting s"
    "port_in (the (cpu_execute_rot i j a v s)) = port_in s"
    "port_writes (the (cpu_execute_rot i j a v s)) = port_writes s"
    "intrpt_pending (the (cpu_execute_rot i j a v s)) = intrpt_pending s"
  using assms nat_lt8[of i] by (auto simp add: cpu_execute_rot_def Let_def split_beta)

lemma cpu_execute_rot_mono [simp]:
  assumes "i < 8" "j < 8"
  shows "c \<le> cpu_cycles s \<Longrightarrow> c \<le> cpu_cycles (the (cpu_execute_rot i j a v s))"
    and "cpu_IEF_wait s \<Longrightarrow> cpu_IEF_wait (the (cpu_execute_rot i j a v s))"
  using assms nat_lt8[of i] by (auto simp add: cpu_execute_rot_def Let_def split_beta)

section \<open>What every instruction leaves alone\<close>

text \<open>
  No instruction touches the cycle budget, the saved offset, the event flags, the exit
  flag or the interrupt request line; every instruction only adds to \<^verbatim>\<open>cpu.cycles\<close> and
  none clears \<^verbatim>\<open>IEF_wait\<close>; no CB or ED instruction but \<^verbatim>\<open>LD R,A\<close> writes R.  The decoder
  never reaches an \<^verbatim>\<open>abort()\<close>.
\<close>

lemma cpu_return_cycles [simp]: "c \<le> cpu_cycles s \<Longrightarrow> c \<le> cpu_cycles (cpu_return s)"
  by (simp add: cpu_return_def Let_def split_beta)

lemma cpu_execute_alu_cycles [simp]: "c \<le> cpu_cycles s \<Longrightarrow> c \<le> cpu_cycles (cpu_execute_alu i v s)"
  by (simp add: cpu_execute_alu_def Let_def split_beta)

lemma cpu_execute_rot_acc_cycles [simp]: "c \<le> cpu_cycles s \<Longrightarrow> c \<le> cpu_cycles (cpu_execute_rot_acc y s)"
  by (simp add: cpu_execute_rot_acc_def Let_def split_beta)

lemma suffix_byte_cycles [simp]: "c \<le> cpu_cycles s \<Longrightarrow> c \<le> cpu_cycles (suffix_byte l il s)"
  by (simp add: suffix_byte_def Let_def split_beta)

lemma bli_INIM_cycles [simp]: "c \<le> cpu_cycles s \<Longrightarrow> c \<le> cpu_cycles (bli_INIM s)"
  by (simp add: bli_INIM_def Let_def split_beta)

lemma bli_OTIM_cycles [simp]: "c \<le> cpu_cycles s \<Longrightarrow> c \<le> cpu_cycles (bli_OTIM s)"
  by (simp add: bli_OTIM_def Let_def split_beta)

lemma bli_INI2_cycles [simp]: "c \<le> cpu_cycles s \<Longrightarrow> c \<le> cpu_cycles (bli_INI2 s)"
  by (simp add: bli_INI2_def Let_def split_beta)

lemma bli_INDM_cycles [simp]: "c \<le> cpu_cycles s \<Longrightarrow> c \<le> cpu_cycles (bli_INDM s)"
  by (simp add: bli_INDM_def Let_def split_beta)

lemma bli_OTDM_cycles [simp]: "c \<le> cpu_cycles s \<Longrightarrow> c \<le> cpu_cycles (bli_OTDM s)"
  by (simp add: bli_OTDM_def Let_def split_beta)

lemma bli_IND2_cycles [simp]: "c \<le> cpu_cycles s \<Longrightarrow> c \<le> cpu_cycles (bli_IND2 s)"
  by (simp add: bli_IND2_def Let_def split_beta)

lemma bli_INIMR_cycles [simp]: "c \<le> cpu_cycles s \<Longrightarrow> c \<le> cpu_cycles (bli_INIMR s)"
  by (simp add: bli_INIMR_def Let_def split_beta)

lemma bli_OTIMR_cycles [simp]: "c \<le> cpu_cycles s \<Longrightarrow> c \<le> cpu_cycles (bli_OTIMR s)"
  by (simp add: bli_OTIMR_def Let_def split_beta)

lemma bli_INI2R_cycles [simp]: "c \<le> cpu_cycles s \<Longrightarrow> c \<le> cpu_cycles (bli_INI2R s)"
  by (simp add: bli_INI2R_def Let_def split_beta)

lemma bli_INDMR_cycles [simp]: "c \<le> cpu_cycles s \<Longrightarrow> c \<le> cpu_cycles (bli_INDMR s)"
  by (simp add: bli_INDMR_def Let_def split_beta)

lemma bli_OTDMR_cycles [simp]: "c \<le> cpu_cycles s \<Longrightarrow> c \<le> cpu_cycles (bli_OTDMR s)"
  by (simp add: bli_OTDMR_def Let_def split_beta)

lemma bli_IND2R_cycles [simp]: "c \<le> cpu_cycles s \<Longrightarrow> c \<le> cpu_cycles (bli_IND2R s)"
  by (simp add: bli_IND2R_def Let_def split_beta)

lemma bli_LDI_cycles [simp]: "c \<le> cpu_cycles s \<Longrightarrow> c \<le> cpu_cycles (bli_LDI s)"
  by (simp add: bli_LDI_def Let_def split_beta)

lemma bli_CPI_cycles [simp]: "c \<le> cpu_cycles s \<Longrightarrow> c \<le> cpu_cycles (bli_CPI s)"
  by (simp add: bli_CPI_def Let_def split_beta)

lemma bli_INI_cycles [simp]: "c \<le> cpu_cycles s \<Longrightarrow> c \<le> cpu_cycles (bli_INI s)"
  by (simp add: bli_INI_def Let_def split_beta)

lemma bli_OUTI_cycles [simp]: "c \<le> cpu_cycles s \<Longrightarrow> c \<le> cpu_cycles (bli_OUTI s)"
  by (simp add: bli_OUTI_def Let_def split_beta)

lemma bli_OUTI2_cycles [simp]: "c \<le> cpu_cycles s \<Longrightarrow> c \<le> cpu_cycles (bli_OUTI2 s)"
  by (simp add: bli_OUTI2_def Let_def split_beta)

lemma bli_LDD_cycles [simp]: "c \<le> cpu_cycles s \<Longrightarrow> c \<le> cpu_cycles (bli_LDD s)"
  by (simp add: bli_LDD_def Let_def split_beta)

lemma bli_CPD_cycles [simp]: "c \<le> cpu_cycles s \<Longrightarrow> c \<le> cpu_cycles (bli_CPD s)"
  by (simp add: bli_CPD_def Let_def split_beta)

lemma bli_IND_cycles [simp]: "c \<le> cpu_cycles s \<Longrightarrow> c \<le> cpu_cycles (bli_IND s)"
  by (simp add: bli_IND_def Let_def split_beta)

lemma bli_OUTD_cycles [simp]: "c \<le> cpu_cycles s \<Longrightarrow> c \<le> cpu_cycles (bli_OUTD s)"
  by (simp add: bli_OUTD_def Let_def split_beta)

lemma bli_OUTD2_cycles [simp]: "c \<le> cpu_cycles s \<Longrightarrow> c \<le> cpu_cycles (bli_OUTD2 s)"
  by (simp add: bli_OUTD2_def Let_def split_beta)

lemma bli_LDIR_cycles [simp]: "c \<le> cpu_cycles s \<Longrightarrow> c \<le> cpu_cycles (bli_LDIR s)"
  by (simp add: bli_LDIR_def Let_def split_beta)

lemma bli_CPIR_cycles [simp]: "c \<le> cpu_cycles s \<Longrightarrow> c \<le> cpu_cycles (bli_CPIR s)"
  by (simp add: bli_CPIR_def Let_def split_beta)

lemma bli_INIR_cycles [simp]: "c \<le> cpu_cycles s \<Longrightarrow> c \<le> cpu_cycles (bli_INIR s)"
  by (simp add: bli_INIR_def Let_def split_beta)

lemma bli_OTIR_cycles [simp]: "c \<le> cpu_cycles s \<Longrightarrow> c \<le> cpu_cycles (bli_OTIR s)"
  by (simp add: bli_OTIR_def Let_def split_beta)

lemma bli_OTI2R_cycles [simp]: "c \<le> cpu_cycles s \<Longrightarrow> c \<le> cpu_cycles (bli_OTI2R s)"
  by (simp add: bli_OTI2R_def Let_def split_beta)

lemma bli_LDDR_cycles [simp]: "c \<le> cpu_cycles s \<Longrightarrow> c \<le> cpu_cycles (bli_LDDR s)"
  by (simp add: bli_LDDR_def Let_def split_beta)

lemma bli_CPDR_cycles [simp]: "c \<le> cpu_cycles s \<Longrightarrow> c \<le> cpu_cycles (bli_CPDR s)"
  by (simp add: bli_CPDR_def Let_def split_beta)

lemma bli_INDR_cycles [simp]: "c \<le> cpu_cycles s \<Longrightarrow> c \<le> cpu_cycles (bli_INDR s)"
  by (simp add: bli_INDR_def Let_def split_beta)

lemma bli_OTDR_cycles [simp]: "c \<le> cpu_cycles s \<Longrightarrow> c \<le> cpu_cycles (bli_OTDR s)"
  by (simp add: bli_OTDR_def Let_def split_beta)

lemma bli_OTD2R_cycles [simp]: "c \<le> cpu_cycles s \<Longrightarrow> c \<le> cpu_cycles (bli_OTD2R s)"
  by (simp add: bli_OTD2R_def Let_def split_beta)

lemma cpu_execute_bli_cycles [simp]: "c \<le> cpu_cycles s \<Longrightarrow> c \<le> cpu_cycles (cpu_execute_bli y z s)"
  by (simp add: cpu_execute_bli_def Let_def split_beta)

lemma opcode_trap_wait [simp]: "cpu_IEF_wait (opcode_trap s)"
  by (simp add: opcode_trap_def)

lemma exec_ed_x1_z5_mono [simp]:
  "c \<le> cpu_cycles s \<Longrightarrow> c \<le> cpu_cycles (exec_ed_x1_z5 y s)"
  "cpu_IEF_wait s \<Longrightarrow> cpu_IEF_wait (exec_ed_x1_z5 y s)"
  by (simp_all add: exec_ed_x1_z5_def Let_def split_beta)

lemma exec_ed_x1_z6_mono [simp]:
  "c \<le> cpu_cycles s \<Longrightarrow> c \<le> cpu_cycles (exec_ed_x1_z6 y s)"
  "cpu_IEF_wait s \<Longrightarrow> cpu_IEF_wait (exec_ed_x1_z6 y s)"
  by (simp_all add: exec_ed_x1_z6_def Let_def split_beta)

lemma exec_ed_x1_z7_mono [simp]:
  "c \<le> cpu_cycles s \<Longrightarrow> c \<le> cpu_cycles (exec_ed_x1_z7 y s)"
  "cpu_IEF_wait s \<Longrightarrow> cpu_IEF_wait (exec_ed_x1_z7 y s)"
  by (simp_all add: exec_ed_x1_z7_def Let_def split_beta)

lemma exec_ed_x1_z7_R [simp]: "y \<noteq> 1 \<Longrightarrow> r_R (exec_ed_x1_z7 y s) = r_R s"
  by (simp add: exec_ed_x1_z7_def Let_def split_beta)

lemma exec_inrx_inc_HL_keeps [simp]:
  "r_R (exec_inrx inc_HL s) = r_R s"
  "cycle_count_delta (exec_inrx inc_HL s) = cycle_count_delta s"
  "cycle_offset (exec_inrx inc_HL s) = cycle_offset s"
  "exiting (exec_inrx inc_HL s) = exiting s"
  "intrpt_pending (exec_inrx inc_HL s) = intrpt_pending s"
  "cpu_events (exec_inrx inc_HL s) = cpu_events s"
  by (simp_all add: exec_inrx_def Let_def split_beta)

lemma exec_inrx_inc_HL_mono [simp]:
  "c \<le> cpu_cycles s \<Longrightarrow> c \<le> cpu_cycles (exec_inrx inc_HL s)"
  "cpu_IEF_wait s \<Longrightarrow> cpu_IEF_wait (exec_inrx inc_HL s)"
  by (simp_all add: exec_inrx_def Let_def split_beta)

lemma exec_otrx_inc_HL_keeps [simp]:
  "r_R (exec_otrx inc_HL s) = r_R s"
  "cycle_count_delta (exec_otrx inc_HL s) = cycle_count_delta s"
  "cycle_offset (exec_otrx inc_HL s) = cycle_offset s"
  "exiting (exec_otrx inc_HL s) = exiting s"
  "intrpt_pending (exec_otrx inc_HL s) = intrpt_pending s"
  "cpu_events (exec_otrx inc_HL s) = cpu_events s"
  by (simp_all add: exec_otrx_def Let_def split_beta)

lemma exec_otrx_inc_HL_mono [simp]:
  "c \<le> cpu_cycles s \<Longrightarrow> c \<le> cpu_cycles (exec_otrx inc_HL s)"
  "cpu_IEF_wait s \<Longrightarrow> cpu_IEF_wait (exec_otrx inc_HL s)"
  by (simp_all add: exec_otrx_def Let_def split_beta)

lemma exec_inrx_dec_HL_keeps [simp]:
  "r_R (exec_inrx dec_HL s) = r_R s"
  "cycle_count_delta (exec_inrx dec_HL s) = cycle_count_delta s"
  "cycle_offset (exec_inrx dec_HL s) = cycle_offset s"
  "exiting (exec_inrx dec_HL s) = exiting s"
  "intrpt_pending (exec_inrx dec_HL s) = intrpt_pending s"
  "cpu_events (exec_inrx dec_HL s) = cpu_events s"
  by (simp_all add: exec_inrx_def Let_def split_beta)

lemma exec_inrx_dec_HL_mono [simp]:
  "c \<le> cpu_cycles s \<Longrightarrow> c \<le> cpu_cycles (exec_inrx dec_HL s)"
  "cpu_IEF_wait s \<Longrightarrow> cpu_IEF_wait (exec_inrx dec_HL s)"
  by (simp_all add: exec_inrx_def Let_def split_beta)

lemma exec_otrx_dec_HL_keeps [simp]:
  "r_R (exec_otrx dec_HL s) = r_R s"
  "cycle_count_delta (exec_otrx dec_HL s) = cycle_count_delta s"
  "cycle_offset (exec_otrx dec_HL s) = cycle_offset s"
  "exiting (exec_otrx dec_HL s) = exiting s"
  "intrpt_pending (exec_otrx dec_HL s) = intrpt_pending s"
  "cpu_events (exec_otrx dec_HL s) = cpu_events s"
  by (simp_all add: exec_otrx_def Let_def split_beta)

lemma exec_otrx_dec_HL_mono [simp]:
  "c \<le> cpu_cycles s \<Longrightarrow> c \<le> cpu_cycles (exec_otrx dec_HL s)"
  "cpu_IEF_wait s \<Longrightarrow> cpu_IEF_wait (exec_otrx dec_HL s)"
  by (simp_all add: exec_otrx_def Let_def split_beta)

lemma exec_ed_x3_keeps [simp]:
  "r_R (exec_ed_x3 opc s) = r_R s"
  "cycle_count_delta (exec_ed_x3 opc s) = cycle_count_delta s"
  "cycle_offset (exec_ed_x3 opc s) = cycle_offset s"
  "exiting (exec_ed_x3 opc s) = exiting s"
  "intrpt_pending (exec_ed_x3 opc s) = intrpt_pending s"
  "cpu_events (exec_ed_x3 opc s) = cpu_events s"
  by (simp_all add: exec_ed_x3_def Let_def split_beta)

lemma exec_ed_x3_mono [simp]:
  "c \<le> cpu_cycles s \<Longrightarrow> c \<le> cpu_cycles (exec_ed_x3 opc s)"
  "cpu_IEF_wait s \<Longrightarrow> cpu_IEF_wait (exec_ed_x3 opc s)"
  by (simp_all add: exec_ed_x3_def Let_def split_beta)

lemma exec_cb_nn [simp]: "exec_cb s \<noteq> None"
  by (simp add: exec_cb_def Let_def split_beta)

lemma exec_cb_case [simp]:
  "case_option n f (exec_cb s) = f (the (exec_cb s))"
  using exec_cb_nn[of  s] by (cases "exec_cb s") simp_all

lemma exec_cb_eq [simp]:
  "(exec_cb s = Some t) = (t = the (exec_cb s))"
  using exec_cb_nn[of  s] by (cases "exec_cb s") auto

lemma exec_cb_keeps [simp]:
  "cycle_count_delta (the (exec_cb s)) = cycle_count_delta s"
  "cycle_offset (the (exec_cb s)) = cycle_offset s"
  "exiting (the (exec_cb s)) = exiting s"
  "intrpt_pending (the (exec_cb s)) = intrpt_pending s"
  "cpu_events (the (exec_cb s)) = cpu_events s"
  by (simp_all add: exec_cb_def Let_def split_beta)

lemma exec_cb_R [simp]:
  "r_R (the (exec_cb s)) = r_R s"
  by (simp add: exec_cb_def Let_def split_beta)

lemma exec_cb_mono [simp]:
  "c \<le> cpu_cycles s \<Longrightarrow> c \<le> cpu_cycles (the (exec_cb s))"
  "cpu_IEF_wait s \<Longrightarrow> cpu_IEF_wait (the (exec_cb s))"
  by (simp_all add: exec_cb_def Let_def split_beta)

lemma exec_ed_x0_nn [simp]: "exec_ed_x0 opc s \<noteq> None"
  by (simp add: exec_ed_x0_def Let_def split_beta)

lemma exec_ed_x0_case [simp]:
  "case_option n f (exec_ed_x0 opc s) = f (the (exec_ed_x0 opc s))"
  using exec_ed_x0_nn[of opc s] by (cases "exec_ed_x0 opc s") simp_all

lemma exec_ed_x0_eq [simp]:
  "(exec_ed_x0 opc s = Some t) = (t = the (exec_ed_x0 opc s))"
  using exec_ed_x0_nn[of opc s] by (cases "exec_ed_x0 opc s") auto

lemma exec_ed_x0_keeps [simp]:
  "cycle_count_delta (the (exec_ed_x0 opc s)) = cycle_count_delta s"
  "cycle_offset (the (exec_ed_x0 opc s)) = cycle_offset s"
  "exiting (the (exec_ed_x0 opc s)) = exiting s"
  "intrpt_pending (the (exec_ed_x0 opc s)) = intrpt_pending s"
  "cpu_events (the (exec_ed_x0 opc s)) = cpu_events s"
  by (simp_all add: exec_ed_x0_def Let_def split_beta)

lemma exec_ed_x0_R [simp]:
  "r_R (the (exec_ed_x0 opc s)) = r_R s"
  by (simp add: exec_ed_x0_def Let_def split_beta)

lemma exec_ed_x0_mono [simp]:
  "c \<le> cpu_cycles s \<Longrightarrow> c \<le> cpu_cycles (the (exec_ed_x0 opc s))"
  "cpu_IEF_wait s \<Longrightarrow> cpu_IEF_wait (the (exec_ed_x0 opc s))"
  by (simp_all add: exec_ed_x0_def Let_def split_beta)

lemma exec_ed_x1_z2_nn [simp]: "p < 4 \<Longrightarrow> exec_ed_x1_z2 p q s \<noteq> None"
  by (simp add: exec_ed_x1_z2_def Let_def split_beta)

lemma exec_ed_x1_z2_case [simp]:
  "p < 4 \<Longrightarrow> case_option n f (exec_ed_x1_z2 p q s) = f (the (exec_ed_x1_z2 p q s))"
  using exec_ed_x1_z2_nn[of p q s] by (cases "exec_ed_x1_z2 p q s") simp_all

lemma exec_ed_x1_z2_eq [simp]:
  "p < 4 \<Longrightarrow> (exec_ed_x1_z2 p q s = Some t) = (t = the (exec_ed_x1_z2 p q s))"
  using exec_ed_x1_z2_nn[of p q s] by (cases "exec_ed_x1_z2 p q s") auto

lemma exec_ed_x1_z2_keeps [simp]:
  "p < 4 \<Longrightarrow> cycle_count_delta (the (exec_ed_x1_z2 p q s)) = cycle_count_delta s"
  "p < 4 \<Longrightarrow> cycle_offset (the (exec_ed_x1_z2 p q s)) = cycle_offset s"
  "p < 4 \<Longrightarrow> exiting (the (exec_ed_x1_z2 p q s)) = exiting s"
  "p < 4 \<Longrightarrow> intrpt_pending (the (exec_ed_x1_z2 p q s)) = intrpt_pending s"
  "p < 4 \<Longrightarrow> cpu_events (the (exec_ed_x1_z2 p q s)) = cpu_events s"
  by (simp_all add: exec_ed_x1_z2_def Let_def split_beta)

lemma exec_ed_x1_z2_R [simp]:
  "p < 4 \<Longrightarrow> r_R (the (exec_ed_x1_z2 p q s)) = r_R s"
  by (simp add: exec_ed_x1_z2_def Let_def split_beta)

lemma exec_ed_x1_z2_mono [simp]:
  "p < 4 \<Longrightarrow> c \<le> cpu_cycles s \<Longrightarrow> c \<le> cpu_cycles (the (exec_ed_x1_z2 p q s))"
  "p < 4 \<Longrightarrow> cpu_IEF_wait s \<Longrightarrow> cpu_IEF_wait (the (exec_ed_x1_z2 p q s))"
  by (simp_all add: exec_ed_x1_z2_def Let_def split_beta)

lemma exec_ed_x1_z4_nn [simp]: "p < 4 \<Longrightarrow> exec_ed_x1_z4 p q s \<noteq> None"
  by (simp add: exec_ed_x1_z4_def Let_def split_beta)

lemma exec_ed_x1_z4_case [simp]:
  "p < 4 \<Longrightarrow> case_option n f (exec_ed_x1_z4 p q s) = f (the (exec_ed_x1_z4 p q s))"
  using exec_ed_x1_z4_nn[of p q s] by (cases "exec_ed_x1_z4 p q s") simp_all

lemma exec_ed_x1_z4_eq [simp]:
  "p < 4 \<Longrightarrow> (exec_ed_x1_z4 p q s = Some t) = (t = the (exec_ed_x1_z4 p q s))"
  using exec_ed_x1_z4_nn[of p q s] by (cases "exec_ed_x1_z4 p q s") auto

lemma exec_ed_x1_z4_keeps [simp]:
  "p < 4 \<Longrightarrow> cycle_count_delta (the (exec_ed_x1_z4 p q s)) = cycle_count_delta s"
  "p < 4 \<Longrightarrow> cycle_offset (the (exec_ed_x1_z4 p q s)) = cycle_offset s"
  "p < 4 \<Longrightarrow> exiting (the (exec_ed_x1_z4 p q s)) = exiting s"
  "p < 4 \<Longrightarrow> intrpt_pending (the (exec_ed_x1_z4 p q s)) = intrpt_pending s"
  "p < 4 \<Longrightarrow> cpu_events (the (exec_ed_x1_z4 p q s)) = cpu_events s"
  by (simp_all add: exec_ed_x1_z4_def Let_def split_beta)

lemma exec_ed_x1_z4_R [simp]:
  "p < 4 \<Longrightarrow> r_R (the (exec_ed_x1_z4 p q s)) = r_R s"
  by (simp add: exec_ed_x1_z4_def Let_def split_beta)

lemma exec_ed_x1_z4_mono [simp]:
  "p < 4 \<Longrightarrow> c \<le> cpu_cycles s \<Longrightarrow> c \<le> cpu_cycles (the (exec_ed_x1_z4 p q s))"
  "p < 4 \<Longrightarrow> cpu_IEF_wait s \<Longrightarrow> cpu_IEF_wait (the (exec_ed_x1_z4 p q s))"
  by (simp_all add: exec_ed_x1_z4_def Let_def split_beta)

lemma exec_ed_x1_nn [simp]: "exec_ed_x1 opc s \<noteq> None"
  by (simp add: exec_ed_x1_def Let_def split_beta)

lemma exec_ed_x1_case [simp]:
  "case_option n f (exec_ed_x1 opc s) = f (the (exec_ed_x1 opc s))"
  using exec_ed_x1_nn[of opc s] by (cases "exec_ed_x1 opc s") simp_all

lemma exec_ed_x1_eq [simp]:
  "(exec_ed_x1 opc s = Some t) = (t = the (exec_ed_x1 opc s))"
  using exec_ed_x1_nn[of opc s] by (cases "exec_ed_x1 opc s") auto

lemma exec_ed_x1_keeps [simp]:
  "cycle_count_delta (the (exec_ed_x1 opc s)) = cycle_count_delta s"
  "cycle_offset (the (exec_ed_x1 opc s)) = cycle_offset s"
  "exiting (the (exec_ed_x1 opc s)) = exiting s"
  "intrpt_pending (the (exec_ed_x1 opc s)) = intrpt_pending s"
  "cpu_events (the (exec_ed_x1 opc s)) = cpu_events s"
  by (simp_all add: exec_ed_x1_def Let_def split_beta)

lemma exec_ed_x1_R [simp]:
  "\<not> (ctx_z opc = 7 \<and> ctx_y opc = 1) \<Longrightarrow> r_R (the (exec_ed_x1 opc s)) = r_R s"
  by (simp add: exec_ed_x1_def Let_def split_beta)

lemma exec_ed_x1_mono [simp]:
  "c \<le> cpu_cycles s \<Longrightarrow> c \<le> cpu_cycles (the (exec_ed_x1 opc s))"
  "cpu_IEF_wait s \<Longrightarrow> cpu_IEF_wait (the (exec_ed_x1 opc s))"
  by (simp_all add: exec_ed_x1_def Let_def split_beta)

lemma fst_cpu_fetch_byte: "fst (cpu_fetch_byte s) = cpu_prefetch_byte s"
  by (simp add: cpu_fetch_byte_def)

lemma exec_ed_nn [simp]: "exec_ed s \<noteq> None"
  by (simp add: exec_ed_def fst_cpu_fetch_byte Let_def split_beta)

lemma exec_ed_case [simp]:
  "case_option n f (exec_ed s) = f (the (exec_ed s))"
  using exec_ed_nn[of  s] by (cases "exec_ed s") simp_all

lemma exec_ed_eq [simp]:
  "(exec_ed s = Some t) = (t = the (exec_ed s))"
  using exec_ed_nn[of  s] by (cases "exec_ed s") auto

lemma exec_ed_keeps [simp]:
  "cycle_count_delta (the (exec_ed s)) = cycle_count_delta s"
  "cycle_offset (the (exec_ed s)) = cycle_offset s"
  "exiting (the (exec_ed s)) = exiting s"
  "intrpt_pending (the (exec_ed s)) = intrpt_pending s"
  "cpu_events (the (exec_ed s)) = cpu_events s"
  by (simp_all add: exec_ed_def fst_cpu_fetch_byte Let_def split_beta)

lemma exec_ed_R [simp]:
  "\<not> (ctx_x (cpu_prefetch_byte s) = 1 \<and> ctx_z (cpu_prefetch_byte s) = 7 \<and> ctx_y (cpu_prefetch_byte s) = 1) \<Longrightarrow> r_R (the (exec_ed s)) = r_R s"
  by (simp add: exec_ed_def fst_cpu_fetch_byte Let_def split_beta)

lemma exec_ed_mono [simp]:
  "c \<le> cpu_cycles s \<Longrightarrow> c \<le> cpu_cycles (the (exec_ed s))"
  "cpu_IEF_wait s \<Longrightarrow> cpu_IEF_wait (the (exec_ed s))"
  by (simp_all add: exec_ed_def fst_cpu_fetch_byte Let_def split_beta)

lemma exec_x0_z0_nn [simp]: "y < 8 \<Longrightarrow> exec_x0_z0 y s \<noteq> None"
  by (simp add: exec_x0_z0_def Let_def split_beta)

lemma exec_x0_z0_case [simp]:
  "y < 8 \<Longrightarrow> case_option n f (exec_x0_z0 y s) = f (the (exec_x0_z0 y s))"
  using exec_x0_z0_nn[of y s] by (cases "exec_x0_z0 y s") simp_all

lemma exec_x0_z0_eq [simp]:
  "y < 8 \<Longrightarrow> (exec_x0_z0 y s = Some t) = (t = the (exec_x0_z0 y s))"
  using exec_x0_z0_nn[of y s] by (cases "exec_x0_z0 y s") auto

lemma exec_x0_z0_keeps [simp]:
  "y < 8 \<Longrightarrow> cycle_count_delta (the (exec_x0_z0 y s)) = cycle_count_delta s"
  "y < 8 \<Longrightarrow> cycle_offset (the (exec_x0_z0 y s)) = cycle_offset s"
  "y < 8 \<Longrightarrow> exiting (the (exec_x0_z0 y s)) = exiting s"
  "y < 8 \<Longrightarrow> intrpt_pending (the (exec_x0_z0 y s)) = intrpt_pending s"
  "y < 8 \<Longrightarrow> cpu_events (the (exec_x0_z0 y s)) = cpu_events s"
  by (simp_all add: exec_x0_z0_def Let_def split_beta)

lemma exec_x0_z0_R [simp]:
  "y < 8 \<Longrightarrow> r_R (the (exec_x0_z0 y s)) = r_R s"
  by (simp add: exec_x0_z0_def Let_def split_beta)

lemma exec_x0_z0_mono [simp]:
  "y < 8 \<Longrightarrow> c \<le> cpu_cycles s \<Longrightarrow> c \<le> cpu_cycles (the (exec_x0_z0 y s))"
  "y < 8 \<Longrightarrow> cpu_IEF_wait s \<Longrightarrow> cpu_IEF_wait (the (exec_x0_z0 y s))"
  by (simp_all add: exec_x0_z0_def Let_def split_beta)

lemma exec_x0_z1_nn [simp]: "p < 4 \<Longrightarrow> exec_x0_z1 p q s \<noteq> None"
  by (simp add: exec_x0_z1_def Let_def split_beta)

lemma exec_x0_z1_case [simp]:
  "p < 4 \<Longrightarrow> case_option n f (exec_x0_z1 p q s) = f (the (exec_x0_z1 p q s))"
  using exec_x0_z1_nn[of p q s] by (cases "exec_x0_z1 p q s") simp_all

lemma exec_x0_z1_eq [simp]:
  "p < 4 \<Longrightarrow> (exec_x0_z1 p q s = Some t) = (t = the (exec_x0_z1 p q s))"
  using exec_x0_z1_nn[of p q s] by (cases "exec_x0_z1 p q s") auto

lemma exec_x0_z1_keeps [simp]:
  "p < 4 \<Longrightarrow> cycle_count_delta (the (exec_x0_z1 p q s)) = cycle_count_delta s"
  "p < 4 \<Longrightarrow> cycle_offset (the (exec_x0_z1 p q s)) = cycle_offset s"
  "p < 4 \<Longrightarrow> exiting (the (exec_x0_z1 p q s)) = exiting s"
  "p < 4 \<Longrightarrow> intrpt_pending (the (exec_x0_z1 p q s)) = intrpt_pending s"
  "p < 4 \<Longrightarrow> cpu_events (the (exec_x0_z1 p q s)) = cpu_events s"
  by (simp_all add: exec_x0_z1_def Let_def split_beta)

lemma exec_x0_z1_R [simp]:
  "p < 4 \<Longrightarrow> r_R (the (exec_x0_z1 p q s)) = r_R s"
  by (simp add: exec_x0_z1_def Let_def split_beta)

lemma exec_x0_z1_mono [simp]:
  "p < 4 \<Longrightarrow> c \<le> cpu_cycles s \<Longrightarrow> c \<le> cpu_cycles (the (exec_x0_z1 p q s))"
  "p < 4 \<Longrightarrow> cpu_IEF_wait s \<Longrightarrow> cpu_IEF_wait (the (exec_x0_z1 p q s))"
  by (simp_all add: exec_x0_z1_def Let_def split_beta)

lemma exec_x0_z2_nn [simp]: "exec_x0_z2 p q s \<noteq> None"
  by (simp add: exec_x0_z2_def Let_def split_beta)

lemma exec_x0_z2_case [simp]:
  "case_option n f (exec_x0_z2 p q s) = f (the (exec_x0_z2 p q s))"
  using exec_x0_z2_nn[of p q s] by (cases "exec_x0_z2 p q s") simp_all

lemma exec_x0_z2_eq [simp]:
  "(exec_x0_z2 p q s = Some t) = (t = the (exec_x0_z2 p q s))"
  using exec_x0_z2_nn[of p q s] by (cases "exec_x0_z2 p q s") auto

lemma exec_x0_z2_keeps [simp]:
  "cycle_count_delta (the (exec_x0_z2 p q s)) = cycle_count_delta s"
  "cycle_offset (the (exec_x0_z2 p q s)) = cycle_offset s"
  "exiting (the (exec_x0_z2 p q s)) = exiting s"
  "intrpt_pending (the (exec_x0_z2 p q s)) = intrpt_pending s"
  "cpu_events (the (exec_x0_z2 p q s)) = cpu_events s"
  by (simp_all add: exec_x0_z2_def Let_def split_beta)

lemma exec_x0_z2_R [simp]:
  "r_R (the (exec_x0_z2 p q s)) = r_R s"
  by (simp add: exec_x0_z2_def Let_def split_beta)

lemma exec_x0_z2_mono [simp]:
  "c \<le> cpu_cycles s \<Longrightarrow> c \<le> cpu_cycles (the (exec_x0_z2 p q s))"
  "cpu_IEF_wait s \<Longrightarrow> cpu_IEF_wait (the (exec_x0_z2 p q s))"
  by (simp_all add: exec_x0_z2_def Let_def split_beta)

lemma exec_x0_z3_nn [simp]: "p < 4 \<Longrightarrow> exec_x0_z3 p q s \<noteq> None"
  by (simp add: exec_x0_z3_def Let_def split_beta)

lemma exec_x0_z3_case [simp]:
  "p < 4 \<Longrightarrow> case_option n f (exec_x0_z3 p q s) = f (the (exec_x0_z3 p q s))"
  using exec_x0_z3_nn[of p q s] by (cases "exec_x0_z3 p q s") simp_all

lemma exec_x0_z3_eq [simp]:
  "p < 4 \<Longrightarrow> (exec_x0_z3 p q s = Some t) = (t = the (exec_x0_z3 p q s))"
  using exec_x0_z3_nn[of p q s] by (cases "exec_x0_z3 p q s") auto

lemma exec_x0_z3_keeps [simp]:
  "p < 4 \<Longrightarrow> cycle_count_delta (the (exec_x0_z3 p q s)) = cycle_count_delta s"
  "p < 4 \<Longrightarrow> cycle_offset (the (exec_x0_z3 p q s)) = cycle_offset s"
  "p < 4 \<Longrightarrow> exiting (the (exec_x0_z3 p q s)) = exiting s"
  "p < 4 \<Longrightarrow> intrpt_pending (the (exec_x0_z3 p q s)) = intrpt_pending s"
  "p < 4 \<Longrightarrow> cpu_events (the (exec_x0_z3 p q s)) = cpu_events s"
  by (simp_all add: exec_x0_z3_def Let_def split_beta)

lemma exec_x0_z3_R [simp]:
  "p < 4 \<Longrightarrow> r_R (the (exec_x0_z3 p q s)) = r_R s"
  by (simp add: exec_x0_z3_def Let_def split_beta)

lemma exec_x0_z3_mono [simp]:
  "p < 4 \<Longrightarrow> c \<le> cpu_cycles s \<Longrightarrow> c \<le> cpu_cycles (the (exec_x0_z3 p q s))"
  "p < 4 \<Longrightarrow> cpu_IEF_wait s \<Longrightarrow> cpu_IEF_wait (the (exec_x0_z3 p q s))"
  by (simp_all add: exec_x0_z3_def Let_def split_beta)

lemma exec_x0_z4_nn [simp]: "y < 8 \<Longrightarrow> exec_x0_z4 y s \<noteq> None"
  by (simp add: exec_x0_z4_def Let_def split_beta)

lemma exec_x0_z4_case [simp]:
  "y < 8 \<Longrightarrow> case_option n f (exec_x0_z4 y s) = f (the (exec_x0_z4 y s))"
  using exec_x0_z4_nn[of y s] by (cases "exec_x0_z4 y s") simp_all

lemma exec_x0_z4_eq [simp]:
  "y < 8 \<Longrightarrow> (exec_x0_z4 y s = Some t) = (t = the (exec_x0_z4 y s))"
  using exec_x0_z4_nn[of y s] by (cases "exec_x0_z4 y s") auto

lemma exec_x0_z4_keeps [simp]:
  "y < 8 \<Longrightarrow> cycle_count_delta (the (exec_x0_z4 y s)) = cycle_count_delta s"
  "y < 8 \<Longrightarrow> cycle_offset (the (exec_x0_z4 y s)) = cycle_offset s"
  "y < 8 \<Longrightarrow> exiting (the (exec_x0_z4 y s)) = exiting s"
  "y < 8 \<Longrightarrow> intrpt_pending (the (exec_x0_z4 y s)) = intrpt_pending s"
  "y < 8 \<Longrightarrow> cpu_events (the (exec_x0_z4 y s)) = cpu_events s"
  by (simp_all add: exec_x0_z4_def Let_def split_beta)

lemma exec_x0_z4_R [simp]:
  "y < 8 \<Longrightarrow> r_R (the (exec_x0_z4 y s)) = r_R s"
  by (simp add: exec_x0_z4_def Let_def split_beta)

lemma exec_x0_z4_mono [simp]:
  "y < 8 \<Longrightarrow> c \<le> cpu_cycles s \<Longrightarrow> c \<le> cpu_cycles (the (exec_x0_z4 y s))"
  "y < 8 \<Longrightarrow> cpu_IEF_wait s \<Longrightarrow> cpu_IEF_wait (the (exec_x0_z4 y s))"
  by (simp_all add: exec_x0_z4_def Let_def split_beta)

lemma exec_x0_z5_nn [simp]: "y < 8 \<Longrightarrow> exec_x0_z5 y s \<noteq> None"
  by (simp add: exec_x0_z5_def Let_def split_beta)

lemma exec_x0_z5_case [simp]:
  "y < 8 \<Longrightarrow> case_option n f (exec_x0_z5 y s) = f (the (exec_x0_z5 y s))"
  using exec_x0_z5_nn[of y s] by (cases "exec_x0_z5 y s") simp_all

lemma exec_x0_z5_eq [simp]:
  "y < 8 \<Longrightarrow> (exec_x0_z5 y s = Some t) = (t = the (exec_x0_z5 y s))"
  using exec_x0_z5_nn[of y s] by (cases "exec_x0_z5 y s") auto

lemma exec_x0_z5_keeps [simp]:
  "y < 8 \<Longrightarrow> cycle_count_delta (the (exec_x0_z5 y s)) = cycle_count_delta s"
  "y < 8 \<Longrightarrow> cycle_offset (the (exec_x0_z5 y s)) = cycle_offset s"
  "y < 8 \<Longrightarrow> exiting (the (exec_x0_z5 y s)) = exiting s"
  "y < 8 \<Longrightarrow> intrpt_pending (the (exec_x0_z5 y s)) = intrpt_pending s"
  "y < 8 \<Longrightarrow> cpu_events (the (exec_x0_z5 y s)) = cpu_events s"
  by (simp_all add: exec_x0_z5_def Let_def split_beta)

lemma exec_x0_z5_R [simp]:
  "y < 8 \<Longrightarrow> r_R (the (exec_x0_z5 y s)) = r_R s"
  by (simp add: exec_x0_z5_def Let_def split_beta)

lemma exec_x0_z5_mono [simp]:
  "y < 8 \<Longrightarrow> c \<le> cpu_cycles s \<Longrightarrow> c \<le> cpu_cycles (the (exec_x0_z5 y s))"
  "y < 8 \<Longrightarrow> cpu_IEF_wait s \<Longrightarrow> cpu_IEF_wait (the (exec_x0_z5 y s))"
  by (simp_all add: exec_x0_z5_def Let_def split_beta)

lemma exec_x0_z6_nn [simp]: "y < 8 \<Longrightarrow> exec_x0_z6 y s \<noteq> None"
  by (simp add: exec_x0_z6_def Let_def split_beta)

lemma exec_x0_z6_case [simp]:
  "y < 8 \<Longrightarrow> case_option n f (exec_x0_z6 y s) = f (the (exec_x0_z6 y s))"
  using exec_x0_z6_nn[of y s] by (cases "exec_x0_z6 y s") simp_all

lemma exec_x0_z6_eq [simp]:
  "y < 8 \<Longrightarrow> (exec_x0_z6 y s = Some t) = (t = the (exec_x0_z6 y s))"
  using exec_x0_z6_nn[of y s] by (cases "exec_x0_z6 y s") auto

lemma exec_x0_z6_keeps [simp]:
  "y < 8 \<Longrightarrow> cycle_count_delta (the (exec_x0_z6 y s)) = cycle_count_delta s"
  "y < 8 \<Longrightarrow> cycle_offset (the (exec_x0_z6 y s)) = cycle_offset s"
  "y < 8 \<Longrightarrow> exiting (the (exec_x0_z6 y s)) = exiting s"
  "y < 8 \<Longrightarrow> intrpt_pending (the (exec_x0_z6 y s)) = intrpt_pending s"
  "y < 8 \<Longrightarrow> cpu_events (the (exec_x0_z6 y s)) = cpu_events s"
  by (simp_all add: exec_x0_z6_def Let_def split_beta)

lemma exec_x0_z6_R [simp]:
  "y < 8 \<Longrightarrow> r_R (the (exec_x0_z6 y s)) = r_R s"
  by (simp add: exec_x0_z6_def Let_def split_beta)

lemma exec_x0_z6_mono [simp]:
  "y < 8 \<Longrightarrow> c \<le> cpu_cycles s \<Longrightarrow> c \<le> cpu_cycles (the (exec_x0_z6 y s))"
  "y < 8 \<Longrightarrow> cpu_IEF_wait s \<Longrightarrow> cpu_IEF_wait (the (exec_x0_z6 y s))"
  by (simp_all add: exec_x0_z6_def Let_def split_beta)

lemma exec_x0_z7_nn [simp]: "p < 4 \<Longrightarrow> exec_x0_z7 y p q s \<noteq> None"
  by (simp add: exec_x0_z7_def Let_def split_beta)

lemma exec_x0_z7_case [simp]:
  "p < 4 \<Longrightarrow> case_option n f (exec_x0_z7 y p q s) = f (the (exec_x0_z7 y p q s))"
  using exec_x0_z7_nn[of y p q s] by (cases "exec_x0_z7 y p q s") simp_all

lemma exec_x0_z7_eq [simp]:
  "p < 4 \<Longrightarrow> (exec_x0_z7 y p q s = Some t) = (t = the (exec_x0_z7 y p q s))"
  using exec_x0_z7_nn[of y p q s] by (cases "exec_x0_z7 y p q s") auto

lemma exec_x0_z7_keeps [simp]:
  "p < 4 \<Longrightarrow> cycle_count_delta (the (exec_x0_z7 y p q s)) = cycle_count_delta s"
  "p < 4 \<Longrightarrow> cycle_offset (the (exec_x0_z7 y p q s)) = cycle_offset s"
  "p < 4 \<Longrightarrow> exiting (the (exec_x0_z7 y p q s)) = exiting s"
  "p < 4 \<Longrightarrow> intrpt_pending (the (exec_x0_z7 y p q s)) = intrpt_pending s"
  "p < 4 \<Longrightarrow> cpu_events (the (exec_x0_z7 y p q s)) = cpu_events s"
  by (simp_all add: exec_x0_z7_def Let_def split_beta)

lemma exec_x0_z7_R [simp]:
  "p < 4 \<Longrightarrow> r_R (the (exec_x0_z7 y p q s)) = r_R s"
  by (simp add: exec_x0_z7_def Let_def split_beta)

lemma exec_x0_z7_mono [simp]:
  "p < 4 \<Longrightarrow> c \<le> cpu_cycles s \<Longrightarrow> c \<le> cpu_cycles (the (exec_x0_z7 y p q s))"
  "p < 4 \<Longrightarrow> cpu_IEF_wait s \<Longrightarrow> cpu_IEF_wait (the (exec_x0_z7 y p q s))"
  by (simp_all add: exec_x0_z7_def Let_def split_beta)

lemma exec_x0_nn [simp]: "exec_x0 opc s \<noteq> None"
  by (simp add: exec_x0_def Let_def split_beta)

lemma exec_x0_case [simp]:
  "case_option n f (exec_x0 opc s) = f (the (exec_x0 opc s))"
  using exec_x0_nn[of opc s] by (cases "exec_x0 opc s") simp_all

lemma exec_x0_eq [simp]:
  "(exec_x0 opc s = Some t) = (t = the (exec_x0 opc s))"
  using exec_x0_nn[of opc s] by (cases "exec_x0 opc s") auto

lemma exec_x0_keeps [simp]:
  "cycle_count_delta (the (exec_x0 opc s)) = cycle_count_delta s"
  "cycle_offset (the (exec_x0 opc s)) = cycle_offset s"
  "exiting (the (exec_x0 opc s)) = exiting s"
  "intrpt_pending (the (exec_x0 opc s)) = intrpt_pending s"
  "cpu_events (the (exec_x0 opc s)) = cpu_events s"
  by (simp_all add: exec_x0_def Let_def split_beta)

lemma exec_x0_R [simp]:
  "r_R (the (exec_x0 opc s)) = r_R s"
  by (simp add: exec_x0_def Let_def split_beta)

lemma exec_x0_mono [simp]:
  "c \<le> cpu_cycles s \<Longrightarrow> c \<le> cpu_cycles (the (exec_x0 opc s))"
  "cpu_IEF_wait s \<Longrightarrow> cpu_IEF_wait (the (exec_x0 opc s))"
  by (simp_all add: exec_x0_def Let_def split_beta)

lemma exec_x3_z0_nn [simp]: "y < 8 \<Longrightarrow> exec_x3_z0 y s \<noteq> None"
  by (simp add: exec_x3_z0_def Let_def split_beta)

lemma exec_x3_z0_case [simp]:
  "y < 8 \<Longrightarrow> case_option n f (exec_x3_z0 y s) = f (the (exec_x3_z0 y s))"
  using exec_x3_z0_nn[of y s] by (cases "exec_x3_z0 y s") simp_all

lemma exec_x3_z0_eq [simp]:
  "y < 8 \<Longrightarrow> (exec_x3_z0 y s = Some t) = (t = the (exec_x3_z0 y s))"
  using exec_x3_z0_nn[of y s] by (cases "exec_x3_z0 y s") auto

lemma exec_x3_z0_keeps [simp]:
  "y < 8 \<Longrightarrow> cycle_count_delta (the (exec_x3_z0 y s)) = cycle_count_delta s"
  "y < 8 \<Longrightarrow> cycle_offset (the (exec_x3_z0 y s)) = cycle_offset s"
  "y < 8 \<Longrightarrow> exiting (the (exec_x3_z0 y s)) = exiting s"
  "y < 8 \<Longrightarrow> intrpt_pending (the (exec_x3_z0 y s)) = intrpt_pending s"
  "y < 8 \<Longrightarrow> cpu_events (the (exec_x3_z0 y s)) = cpu_events s"
  by (simp_all add: exec_x3_z0_def Let_def split_beta)

lemma exec_x3_z0_R [simp]:
  "y < 8 \<Longrightarrow> r_R (the (exec_x3_z0 y s)) = r_R s"
  by (simp add: exec_x3_z0_def Let_def split_beta)

lemma exec_x3_z0_mono [simp]:
  "y < 8 \<Longrightarrow> c \<le> cpu_cycles s \<Longrightarrow> c \<le> cpu_cycles (the (exec_x3_z0 y s))"
  "y < 8 \<Longrightarrow> cpu_IEF_wait s \<Longrightarrow> cpu_IEF_wait (the (exec_x3_z0 y s))"
  by (simp_all add: exec_x3_z0_def Let_def split_beta)

lemma exec_x3_z1_nn [simp]: "p < 4 \<Longrightarrow> exec_x3_z1 p q s \<noteq> None"
  by (simp add: exec_x3_z1_def Let_def split_beta)

lemma exec_x3_z1_case [simp]:
  "p < 4 \<Longrightarrow> case_option n f (exec_x3_z1 p q s) = f (the (exec_x3_z1 p q s))"
  using exec_x3_z1_nn[of p q s] by (cases "exec_x3_z1 p q s") simp_all

lemma exec_x3_z1_eq [simp]:
  "p < 4 \<Longrightarrow> (exec_x3_z1 p q s = Some t) = (t = the (exec_x3_z1 p q s))"
  using exec_x3_z1_nn[of p q s] by (cases "exec_x3_z1 p q s") auto

lemma exec_x3_z1_keeps [simp]:
  "p < 4 \<Longrightarrow> cycle_count_delta (the (exec_x3_z1 p q s)) = cycle_count_delta s"
  "p < 4 \<Longrightarrow> cycle_offset (the (exec_x3_z1 p q s)) = cycle_offset s"
  "p < 4 \<Longrightarrow> exiting (the (exec_x3_z1 p q s)) = exiting s"
  "p < 4 \<Longrightarrow> intrpt_pending (the (exec_x3_z1 p q s)) = intrpt_pending s"
  "p < 4 \<Longrightarrow> cpu_events (the (exec_x3_z1 p q s)) = cpu_events s"
  by (simp_all add: exec_x3_z1_def Let_def split_beta)

lemma exec_x3_z1_R [simp]:
  "p < 4 \<Longrightarrow> r_R (the (exec_x3_z1 p q s)) = r_R s"
  by (simp add: exec_x3_z1_def Let_def split_beta)

lemma exec_x3_z1_mono [simp]:
  "p < 4 \<Longrightarrow> c \<le> cpu_cycles s \<Longrightarrow> c \<le> cpu_cycles (the (exec_x3_z1 p q s))"
  "p < 4 \<Longrightarrow> cpu_IEF_wait s \<Longrightarrow> cpu_IEF_wait (the (exec_x3_z1 p q s))"
  by (simp_all add: exec_x3_z1_def Let_def split_beta)

lemma exec_x3_z2_nn [simp]: "y < 8 \<Longrightarrow> exec_x3_z2 y s \<noteq> None"
  by (simp add: exec_x3_z2_def Let_def split_beta)

lemma exec_x3_z2_case [simp]:
  "y < 8 \<Longrightarrow> case_option n f (exec_x3_z2 y s) = f (the (exec_x3_z2 y s))"
  using exec_x3_z2_nn[of y s] by (cases "exec_x3_z2 y s") simp_all

lemma exec_x3_z2_eq [simp]:
  "y < 8 \<Longrightarrow> (exec_x3_z2 y s = Some t) = (t = the (exec_x3_z2 y s))"
  using exec_x3_z2_nn[of y s] by (cases "exec_x3_z2 y s") auto

lemma exec_x3_z2_keeps [simp]:
  "y < 8 \<Longrightarrow> cycle_count_delta (the (exec_x3_z2 y s)) = cycle_count_delta s"
  "y < 8 \<Longrightarrow> cycle_offset (the (exec_x3_z2 y s)) = cycle_offset s"
  "y < 8 \<Longrightarrow> exiting (the (exec_x3_z2 y s)) = exiting s"
  "y < 8 \<Longrightarrow> intrpt_pending (the (exec_x3_z2 y s)) = intrpt_pending s"
  "y < 8 \<Longrightarrow> cpu_events (the (exec_x3_z2 y s)) = cpu_events s"
  by (simp_all add: exec_x3_z2_def Let_def split_beta)

lemma exec_x3_z2_R [simp]:
  "y < 8 \<Longrightarrow> r_R (the (exec_x3_z2 y s)) = r_R s"
  by (simp add: exec_x3_z2_def Let_def split_beta)

lemma exec_x3_z2_mono [simp]:
  "y < 8 \<Longrightarrow> c \<le> cpu_cycles s \<Longrightarrow> c \<le> cpu_cycles (the (exec_x3_z2 y s))"
  "y < 8 \<Longrightarrow> cpu_IEF_wait s \<Longrightarrow> cpu_IEF_wait (the (exec_x3_z2 y s))"
  by (simp_all add: exec_x3_z2_def Let_def split_beta)

lemma exec_x3_z4_nn [simp]: "y < 8 \<Longrightarrow> exec_x3_z4 y s \<noteq> None"
  by (simp add: exec_x3_z4_def Let_def split_beta)

lemma exec_x3_z4_case [simp]:
  "y < 8 \<Longrightarrow> case_option n f (exec_x3_z4 y s) = f (the (exec_x3_z4 y s))"
  using exec_x3_z4_nn[of y s] by (cases "exec_x3_z4 y s") simp_all

lemma exec_x3_z4_eq [simp]:
  "y < 8 \<Longrightarrow> (exec_x3_z4 y s = Some t) = (t = the (exec_x3_z4 y s))"
  using exec_x3_z4_nn[of y s] by (cases "exec_x3_z4 y s") auto

lemma exec_x3_z4_keeps [simp]:
  "y < 8 \<Longrightarrow> cycle_count_delta (the (exec_x3_z4 y s)) = cycle_count_delta s"
  "y < 8 \<Longrightarrow> cycle_offset (the (exec_x3_z4 y s)) = cycle_offset s"
  "y < 8 \<Longrightarrow> exiting (the (exec_x3_z4 y s)) = exiting s"
  "y < 8 \<Longrightarrow> intrpt_pending (the (exec_x3_z4 y s)) = intrpt_pending s"
  "y < 8 \<Longrightarrow> cpu_events (the (exec_x3_z4 y s)) = cpu_events s"
  by (simp_all add: exec_x3_z4_def Let_def split_beta)

lemma exec_x3_z4_R [simp]:
  "y < 8 \<Longrightarrow> r_R (the (exec_x3_z4 y s)) = r_R s"
  by (simp add: exec_x3_z4_def Let_def split_beta)

lemma exec_x3_z4_mono [simp]:
  "y < 8 \<Longrightarrow> c \<le> cpu_cycles s \<Longrightarrow> c \<le> cpu_cycles (the (exec_x3_z4 y s))"
  "y < 8 \<Longrightarrow> cpu_IEF_wait s \<Longrightarrow> cpu_IEF_wait (the (exec_x3_z4 y s))"
  by (simp_all add: exec_x3_z4_def Let_def split_beta)

section \<open>The flow of a pass through the decoder\<close>

text \<open>
  The opcode is determined by its bit-fields, so the decoder's tests on \<open>x\<close>, \<open>y\<close>,
  \<open>z\<close>, \<open>p\<close> and \<open>q\<close> identify the prefix bytes, EI, ED and \<^verbatim>\<open>LD R,A\<close>.
\<close>

lemma ctx_arith:
  "ctx_x opc = unat opc div 64" "ctx_y opc = (unat opc div 8) mod 8"
  "ctx_z opc = unat opc mod 8" "ctx_p opc = (unat opc div 16) mod 4"
  "ctx_q opc = (unat opc div 8) mod 2"
proof -
  have m: "(7 :: byte) = mask 3" "(3 :: byte) = mask 2"
    by (simp_all add: mask_eq_exp_minus_1)
  show "ctx_x opc = unat opc div 64"
    by (simp add: ctx_x_def unat_drop_bit_eq drop_bit_eq_div unat_div)
  show "ctx_y opc = (unat opc div 8) mod 8"
    unfolding ctx_y_def m
    by (simp add: unsigned_take_bit_eq take_bit_eq_mod drop_bit_eq_div unat_div unat_mod
        flip: take_bit_eq_mask)
  show "ctx_z opc = unat opc mod 8"
    unfolding ctx_z_def m
    by (simp add: unsigned_take_bit_eq take_bit_eq_mod unat_mod flip: take_bit_eq_mask)
  show "ctx_p opc = (unat opc div 16) mod 4"
    unfolding ctx_p_def m
    by (simp add: unsigned_take_bit_eq take_bit_eq_mod drop_bit_eq_div unat_div unat_mod
        flip: take_bit_eq_mask)
  show "ctx_q opc = (unat opc div 8) mod 2"
    by (simp add: ctx_q_def and_one_eq drop_bit_eq_div unat_div unat_mod)
qed

lemma opcode_of_fields: "unat opc = 64 * ctx_x opc + 8 * ctx_y opc + ctx_z opc"
proof -
  define n where "n = unat opc"
  have a: "n div 64 = n div 8 div 8" by (simp add: div_mult2_eq)
  have b: "n div 8 = 8 * (n div 8 div 8) + n div 8 mod 8" by simp
  have c: "n = 8 * (n div 8) + n mod 8" by simp
  have "n = 64 * (n div 64) + 8 * (n div 8 mod 8) + n mod 8"
    unfolding a using b c by linarith
  then show ?thesis by (simp add: ctx_arith n_def)
qed

lemma ctx_y_pq: "ctx_y opc = 2 * ctx_p opc + ctx_q opc"
proof -
  define m where "m = unat opc div 8"
  have a: "unat opc div 16 = m div 2" by (simp add: m_def div_mult2_eq)
  have "m mod (2 * 4) = 2 * (m div 2 mod 4) + m mod 2" by (rule mod_mult2_eq)
  then show ?thesis by (simp add: ctx_arith a flip: m_def)
qed

lemma opcode_eqI: "unat opc = unat c \<Longrightarrow> opc = c" for opc c :: byte
  by (simp add: word_unat_eq_iff)

lemma fields_FB: "ctx_x opc = 3 \<Longrightarrow> ctx_y opc = 7 \<Longrightarrow> ctx_z opc = 3 \<Longrightarrow> opc = 0xFB"
  using opcode_of_fields[of opc] by (intro opcode_eqI) simp

lemma fields_prefix:
  "ctx_x opc = 1 \<Longrightarrow> ctx_y opc = ctx_z opc \<Longrightarrow> ctx_z opc < 4 \<Longrightarrow> is_prefix_byte opc"
  "ctx_x opc = 3 \<Longrightarrow> ctx_z opc = 5 \<Longrightarrow> ctx_q opc \<noteq> 0 \<Longrightarrow> ctx_p opc = 1 \<or> ctx_p opc = 3
     \<Longrightarrow> is_prefix_byte opc"
proof -
  assume "ctx_x opc = 1" "ctx_y opc = ctx_z opc" "ctx_z opc < 4"
  then have "unat opc = 64 \<or> unat opc = 73 \<or> unat opc = 82 \<or> unat opc = 91"
    using opcode_of_fields[of opc] by auto
  then show "is_prefix_byte opc"
    unfolding is_prefix_byte_def by (auto intro!: opcode_eqI)
next
  assume "ctx_x opc = 3" "ctx_z opc = 5" "ctx_q opc \<noteq> 0" "ctx_p opc = 1 \<or> ctx_p opc = 3"
  moreover from \<open>ctx_q opc \<noteq> 0\<close> have "ctx_q opc = 1"
    using ctx_bounds(5)[of opc] by linarith
  ultimately have "unat opc = 221 \<or> unat opc = 253"
    using opcode_of_fields[of opc] ctx_y_pq[of opc] by auto
  then show "is_prefix_byte opc"
    unfolding is_prefix_byte_def by (auto intro!: opcode_eqI)
qed

lemma fields_ED:
  "ctx_x opc = 3 \<Longrightarrow> ctx_z opc = 5 \<Longrightarrow> ctx_q opc \<noteq> 0 \<Longrightarrow> ctx_p opc = 2 \<Longrightarrow> opc = 0xED"
proof -
  assume "ctx_x opc = 3" "ctx_z opc = 5" "ctx_q opc \<noteq> 0" "ctx_p opc = 2"
  moreover from \<open>ctx_q opc \<noteq> 0\<close> have "ctx_q opc = 1"
    using ctx_bounds(5)[of opc] by linarith
  ultimately have "unat opc = 237"
    using opcode_of_fields[of opc] ctx_y_pq[of opc] by auto
  then show ?thesis by (intro opcode_eqI) simp
qed

lemma fields_4F: "ctx_x opc = 1 \<Longrightarrow> ctx_y opc = 1 \<Longrightarrow> ctx_z opc = 7 \<Longrightarrow> opc = 0x4F"
  using opcode_of_fields[of opc] by (intro opcode_eqI) simp

text \<open>
  Every opcode byte other than a prefix byte and EI falls out of the \<^verbatim>\<open>switch\<close>: the
  pass is neither aborted, nor a \<^verbatim>\<open>continue\<close>, nor a jump to \<^verbatim>\<open>exit_loop\<close>.
\<close>

lemma exec_x1_done:
  assumes "\<not> is_prefix_byte opc" "ctx_x opc = 1"
  shows "\<exists>t. exec_x1 opc s = Done t \<and> pass_kept s t \<and> r_R t = r_R s"
proof (cases "ctx_z opc = ctx_y opc")
  case True
  with assms fields_prefix(1)[of opc] have "\<not> ctx_z opc < 4" by auto
  then have "ctx_z opc = 4 \<or> ctx_z opc = 5 \<or> ctx_z opc = 6 \<or> ctx_z opc = 7"
    using nat_lt8[OF ctx_bounds(3), of opc] by auto
  with True show ?thesis
    by (auto simp add: exec_x1_def Let_def pass_kept_def)
next
  case False
  then show ?thesis
    by (simp add: exec_x1_def Let_def done_opt_def pass_kept_def)
qed

lemma exec_x2_done: "\<exists>t. exec_x2 opc s = Done t \<and> pass_kept s t \<and> r_R t = r_R s"
  by (simp add: exec_x2_def split_beta pass_kept_def)

lemma exec_x3_z3_done:
  assumes "y < 8" "y \<noteq> 7"
  shows "\<exists>t. exec_x3_z3 y s = Done t \<and> pass_kept s t \<and> r_R t = r_R s"
  using assms
  by (simp add: exec_x3_z3_def Let_def split_beta done_opt_def pass_kept_def)

lemma exec_x3_z5_done:
  assumes "p < 4" "\<not> (q \<noteq> 0 \<and> (p = 1 \<or> p = 3))"
  shows "\<exists>t. exec_x3_z5 p q s = Done t \<and> pass_kept s t
             \<and> (\<not> (q \<noteq> 0 \<and> p = 2 \<and> cpu_prefetch_byte s = 0x4F) \<longrightarrow> r_R t = r_R s)"
proof -
  have "cpu_prefetch_byte s \<noteq> 0x4F \<Longrightarrow>
        \<not> (ctx_x (cpu_prefetch_byte s) = 1 \<and> ctx_z (cpu_prefetch_byte s) = 7
           \<and> ctx_y (cpu_prefetch_byte s) = 1)"
    using fields_4F[of "cpu_prefetch_byte s"] by blast
  with assms nat_lt4[of p] show ?thesis
    by (auto simp add: exec_x3_z5_def Let_def split_beta done_opt_def pass_kept_def)
qed

lemma exec_x3_done:
  assumes "\<not> is_prefix_byte opc" "opc \<noteq> 0xFB" "ctx_x opc = 3"
  shows "\<exists>t. exec_x3 opc s = Done t \<and> pass_kept s t
             \<and> (\<not> (opc = 0xED \<and> cpu_prefetch_byte s = 0x4F) \<longrightarrow> r_R t = r_R s)"
proof -
  consider "ctx_z opc = 3" | "ctx_z opc = 5" | "ctx_z opc \<noteq> 3" "ctx_z opc \<noteq> 5" by blast
  then show ?thesis
  proof cases
    case 1
    with assms fields_FB[of opc] have "ctx_y opc \<noteq> 7" by blast
    from exec_x3_z3_done[OF ctx_bounds(2) this, of s] 1 show ?thesis
      by (auto simp add: exec_x3_def Let_def)
  next
    case 2
    with assms fields_prefix(2)[of opc]
    have a: "\<not> (ctx_q opc \<noteq> 0 \<and> (ctx_p opc = 1 \<or> ctx_p opc = 3))" by blast
    have b: "ctx_q opc \<noteq> 0 \<and> ctx_p opc = 2 \<Longrightarrow> opc = 0xED"
      using fields_ED[of opc] assms 2 by blast
    from exec_x3_z5_done[OF ctx_bounds(4) a, of s] 2 b show ?thesis
      by (auto simp add: exec_x3_def Let_def)
  next
    case 3
    then show ?thesis
      by (simp add: exec_x3_def Let_def split_beta done_opt_def pass_kept_def)
  qed
qed

lemma exec_opcode_done:
  assumes "\<not> is_prefix_byte opc" "opc \<noteq> 0xFB"
  shows "\<exists>t. exec_opcode opc s = Done t \<and> pass_kept s t
             \<and> (\<not> (opc = 0xED \<and> cpu_prefetch_byte s = 0x4F) \<longrightarrow> r_R t = r_R s)"
proof -
  have ed: "ctx_x opc \<noteq> 3 \<Longrightarrow> opc \<noteq> 0xED" by auto
  consider "ctx_x opc = 0" | "ctx_x opc = 1" | "ctx_x opc = 2" | "ctx_x opc = 3"
    using nat_lt4[OF ctx_bounds(1), of opc] by auto
  then show ?thesis
  proof cases
    case 1 then show ?thesis
      by (simp add: exec_opcode_def Let_def done_opt_def pass_kept_def)
  next
    case 2 with exec_x1_done[OF assms(1), of s] show ?thesis
      by (auto simp add: exec_opcode_def Let_def)
  next
    case 3 with exec_x2_done[of opc s] show ?thesis
      by (auto simp add: exec_opcode_def Let_def)
  next
    case 4 with exec_x3_done[OF assms, of s] show ?thesis
      by (auto simp add: exec_opcode_def Let_def)
  qed
qed

text \<open>The pass through the loop body for an opcode that is neither a prefix byte nor EI.\<close>

lemma fetch_opcode_parts:
  "fst (fetch_opcode s) = cpu_prefetch_byte s"
  "cpu_cycles (snd (fetch_opcode s)) = 0"
  "r_R (snd (fetch_opcode s)) = ((r_R s + 1) AND 0x7F) OR (r_R s AND 0x80)"
  by (simp_all add: fetch_opcode_eq)

lemma body_instruction:
  assumes "\<not> is_prefix_byte (cpu_prefetch_byte s)" "cpu_prefetch_byte s \<noteq> 0xFB"
  shows "\<exists>t. exec_opcode (cpu_prefetch_byte s) (snd (fetch_opcode s)) = Done t
           \<and> pass_kept (snd (fetch_opcode s)) t
           \<and> (\<not> (cpu_prefetch_byte s = 0xED \<and> cpu_prefetch_byte (snd (fetch_opcode s)) = 0x4F)
                \<longrightarrow> r_R t = r_R (snd (fetch_opcode s)))
           \<and> cpu_execute_body s =
               (if cpu_events s AND EVENT_DEBUG_STEP \<noteq> 0
                then LoopBreak ((cpu_get_cntrl_data_blocks_format t)\<lparr>cycle_count_delta := 0\<rparr>)
                else Iterate (exit_loop (cpu_get_cntrl_data_blocks_format t)))"
proof -
  from exec_opcode_done[OF assms, of "snd (fetch_opcode s)"]
  obtain t where t: "exec_opcode (cpu_prefetch_byte s) (snd (fetch_opcode s)) = Done t"
    "pass_kept (snd (fetch_opcode s)) t"
    "\<not> (cpu_prefetch_byte s = 0xED \<and> cpu_prefetch_byte (snd (fetch_opcode s)) = 0x4F)
       \<longrightarrow> r_R t = r_R (snd (fetch_opcode s))"
    by blast
  from t(2) have e: "cpu_events t = cpu_events s"
    by (simp add: pass_kept_def)
  have "cpu_execute_body s =
               (if cpu_events s AND EVENT_DEBUG_STEP \<noteq> 0
                then LoopBreak ((cpu_get_cntrl_data_blocks_format t)\<lparr>cycle_count_delta := 0\<rparr>)
                else Iterate (exit_loop (cpu_get_cntrl_data_blocks_format t)))"
    using t(1) e
    by (simp add: cpu_execute_body_def split_beta fetch_opcode_parts Let_def)
  with t show ?thesis by blast
qed

section \<open>How the decoder reaches the operations\<close>

text \<open>
  The instructions whose operations are studied on their own: CALL nn, a taken
  CALL cc,nn and RST call \<^verbatim>\<open>cpu_call\<close> with \<^verbatim>\<open>cpu.SUFFIX\<close> as the \<open>mixed\<close> flag; RET, a taken
  RET cc, RETN and RETI call \<^verbatim>\<open>cpu_return\<close>; the opcode \<^verbatim>\<open>27\<close> without index prefix is
  \<^verbatim>\<open>cpu_execute_daa\<close> after one cycle; the second bytes of the ED table with \<open>x = 2\<close> and
  \<open>z \<le> 4\<close> go to \<^verbatim>\<open>cpu_execute_bli\<close>, whose cases are the block instructions.
\<close>

lemma ctx_CD [simp]:
  "ctx_x 0xCD = 3" "ctx_y 0xCD = 1" "ctx_z 0xCD = 5" "ctx_p 0xCD = 0" "ctx_q 0xCD = 1"
  by (simp_all add: ctx_x_def ctx_y_def ctx_z_def ctx_p_def ctx_q_def)

lemma ctx_C9 [simp]:
  "ctx_x 0xC9 = 3" "ctx_y 0xC9 = 1" "ctx_z 0xC9 = 1" "ctx_p 0xC9 = 0" "ctx_q 0xC9 = 1"
  by (simp_all add: ctx_x_def ctx_y_def ctx_z_def ctx_p_def ctx_q_def)

lemma ctx_27 [simp]:
  "ctx_x 0x27 = 0" "ctx_y 0x27 = 4" "ctx_z 0x27 = 7" "ctx_p 0x27 = 2" "ctx_q 0x27 = 0"
  by (simp_all add: ctx_x_def ctx_y_def ctx_z_def ctx_p_def ctx_q_def)

lemma ctx_45 [simp]:
  "ctx_x 0x45 = 1" "ctx_y 0x45 = 0" "ctx_z 0x45 = 5"
  by (simp_all add: ctx_x_def ctx_y_def ctx_z_def)

lemma ctx_4D [simp]:
  "ctx_x 0x4D = 1" "ctx_y 0x4D = 1" "ctx_z 0x4D = 5"
  by (simp_all add: ctx_x_def ctx_y_def ctx_z_def)

lemma decode_CALL:
  "exec_opcode 0xCD s =
     (let (a, s1) = cpu_fetch_word_no_prefetch (add_cycles 7 s)
      in Done (cpu_call a (cpu_SUFFIX s1) s1))"
  by (simp add: exec_opcode_def exec_x3_def exec_x3_z5_def)

lemma decode_CALL_cc:
  assumes "ctx_x opc = 3" "ctx_z opc = 4"
  shows "exec_opcode opc s =
     (if the (cpu_read_cc (ctx_y opc) s)
      then let (a, s1) = cpu_fetch_word_no_prefetch (add_cycles 7 s)
           in Done (cpu_call a (cpu_SUFFIX s1) s1)
      else Done (snd (cpu_fetch_word (add_cycles 4 s))))"
  using assms
  by (simp add: exec_opcode_def exec_x3_def exec_x3_z4_def done_opt_def split_beta Let_def)

lemma decode_RST:
  assumes "ctx_x opc = 3" "ctx_z opc = 7"
  shows "exec_opcode opc s =
     Done (cpu_call (push_bit 3 (of_nat (ctx_y opc))) (cpu_SUFFIX s) (add_cycles 1 s))"
  using assms
  by (simp add: exec_opcode_def exec_x3_def Let_def)

lemma decode_RET: "exec_opcode 0xC9 s = Done (cpu_return (add_cycles 7 s))"
  by (simp add: exec_opcode_def exec_x3_def exec_x3_z1_def done_opt_def)

lemma decode_RET_cc:
  assumes "ctx_x opc = 3" "ctx_z opc = 0"
  shows "exec_opcode opc s =
     (if the (cpu_read_cc (ctx_y opc) (add_cycles 2 s))
      then Done (cpu_return (add_cycles 5 (add_cycles 2 s)))
      else Done (add_cycles 2 s))"
  using assms
  by (simp add: exec_opcode_def exec_x3_def exec_x3_z0_def done_opt_def split_beta Let_def)

lemma decode_RETN_RETI:
  assumes "cpu_prefetch_byte s = 0x45 \<or> cpu_prefetch_byte s = 0x4D"
  shows "exec_opcode 0xED s =
     (let s1 = add_cycles 7 (snd (cpu_fetch_byte ((add_cycles 1 s)\<lparr>cpu_PREFIX := 0\<rparr>)))
      in Done (cpu_return (s1\<lparr>cpu_IEF1 := cpu_IEF2 s1\<rparr>)))"
proof -
  define s2 where "s2 = snd (cpu_fetch_byte ((add_cycles 1 s)\<lparr>cpu_PREFIX := 0\<rparr>))"
  have "exec_ed s = Some (exec_ed_x1_z5 (ctx_y (cpu_prefetch_byte s)) s2)"
    using assms
    by (elim disjE; simp add: exec_ed_def fst_cpu_fetch_byte exec_ed_x1_def split_beta
        flip: s2_def)
  moreover have "ctx_y (cpu_prefetch_byte s) = 0 \<or> ctx_y (cpu_prefetch_byte s) = 1"
    using assms by auto
  ultimately show ?thesis
    by (auto simp add: exec_opcode_ED done_opt_def exec_ed_x1_z5_def Let_def simp flip: s2_def)
qed

lemma decode_DAA:
  assumes "cpu_PREFIX s = 0"
  shows "exec_opcode 0x27 s = Done (cpu_execute_daa (add_cycles 1 s))"
  using assms
  by (simp add: exec_opcode_def exec_x0_def exec_x0_z7_def cpu_execute_rot_acc_def
      done_opt_def add_cycles_def Let_def)

lemma decode_bli:
  assumes "ctx_x (cpu_prefetch_byte s) = 2" "ctx_z (cpu_prefetch_byte s) \<le> 4"
  shows "exec_opcode 0xED s =
     Done (cpu_execute_bli (ctx_y (cpu_prefetch_byte s)) (ctx_z (cpu_prefetch_byte s))
            (snd (cpu_fetch_byte ((add_cycles 1 s)\<lparr>cpu_PREFIX := 0\<rparr>))))"
  using assms
  by (simp add: exec_opcode_ED exec_ed_def fst_cpu_fetch_byte done_opt_def split_beta Let_def)

lemma decode_bli_repeating:
  "cpu_execute_bli 6 0 = bli_LDIR" "cpu_execute_bli 7 0 = bli_LDDR"
  "cpu_execute_bli 6 1 = bli_CPIR" "cpu_execute_bli 7 1 = bli_CPDR"
  "cpu_execute_bli 6 2 = bli_INIR" "cpu_execute_bli 7 2 = bli_INDR"
  "cpu_execute_bli 6 3 = bli_OTIR" "cpu_execute_bli 7 3 = bli_OTDR"
  "cpu_execute_bli 2 2 = bli_INIMR" "cpu_execute_bli 3 2 = bli_INDMR"
  "cpu_execute_bli 2 3 = bli_OTIMR" "cpu_execute_bli 3 3 = bli_OTDMR"
  "cpu_execute_bli 6 4 = bli_OTI2R" "cpu_execute_bli 7 4 = bli_OTD2R"
  "cpu_execute_bli 2 4 = bli_INI2R" "cpu_execute_bli 3 4 = bli_IND2R"
  by (simp_all add: cpu_execute_bli_def fun_eq_iff)

section \<open>The refresh register\<close>








section \<open>The delayed enable of EI\<close>

lemma ei_pass:
  assumes "cpu_prefetch_byte s = 0xFB"
  shows "\<exists>t. cpu_execute_body s = Iterate t
           \<and> cpu_IEF1 t = cpu_IEF1 s \<and> cpu_IEF2 t = cpu_IEF2 s \<and> cpu_IEF_wait t
           \<and> cycle_count_delta t = - 1 \<and> cycle_offset t = cycle_count_delta s + 1
           \<and> intrpt_pending t = intrpt_pending s
           \<and> (\<not> exiting s \<longrightarrow> ei_window t)"
  using assms
  by (simp add: cpu_execute_body_def split_beta fetch_opcode_parts exec_opcode_EI
      exec_EI_def Let_def ei_window_def inner_cond_def fetch_opcode_eq)

lemma window_prefix_pass:
  assumes "ei_window u" "is_prefix_byte (cpu_prefetch_byte u)"
  shows "\<exists>t. cpu_execute_body u = Iterate t \<and> ei_window t \<and> inner_loop u = inner_loop t
           \<and> cpu_IEF1 t = cpu_IEF1 u \<and> cpu_IEF2 t = cpu_IEF2 u
           \<and> intrpt_pending t = intrpt_pending u"
proof -
  from assms(2) obtain t where t: "cpu_execute_body u = Iterate t"
     "exiting t = exiting u" "cpu_IEF_wait t = cpu_IEF_wait u"
     "cycle_count_delta t = cycle_count_delta u + 1" "cpu_PREFIX t \<noteq> 0 \<or> cpu_SUFFIX t"
     "cpu_IEF1 t = cpu_IEF1 u" "cpu_IEF2 t = cpu_IEF2 u" "intrpt_pending t = intrpt_pending u"
    by (auto simp: is_prefix_byte_def cpu_execute_body_def fetch_opcode_eq exec_opcode_prefix
      exit_loop_def suffix_byte_def add_cycles_def Let_def)
  from assms(1) t have w: "ei_window t"
    by (auto simp: ei_window_def inner_cond_def)
  from assms(1) have "inner_cond u" by (simp add: ei_window_def)
  then have "inner_loop u = inner_loop t"
    by (subst inner_loop.simps) (simp add: t(1))
  with t w show ?thesis by blast
qed

lemma window_instruction_pass:
  assumes "ei_window u" "\<not> is_prefix_byte (cpu_prefetch_byte u)" "cpu_prefetch_byte u \<noteq> 0xFB"
  shows "\<exists>t. (cpu_execute_body u = Iterate t \<or> cpu_execute_body u = LoopBreak t)
           \<and> inner_loop u = Some (Returned t) \<and> \<not> inner_cond t
           \<and> cpu_IEF_wait t \<and> intrpt_pending t = intrpt_pending u
           \<and> cycle_offset t = cycle_offset u"
proof -
  from body_instruction[OF assms(2,3)]
  obtain t0 where k: "pass_kept (snd (fetch_opcode u)) t0"
    and b: "cpu_execute_body u =
               (if cpu_events u AND EVENT_DEBUG_STEP \<noteq> 0
                then LoopBreak ((cpu_get_cntrl_data_blocks_format t0)\<lparr>cycle_count_delta := 0\<rparr>)
                else Iterate (exit_loop (cpu_get_cntrl_data_blocks_format t0)))"
    by blast
  from k have f: "cycle_count_delta t0 = cycle_count_delta u" "0 \<le> cpu_cycles t0"
     "exiting t0 = exiting u" "cpu_IEF_wait u \<longrightarrow> cpu_IEF_wait t0"
     "intrpt_pending t0 = intrpt_pending u" "cycle_offset t0 = cycle_offset u"
    by (simp_all add: pass_kept_def fetch_opcode_eq)
  from assms(1) have c: "inner_cond u" and d: "- 1 \<le> cycle_count_delta u"
    and w: "cpu_IEF_wait u"
    by (simp_all add: ei_window_def)
  show ?thesis
  proof (cases "cpu_events u AND EVENT_DEBUG_STEP \<noteq> 0")
    case True
    let ?t = "(cpu_get_cntrl_data_blocks_format t0)\<lparr>cycle_count_delta := 0\<rparr>"
    have 1: "cpu_execute_body u = LoopBreak ?t" using b True by simp
    have 2: "inner_loop u = Some (Returned ?t)"
      by (subst inner_loop.simps) (simp add: c 1)
    have 3: "\<not> inner_cond ?t"
      by (simp add: inner_cond_def cpu_get_cntrl_data_blocks_format_def)
    from 1 2 3 f w show ?thesis by auto
  next
    case False
    let ?t = "exit_loop (cpu_get_cntrl_data_blocks_format t0)"
    have 1: "cpu_execute_body u = Iterate ?t" using b False by simp
    have 3: "\<not> inner_cond ?t"
      using f d
      by (simp add: inner_cond_def cpu_get_cntrl_data_blocks_format_def exit_loop_def Let_def)
    have "inner_loop ?t = Some (Returned ?t)"
      by (subst inner_loop.simps) (simp add: 3)
    then have 2: "inner_loop u = Some (Returned ?t)"
      by (subst inner_loop.simps) (simp add: c 1)
    from 1 2 3 f w show ?thesis by auto
  qed
qed

lemma cpu_call_pushes:
  "mem_writes s = ws \<Longrightarrow> length ws < length (mem_writes (cpu_call a m s))"
  by (auto simp add: cpu_call_def Let_def cpu_push_word_def cpu_push_byte_def)

lemma delayed_enable:
  assumes "cpu_IEF_wait v"
  shows "\<not> cpu_IEF_wait (interrupt_check v)
     \<and> (if intrpt_pending v
        then \<not> cpu_IEF1 (interrupt_check v) \<and> \<not> cpu_IEF2 (interrupt_check v)
             \<and> \<not> cpu_halted (interrupt_check v)
             \<and> length (mem_writes v) < length (mem_writes (interrupt_check v))
        else cpu_IEF1 (interrupt_check v) \<and> cpu_IEF2 (interrupt_check v)
             \<and> mem_writes (interrupt_check v) = mem_writes v
             \<and> r_PC (interrupt_check v) = r_PC v)"
  using assms
  by (simp add: interrupt_check_def Let_def cpu_call_pushes)


lemma outer_after_inner:
  assumes "\<not> exiting x" "cycle_count_delta x < 0"
    and "inner_loop (interrupt_check (x\<lparr>cycle_offset := 0\<rparr>)) = Some (Returned t)"
  shows "cpu_execute x =
     (let t' = t\<lparr>cycle_count_delta := cycle_count_delta t + cycle_offset t\<rparr>
      in if \<not> exiting t' \<and> cycle_count_delta t' < 0
         then Option.bind (inner_loop (interrupt_check (t'\<lparr>cycle_offset := 0\<rparr>)))
                (\<lambda>r. case r of
                        Returned w \<Rightarrow>
                          cpu_execute (w\<lparr>cycle_count_delta := cycle_count_delta w + cycle_offset w\<rparr>)
                      | Died \<Rightarrow> Some Died)
         else Some (Returned t'))"
proof -
  have "cpu_execute x = cpu_execute (t\<lparr>cycle_count_delta := cycle_count_delta t + cycle_offset t\<rparr>)"
    by (subst cpu_execute.simps) (simp add: assms)
  also have "\<dots> = (let t' = t\<lparr>cycle_count_delta := cycle_count_delta t + cycle_offset t\<rparr>
      in if \<not> exiting t' \<and> cycle_count_delta t' < 0
         then Option.bind (inner_loop (interrupt_check (t'\<lparr>cycle_offset := 0\<rparr>)))
                (\<lambda>r. case r of
                        Returned w \<Rightarrow>
                          cpu_execute (w\<lparr>cycle_count_delta := cycle_count_delta w + cycle_offset w\<rparr>)
                      | Died \<Rightarrow> Some Died)
         else Some (Returned t'))"
    by (subst cpu_execute.simps) (simp add: Let_def)
  finally show ?thesis .
qed

text \<open>
  C5, as amended.  The pass that decodes EI leaves IEF1 and IEF2 as they are: it sets
  \<^verbatim>\<open>IEF_wait\<close>, saves the budget plus one in \<^verbatim>\<open>cycle_offset\<close> and sets the budget to \<open>-1\<close>,
  so that, unless the emulator is exiting, the decode loop runs on without going back
  to the interrupt check.  A DD, FD or suffix byte that follows keeps the loop running.
  The first instruction that follows and is not another EI ends it: after the one pass
  that executes it (for a repeating block instruction, one iteration) the inner loop
  returns, with \<^verbatim>\<open>IEF_wait\<close> still set, since no instruction clears it.  When the inner
  loop has returned, \<^verbatim>\<open>cpu_execute\<close> adds \<^verbatim>\<open>cycle_offset\<close> back to the budget and either
  returns or goes to the head of the outer loop, which is the interrupt check.  The
  interrupt check, entered with \<^verbatim>\<open>IEF_wait\<close> set, clears it and sets IEF1 and IEF2; when a
  request is pending it recognises the interrupt at once, which clears IEF1, IEF2 and the
  halt state again and pushes the return address for the call to the vector; when none
  is pending IEF1 and IEF2 stay set.  Another EI in place of the following instruction
  starts the delay again.
\<close>

theorem ei_delay:
  "(cpu_prefetch_byte s = 0xFB \<longrightarrow>
      (\<exists>t. cpu_execute_body s = Iterate t
          \<and> cpu_IEF1 t = cpu_IEF1 s \<and> cpu_IEF2 t = cpu_IEF2 s \<and> cpu_IEF_wait t
          \<and> cycle_count_delta t = - 1 \<and> cycle_offset t = cycle_count_delta s + 1
          \<and> intrpt_pending t = intrpt_pending s
          \<and> (\<not> exiting s \<longrightarrow> ei_window t)))
   \<and> (ei_window p \<and> is_prefix_byte (cpu_prefetch_byte p) \<longrightarrow>
      (\<exists>t. cpu_execute_body p = Iterate t \<and> ei_window t \<and> inner_loop p = inner_loop t
          \<and> cpu_IEF1 t = cpu_IEF1 p \<and> cpu_IEF2 t = cpu_IEF2 p
          \<and> intrpt_pending t = intrpt_pending p))
   \<and> (ei_window u \<and> \<not> is_prefix_byte (cpu_prefetch_byte u) \<and> cpu_prefetch_byte u \<noteq> 0xFB \<longrightarrow>
      (\<exists>t. (cpu_execute_body u = Iterate t \<or> cpu_execute_body u = LoopBreak t)
          \<and> inner_loop u = Some (Returned t) \<and> \<not> inner_cond t
          \<and> cpu_IEF_wait t \<and> intrpt_pending t = intrpt_pending u
          \<and> cycle_offset t = cycle_offset u))
   \<and> (\<not> exiting x \<and> cycle_count_delta x < 0
       \<and> inner_loop (interrupt_check (x\<lparr>cycle_offset := 0\<rparr>)) = Some (Returned y) \<longrightarrow>
       cpu_execute x =
         (let r' = y\<lparr>cycle_count_delta := cycle_count_delta y + cycle_offset y\<rparr>
          in if \<not> exiting r' \<and> cycle_count_delta r' < 0
             then Option.bind (inner_loop (interrupt_check (r'\<lparr>cycle_offset := 0\<rparr>)))
                    (\<lambda>res. case res of
                            Returned w \<Rightarrow>
                              cpu_execute
                                (w\<lparr>cycle_count_delta := cycle_count_delta w + cycle_offset w\<rparr>)
                          | Died \<Rightarrow> Some Died)
             else Some (Returned r')))
   \<and> (cpu_IEF_wait v \<longrightarrow>
        \<not> cpu_IEF_wait (interrupt_check v)
        \<and> (if intrpt_pending v
           then \<not> cpu_IEF1 (interrupt_check v) \<and> \<not> cpu_IEF2 (interrupt_check v)
                \<and> \<not> cpu_halted (interrupt_check v)
                \<and> length (mem_writes v) < length (mem_writes (interrupt_check v))
           else cpu_IEF1 (interrupt_check v) \<and> cpu_IEF2 (interrupt_check v)
                \<and> mem_writes (interrupt_check v) = mem_writes v
                \<and> r_PC (interrupt_check v) = r_PC v))"
proof -
  note a = ei_pass [of s] and b = window_prefix_pass [of p]
    and c = window_instruction_pass [of u] and d = outer_after_inner [of x y]
    and e = delayed_enable [of v]
  show ?thesis
    apply (intro conjI impI)
    subgoal using a by blast
    subgoal using b by blast
    subgoal using c by blast
    subgoal using d by blast
    subgoal using e by blast
    subgoal using e by (simp split: if_splits)
    done
qed


text \<open>
  EI followed by NOP, and EI followed by the prefix byte DD, at address 0 with a budget
  of ten cycles, a request pending and interrupts disabled.  The inner loop returns
  after EI and NOP with a budget of 0, which the saved offset brings back to \<open>-9\<close>;
  the interrupt check that follows recognises the request.
\<close>

theorem ei_delay_witness:
  "cpu_prefetch_byte ei_state = 0xFB \<and> \<not> exiting ei_state
   \<and> ei_window after_ei_dd_state \<and> is_prefix_byte (cpu_prefetch_byte after_ei_dd_state)
   \<and> ei_window after_ei_state \<and> \<not> is_prefix_byte (cpu_prefetch_byte after_ei_state)
   \<and> cpu_prefetch_byte after_ei_state \<noteq> 0xFB
   \<and> cycle_count_delta ei_state < 0
   \<and> inner_loop (interrupt_check (ei_state\<lparr>cycle_offset := 0\<rparr>))
       = Some (Returned after_ei_nop_state)
   \<and> cpu_IEF_wait after_ei_nop_state \<and> intrpt_pending after_ei_nop_state
   \<and> (\<exists>t. cpu_execute_body ei_state = Iterate t \<and> \<not> cpu_IEF1 t \<and> cpu_IEF_wait t
           \<and> ei_window t)
   \<and> (\<exists>t. cpu_execute_body after_ei_dd_state = Iterate t \<and> ei_window t)
   \<and> (\<exists>t. (cpu_execute_body after_ei_state = Iterate t
             \<or> cpu_execute_body after_ei_state = LoopBreak t)
           \<and> inner_loop after_ei_state = Some (Returned t) \<and> cpu_IEF_wait t)
   \<and> cpu_execute ei_state =
       Option.bind
         (inner_loop (interrupt_check
            (after_ei_nop_state\<lparr>cycle_count_delta := - 9, cycle_offset := 0\<rparr>)))
         (\<lambda>res. case res of
                 Returned w \<Rightarrow>
                   cpu_execute (w\<lparr>cycle_count_delta := cycle_count_delta w + cycle_offset w\<rparr>)
               | Died \<Rightarrow> Some Died)
   \<and> \<not> cpu_IEF1 (interrupt_check after_ei_nop_state)
   \<and> length (mem_writes after_ei_nop_state)
       < length (mem_writes (interrupt_check after_ei_nop_state))"
proof -
  have e: "cpu_prefetch_byte ei_state = 0xFB" "\<not> exiting ei_state" "\<not> cpu_IEF1 ei_state"
    "cycle_count_delta ei_state < 0"
    by (simp_all add: ei_state_def program2_def blank_state_def)
  have d: "ei_window after_ei_dd_state" "is_prefix_byte (cpu_prefetch_byte after_ei_dd_state)"
    by (simp_all add: after_ei_dd_state_def ei_window_def inner_cond_def exec_EI_def
        fetch_opcode_eq program2_def blank_state_def next_pc_def cpu_address_mode_def
        is_prefix_byte_def Let_def)
  have a: "ei_window after_ei_state" "\<not> is_prefix_byte (cpu_prefetch_byte after_ei_state)"
    "cpu_prefetch_byte after_ei_state \<noteq> 0xFB"
    by (simp_all add: after_ei_state_def ei_state_def ei_window_def inner_cond_def exec_EI_def
        fetch_opcode_eq program2_def blank_state_def next_pc_def cpu_address_mode_def
        is_prefix_byte_def Let_def)
  have n: "cpu_IEF_wait after_ei_nop_state" "intrpt_pending after_ei_nop_state"
    "\<not> inner_cond after_ei_nop_state"
    "after_ei_nop_state\<lparr>cycle_count_delta :=
        cycle_count_delta after_ei_nop_state + cycle_offset after_ei_nop_state\<rparr>
      = after_ei_nop_state\<lparr>cycle_count_delta := - 9\<rparr>"
    by (simp_all add: after_ei_nop_state_def ei_state_def program2_def blank_state_def
        inner_cond_def)
  have i0: "interrupt_check (ei_state\<lparr>cycle_offset := 0\<rparr>) = ei_state"
    by (simp add: interrupt_check_def ei_state_def program2_def blank_state_def)
  have b1: "cpu_execute_body ei_state = Iterate after_ei_state"
    by (simp add: cpu_execute_body_def split_beta fetch_opcode_parts exec_opcode_EI e
        after_ei_state_def)
  have b2: "cpu_execute_body after_ei_state = Iterate after_ei_nop_state"
    by (simp add: after_ei_state_def after_ei_nop_state_def ei_state_def program2_def
      blank_state_def cpu_execute_body_def
      fetch_opcode_def cpu_fetch_byte_def exec_opcode_def
      exec_EI_def exec_x0_def exec_x0_z0_def done_opt_def Let_def cpu_prefetch_def
      memory_read_byte_def add_cycles_def cpu_address_mode_def
      cpu_get_cntrl_data_blocks_format_def exit_loop_def EVENT_DEBUG_STEP_def)
  have c1: "inner_cond ei_state" "inner_cond after_ei_state"
    using a(1) by (simp_all add: ei_window_def inner_cond_def ei_state_def program2_def
        blank_state_def)
  have "inner_loop after_ei_nop_state = Some (Returned after_ei_nop_state)"
    by (subst inner_loop.simps) (simp add: n)
  then have "inner_loop after_ei_state = Some (Returned after_ei_nop_state)"
    by (subst inner_loop.simps) (simp add: c1 b2)
  then have "inner_loop ei_state = Some (Returned after_ei_nop_state)"
    by (subst inner_loop.simps) (simp add: c1 b1)
  then have l: "inner_loop (interrupt_check (ei_state\<lparr>cycle_offset := 0\<rparr>))
       = Some (Returned after_ei_nop_state)"
    by (simp only: i0)
  note t = ei_delay [of ei_state after_ei_dd_state after_ei_state ei_state after_ei_nop_state
      after_ei_nop_state]
  note tA = t [THEN conjunct1, rule_format]
    and tB = t [THEN conjunct2, THEN conjunct1, rule_format]
    and tC = t [THEN conjunct2, THEN conjunct2, THEN conjunct1, rule_format]
    and tD = t [THEN conjunct2, THEN conjunct2, THEN conjunct2, THEN conjunct1, rule_format]
    and tE = t [THEN conjunct2, THEN conjunct2, THEN conjunct2, THEN conjunct2, rule_format]
  from tA [OF e(1)] e have 1: "\<exists>t. cpu_execute_body ei_state = Iterate t \<and> \<not> cpu_IEF1 t
      \<and> cpu_IEF_wait t \<and> ei_window t"
    by auto
  from tB d have 2: "\<exists>t. cpu_execute_body after_ei_dd_state = Iterate t \<and> ei_window t"
    by blast
  from tC a have 3: "\<exists>t. (cpu_execute_body after_ei_state = Iterate t
             \<or> cpu_execute_body after_ei_state = LoopBreak t)
           \<and> inner_loop after_ei_state = Some (Returned t) \<and> cpu_IEF_wait t"
    by blast
  from tE [OF n(1)] n(2) have 4: "\<not> cpu_IEF1 (interrupt_check after_ei_nop_state)"
    "length (mem_writes after_ei_nop_state)
         < length (mem_writes (interrupt_check after_ei_nop_state))"
    by simp_all
  have "\<not> exiting ei_state \<and> cycle_count_delta ei_state < 0
       \<and> inner_loop (interrupt_check (ei_state\<lparr>cycle_offset := 0\<rparr>))
           = Some (Returned after_ei_nop_state)"
    using e l by simp
  from tD [OF this] have 5: "cpu_execute ei_state =
       Option.bind
         (inner_loop (interrupt_check
            (after_ei_nop_state\<lparr>cycle_count_delta := - 9, cycle_offset := 0\<rparr>)))
         (\<lambda>res. case res of
                 Returned w \<Rightarrow>
                   cpu_execute (w\<lparr>cycle_count_delta := cycle_count_delta w + cycle_offset w\<rparr>)
               | Died \<Rightarrow> Some Died)"
    unfolding n(4) Let_def
    by (simp add: after_ei_nop_state_def ei_state_def program2_def blank_state_def)
  show ?thesis
    by (intro conjI) (rule e d a n l 1 2 3 4 5)+
qed

text \<open>
  C5 as stated fails for \<^verbatim>\<open>EI; EI; NOP\<close> with a request pending: when the second EI (the
  instruction after the first) has completed, the loop condition still holds and IEF1
  is still clear; the NOP is executed as well before the inner loop returns to the
  interrupt check.  Two instructions, not one, follow the first EI.
\<close>

theorem ei_twice_counterexample:
  "\<exists>t1 t2 t3. cpu_execute_body ei_ei_state = Iterate t1
      \<and> cpu_execute_body t1 = Iterate t2 \<and> r_PC t2 = 2
      \<and> inner_cond t2 \<and> \<not> cpu_IEF1 t2 \<and> intrpt_pending t2
      \<and> cpu_execute_body t2 = Iterate t3 \<and> r_PC t3 = 3
      \<and> \<not> inner_cond t3 \<and> \<not> cpu_IEF1 t3 \<and> cpu_IEF_wait t3"
  by (simp add: ei_ei_state_def program2_def blank_state_def cpu_execute_body_def
      fetch_opcode_def cpu_fetch_byte_def exec_opcode_def exec_x3_def exec_x3_z3_def
      exec_EI_def exec_x0_def exec_x0_z0_def done_opt_def Let_def cpu_prefetch_def
      memory_read_byte_def add_cycles_def cpu_address_mode_def inner_cond_def
      cpu_get_cntrl_data_blocks_format_def exit_loop_def EVENT_DEBUG_STEP_def)

section \<open>The vector of interrupt mode 3\<close>

lemma im3_vector_address_eq: "im3_vector_address s = NOT (ucast (r_R s))"
  unfolding im3_vector_address_def
  by (rule bit_word_eqI) (auto simp: bit_simps dest: bit_imp_le_length)

text \<open>
  C6.  The address from which the mode 3 vector is read does not depend on I: the
  complement of R is taken after the promotion to \<^verbatim>\<open>int\<close>, so bits 8 and up of
  \<^verbatim>\<open>r->I << 8 | ~r->R\<close> are all ones.  With I = \<^verbatim>\<open>0x12\<close> and R = 0 in Z80 mode, the address
  of the claim is \<^verbatim>\<open>0x12FF\<close>, where the word \<^verbatim>\<open>0x1234\<close> is stored; the code reads the
  bytes at \<^verbatim>\<open>0xFFFF\<close> and \<^verbatim>\<open>0x0000\<close> and calls \<^verbatim>\<open>0x5678\<close>.
\<close>

theorem im3_vector_ignores_I:
  "im3_vector_address s = NOT (ucast (r_R s))
   \<and> im3_vector_claimed im3_state = 0x12FF
   \<and> cpu_read_word (im3_vector_claimed im3_state) im3_state = 0x1234
   \<and> im3_vector_address im3_state = 0xFFFFFFFF
   \<and> cpu_read_word (im3_vector_address im3_state) im3_state = 0x5678
   \<and> r_PC (interrupt_check im3_state) = 0x5678"
proof -
  have 1: "im3_vector_claimed im3_state = 0x12FF"
    by (simp add: im3_vector_claimed_def im3_state_def blank_state_def
        unsigned_minus_1_eq_mask mask_eq_exp_minus_1)
  have 2: "im3_vector_address im3_state = 0xFFFFFFFF"
    by (simp add: im3_vector_address_eq im3_state_def blank_state_def)
  have 3: "cpu_read_word 0x12FF im3_state = 0x1234"
    by (simp add: cpu_read_word_def cpu_read_byte_def memory_read_byte_def
        cpu_address_mode_def im3_state_def blank_state_def Let_def)
  have 4: "cpu_read_word 0xFFFFFFFF im3_state = 0x5678"
    by (simp add: cpu_read_word_def cpu_read_byte_def memory_read_byte_def
        cpu_address_mode_def im3_state_def blank_state_def Let_def)
  have 5: "r_PC (interrupt_check im3_state) = 0x5678"
    unfolding interrupt_check_def
    by (simp add: Let_def im3_vector_address_eq)
       (simp add: cpu_read_word_def cpu_read_byte_def memory_read_byte_def
        cpu_address_mode_def im3_state_def blank_state_def Let_def cpu_call_def)
  from im3_vector_address_eq[of s] 1 2 3 4 5 show ?thesis by simp
qed

section \<open>The state at an instruction boundary\<close>

text \<open>
  An instruction other than EI falls out of the \<^verbatim>\<open>switch\<close>, where
  \<^verbatim>\<open>cpu_get_cntrl_data_blocks_format\<close> resets PREFIX, SUFFIX, L and IL.
\<close>

lemma boundary_normalised:
  assumes "\<not> is_prefix_byte (cpu_prefetch_byte s)" "cpu_prefetch_byte s \<noteq> 0xFB"
  shows "\<exists>t. (cpu_execute_body s = Iterate t \<or> cpu_execute_body s = LoopBreak t)
           \<and> cpu_PREFIX t = 0 \<and> \<not> cpu_SUFFIX t
           \<and> cpu_L t = cpu_ADL t \<and> cpu_IL t = cpu_ADL t"
proof -
  from body_instruction[OF assms]
  obtain t0 where b: "cpu_execute_body s =
               (if cpu_events s AND EVENT_DEBUG_STEP \<noteq> 0
                then LoopBreak ((cpu_get_cntrl_data_blocks_format t0)\<lparr>cycle_count_delta := 0\<rparr>)
                else Iterate (exit_loop (cpu_get_cntrl_data_blocks_format t0)))"
    by blast
  show ?thesis
    unfolding b by (simp add: cpu_get_cntrl_data_blocks_format_def)
qed

text \<open>
  C7.  EI leaves the \<^verbatim>\<open>switch\<close> by \<^verbatim>\<open>continue\<close> and skips the reset.  In Z80 mode,
  \<^verbatim>\<open>5B FB\<close> (\<^verbatim>\<open>.LIL\<close>, EI) ends at PC = 2 with SUFFIX, L and IL set although ADL is clear,
  and \<^verbatim>\<open>DD FB\<close> ends with PREFIX = 2: the instruction that follows EI is decoded under
  the suffix or prefix that preceded EI.
\<close>

theorem boundary_after_prefixed_EI:
  "(\<exists>t1 t2. cpu_execute_body lil_ei_state = Iterate t1 \<and> cpu_execute_body t1 = Iterate t2
       \<and> r_PC t2 = 2 \<and> cpu_SUFFIX t2 \<and> cpu_L t2 \<and> cpu_IL t2 \<and> \<not> cpu_ADL t2)
   \<and> (\<exists>t1 t2. cpu_execute_body dd_ei_state = Iterate t1 \<and> cpu_execute_body t1 = Iterate t2
       \<and> r_PC t2 = 2 \<and> cpu_PREFIX t2 = 2)"
  by (simp add: lil_ei_state_def dd_ei_state_def program2_def blank_state_def
      cpu_execute_body_def
      fetch_opcode_def cpu_fetch_byte_def exec_opcode_def exec_x3_def exec_x3_z3_def
      exec_x3_z5_def exec_x1_def suffix_byte_def
      exec_EI_def done_opt_def Let_def cpu_prefetch_def
      memory_read_byte_def add_cycles_def cpu_address_mode_def inner_cond_def
      cpu_get_cntrl_data_blocks_format_def exit_loop_def EVENT_DEBUG_STEP_def)

end
